(* ===== verification/Prelude.thy ===== *)
theory Prelude
  imports Main "HOL-Library.AList" "HOL-Library.Sublist" "HOL-Library.Multiset"
    "HOL-Library.Monad_Syntax"
begin

text \<open>
  What the components share: the outcome of a Go call (a return, or a panic at some state),
  sequencing of calls, Go slices and Go maps, the two functions of the standard library
  package \<open>strings\<close> the controller uses, and the fact collections the component proofs
  are built from.

  \<^item> A pure Go function that can panic is a HOL function into \<open>'a option\<close>; None is the
    panic (a nil dereference, a nil map entry, a failed type assertion).
  \<^item> A Go function with effects is a \<open>prog\<close>: it takes the state and gives an \<open>outcome\<close>,
    which keeps the state also when it panics, because the effects before the panic stay.
  \<^item> A Go map is an association list with distinct keys. Its order carries no meaning:
    a \<open>range\<close> loop visits the entries in an order that is a parameter (theory Externals).
\<close>

named_theorems prog_simps "evaluation of sequenced calls"
named_theorems gomap_simps "lookups in Go maps"

section \<open>Outcomes of calls with effects\<close>

datatype ('s, 'a) outcome = Returns 'a 's | Panics 's

type_synonym ('s, 'a) prog = "'s \<Rightarrow> ('s, 'a) outcome"

definition retP :: "'a \<Rightarrow> ('s, 'a) prog" where
  "retP x = (\<lambda>s. Returns x s)"

definition panicP :: "('s, 'a) prog" where
  "panicP = (\<lambda>s. Panics s)"

definition bindP :: "('s, 'a) prog \<Rightarrow> ('a \<Rightarrow> ('s, 'b) prog) \<Rightarrow> ('s, 'b) prog" where
  "bindP m f = (\<lambda>s. case m s of Returns x s' \<Rightarrow> f x s' | Panics s' \<Rightarrow> Panics s')"

definition liftP :: "'a option \<Rightarrow> ('s, 'a) prog" where
  "liftP r = (case r of None \<Rightarrow> panicP | Some x \<Rightarrow> retP x)"

fun final_state :: "('s, 'a) outcome \<Rightarrow> 's" where
  "final_state (Returns _ s) = s"
| "final_state (Panics s) = s"

lemma retP_apply [prog_simps]: "retP x s = Returns x s"
  by (simp add: retP_def)

lemma panicP_apply [prog_simps]: "panicP s = Panics s"
  by (simp add: panicP_def)

lemma liftP_None [prog_simps]: "liftP None s = Panics s"
  by (simp add: liftP_def panicP_def)

lemma liftP_Some [prog_simps]: "liftP (Some x) s = Returns x s"
  by (simp add: liftP_def retP_def)

lemma bindP_apply:
  "bindP m f s = (case m s of Returns x s' \<Rightarrow> f x s' | Panics s' \<Rightarrow> Panics s')"
  by (simp add: bindP_def)

lemma bindP_Returns [prog_simps]: "m s = Returns x s' \<Longrightarrow> bindP m f s = f x s'"
  by (simp add: bindP_def)

lemma bindP_Panics [prog_simps]: "m s = Panics s' \<Longrightarrow> bindP m f s = Panics s'"
  by (simp add: bindP_def)

lemma bindP_retP [prog_simps]: "bindP (retP x) f = f x"
  by (simp add: bindP_def retP_def)

lemma bindP_assoc: "bindP (bindP m f) g = bindP m (\<lambda>x. bindP (f x) g)"
  by (rule ext) (simp add: bindP_def split: outcome.split)

lemma bindP_eq_Returns:
  "bindP m f s = Returns y t \<longleftrightarrow> (\<exists>x s'. m s = Returns x s' \<and> f x s' = Returns y t)"
  by (auto simp: bindP_def split: outcome.splits)

lemma bindP_eq_Panics:
  "bindP m f s = Panics t \<longleftrightarrow>
     m s = Panics t \<or> (\<exists>x s'. m s = Returns x s' \<and> f x s' = Panics t)"
  by (auto simp: bindP_def split: outcome.splits)

lemma liftP_eq_Returns: "liftP r s = Returns x t \<longleftrightarrow> r = Some x \<and> t = s"
  by (auto simp: liftP_def retP_def panicP_def split: option.splits)

lemma liftP_eq_Panics: "liftP r s = Panics t \<longleftrightarrow> r = None \<and> t = s"
  by (auto simp: liftP_def retP_def panicP_def split: option.splits)

lemma retP_eq_Returns: "retP x s = Returns y t \<longleftrightarrow> y = x \<and> t = s"
  by (auto simp: retP_def)

lemma retP_not_Panics [simp]: "retP x s \<noteq> Panics t"
  by (simp add: retP_def)

lemmas prog_elims = bindP_eq_Returns bindP_eq_Panics liftP_eq_Returns liftP_eq_Panics
  retP_eq_Returns

section \<open>Slices\<close>

text \<open>A Go slice is nil (None) or a list. \<open>len\<close> and \<open>range\<close> treat nil as empty.\<close>

type_synonym 'a slice = "'a list option"

definition elems :: "'a slice \<Rightarrow> 'a list" where
  "elems xs = (case xs of None \<Rightarrow> [] | Some ys \<Rightarrow> ys)"

lemma elems_None [simp]: "elems None = []"
  by (simp add: elems_def)

lemma elems_Some [simp]: "elems (Some xs) = xs"
  by (simp add: elems_def)

section \<open>Go maps\<close>

type_synonym ('k, 'v) gomap = "('k \<times> 'v) list"

abbreviation mput :: "'k \<Rightarrow> 'v \<Rightarrow> ('k, 'v) gomap \<Rightarrow> ('k, 'v) gomap" where
  "mput \<equiv> AList.update"

abbreviation mdel :: "'k \<Rightarrow> ('k, 'v) gomap \<Rightarrow> ('k, 'v) gomap" where
  "mdel \<equiv> AList.delete"

definition wf_map :: "('k, 'v) gomap \<Rightarrow> bool" where
  "wf_map m \<longleftrightarrow> distinct (map fst m)"

text \<open>
  The interface the loops of the controller rely on: a map that is built, read and
  shrunk one key at a time. The client lemmas are about the two loops that occur all over
  the code: building a map from a list of pairs (the last pair of a key wins) and
  deleting keys while ranging.
\<close>

locale keyed_store =
  fixes empty :: "'m"
    and put :: "'k \<Rightarrow> 'v \<Rightarrow> 'm \<Rightarrow> 'm"
    and del :: "'k \<Rightarrow> 'm \<Rightarrow> 'm"
    and get :: "'m \<Rightarrow> 'k \<Rightarrow> 'v option"
    and ok :: "'m \<Rightarrow> bool"
  assumes get_empty: "get empty = (\<lambda>_. None)"
    and get_put: "ok m \<Longrightarrow> get (put k v m) = (get m)(k \<mapsto> v)"
    and get_del: "ok m \<Longrightarrow> get (del k m) = (get m)(k := None)"
    and ok_empty: "ok empty"
    and ok_put: "ok m \<Longrightarrow> ok (put k v m)"
    and ok_del: "ok m \<Longrightarrow> ok (del k m)"
begin

lemma ok_put_all: "ok m \<Longrightarrow> ok (foldl (\<lambda>m (k, v). put k v m) m xs)"
  by (induction xs arbitrary: m) (auto simp: ok_put)

lemma get_put_all:
  "ok m \<Longrightarrow> get (foldl (\<lambda>m (k, v). put k v m) m xs) = get m ++ map_of (rev xs)"
proof (induction xs arbitrary: m)
  case Nil
  then show ?case by simp
next
  case (Cons x xs)
  obtain k v where x: "x = (k, v)" by (cases x)
  from Cons.prems have "ok (put k v m)" by (rule ok_put)
  from Cons.IH [OF this] Cons.prems show ?case
    by (auto simp: x get_put map_add_def fun_eq_iff split: option.splits)
qed

lemma ok_put_if: "ok m \<Longrightarrow> ok (foldl (\<lambda>m (k, v). if P k then put k (f k) m else m) m xs)"
  by (induction xs arbitrary: m) (auto simp: ok_put)

lemma get_put_if:
  "ok m \<Longrightarrow> get (foldl (\<lambda>m (k, v). if P k then put k (f k) m else m) m xs) =
     (\<lambda>k. if P k \<and> k \<in> fst ` set xs then Some (f k) else get m k)"
proof (induction xs arbitrary: m)
  case Nil
  then show ?case by simp
next
  case (Cons x xs)
  then show ?case
    by (cases x) (auto simp: get_put ok_put fun_eq_iff)
qed

lemma ok_del_if: "ok m \<Longrightarrow> ok (foldl (\<lambda>m (k, v). if P k then del k m else m) m xs)"
  by (induction xs arbitrary: m) (auto simp: ok_del)

lemma get_del_if:
  "ok m \<Longrightarrow> get (foldl (\<lambda>m (k, v). if P k then del k m else m) m xs) =
     (\<lambda>k. if P k \<and> k \<in> fst ` set xs then None else get m k)"
proof (induction xs arbitrary: m)
  case Nil
  then show ?case by simp
next
  case (Cons x xs)
  then show ?case
    by (cases x) (auto simp: get_del ok_del fun_eq_iff)
qed

end

lemma wf_map_Nil [simp]: "wf_map []"
  by (simp add: wf_map_def)

lemma wf_map_mput [simp]: "wf_map m \<Longrightarrow> wf_map (mput k v m)"
  by (simp add: wf_map_def distinct_update)

lemma wf_map_mdel [simp]: "wf_map m \<Longrightarrow> wf_map (mdel k m)"
  by (simp add: wf_map_def distinct_delete)

lemma map_of_mput [gomap_simps]: "map_of (mput k v m) = (map_of m)(k \<mapsto> v)"
  by (rule update_conv')

lemma map_of_mdel [gomap_simps]: "map_of (mdel k m) = (map_of m)(k := None)"
  by (rule delete_conv')

interpretation gm: keyed_store "[]" mput mdel map_of wf_map
  by unfold_locales (simp_all add: gomap_simps)

lemma wf_map_perm:
  assumes "mset xs = mset ys"
  shows "wf_map xs \<longleftrightarrow> wf_map ys"
proof -
  have "mset (map fst xs) = mset (map fst ys)"
    using assms by simp
  then show ?thesis
    unfolding wf_map_def by (rule mset_eq_imp_distinct_iff)
qed

lemma map_of_perm:
  assumes "mset xs = mset ys" and "wf_map ys"
  shows "map_of xs = map_of ys"
proof -
  have "wf_map xs" using wf_map_perm [OF assms(1)] assms(2) by simp
  moreover have "set xs = set ys" using assms(1) by (rule mset_eq_setD)
  ultimately show ?thesis
    using assms(2) unfolding wf_map_def by (simp add: map_of_inject_set)
qed

lemma dom_wf_map: "dom (map_of m) = fst ` set m"
  by (rule dom_map_of_conv_image_fst)

section \<open>Package strings\<close>

text \<open>\<open>strings.ReplaceAll(s, "-", "_")\<close> for one-byte arguments, and \<open>strings.Contains\<close>.\<close>

definition ReplaceAllChar :: "string \<Rightarrow> char \<Rightarrow> char \<Rightarrow> string" where
  "ReplaceAllChar s old new = map (\<lambda>c. if c = old then new else c) s"

fun Contains :: "string \<Rightarrow> string \<Rightarrow> bool" where
  "Contains [] sub = (sub = [])"
| "Contains (c # s) sub = (prefix sub (c # s) \<or> Contains s sub)"

definition HasPrefix :: "string \<Rightarrow> string \<Rightarrow> bool" where
  "HasPrefix s p = prefix p s"

lemma Contains_iff_sublist: "Contains s sub \<longleftrightarrow> sublist sub s"
  by (induction s) (auto simp: sublist_Cons_right)

end
