(* ===== verification/ApiTypes.thy ===== *)
theory ApiTypes
  imports Prelude
begin

text \<open>
  The custom resource: the structs of \<open>apis/v1alpha1/certificate.go\<close> and the structs of
  \<open>apis/v1alpha1/types.go\<close> that the controller reads and writes, with the fields and the
  field order of the code. A pointer field is an option (None is nil), a slice is a
  \<open>slice\<close>, and the elements of a slice of pointers are options, because a nil element is a
  value of the Go type. The structs of the ACK runtime and of apimachinery that are
  embedded in them (SecretKeyReference, ResourceMetadata, Condition, ObjectMeta,
  AWSResourceReferenceWrapper) have the fields the controller uses.

  A Certificate is handled by value: \<open>DeepCopy\<close> is the identity on values (theory CopyRefine shows
  why), and where the
  code writes through a pointer the caller still holds, the model returns the written
  object as well.
\<close>

section \<open>Runtime and apimachinery structs the custom resource embeds\<close>

type_synonym time = int

record SecretKeyReference =
  skr_Name :: string
  skr_Namespace :: string
  skr_Key :: string

record AWSResourceReference =
  ref_Name :: "string option"
  ref_Namespace :: "string option"

record AWSResourceReferenceWrapper =
  ref_From :: "AWSResourceReference option"

record ResourceMetadata =
  meta_ARN :: "string option"
  meta_OwnerAccountID :: "string option"
  meta_Region :: "string option"
  meta_Partition :: "string option"

definition emptyResourceMetadata :: ResourceMetadata where
  "emptyResourceMetadata =
     \<lparr>meta_ARN = None, meta_OwnerAccountID = None, meta_Region = None, meta_Partition = None\<rparr>"

datatype ConditionType =
    ConditionTypeTerminal
  | ConditionTypeRecoverable
  | ConditionTypeResourceSynced
  | ConditionTypeOther string

datatype ConditionStatus = ConditionUnset | ConditionTrue | ConditionFalse | ConditionUnknown

record Condition =
  cond_Type :: ConditionType
  cond_Status :: ConditionStatus
  cond_Reason :: "string option"
  cond_Message :: "string option"

record ObjectMeta =
  om_Name :: string
  om_Namespace :: string
  om_Finalizers :: "string slice"
  om_Annotations :: "(string, string) gomap option"
  om_DeletionTimestamp :: "time option"

section \<open>types.go\<close>

record CertificateOptions =
  opts_CertificateTransparencyLoggingPreference :: "string option"
  opts_Export :: "string option"

record HTTPRedirect =
  hr_RedirectFrom :: "string option"
  hr_RedirectTo :: "string option"

record ResourceRecord =
  rr_Name :: "string option"
  rr_Type :: "string option"
  rr_Value :: "string option"

record DomainValidation =
  dv_DomainName :: "string option"
  dv_HTTPRedirect :: "HTTPRedirect option"
  dv_ResourceRecord :: "ResourceRecord option"
  dv_ValidationDomain :: "string option"
  dv_ValidationEmails :: "string option slice"
  dv_ValidationMethod :: "string option"
  dv_ValidationStatus :: "string option"

record DomainValidationOption =
  dvo_DomainName :: "string option"
  dvo_ValidationDomain :: "string option"

record ExtendedKeyUsage =
  eku_Name :: "string option"
  eku_OID :: "string option"

record KeyUsage =
  ku_Name :: "string option"

record RenewalSummary =
  rs_DomainValidationOptions :: "DomainValidation option slice"
  rs_RenewalStatus :: "string option"
  rs_RenewalStatusReason :: "string option"
  rs_UpdatedAt :: "time option"

record Tag =
  tag_Key :: "string option"
  tag_Value :: "string option"

section \<open>certificate.go\<close>

record CertificateSpec =
  spec_Certificate :: "SecretKeyReference option"
  spec_CertificateARN :: "string option"
  spec_CertificateAuthorityARN :: "string option"
  spec_CertificateAuthorityRef :: "AWSResourceReferenceWrapper option"
  spec_CertificateChain :: "SecretKeyReference option"
  spec_DomainName :: "string option"
  spec_DomainValidationOptions :: "DomainValidationOption option slice"
  spec_ExportTo :: "SecretKeyReference option"
  spec_KeyAlgorithm :: "string option"
  spec_ManagedBy :: "string option"
  spec_Options :: "CertificateOptions option"
  spec_PrivateKey :: "SecretKeyReference option"
  spec_SubjectAlternativeNames :: "string option slice"
  spec_Tags :: "Tag option slice"

record CertificateStatus =
  st_ACKResourceMetadata :: "ResourceMetadata option"
  st_Conditions :: "Condition option slice"
  st_CreatedAt :: "time option"
  st_DomainValidations :: "DomainValidation option slice"
  st_ExtendedKeyUsages :: "ExtendedKeyUsage option slice"
  st_FailureReason :: "string option"
  st_ImportedAt :: "time option"
  st_InUseBy :: "string option slice"
  st_IssuedAt :: "time option"
  st_Issuer :: "string option"
  st_KeyUsages :: "KeyUsage option slice"
  st_NotAfter :: "time option"
  st_NotBefore :: "time option"
  st_RenewalEligibility :: "string option"
  st_RenewalSummary :: "RenewalSummary option"
  st_RevocationReason :: "string option"
  st_RevokedAt :: "time option"
  st_Serial :: "string option"
  st_SignatureAlgorithm :: "string option"
  st_Status :: "string option"
  st_Subject :: "string option"
  st_Type :: "string option"

record Certificate =
  ko_ObjectMeta :: ObjectMeta
  ko_Spec :: CertificateSpec
  ko_Status :: CertificateStatus

section \<open>Values that are nowhere set\<close>

definition emptySpec :: CertificateSpec where
  "emptySpec = \<lparr>spec_Certificate = None, spec_CertificateARN = None,
     spec_CertificateAuthorityARN = None, spec_CertificateAuthorityRef = None,
     spec_CertificateChain = None, spec_DomainName = None,
     spec_DomainValidationOptions = None, spec_ExportTo = None, spec_KeyAlgorithm = None,
     spec_ManagedBy = None, spec_Options = None, spec_PrivateKey = None,
     spec_SubjectAlternativeNames = None, spec_Tags = None\<rparr>"

definition emptyStatus :: CertificateStatus where
  "emptyStatus = \<lparr>st_ACKResourceMetadata = None, st_Conditions = None, st_CreatedAt = None,
     st_DomainValidations = None, st_ExtendedKeyUsages = None, st_FailureReason = None,
     st_ImportedAt = None, st_InUseBy = None, st_IssuedAt = None, st_Issuer = None,
     st_KeyUsages = None, st_NotAfter = None, st_NotBefore = None,
     st_RenewalEligibility = None, st_RenewalSummary = None, st_RevocationReason = None,
     st_RevokedAt = None, st_Serial = None, st_SignatureAlgorithm = None, st_Status = None,
     st_Subject = None, st_Type = None\<rparr>"

definition emptyObjectMeta :: ObjectMeta where
  "emptyObjectMeta = \<lparr>om_Name = [], om_Namespace = [], om_Finalizers = None,
     om_Annotations = None, om_DeletionTimestamp = None\<rparr>"

definition emptyCertificate :: Certificate where
  "emptyCertificate =
     \<lparr>ko_ObjectMeta = emptyObjectMeta, ko_Spec = emptySpec, ko_Status = emptyStatus\<rparr>"

text \<open>
  The abbreviations name the nested updates \<open>ko.Spec.F = v\<close> and \<open>ko.Status.F = v\<close>, and the
  read \<open>ko.Status.ACKResourceMetadata.ARN\<close> guarded by the nil check the code makes.
\<close>

definition onSpec :: "(CertificateSpec \<Rightarrow> CertificateSpec) \<Rightarrow> Certificate \<Rightarrow> Certificate" where
  "onSpec f ko = ko\<lparr>ko_Spec := f (ko_Spec ko)\<rparr>"

definition onStatus :: "(CertificateStatus \<Rightarrow> CertificateStatus) \<Rightarrow> Certificate \<Rightarrow> Certificate"
  where "onStatus f ko = ko\<lparr>ko_Status := f (ko_Status ko)\<rparr>"

definition certARN :: "Certificate \<Rightarrow> string option" where
  "certARN ko = (case st_ACKResourceMetadata (ko_Status ko) of
     None \<Rightarrow> None | Some m \<Rightarrow> meta_ARN m)"

lemma onSpec_sel [simp]:
  "ko_Spec (onSpec f ko) = f (ko_Spec ko)"
  "ko_Status (onSpec f ko) = ko_Status ko"
  "ko_ObjectMeta (onSpec f ko) = ko_ObjectMeta ko"
  by (simp_all add: onSpec_def)

lemma onStatus_sel [simp]:
  "ko_Spec (onStatus f ko) = ko_Spec ko"
  "ko_Status (onStatus f ko) = f (ko_Status ko)"
  "ko_ObjectMeta (onStatus f ko) = ko_ObjectMeta ko"
  by (simp_all add: onStatus_def)

lemma certARN_onSpec [simp]: "certARN (onSpec f ko) = certARN ko"
  by (simp add: certARN_def)

end
