(* ===== verification/Externals.thy ===== *)
theory Externals
  imports ApiTypes "HOL-Library.Word"
begin

text \<open>
  The code that is not in the repository: the AWS SDK for ACM, the ACK runtime, apimachinery
  and the cryptography packages. Nothing is defined for it. Its functions are fields of three
  records the controller's definitions take as arguments: \<open>AcmClient\<close> (the SDK client),
  \<open>Reconciler\<close> (secret access and the system's random source) and \<open>Ext\<close> (pure functions),
  and what the properties rely on of its documented behaviour is stated by the predicates
  \<open>*_laws\<close>, which are hypotheses of the theorems that need them.

  The world of the SDK client and of the Kubernetes API is the type variable \<open>'w\<close>; every call
  is a function of the world that gives a result and the next world. A run also keeps the
  list of the effects the controller performed, in order, so that what is called, with which
  input, and in which order can be stated without saying anything about the world.
\<close>

section \<open>Errors\<close>

text \<open>
  The error values the controller creates or compares with: the sentinels of \<open>ackerr\<close>,
  the errors its constructors make, and \<open>errors.New\<close>. An error of the SDK is an
  \<open>APIError\<close> with a code and a message, or any error wrapping one.
\<close>

datatype goerror =
    NotFound
  | TerminalSentinel
  | SecretTypeNotSupported
  | SecretNotFound
  | TerminalError goerror
  | ErrorString string
  | APIError string string
  | WrappedError string goerror
  | RequeueNeeded goerror
  | RequeueNeededAfter "goerror option" nat
  | ResourceReferenceAndIDNotSupportedFor string string
  | ResourceReferenceTerminalFor string string string
  | ResourceReferenceNotSyncedFor string string string
  | ResourceReferenceMissingTargetFieldFor string string string string

section \<open>Shapes of the SDK\<close>

text \<open>An SDK enum is a string type; the empty string means that it is not set.\<close>

record SdkTag =
  sdktag_Key :: "string option"
  sdktag_Value :: "string option"

record SdkCertificateOptions =
  sdkopts_CertificateTransparencyLoggingPreference :: string
  sdkopts_Export :: string

definition emptySdkCertificateOptions :: SdkCertificateOptions where
  "emptySdkCertificateOptions =
     \<lparr>sdkopts_CertificateTransparencyLoggingPreference = [], sdkopts_Export = []\<rparr>"

record SdkHttpRedirect =
  sdkhr_RedirectFrom :: "string option"
  sdkhr_RedirectTo :: "string option"

record SdkResourceRecord =
  sdkrr_Name :: "string option"
  sdkrr_Type :: string
  sdkrr_Value :: "string option"

record SdkDomainValidation =
  sdkdv_DomainName :: "string option"
  sdkdv_HttpRedirect :: "SdkHttpRedirect option"
  sdkdv_ResourceRecord :: "SdkResourceRecord option"
  sdkdv_ValidationDomain :: "string option"
  sdkdv_ValidationEmails :: "string slice"
  sdkdv_ValidationMethod :: string
  sdkdv_ValidationStatus :: string

record SdkDomainValidationOption =
  sdkdvo_DomainName :: "string option"
  sdkdvo_ValidationDomain :: "string option"

record SdkExtendedKeyUsage =
  sdkeku_Name :: string
  sdkeku_OID :: "string option"

record SdkKeyUsage =
  sdkku_Name :: string

record SdkRenewalSummary =
  sdkrs_DomainValidationOptions :: "SdkDomainValidation slice"
  sdkrs_RenewalStatus :: string
  sdkrs_RenewalStatusReason :: string
  sdkrs_UpdatedAt :: "time option"

record SdkCertificateDetail =
  cd_CertificateArn :: "string option"
  cd_CertificateAuthorityArn :: "string option"
  cd_CreatedAt :: "time option"
  cd_DomainName :: "string option"
  cd_DomainValidationOptions :: "SdkDomainValidation slice"
  cd_ExtendedKeyUsages :: "SdkExtendedKeyUsage slice"
  cd_FailureReason :: string
  cd_ImportedAt :: "time option"
  cd_InUseBy :: "string slice"
  cd_IssuedAt :: "time option"
  cd_Issuer :: "string option"
  cd_KeyAlgorithm :: string
  cd_KeyUsages :: "SdkKeyUsage slice"
  cd_ManagedBy :: string
  cd_NotAfter :: "time option"
  cd_NotBefore :: "time option"
  cd_Options :: "SdkCertificateOptions option"
  cd_RenewalEligibility :: string
  cd_RenewalSummary :: "SdkRenewalSummary option"
  cd_RevocationReason :: string
  cd_RevokedAt :: "time option"
  cd_Serial :: "string option"
  cd_SignatureAlgorithm :: "string option"
  cd_Status :: string
  cd_Subject :: "string option"
  cd_SubjectAlternativeNames :: "string slice"
  cd_Type :: string

record DescribeCertificateInput =
  dci_CertificateArn :: "string option"

record DescribeCertificateOutput =
  dco_Certificate :: "SdkCertificateDetail option"

record RequestCertificateInput =
  rci_CertificateAuthorityArn :: "string option"
  rci_DomainName :: "string option"
  rci_DomainValidationOptions :: "SdkDomainValidationOption slice"
  rci_KeyAlgorithm :: string
  rci_ManagedBy :: string
  rci_Options :: "SdkCertificateOptions option"
  rci_SubjectAlternativeNames :: "string slice"
  rci_Tags :: "SdkTag slice"
  rci_ValidationMethod :: string

record RequestCertificateOutput =
  rco_CertificateArn :: "string option"

record UpdateCertificateOptionsInput =
  uci_CertificateArn :: "string option"
  uci_Options :: "SdkCertificateOptions option"

record DeleteCertificateInput =
  del_CertificateArn :: "string option"

record ImportCertificateInput =
  ici_Certificate :: string
  ici_CertificateArn :: "string option"
  ici_CertificateChain :: string
  ici_PrivateKey :: string
  ici_Tags :: "SdkTag slice"

record ImportCertificateOutput =
  ico_CertificateArn :: "string option"

record ExportCertificateInput =
  eci_CertificateArn :: "string option"
  eci_Passphrase :: string

record ExportCertificateOutput =
  eco_Certificate :: "string option"
  eco_CertificateChain :: "string option"
  eco_PrivateKey :: "string option"

record TagsInput =
  ti_CertificateArn :: string
  ti_Tags :: "SdkTag list"

section \<open>The clients\<close>

record 'w AcmClient =
  api_DescribeCertificate ::
    "DescribeCertificateInput \<Rightarrow> 'w \<Rightarrow> (goerror + DescribeCertificateOutput) \<times> 'w"
  api_RequestCertificate ::
    "RequestCertificateInput \<Rightarrow> 'w \<Rightarrow> (goerror + RequestCertificateOutput) \<times> 'w"
  api_UpdateCertificateOptions ::
    "UpdateCertificateOptionsInput \<Rightarrow> 'w \<Rightarrow> goerror option \<times> 'w"
  api_DeleteCertificate :: "DeleteCertificateInput \<Rightarrow> 'w \<Rightarrow> goerror option \<times> 'w"
  api_ImportCertificate ::
    "ImportCertificateInput \<Rightarrow> 'w \<Rightarrow> (goerror + ImportCertificateOutput) \<times> 'w"
  api_ExportCertificate ::
    "ExportCertificateInput \<Rightarrow> 'w \<Rightarrow> (goerror + ExportCertificateOutput) \<times> 'w"
  api_AddTagsToCertificate :: "TagsInput \<Rightarrow> 'w \<Rightarrow> goerror option \<times> 'w"
  api_RemoveTagsFromCertificate :: "TagsInput \<Rightarrow> 'w \<Rightarrow> goerror option \<times> 'w"
  api_ListTagsForCertificate :: "string \<Rightarrow> 'w \<Rightarrow> (goerror + SdkTag slice) \<times> 'w"

record 'w Reconciler =
  rc_SecretValueFromReference ::
    "SecretKeyReference option \<Rightarrow> 'w \<Rightarrow> (goerror + string) \<times> 'w"
  rc_WriteToSecret ::
    "string \<Rightarrow> string \<Rightarrow> string \<Rightarrow> string \<Rightarrow> 'w \<Rightarrow> goerror option \<times> 'w"
  rc_ReadRandom :: "nat \<Rightarrow> 'w \<Rightarrow> (goerror + 8 word list) \<times> 'w"

record Config =
  cfg_EnableCrossNamespace :: bool
  cfg_Partition :: string

text \<open>
  The struct \<open>resourceManager\<close> of \<open>manager.go\<close>, less the logger and the SDK configuration.
  The metrics recorder has no state the controller reads: its calls are effects.
\<close>

record 'w resourceManager =
  rm_cfg :: Config
  rm_rr :: "'w Reconciler"
  rm_awsAccountID :: string
  rm_awsRegion :: string
  rm_awsPartition :: string
  rm_sdkapi :: "'w AcmClient"

section \<open>Effects\<close>

datatype effect =
    EvDescribe DescribeCertificateInput
  | EvRequest RequestCertificateInput
  | EvUpdateOptions UpdateCertificateOptionsInput
  | EvDelete DeleteCertificateInput
  | EvImport ImportCertificateInput
  | EvExport ExportCertificateInput
  | EvAddTags TagsInput
  | EvRemoveTags TagsInput
  | EvListTags string
  | EvReadSecret "SecretKeyReference option"
  | EvWriteSecret string string string string
  | EvReadRandom nat
  | EvGetReference string string
  | RecordAPICall string string "goerror option"

record 'w sys =
  env :: 'w
  trace :: "effect list"

definition callP :: "effect \<Rightarrow> ('w \<Rightarrow> 'r \<times> 'w) \<Rightarrow> ('w sys, 'r) prog" where
  "callP ev f = (\<lambda>s. case f (env s) of (r, w) \<Rightarrow>
     Returns r (s\<lparr>env := w, trace := trace s @ [ev]\<rparr>))"

definition emitP :: "effect \<Rightarrow> ('w sys, unit) prog" where
  "emitP ev = (\<lambda>s. Returns () (s\<lparr>trace := trace s @ [ev]\<rparr>))"

definition error_of :: "goerror + 'a \<Rightarrow> goerror option" where
  "error_of r = (case r of Inl e \<Rightarrow> Some e | Inr _ \<Rightarrow> None)"

lemma error_of_simps [simp]: "error_of (Inl e) = Some e" "error_of (Inr x) = None"
  by (simp_all add: error_of_def)

lemma callP_apply [prog_simps]:
  "callP ev f s = Returns (fst (f (env s)))
     (s\<lparr>env := snd (f (env s)), trace := trace s @ [ev]\<rparr>)"
  by (simp add: callP_def split: prod.split)

lemma emitP_apply [prog_simps]: "emitP ev s = Returns () (s\<lparr>trace := trace s @ [ev]\<rparr>)"
  by (simp add: emitP_def)

text \<open>The effects that change something at ACM or in a Secret.\<close>

fun mutating :: "effect \<Rightarrow> bool" where
  "mutating (EvRequest _) = True"
| "mutating (EvUpdateOptions _) = True"
| "mutating (EvDelete _) = True"
| "mutating (EvImport _) = True"
| "mutating (EvAddTags _) = True"
| "mutating (EvRemoveTags _) = True"
| "mutating (EvWriteSecret _ _ _ _) = True"
| "mutating _ = False"

section \<open>Values a difference records, private keys, certificate authorities\<close>

datatype delta_value =
    VString "string option"
  | VTime "time option"
  | VOptions "CertificateOptions option"
  | VRef "AWSResourceReferenceWrapper option"
  | VTags "Tag option slice"
  | VResource "Certificate option"

text \<open>
  A Delta is the list of the \<open>Add\<close> calls made on it: path, value of a, value of b. What
  \<open>DifferentAt\<close> and \<open>DifferentExcept\<close> answer for it is a parameter.
\<close>

type_synonym Delta = "(string \<times> delta_value \<times> delta_value) list"

datatype PrivateKey = RSAKey string | ECDSAKey string | OtherKey string

record CertificateAuthority =
  ca_ACKResourceMetadata :: "ResourceMetadata option"
  ca_Conditions :: "Condition option slice"

record ServiceControllerMetadata =
  scm_ControllerVersion :: string

section \<open>Pure functions of other packages\<close>

record Ext =
  \<comment> \<open>the order in which a range loop visits the entries of a map\<close>
  range_tags :: "(string, string) gomap \<Rightarrow> (string \<times> string) list"
  range_ptrs :: "(string, string option) gomap \<Rightarrow> (string \<times> string option) list"
  \<comment> \<open>errors.As for the two targets used, ackerr.AWSError, and the Error method\<close>
  as_TerminalError :: "goerror \<Rightarrow> bool"
  as_APIErrorCode :: "goerror \<Rightarrow> string option"
  ackerr_AWSError :: "goerror \<Rightarrow> goerror option"
  Error_text :: "goerror \<Rightarrow> string"
  \<comment> \<open>ackcompare and apimachinery equality\<close>
  HasNilDifference_string :: "string option \<Rightarrow> string option \<Rightarrow> bool"
  HasNilDifference_options :: "CertificateOptions option \<Rightarrow> CertificateOptions option \<Rightarrow> bool"
  DeepEqual_ref ::
    "AWSResourceReferenceWrapper option \<Rightarrow> AWSResourceReferenceWrapper option \<Rightarrow> bool"
  MapStringStringEqual :: "(string, string) gomap \<Rightarrow> (string, string) gomap \<Rightarrow> bool"
  DifferentAt :: "Delta \<Rightarrow> string \<Rightarrow> bool"
  DifferentExcept :: "Delta \<Rightarrow> string \<Rightarrow> bool"
  \<comment> \<open>acktags, ackrt\<close>
  acktags_Merge :: "(string, string) gomap \<Rightarrow> (string, string) gomap \<Rightarrow> (string, string) gomap"
  GetDefaultTags ::
    "Config \<Rightarrow> Certificate \<Rightarrow> ServiceControllerMetadata \<Rightarrow> (string, string) gomap"
  ResolveCrossNamespaceReference ::
    "bool \<Rightarrow> Condition option slice \<Rightarrow> string \<Rightarrow> string option \<Rightarrow> string \<Rightarrow>
       (goerror + string) \<times> Condition option slice"
  \<comment> \<open>ackcondition\<close>
  SetLateInitialized ::
    "Certificate \<Rightarrow> ConditionStatus \<Rightarrow> string option \<Rightarrow> string option \<Rightarrow> Certificate"
  SetSynced ::
    "Certificate \<Rightarrow> ConditionStatus \<Rightarrow> string option \<Rightarrow> string option \<Rightarrow> Certificate"
  \<comment> \<open>aws.String, aws.StringSlice, aws.ToStringSlice\<close>
  aws_String :: "string \<Rightarrow> string option"
  aws_StringSlice :: "string list \<Rightarrow> string option slice"
  aws_ToStringSlice :: "string option list \<Rightarrow> string slice"
  \<comment> \<open>ackv1alpha1.AnnotationAdopted; controllerutil and metav1.Time\<close>
  AnnotationAdopted :: string
  AddFinalizer :: "ObjectMeta \<Rightarrow> string \<Rightarrow> ObjectMeta"
  RemoveFinalizer :: "ObjectMeta \<Rightarrow> string \<Rightarrow> ObjectMeta"
  Time_IsZero :: "time option \<Rightarrow> bool"
  \<comment> \<open>encoding/pem, pkcs8, crypto/x509\<close>
  pem_Decode :: "string \<Rightarrow> string option"
  pem_EncodeToMemory :: "string \<Rightarrow> string \<Rightarrow> string"
  ParsePKCS8PrivateKey :: "string \<Rightarrow> string \<Rightarrow> goerror + PrivateKey"
  MarshalPKCS8PrivateKey :: "PrivateKey \<Rightarrow> goerror + string"

end
