(* ===== verification/ExternalLaws.thy ===== *)
theory ExternalLaws
  imports Externals
begin

text \<open>
  What the properties rely on of the code outside the repository. Each predicate states
  documented behaviour of one package; a property has the predicates it needs as hypotheses.
  \<open>sampleExt\<close> is one concrete family of functions that satisfies them all; the witnesses
  instantiate the parameter with it.
\<close>

section \<open>Laws\<close>

text \<open>A range loop visits every entry of the map once, in some order.\<close>

definition order_laws :: "Ext \<Rightarrow> bool" where
  "order_laws X \<longleftrightarrow>
     (\<forall>m. mset (range_tags X m) = mset m) \<and> (\<forall>m. mset (range_ptrs X m) = mset m)"

text \<open>
  The path of a difference contains a subject when the subject, split at the dots, is an
  initial part of it: \<open>Spec.Options.Export\<close> contains \<open>Spec.Options\<close>.
\<close>

fun split_path :: "string \<Rightarrow> string list" where
  "split_path [] = [[]]"
| "split_path (c # s) =
     (if c = CHR ''.'' then [] # split_path s
      else (case split_path s of [] \<Rightarrow> [[c]] | p # ps \<Rightarrow> (c # p) # ps))"

definition path_contains :: "string \<Rightarrow> string \<Rightarrow> bool" where
  "path_contains p subject = prefix (split_path subject) (split_path p)"

definition compare_laws :: "Ext \<Rightarrow> bool" where
  "compare_laws X \<longleftrightarrow>
     (\<forall>a b. HasNilDifference_string X a b \<longrightarrow> (a = None) \<noteq> (b = None)) \<and>
     (\<forall>v. v \<noteq> [] \<longrightarrow> HasNilDifference_string X (Some v) None \<and>
        HasNilDifference_string X None (Some v)) \<and>
     (\<forall>a b. HasNilDifference_options X a b \<longrightarrow> (a = None) \<noteq> (b = None)) \<and>
     (\<forall>a b. DeepEqual_ref X a b \<longleftrightarrow> a = b) \<and>
     (\<forall>m n. wf_map m \<longrightarrow> wf_map n \<longrightarrow>
        (MapStringStringEqual X m n \<longleftrightarrow> map_of m = map_of n))"

text \<open>
  \<open>HasNilDifference\<close> tells whether the nilness of the two subjects is different, whichever
  comes first; a struct is nil exactly when its pointer is. Whether it takes the empty string
  for nil is left open.
\<close>

definition nil_laws :: "Ext \<Rightarrow> bool" where
  "nil_laws X \<longleftrightarrow>
     HasNilDifference_string X (Some []) None = HasNilDifference_string X None (Some []) \<and>
     (\<forall>a b. HasNilDifference_options X a b \<longleftrightarrow> (a = None) \<noteq> (b = None))"

definition delta_laws :: "Ext \<Rightarrow> bool" where
  "delta_laws X \<longleftrightarrow>
     (\<forall>d p. DifferentAt X d p \<longleftrightarrow> list_ex (\<lambda>e. path_contains (fst e) p) d) \<and>
     (\<forall>d p. DifferentExcept X d p \<longleftrightarrow> list_ex (\<lambda>e. \<not> path_contains (fst e) p) d)"

text \<open>
  \<open>errors.As\<close> finds the target type at the head of the chain; the sentinels of the runtime
  and the errors of the SDK are no terminal errors; \<open>AWSError\<close> returns the API error where
  there is one.
\<close>

definition err_laws :: "Ext \<Rightarrow> bool" where
  "err_laws X \<longleftrightarrow>
     (\<forall>e. as_TerminalError X (TerminalError e)) \<and>
     (\<forall>e \<in> {NotFound, TerminalSentinel, SecretTypeNotSupported, SecretNotFound}.
        \<not> as_TerminalError X e \<and> as_APIErrorCode X e = None) \<and>
     (\<forall>c m. \<not> as_TerminalError X (APIError c m)) \<and>
     (\<forall>t. \<not> as_TerminalError X (ErrorString t) \<and> as_APIErrorCode X (ErrorString t) = None) \<and>
     (\<forall>c m. as_APIErrorCode X (APIError c m) = Some c) \<and>
     (\<forall>e. as_APIErrorCode X e \<noteq> None \<longrightarrow> ackerr_AWSError X e \<noteq> None)"

text \<open>\<open>Merge\<close> keeps the first map's value of a key in both; a map has distinct keys.\<close>

definition merge_laws :: "Ext \<Rightarrow> bool" where
  "merge_laws X \<longleftrightarrow>
     (\<forall>a b. wf_map a \<longrightarrow> wf_map b \<longrightarrow>
        wf_map (acktags_Merge X a b) \<and>
        map_of (acktags_Merge X a b) = map_of b ++ map_of a) \<and>
     (\<forall>c ko md. wf_map (GetDefaultTags X c ko md))"

definition aws_laws :: "Ext \<Rightarrow> bool" where
  "aws_laws X \<longleftrightarrow>
     (\<forall>s. aws_String X s = Some s) \<and>
     (\<forall>xs. aws_StringSlice X xs = Some (map Some xs)) \<and>
     (\<forall>xs. aws_ToStringSlice X (map Some xs) = Some xs)"

text \<open>The condition setters of the runtime write only the conditions.\<close>

definition condition_laws :: "Ext \<Rightarrow> bool" where
  "condition_laws X \<longleftrightarrow>
     (\<forall>f \<in> {SetLateInitialized X, SetSynced X}. \<forall>ko c r m.
        ko_Spec (f ko c r m) = ko_Spec ko \<and>
        ko_ObjectMeta (f ko c r m) = ko_ObjectMeta ko \<and>
        (ko_Status (f ko c r m))\<lparr>st_Conditions := st_Conditions (ko_Status ko)\<rparr>
          = ko_Status ko)"

definition finalizer_laws :: "Ext \<Rightarrow> bool" where
  "finalizer_laws X \<longleftrightarrow>
     (\<forall>om f. set (elems (om_Finalizers (AddFinalizer X om f)))
        = insert f (set (elems (om_Finalizers om)))) \<and>
     (\<forall>om f. set (elems (om_Finalizers (RemoveFinalizer X om f)))
        = set (elems (om_Finalizers om)) - {f}) \<and>
     (\<forall>om f. (AddFinalizer X om f)\<lparr>om_Finalizers := om_Finalizers om\<rparr> = om) \<and>
     (\<forall>om f. (RemoveFinalizer X om f)\<lparr>om_Finalizers := om_Finalizers om\<rparr> = om)"

definition pem_laws :: "Ext \<Rightarrow> bool" where
  "pem_laws X \<longleftrightarrow> (\<forall>t b. pem_Decode X (pem_EncodeToMemory X t b) = Some b)"

section \<open>A concrete instance\<close>

fun sample_asTerminal :: "goerror \<Rightarrow> bool" where
  "sample_asTerminal (TerminalError _) = True"
| "sample_asTerminal (WrappedError _ e) = sample_asTerminal e"
| "sample_asTerminal (RequeueNeeded e) = sample_asTerminal e"
| "sample_asTerminal _ = False"

fun sample_awsError :: "goerror \<Rightarrow> goerror option" where
  "sample_awsError (APIError c m) = Some (APIError c m)"
| "sample_awsError (WrappedError _ e) = sample_awsError e"
| "sample_awsError (TerminalError e) = sample_awsError e"
| "sample_awsError (RequeueNeeded e) = sample_awsError e"
| "sample_awsError _ = None"

fun sample_code :: "goerror \<Rightarrow> string option" where
  "sample_code (APIError c m) = Some c"
| "sample_code (WrappedError _ e) = sample_code e"
| "sample_code (TerminalError e) = sample_code e"
| "sample_code (RequeueNeeded e) = sample_code e"
| "sample_code _ = None"

fun sample_text :: "goerror \<Rightarrow> string" where
  "sample_text NotFound = ''resource not found''"
| "sample_text SecretNotFound = ''secret not found''"
| "sample_text SecretTypeNotSupported = ''secret type not supported''"
| "sample_text (TerminalError e) = sample_text e"
| "sample_text (ErrorString s) = s"
| "sample_text (APIError c m) = c @ '': '' @ m"
| "sample_text (WrappedError s e) = s @ '': '' @ sample_text e"
| "sample_text _ = ''error''"

definition sample_setSynced ::
  "Certificate \<Rightarrow> ConditionStatus \<Rightarrow> string option \<Rightarrow> string option \<Rightarrow> Certificate" where
  "sample_setSynced ko c r m = onStatus (\<lambda>st. st\<lparr>st_Conditions :=
     Some (Some \<lparr>cond_Type = ConditionTypeResourceSynced, cond_Status = c, cond_Reason = r,
                 cond_Message = m\<rparr> # elems (st_Conditions st))\<rparr>) ko"

definition sample_setLateInit ::
  "Certificate \<Rightarrow> ConditionStatus \<Rightarrow> string option \<Rightarrow> string option \<Rightarrow> Certificate" where
  "sample_setLateInit ko c r m = onStatus (\<lambda>st. st\<lparr>st_Conditions :=
     Some (Some \<lparr>cond_Type = ConditionTypeOther ''ACK.LateInitialized'', cond_Status = c,
                 cond_Reason = r, cond_Message = m\<rparr> # elems (st_Conditions st))\<rparr>) ko"

definition sampleExt :: Ext where
  "sampleExt = \<lparr>
     range_tags = rev,
     range_ptrs = rev,
     as_TerminalError = sample_asTerminal,
     as_APIErrorCode = sample_code,
     ackerr_AWSError = sample_awsError,
     Error_text = sample_text,
     HasNilDifference_string = (\<lambda>a b. (a = None) \<noteq> (b = None)),
     HasNilDifference_options = (\<lambda>a b. (a = None) \<noteq> (b = None)),
     DeepEqual_ref = (=),
     MapStringStringEqual = (\<lambda>m n. list_all (\<lambda>(k, v). map_of n k = map_of m k) m \<and>
        list_all (\<lambda>(k, v). map_of n k = map_of m k) n),
     DifferentAt = (\<lambda>d p. list_ex (\<lambda>e. path_contains (fst e) p) d),
     DifferentExcept = (\<lambda>d p. list_ex (\<lambda>e. \<not> path_contains (fst e) p) d),
     acktags_Merge = (\<lambda>a b. foldl (\<lambda>m (k, v). mput k v m) b a),
     GetDefaultTags = (\<lambda>c ko md.
        [(''services.k8s.aws/namespace'', om_Namespace (ko_ObjectMeta ko)),
         (''services.k8s.aws/controller-version'', scm_ControllerVersion md)]),
     ResolveCrossNamespaceReference = (\<lambda>enabled conds ns refns name.
        (case refns of
           None \<Rightarrow> (Inr ns, conds)
         | Some r \<Rightarrow> if r = ns \<or> enabled then (Inr r, conds)
                     else (Inl (ErrorString ''cross namespace''), conds))),
     SetLateInitialized = sample_setLateInit,
     SetSynced = sample_setSynced,
     aws_String = Some,
     aws_StringSlice = (\<lambda>xs. Some (map Some xs)),
     aws_ToStringSlice =
       (\<lambda>xs. Some (map (\<lambda>x. case x of None \<Rightarrow> [] | Some s \<Rightarrow> s) xs)),
     AnnotationAdopted = ''services.k8s.aws/adopted'',
     AddFinalizer = (\<lambda>om f. om\<lparr>om_Finalizers := Some (List.insert f (elems (om_Finalizers om)))\<rparr>),
     RemoveFinalizer = (\<lambda>om f. om\<lparr>om_Finalizers := Some (removeAll f (elems (om_Finalizers om)))\<rparr>),
     Time_IsZero = (\<lambda>t. t = None),
     pem_Decode = (\<lambda>s. case s of [] \<Rightarrow> None | c # b \<Rightarrow> Some b),
     pem_EncodeToMemory = (\<lambda>t b. CHR ''-'' # b),
     ParsePKCS8PrivateKey = (\<lambda>b p. if b = [] then Inl (ErrorString ''pkcs8'')
        else if hd b = CHR ''R'' then Inr (RSAKey (tl b)) else Inr (ECDSAKey (tl b))),
     MarshalPKCS8PrivateKey = (\<lambda>k. case k of RSAKey b \<Rightarrow> Inr b | ECDSAKey b \<Rightarrow> Inr b
        | OtherKey b \<Rightarrow> Inl (ErrorString ''x509''))
   \<rparr>"

lemma sample_order: "order_laws sampleExt"
  by (simp add: order_laws_def sampleExt_def)

lemma all_entries_eq_iff:
  assumes "wf_map m" and "wf_map n"
  shows "(list_all (\<lambda>(k, v). map_of n k = map_of m k) m \<and>
          list_all (\<lambda>(k, v). map_of n k = map_of m k) n) \<longleftrightarrow> map_of m = map_of n"
proof
  assume eq: "list_all (\<lambda>(k, v). map_of n k = map_of m k) m \<and>
    list_all (\<lambda>(k, v). map_of n k = map_of m k) n"
  have "map_of m k = map_of n k" for k
  proof (cases "k \<in> fst ` set m \<union> fst ` set n")
    case True
    then show ?thesis using eq by (auto simp: list_all_iff)
  next
    case False
    then have "map_of m k = None" "map_of n k = None"
      by (auto simp: map_of_eq_None_iff)
    then show ?thesis by simp
  qed
  then show "map_of m = map_of n" by blast
qed (auto simp: list_all_iff)

lemma sample_compare: "compare_laws sampleExt"
  by (auto simp: compare_laws_def sampleExt_def all_entries_eq_iff)

lemma sample_nil: "nil_laws sampleExt"
  by (simp add: nil_laws_def sampleExt_def)

lemma sample_delta: "delta_laws sampleExt"
  by (simp add: delta_laws_def sampleExt_def)

lemma sample_awsError_None: "sample_awsError e = None \<longleftrightarrow> sample_code e = None"
  by (induction e rule: sample_code.induct) auto

lemma sample_err: "err_laws sampleExt"
  by (simp add: err_laws_def sampleExt_def sample_awsError_None del: not_None_eq)

lemma sample_merge: "merge_laws sampleExt"
proof -
  have "map_of b ++ map_of (rev a) = map_of b ++ map_of a" if "wf_map a"
    for a b :: "(string, string) gomap"
  proof -
    have "map_of (rev a) = map_of a"
      using that by (intro map_of_perm) simp_all
    then show ?thesis by simp
  qed
  then show ?thesis
    by (auto simp: merge_laws_def sampleExt_def gm.ok_put_all gm.get_put_all wf_map_def
        intro!: gm.ok_put_all [unfolded wf_map_def])
qed

lemma sample_aws: "aws_laws sampleExt"
  by (simp add: aws_laws_def sampleExt_def o_def)

lemma sample_condition: "condition_laws sampleExt"
  by (simp add: condition_laws_def sampleExt_def sample_setLateInit_def sample_setSynced_def)

lemma sample_finalizer: "finalizer_laws sampleExt"
  by (auto simp: finalizer_laws_def sampleExt_def)

lemma sample_pem: "pem_laws sampleExt"
  by (simp add: pem_laws_def sampleExt_def)

lemmas sample_laws = sample_order sample_compare sample_nil sample_delta sample_err sample_merge
  sample_aws sample_condition sample_finalizer sample_pem

end
