(* ===== verification/TagMaps.thy ===== *)
theory TagMaps
  imports ExternalLaws
begin

text \<open>
  \<open>pkg/resource/certificate/tags.go\<close> and the tag handlers of \<open>manager.go\<close> that are built
  from it (\<open>EnsureTags\<close>, \<open>FilterSystemTags\<close>, \<open>mirrorAWSTags\<close>): the conversion between the
  list of tags in the spec and the tag map of the runtime (the hub), and the operations on
  the hub. A list of tags stands for the map \<open>tag_view\<close>: the last tag of a key wins, a nil
  value reads as the empty string, a tag with a nil key is ignored.

  The three handlers share one shape (to the hub, change the hub, back), so their
  properties are proved once, in the locale \<open>tag_hub\<close>, and instantiated on the two
  conversion functions of the code.
\<close>

section \<open>tags.go\<close>

fun convertLoop ::
  "Tag option list \<Rightarrow> (string, string) gomap \<Rightarrow> string list \<Rightarrow>
     ((string, string) gomap \<times> string list) option" where
  "convertLoop [] result keyOrder = Some (result, keyOrder)"
| "convertLoop (None # ts) result keyOrder = None"
| "convertLoop (Some t # ts) result keyOrder =
     (case tag_Key t of
        None \<Rightarrow> convertLoop ts result keyOrder
      | Some k \<Rightarrow>
          (case tag_Value t of
             Some v \<Rightarrow> convertLoop ts (mput k v result) (keyOrder @ [k])
           | None \<Rightarrow> convertLoop ts (mput k [] result) (keyOrder @ [k])))"

definition convertToOrderedACKTags ::
  "Tag option slice \<Rightarrow> ((string, string) gomap \<times> string list) option" where
  "convertToOrderedACKTags tags =
     (if length (elems tags) = 0 then Some ([], []) else convertLoop (elems tags) [] [])"

definition mkTag :: "string \<Rightarrow> string \<Rightarrow> Tag option" where
  "mkTag k v = Some \<lparr>tag_Key = Some k, tag_Value = Some v\<rparr>"

text \<open>The first loop of \<open>fromACKTags\<close> takes the ordered keys out of the map.\<close>

fun fromLoop ::
  "(string, string) gomap \<Rightarrow> string list \<Rightarrow> Tag option list \<Rightarrow>
     (string, string) gomap \<times> Tag option list" where
  "fromLoop tags [] result = (tags, result)"
| "fromLoop tags (k # ks) result =
     (case map_of tags k of
        Some v \<Rightarrow> fromLoop (mdel k tags) ks (result @ [mkTag k v])
      | None \<Rightarrow> fromLoop tags ks result)"

definition fromACKTags ::
  "Ext \<Rightarrow> (string, string) gomap \<Rightarrow> string list \<Rightarrow> Tag option slice" where
  "fromACKTags X tags keyOrder =
     (let (rest, result) = fromLoop tags keyOrder []
      in Some (result @ map (\<lambda>(k, v). mkTag k v) (range_tags X rest)))"

definition ignoreSystemTags ::
  "Ext \<Rightarrow> (string, string) gomap \<Rightarrow> string list \<Rightarrow> (string, string) gomap" where
  "ignoreSystemTags X tags systemTags =
     foldl (\<lambda>tags (k, v).
         if HasPrefix k ''aws:'' \<or> k \<in> set systemTags then mdel k tags else tags)
       tags (range_tags X tags)"

definition syncAWSTags ::
  "Ext \<Rightarrow> (string, string) gomap \<Rightarrow> (string, string) gomap \<Rightarrow> (string, string) gomap" where
  "syncAWSTags X a b =
     foldl (\<lambda>a (k, v).
         if HasPrefix k ''aws:''
         then mput k (case map_of b k of Some w \<Rightarrow> w | None \<Rightarrow> []) a else a)
       a (range_tags X b)"

section \<open>The tag handlers of manager.go\<close>

text \<open>\<open>EnsureTags\<close> and \<open>FilterSystemTags\<close> write the tags of the object they are given.\<close>

definition EnsureTags ::
  "Ext \<Rightarrow> 'w resourceManager \<Rightarrow> ServiceControllerMetadata \<Rightarrow> Certificate \<Rightarrow> Certificate option"
  where
  "EnsureTags X rm md ko =
     do {
       let defaultTags = GetDefaultTags X (rm_cfg rm) ko md;
       (resourceTags, keyOrder) \<leftarrow> convertToOrderedACKTags (spec_Tags (ko_Spec ko));
       let tags = acktags_Merge X resourceTags defaultTags;
       Some (onSpec (\<lambda>sp. sp\<lparr>spec_Tags := fromACKTags X tags keyOrder\<rparr>) ko)
     }"

definition FilterSystemTags ::
  "Ext \<Rightarrow> string list \<Rightarrow> Certificate option \<Rightarrow> Certificate option option" where
  "FilterSystemTags X systemTags r =
     (case r of
        None \<Rightarrow> Some None
      | Some ko \<Rightarrow>
          do {
            (resourceTags, tagKeyOrder) \<leftarrow> convertToOrderedACKTags (spec_Tags (ko_Spec ko));
            let resourceTags = ignoreSystemTags X resourceTags systemTags;
            Some (Some (onSpec (\<lambda>sp. sp\<lparr>spec_Tags :=
              fromACKTags X resourceTags tagKeyOrder\<rparr>) ko))
          })"

text \<open>\<open>mirrorAWSTags(a, b)\<close> writes a; the result is the new a.\<close>

definition mirrorAWSTags ::
  "Ext \<Rightarrow> Certificate option \<Rightarrow> Certificate option \<Rightarrow> Certificate option option" where
  "mirrorAWSTags X a b =
     (case (a, b) of
        (Some ako, Some bko) \<Rightarrow>
          do {
            (desiredTags, desiredTagKeyOrder) \<leftarrow>
              convertToOrderedACKTags (spec_Tags (ko_Spec ako));
            (latestTags, _) \<leftarrow> convertToOrderedACKTags (spec_Tags (ko_Spec bko));
            let desiredTags = syncAWSTags X desiredTags latestTags;
            Some (Some (onSpec (\<lambda>sp. sp\<lparr>spec_Tags :=
              fromACKTags X desiredTags desiredTagKeyOrder\<rparr>) ako))
          }
      | _ \<Rightarrow> Some a)"

section \<open>What a list of tags stands for\<close>

fun tag_pairs :: "Tag option list \<Rightarrow> (string \<times> string) list" where
  "tag_pairs [] = []"
| "tag_pairs (None # ts) = tag_pairs ts"
| "tag_pairs (Some t # ts) =
     (case tag_Key t of
        None \<Rightarrow> tag_pairs ts
      | Some k \<Rightarrow> (k, case tag_Value t of Some v \<Rightarrow> v | None \<Rightarrow> []) # tag_pairs ts)"

definition tag_view :: "Tag option slice \<Rightarrow> string \<Rightarrow> string option" where
  "tag_view tags = map_of (rev (tag_pairs (elems tags)))"

definition no_nil_tag :: "Tag option slice \<Rightarrow> bool" where
  "no_nil_tag tags \<longleftrightarrow> None \<notin> set (elems tags)"

text \<open>A normalised list: every tag has a key and a value, and no key occurs twice.\<close>

definition tags_normal :: "Tag option slice \<Rightarrow> bool" where
  "tags_normal tags \<longleftrightarrow>
     list_all (\<lambda>t. case t of None \<Rightarrow> False
                 | Some t \<Rightarrow> tag_Key t \<noteq> None \<and> tag_Value t \<noteq> None) (elems tags) \<and>
     distinct (map fst (tag_pairs (elems tags)))"

lemma tag_pairs_append [simp]: "tag_pairs (xs @ ys) = tag_pairs xs @ tag_pairs ys"
  by (induction xs rule: tag_pairs.induct) (auto split: option.splits)

lemma tag_pairs_mkTag [simp]: "tag_pairs (map (\<lambda>(k, v). mkTag k v) kvs) = kvs"
  by (induction kvs) (auto simp: mkTag_def)

lemma map_mkTag_pairs:
  assumes "list_all (\<lambda>t. case t of None \<Rightarrow> False
      | Some t \<Rightarrow> tag_Key t \<noteq> None \<and> tag_Value t \<noteq> None) ts"
  shows "map (\<lambda>(k, v). mkTag k v) (tag_pairs ts) = ts"
  using assms
proof (induction ts rule: tag_pairs.induct)
  case (3 t ts)
  then show ?case by (cases t) (auto simp: mkTag_def split: option.splits)
qed simp_all

lemma convertLoop_eq:
  "None \<notin> set ts \<Longrightarrow> convertLoop ts m ks =
     Some (foldl (\<lambda>m (k, v). mput k v m) m (tag_pairs ts), ks @ map fst (tag_pairs ts))"
  by (induction ts m ks rule: convertLoop.induct) (auto split: option.splits)

lemma convertLoop_panics: "None \<in> set ts \<Longrightarrow> convertLoop ts m ks = None"
  by (induction ts m ks rule: convertLoop.induct) (auto split: option.splits)

lemma convert_eq:
  "no_nil_tag tags \<Longrightarrow> convertToOrderedACKTags tags =
     Some (foldl (\<lambda>m (k, v). mput k v m) [] (tag_pairs (elems tags)),
           map fst (tag_pairs (elems tags)))"
  by (auto simp: convertToOrderedACKTags_def no_nil_tag_def convertLoop_eq)

lemma convert_panics: "convertToOrderedACKTags tags = None \<longleftrightarrow> \<not> no_nil_tag tags"
proof
  assume "convertToOrderedACKTags tags = None"
  then show "\<not> no_nil_tag tags" using convert_eq by fastforce
next
  assume "\<not> no_nil_tag tags"
  then show "convertToOrderedACKTags tags = None"
    by (auto simp: convertToOrderedACKTags_def no_nil_tag_def convertLoop_panics)
qed

lemma fromLoop_spec:
  assumes "wf_map tags"
  shows "\<exists>out rest. fromLoop tags ks res = (rest, res @ map (\<lambda>(k, v). mkTag k v) out) \<and>
    wf_map (out @ rest) \<and> map_of (out @ rest) = map_of tags"
  using assms
proof (induction ks arbitrary: tags res)
  case Nil
  then show ?case by (intro exI [of _ "[]"] exI [of _ tags]) simp
next
  case (Cons k ks)
  show ?case
  proof (cases "map_of tags k")
    case None
    with Cons show ?thesis by simp
  next
    case (Some v)
    from Cons.IH [OF wf_map_mdel [OF Cons.prems], of k "res @ [mkTag k v]"]
    obtain out rest where
      eq: "fromLoop (mdel k tags) ks (res @ [mkTag k v]) =
        (rest, (res @ [mkTag k v]) @ map (\<lambda>(k, v). mkTag k v) out)"
      and wf: "wf_map (out @ rest)" and get0: "map_of (out @ rest) = map_of (mdel k tags)"
      by blast
    have get: "map_of (out @ rest) = (map_of tags)(k := None)"
      using get0 by (simp only: map_of_mdel)
    from get have "map_of (out @ rest) k = None" by simp
    then have "k \<notin> fst ` set (out @ rest)" by (simp only: map_of_eq_None_iff not_False_eq_True)
    with wf have "wf_map (((k, v) # out) @ rest)" by (auto simp: wf_map_def)
    moreover have "map_of (((k, v) # out) @ rest) = map_of tags"
    proof -
      have "map_of (((k, v) # out) @ rest) = (map_of (out @ rest))(k \<mapsto> v)" by simp
      also have "\<dots> = map_of tags" using Some get by auto
      finally show ?thesis .
    qed
    ultimately show ?thesis using Some eq
      by (intro exI [of _ "(k, v) # out"] exI [of _ rest]) simp
  qed
qed

lemma fromACKTags_pairs:
  assumes "order_laws X" and "wf_map m"
  obtains kvs where "fromACKTags X m ks = Some (map (\<lambda>(k, v). mkTag k v) kvs)"
    and "wf_map kvs" and "map_of kvs = map_of m"
proof -
  from fromLoop_spec [OF assms(2), of ks "[]"] obtain out rest where
    eq: "fromLoop m ks [] = (rest, map (\<lambda>(k, v). mkTag k v) out)"
    and wf: "wf_map (out @ rest)" and get: "map_of (out @ rest) = map_of m"
    by auto
  have perm: "mset (out @ range_tags X rest) = mset (out @ rest)"
    using assms(1) by (simp add: order_laws_def)
  show ?thesis
  proof (rule that)
    show "fromACKTags X m ks = Some (map (\<lambda>(k, v). mkTag k v) (out @ range_tags X rest))"
      by (simp add: fromACKTags_def eq)
    show "wf_map (out @ range_tags X rest)" using perm wf wf_map_perm by blast
    show "map_of (out @ range_tags X rest) = map_of m"
      using map_of_perm [OF perm wf] get by simp
  qed
qed

lemma tag_view_map_mkTag:
  assumes "wf_map kvs"
  shows "tag_view (Some (map (\<lambda>(k, v). mkTag k v) kvs)) = map_of kvs"
proof -
  have "map_of (rev kvs) = map_of kvs"
    using assms by (intro map_of_perm) simp_all
  then show ?thesis by (simp add: tag_view_def)
qed

lemma tags_normal_map_mkTag:
  "wf_map kvs \<Longrightarrow> tags_normal (Some (map (\<lambda>(k, v). mkTag k v) kvs))"
  unfolding tags_normal_def wf_map_def by (auto simp: list_all_iff) (auto simp: mkTag_def)

lemma tags_normal_no_nil: "tags_normal tags \<Longrightarrow> no_nil_tag tags"
  by (auto simp: tags_normal_def no_nil_tag_def list_all_iff)

lemma fromACKTags_view:
  "order_laws X \<Longrightarrow> wf_map m \<Longrightarrow> tag_view (fromACKTags X m ks) = map_of m"
  by (metis fromACKTags_pairs tag_view_map_mkTag)

lemma fromACKTags_normal:
  "order_laws X \<Longrightarrow> wf_map m \<Longrightarrow> tags_normal (fromACKTags X m ks)"
  by (metis fromACKTags_pairs tags_normal_map_mkTag)

section \<open>The hub\<close>

text \<open>
  The contract between the spec's list and the hub: to the hub and back keeps what the list
  stands for. A handler converts, changes the hub, and converts back; if the change acts on
  the hub's map as \<open>g\<close>, the handler acts on what the list stands for as \<open>g\<close>.
\<close>

locale tag_hub =
  fixes to_hub :: "'l \<Rightarrow> ('m \<times> 'o) option"
    and from_hub :: "'m \<Rightarrow> 'o \<Rightarrow> 'l"
    and hub_get :: "'m \<Rightarrow> 'k \<Rightarrow> 'v option"
    and hub_ok :: "'m \<Rightarrow> bool"
    and view :: "'l \<Rightarrow> 'k \<Rightarrow> 'v option"
    and clean :: "'l \<Rightarrow> bool"
    and normal :: "'l \<Rightarrow> bool"
  assumes to_hub_clean:
      "clean l \<Longrightarrow> \<exists>m ord. to_hub l = Some (m, ord) \<and> hub_ok m \<and> hub_get m = view l"
    and view_from_hub: "hub_ok m \<Longrightarrow> view (from_hub m ord) = hub_get m"
    and normal_from_hub: "hub_ok m \<Longrightarrow> normal (from_hub m ord)"
    and clean_from_hub: "hub_ok m \<Longrightarrow> clean (from_hub m ord)"
begin

lemma handler_view:
  assumes "clean l"
    and "\<And>m. hub_ok m \<Longrightarrow> hub_ok (f m)"
    and "\<And>m. hub_ok m \<Longrightarrow> hub_get (f m) = g (hub_get m)"
  obtains m ord where "to_hub l = Some (m, ord)" and "hub_ok (f m)"
    and "view (from_hub (f m) ord) = g (view l)"
    and "normal (from_hub (f m) ord)" and "clean (from_hub (f m) ord)"
proof -
  from to_hub_clean [OF assms(1)] obtain m ord where
    m: "to_hub l = Some (m, ord)" "hub_ok m" "hub_get m = view l" by blast
  from m(2) have ok: "hub_ok (f m)" by (rule assms(2))
  show ?thesis
    by (rule that [OF m(1) ok])
      (use ok m assms(3) in \<open>simp_all add: view_from_hub normal_from_hub clean_from_hub\<close>)
qed

lemma round_trip:
  assumes "hub_ok m"
  obtains m' ord' where "to_hub (from_hub m ord) = Some (m', ord')" and "hub_ok m'"
    and "hub_get m' = hub_get m"
  using to_hub_clean [OF clean_from_hub [OF assms]] view_from_hub [OF assms] by metis

end

lemma convert_hub:
  assumes "no_nil_tag tags"
  shows "\<exists>m ord. convertToOrderedACKTags tags = Some (m, ord) \<and> wf_map m \<and>
    map_of m = tag_view tags"
  using assms by (simp add: convert_eq gm.ok_put_all gm.get_put_all tag_view_def)

interpretation hub: tag_hub convertToOrderedACKTags "fromACKTags X" map_of
    "\<lambda>m. order_laws X \<and> wf_map m" tag_view "\<lambda>l. order_laws X \<and> no_nil_tag l" tags_normal
  for X
proof unfold_locales
  fix l assume "order_laws X \<and> no_nil_tag l"
  then show "\<exists>m ord. convertToOrderedACKTags l = Some (m, ord) \<and>
      (order_laws X \<and> wf_map m) \<and> map_of m = tag_view l"
    using convert_hub [of l] by auto
qed (simp_all add: fromACKTags_view fromACKTags_normal tags_normal_no_nil)

section \<open>The operations on the hub\<close>

lemma range_tags_set: "order_laws X \<Longrightarrow> set (range_tags X m) = set m"
  unfolding order_laws_def by (metis mset_eq_setD)

definition is_system_tag :: "string list \<Rightarrow> string \<Rightarrow> bool" where
  "is_system_tag systemTags k \<longleftrightarrow> HasPrefix k ''aws:'' \<or> k \<in> set systemTags"

lemma ignoreSystemTags_eq:
  "ignoreSystemTags X tags systemTags =
     foldl (\<lambda>m (k, v). if is_system_tag systemTags k then mdel k m else m) tags
       (range_tags X tags)"
  by (simp add: ignoreSystemTags_def is_system_tag_def)

lemma ignoreSystemTags_wf: "wf_map m \<Longrightarrow> wf_map (ignoreSystemTags X m systemTags)"
  by (simp add: ignoreSystemTags_eq gm.ok_del_if)

lemma ignoreSystemTags_view:
  assumes "order_laws X" and "wf_map m"
  shows "map_of (ignoreSystemTags X m systemTags) =
    (map_of m) |` {k. \<not> is_system_tag systemTags k}"
proof -
  have "map_of m k = None" if "k \<notin> fst ` set m" for k
    using that by (simp add: map_of_eq_None_iff)
  then show ?thesis
    using assms by (auto simp: ignoreSystemTags_eq gm.get_del_if range_tags_set restrict_map_def
        fun_eq_iff)
qed

lemma syncAWSTags_wf: "wf_map a \<Longrightarrow> wf_map (syncAWSTags X a b)"
  by (simp add: syncAWSTags_def gm.ok_put_if)

lemma syncAWSTags_view:
  assumes "order_laws X" and "wf_map a"
  shows "map_of (syncAWSTags X a b) =
    map_of a ++ (map_of b |` {k. HasPrefix k ''aws:''})"
proof
  fix k
  show "map_of (syncAWSTags X a b) k =
    (map_of a ++ (map_of b |` {k. HasPrefix k ''aws:''})) k"
  proof (cases "map_of b k")
    case None
    then have "k \<notin> fst ` set b" by (simp add: map_of_eq_None_iff)
    then show ?thesis using assms None
      by (simp add: syncAWSTags_def gm.get_put_if range_tags_set restrict_map_def map_add_def)
  next
    case (Some v)
    then have "k \<in> fst ` set b" by (metis map_of_eq_None_iff option.distinct(1))
    then show ?thesis using assms Some
      by (simp add: syncAWSTags_def gm.get_put_if range_tags_set restrict_map_def map_add_def)
  qed
qed

section \<open>Order\<close>

lemma range_tags_Nil: "order_laws X \<Longrightarrow> range_tags X [] = []"
  unfolding order_laws_def by (metis mset_zero_iff)

lemma fromLoop_all:
  assumes "distinct ks" and "wf_map m" and "dom (map_of m) = set ks"
  shows "fromLoop m ks res = ([], res @ map (\<lambda>k. mkTag k (the (map_of m k))) ks)"
  using assms
proof (induction ks arbitrary: m res)
  case Nil
  then show ?case by simp
next
  case (Cons k ks)
  have "k \<in> dom (map_of m)" using Cons.prems(3) by simp
  then obtain v where v: "map_of m k = Some v" by blast
  have dom: "dom (map_of (mdel k m)) = set ks"
    unfolding map_of_mdel dom_fun_upd using Cons.prems by auto
  have "fromLoop m (k # ks) res = fromLoop (mdel k m) ks (res @ [mkTag k v])"
    using v by simp
  also have "\<dots> = ([], (res @ [mkTag k v]) @
      map (\<lambda>k'. mkTag k' (the (map_of (mdel k m) k'))) ks)"
    using Cons.prems dom by (intro Cons.IH) simp_all
  also have "map (\<lambda>k'. mkTag k' (the (map_of (mdel k m) k'))) ks =
      map (\<lambda>k'. mkTag k' (the (map_of m k'))) ks"
    using Cons.prems(1) by (intro map_cong) (auto simp: map_of_mdel)
  finally show ?case using v by simp
qed

text \<open>
  Converting a normalised tag list (every tag has a key and a value, no key twice) to the
  tag map and back gives the same list, in the same order, whatever the iteration order of
  maps: the conversion pair causes no reordering of the user's tags and no difference.
\<close>

theorem tags_order_roundtrip:
  assumes "order_laws X" and "tags_normal tags"
  shows "\<exists>m ord. convertToOrderedACKTags tags = Some (m, ord) \<and>
    fromACKTags X m ord = Some (elems tags)"
proof -
  let ?kvs = "tag_pairs (elems tags)"
  let ?m = "foldl (\<lambda>m (k, v). mput k v m) [] ?kvs"
  have dist: "distinct (map fst ?kvs)" and full: "map (\<lambda>(k, v). mkTag k v) ?kvs = elems tags"
    using assms(2) map_mkTag_pairs by (auto simp: tags_normal_def)
  have get: "map_of ?m = map_of ?kvs"
    using dist map_of_perm [of "rev ?kvs" ?kvs] by (simp add: gm.get_put_all wf_map_def)
  have "dom (map_of ?m) = set (map fst ?kvs)"
    by (simp add: get dom_map_of_conv_image_fst)
  from fromLoop_all [OF dist _ this, of "[]"]
  have "fromLoop ?m (map fst ?kvs) [] =
      ([], map (\<lambda>k. mkTag k (the (map_of ?m k))) (map fst ?kvs))"
    by (simp add: gm.ok_put_all)
  also have "map (\<lambda>k. mkTag k (the (map_of ?m k))) (map fst ?kvs) =
      map (\<lambda>(k, v). mkTag k v) ?kvs"
    unfolding get using dist by (auto simp: map_of_is_SomeI)
  also note full
  finally have "fromACKTags X ?m (map fst ?kvs) = Some (elems tags)"
    using range_tags_Nil [OF assms(1)] by (simp add: fromACKTags_def)
  then show ?thesis
    using convert_eq [OF tags_normal_no_nil [OF assms(2)]] by blast
qed

theorem tags_order_roundtrip_witness:
  "tags_normal (Some [mkTag ''b'' ''1'', mkTag ''a'' ''2'']) \<and>
   (\<exists>m ord. convertToOrderedACKTags (Some [mkTag ''b'' ''1'', mkTag ''a'' ''2'']) = Some (m, ord)
      \<and> fromACKTags sampleExt m ord = Some [mkTag ''b'' ''1'', mkTag ''a'' ''2''])"
proof -
  have n: "tags_normal (Some [mkTag ''b'' ''1'', mkTag ''a'' ''2''])"
    by (simp add: tags_normal_def mkTag_def)
  show ?thesis
    using tags_order_roundtrip [OF sample_order n] n by simp
qed

section \<open>The handlers\<close>

definition specTags :: "Certificate \<Rightarrow> Tag option slice" where
  "specTags ko = spec_Tags (ko_Spec ko)"

definition withTags :: "Tag option slice \<Rightarrow> Certificate \<Rightarrow> Certificate" where
  "withTags tags ko = onSpec (\<lambda>sp. sp\<lparr>spec_Tags := tags\<rparr>) ko"

lemma specTags_withTags [simp]: "specTags (withTags tags ko) = tags"
  by (simp add: specTags_def withTags_def)

lemma withTags_withTags [simp]: "withTags a (withTags b ko) = withTags a ko"
  by (simp add: withTags_def onSpec_def)

lemma mirrorAWSTags_view:
  assumes "order_laws X" and "no_nil_tag (specTags a)" and "no_nil_tag (specTags b)"
  shows "\<exists>tags. mirrorAWSTags X (Some a) (Some b) = Some (Some (withTags tags a)) \<and>
    tag_view tags = tag_view (specTags a) ++ (tag_view (specTags b) |` {k. HasPrefix k ''aws:''})
    \<and> tags_normal tags"
proof -
  from convert_hub [OF assms(3)] obtain n ordn where
    n: "convertToOrderedACKTags (specTags b) = Some (n, ordn)" "map_of n = tag_view (specTags b)"
    by blast
  obtain m ord where m: "convertToOrderedACKTags (specTags a) = Some (m, ord)"
    and view: "tag_view (fromACKTags X (syncAWSTags X m n) ord) =
      tag_view (specTags a) ++ (map_of n |` {k. HasPrefix k ''aws:''})"
    and norm: "tags_normal (fromACKTags X (syncAWSTags X m n) ord)"
    by (rule hub.handler_view [of X "specTags a" "\<lambda>m. syncAWSTags X m n"
          "\<lambda>v. v ++ (map_of n |` {k. HasPrefix k ''aws:''})"])
      (use assms in \<open>auto simp: syncAWSTags_wf syncAWSTags_view\<close>)
  show ?thesis
    using m n view norm
    by (intro exI [of _ "fromACKTags X (syncAWSTags X m n) ord"])
      (simp add: mirrorAWSTags_def withTags_def specTags_def)
qed

text \<open>
  \<open>mirrorAWSTags\<close> adds to the desired object exactly the tags of the latest one whose key
  starts with \<open>aws:\<close>, with their latest values; all other desired tags and everything else
  of the object stay, and the resulting list is normalised.
\<close>

theorem mirrorAWSTags_spec:
  assumes "order_laws X" and "no_nil_tag (specTags a)" and "no_nil_tag (specTags b)"
  shows "\<exists>tags. mirrorAWSTags X (Some a) (Some b) = Some (Some (withTags tags a)) \<and>
    tag_view tags = tag_view (specTags a) ++ (tag_view (specTags b) |` {k. HasPrefix k ''aws:''})
    \<and> tags_normal tags"
  using assms by (rule mirrorAWSTags_view)

definition tagged :: "(string \<times> string) list \<Rightarrow> Certificate" where
  "tagged kvs = withTags (Some (map (\<lambda>(k, v). mkTag k v) kvs)) emptyCertificate"

lemma specTags_tagged [simp]: "specTags (tagged kvs) = Some (map (\<lambda>(k, v). mkTag k v) kvs)"
  by (simp add: tagged_def)

lemma no_nil_tagged [simp]: "no_nil_tag (Some (map (\<lambda>(k, v). mkTag k v) kvs))"
  by (auto simp: no_nil_tag_def mkTag_def)

lemma tag_view_tagged: "wf_map kvs \<Longrightarrow> tag_view (specTags (tagged kvs)) = map_of kvs"
  unfolding specTags_tagged by (rule tag_view_map_mkTag)

theorem mirrorAWSTags_spec_witness:
  "\<exists>tags. mirrorAWSTags sampleExt (Some (tagged [(''env'', ''dev'')]))
       (Some (tagged [(''aws:s'', ''1''), (''env'', ''prod'')])) =
     Some (Some (withTags tags (tagged [(''env'', ''dev'')]))) \<and>
   tag_view tags ''aws:s'' = Some ''1'' \<and> tag_view tags ''env'' = Some ''dev''"
proof -
  have "no_nil_tag (specTags (tagged [(''env'', ''dev'')]))"
    and "no_nil_tag (specTags (tagged [(''aws:s'', ''1''), (''env'', ''prod'')]))"
    unfolding specTags_tagged by (rule no_nil_tagged)+
  from mirrorAWSTags_spec [OF sample_order this] obtain tags where
    t: "mirrorAWSTags sampleExt (Some (tagged [(''env'', ''dev'')]))
       (Some (tagged [(''aws:s'', ''1''), (''env'', ''prod'')])) =
     Some (Some (withTags tags (tagged [(''env'', ''dev'')])))"
    and v: "tag_view tags = tag_view (specTags (tagged [(''env'', ''dev'')])) ++
      (tag_view (specTags (tagged [(''aws:s'', ''1''), (''env'', ''prod'')]))
        |` {k. HasPrefix k ''aws:''})"
    by blast
  show ?thesis
    by (rule exI [of _ tags], rule conjI [OF t])
      (simp add: v tag_view_tagged wf_map_def HasPrefix_def del: specTags_tagged)
qed

lemma FilterSystemTags_view:
  assumes "order_laws X" and "no_nil_tag (specTags ko)"
  shows "\<exists>tags. FilterSystemTags X systemTags (Some ko) = Some (Some (withTags tags ko)) \<and>
    tag_view tags = tag_view (specTags ko) |` {k. \<not> is_system_tag systemTags k} \<and>
    tags_normal tags \<and>
    (\<exists>tags'. FilterSystemTags X systemTags (Some (withTags tags ko)) =
        Some (Some (withTags tags' ko)) \<and> tag_view tags' = tag_view tags)"
proof -
  have step: "\<exists>tags. FilterSystemTags X systemTags (Some c) = Some (Some (withTags tags c)) \<and>
    tag_view tags = tag_view (specTags c) |` {k. \<not> is_system_tag systemTags k} \<and>
    tags_normal tags" if c: "no_nil_tag (specTags c)" for c
  proof -
    obtain m ord where "convertToOrderedACKTags (specTags c) = Some (m, ord)"
      and "tag_view (fromACKTags X (ignoreSystemTags X m systemTags) ord) =
        tag_view (specTags c) |` {k. \<not> is_system_tag systemTags k}"
      and "tags_normal (fromACKTags X (ignoreSystemTags X m systemTags) ord)"
      by (rule hub.handler_view [of X "specTags c" "\<lambda>m. ignoreSystemTags X m systemTags"
            "\<lambda>v. v |` {k. \<not> is_system_tag systemTags k}"])
        (use assms c in \<open>auto simp: ignoreSystemTags_wf ignoreSystemTags_view\<close>)
    then show ?thesis
      by (intro exI [of _ "fromACKTags X (ignoreSystemTags X m systemTags) ord"])
        (simp add: FilterSystemTags_def withTags_def specTags_def)
  qed
  from step [OF assms(2)] obtain tags where
    t: "FilterSystemTags X systemTags (Some ko) = Some (Some (withTags tags ko))"
      "tag_view tags = tag_view (specTags ko) |` {k. \<not> is_system_tag systemTags k}"
      "tags_normal tags" by blast
  from step [of "withTags tags ko"] t(2,3) show ?thesis
    by (intro exI [of _ tags]) (auto simp: t tags_normal_no_nil)
qed

text \<open>
  \<open>FilterSystemTags\<close> keeps exactly the tags that are no system tags (no \<open>aws:\<close> prefix, not
  listed by the start-up flag), so after it the spec holds no system tag, and filtering a
  second time changes no tag.
\<close>

theorem FilterSystemTags_spec:
  assumes "order_laws X" and "no_nil_tag (specTags ko)"
  shows "\<exists>tags. FilterSystemTags X systemTags (Some ko) = Some (Some (withTags tags ko)) \<and>
    tag_view tags = tag_view (specTags ko) |` {k. \<not> is_system_tag systemTags k} \<and>
    tags_normal tags \<and>
    (\<exists>tags'. FilterSystemTags X systemTags (Some (withTags tags ko)) =
        Some (Some (withTags tags' ko)) \<and> tag_view tags' = tag_view tags)"
  using assms by (rule FilterSystemTags_view)

theorem FilterSystemTags_spec_witness:
  "\<exists>tags. FilterSystemTags sampleExt [''owner''] (Some (tagged [(''aws:s'', ''1''),
       (''owner'', ''me''), (''env'', ''prod'')])) = Some (Some (withTags tags (tagged
       [(''aws:s'', ''1''), (''owner'', ''me''), (''env'', ''prod'')]))) \<and>
   tag_view tags ''aws:s'' = None \<and> tag_view tags ''owner'' = None \<and>
   tag_view tags ''env'' = Some ''prod''"
proof -
  let ?ko = "tagged [(''aws:s'', ''1''), (''owner'', ''me''), (''env'', ''prod'')]"
  have "no_nil_tag (specTags ?ko)"
    unfolding specTags_tagged by (rule no_nil_tagged)
  from FilterSystemTags_spec [OF sample_order this, of "[''owner'']"] obtain tags where
    t: "FilterSystemTags sampleExt [''owner''] (Some ?ko) = Some (Some (withTags tags ?ko))"
    and v: "tag_view tags = tag_view (specTags ?ko) |` {k. \<not> is_system_tag [''owner''] k}"
    by blast
  show ?thesis
    by (rule exI [of _ tags], rule conjI [OF t])
      (simp add: v tag_view_tagged wf_map_def is_system_tag_def HasPrefix_def del: specTags_tagged)
qed

lemma EnsureTags_view:
  assumes "order_laws X" and "merge_laws X" and "no_nil_tag (specTags ko)"
  shows "\<exists>tags. EnsureTags X rm md ko = Some (withTags tags ko) \<and>
    tag_view tags = map_of (GetDefaultTags X (rm_cfg rm) ko md) ++ tag_view (specTags ko) \<and>
    tags_normal tags"
proof -
  let ?d = "GetDefaultTags X (rm_cfg rm) ko md"
  obtain m ord where "convertToOrderedACKTags (specTags ko) = Some (m, ord)"
    and "tag_view (fromACKTags X (acktags_Merge X m ?d) ord) = map_of ?d ++ tag_view (specTags ko)"
    and "tags_normal (fromACKTags X (acktags_Merge X m ?d) ord)"
    by (rule hub.handler_view [of X "specTags ko" "\<lambda>m. acktags_Merge X m ?d"
          "\<lambda>v. map_of ?d ++ v"])
      (use assms in \<open>auto simp: merge_laws_def\<close>)
  then show ?thesis
    by (intro exI [of _ "fromACKTags X (acktags_Merge X m ?d) ord"])
      (simp add: EnsureTags_def withTags_def specTags_def)
qed

text \<open>
  \<open>EnsureTags\<close> adds the controller's default tags without overriding a tag the user has
  set, and changes nothing else of the object.
\<close>

theorem EnsureTags_spec:
  assumes "order_laws X" and "merge_laws X" and "no_nil_tag (specTags ko)"
  shows "\<exists>tags. EnsureTags X rm md ko = Some (withTags tags ko) \<and>
    tag_view tags = map_of (GetDefaultTags X (rm_cfg rm) ko md) ++ tag_view (specTags ko) \<and>
    tags_normal tags"
  using assms by (rule EnsureTags_view)

theorem EnsureTags_spec_witness:
  "\<forall>rm :: unit resourceManager. \<exists>tags.
     EnsureTags sampleExt rm \<lparr>scm_ControllerVersion = ''1.0''\<rparr>
       (tagged [(''services.k8s.aws/controller-version'', ''mine''), (''env'', ''prod'')]) =
       Some (withTags tags
         (tagged [(''services.k8s.aws/controller-version'', ''mine''), (''env'', ''prod'')])) \<and>
     tag_view tags ''services.k8s.aws/controller-version'' = Some ''mine'' \<and>
     tag_view tags ''services.k8s.aws/namespace'' = Some []"
proof
  fix rm :: "unit resourceManager"
  let ?ko = "tagged [(''services.k8s.aws/controller-version'', ''mine''), (''env'', ''prod'')]"
  let ?md = "\<lparr>scm_ControllerVersion = ''1.0''\<rparr> :: ServiceControllerMetadata"
  have "no_nil_tag (specTags ?ko)"
    unfolding specTags_tagged by (rule no_nil_tagged)
  from EnsureTags_spec [OF sample_order sample_merge this, of rm ?md] obtain tags where
    t: "EnsureTags sampleExt rm ?md ?ko = Some (withTags tags ?ko)"
    and v: "tag_view tags = map_of (GetDefaultTags sampleExt (rm_cfg rm) ?ko ?md) ++
      tag_view (specTags ?ko)"
    by blast
  have ns: "om_Namespace (ko_ObjectMeta ?ko) = []"
    by (simp add: tagged_def withTags_def emptyCertificate_def emptyObjectMeta_def)
  have g: "GetDefaultTags sampleExt (rm_cfg rm) ?ko ?md =
      [(''services.k8s.aws/namespace'', []), (''services.k8s.aws/controller-version'', ''1.0'')]"
    by (simp add: sampleExt_def ns)
  show "\<exists>tags. EnsureTags sampleExt rm ?md ?ko = Some (withTags tags ?ko) \<and>
     tag_view tags ''services.k8s.aws/controller-version'' = Some ''mine'' \<and>
     tag_view tags ''services.k8s.aws/namespace'' = Some []"
    by (rule exI [of _ tags], rule conjI [OF t]) (simp add: v g tag_view_tagged wf_map_def del: specTags_tagged)
qed

end
