(* ===== verification/SampleWorld.thy ===== *)
theory SampleWorld
  imports ExternalLaws
begin

text \<open>
  A concrete world, SDK client and reconciler. The witnesses run the controller's
  definitions on it; no property is about it.
\<close>

record sample_world =
  sw_tags :: "string \<Rightarrow> string \<Rightarrow> string option"
  sw_cert :: "SdkCertificateDetail option"
  sw_listed :: "SdkTag list"
  sw_secrets :: "(string \<times> string \<times> string \<times> string) list"

definition sample_sdk_view :: "SdkTag list \<Rightarrow> string \<Rightarrow> string option" where
  "sample_sdk_view ts = map_of (rev (map (\<lambda>t. (the (sdktag_Key t), the (sdktag_Value t))) ts))"

definition sampleClient :: "sample_world AcmClient" where
  "sampleClient = \<lparr>
     api_DescribeCertificate = (\<lambda>i w. (case sw_cert w of
        None \<Rightarrow> Inl (APIError ''ResourceNotFoundException'' ''gone'')
      | Some d \<Rightarrow> Inr \<lparr>dco_Certificate = Some d\<rparr>, w)),
     api_RequestCertificate = (\<lambda>i w. (Inr \<lparr>rco_CertificateArn = Some ''arn:requested''\<rparr>, w)),
     api_UpdateCertificateOptions = (\<lambda>i w. (None, w)),
     api_DeleteCertificate = (\<lambda>i w. (None, w\<lparr>sw_cert := None\<rparr>)),
     api_ImportCertificate = (\<lambda>i w. (Inr \<lparr>ico_CertificateArn = Some ''arn:imported''\<rparr>, w)),
     api_ExportCertificate = (\<lambda>i w. (Inr \<lparr>eco_Certificate = Some ''CERT'',
        eco_CertificateChain = Some ''CHAIN'', eco_PrivateKey = Some ''-RKEY''\<rparr>, w)),
     api_AddTagsToCertificate = (\<lambda>i w. (None, w\<lparr>sw_tags := (sw_tags w)(ti_CertificateArn i :=
        sw_tags w (ti_CertificateArn i) ++ sample_sdk_view (ti_Tags i))\<rparr>)),
     api_RemoveTagsFromCertificate = (\<lambda>i w. (None, w\<lparr>sw_tags := (sw_tags w)(ti_CertificateArn i :=
        (\<lambda>k. if sample_sdk_view (ti_Tags i) k \<noteq> None \<and>
                sample_sdk_view (ti_Tags i) k = sw_tags w (ti_CertificateArn i) k
             then None else sw_tags w (ti_CertificateArn i) k))\<rparr>)),
     api_ListTagsForCertificate = (\<lambda>arn w. (Inr (Some (sw_listed w)), w))
   \<rparr>"

definition sampleReconciler :: "sample_world Reconciler" where
  "sampleReconciler = \<lparr>
     rc_SecretValueFromReference = (\<lambda>r w. (case r of None \<Rightarrow> Inr []
        | Some r \<Rightarrow> Inr (skr_Name r @ ''/'' @ skr_Key r), w)),
     rc_WriteToSecret = (\<lambda>v ns name key w.
        (None, w\<lparr>sw_secrets := sw_secrets w @ [(v, ns, name, key)]\<rparr>)),
     rc_ReadRandom = (\<lambda>n w. (Inr (replicate n 0), w))
   \<rparr>"

definition sampleManager :: "sample_world resourceManager" where
  "sampleManager = \<lparr>
     rm_cfg = \<lparr>cfg_EnableCrossNamespace = False, cfg_Partition = ''aws''\<rparr>,
     rm_rr = sampleReconciler,
     rm_awsAccountID = ''111122223333'',
     rm_awsRegion = ''us-west-2'',
     rm_awsPartition = ''aws'',
     rm_sdkapi = sampleClient
   \<rparr>"

definition sampleWorld :: sample_world where
  "sampleWorld = \<lparr>sw_tags = (\<lambda>_ _. None), sw_cert = None, sw_listed = [], sw_secrets = []\<rparr>"

definition sampleSys :: "sample_world \<Rightarrow> sample_world sys" where
  "sampleSys w = \<lparr>env = w, trace = []\<rparr>"

end
