(* ===== verification/Conditions.thy ===== *)
theory Conditions
  imports SampleWorld
begin

text \<open>
  The status of a resource after an operation: \<open>setStatusDefaults\<close>, \<open>terminalAWSError\<close> and
  \<open>updateConditions\<close> of \<open>sdk.go\<close>, \<open>onError\<close> and \<open>onSuccess\<close> of \<open>manager.go\<close>.

  The code holds pointers into the slice of conditions of a fresh deep copy; the model holds
  the index of the condition instead. A nil element of the slice panics in the first loop.
  What a slice of conditions says is read by \<open>cond_of\<close>: the last condition of a type, which
  is the one the code updates.
\<close>

section \<open>sdk.go\<close>

definition setStatusDefaults :: "'w resourceManager \<Rightarrow> Certificate \<Rightarrow> Certificate" where
  "setStatusDefaults rm ko =
     (let m = (case st_ACKResourceMetadata (ko_Status ko) of
                 None \<Rightarrow> emptyResourceMetadata | Some m \<Rightarrow> m);
          m = (if meta_Region m = None then m\<lparr>meta_Region := Some (rm_awsRegion rm)\<rparr> else m);
          m = (if meta_Partition m = None
               then m\<lparr>meta_Partition := Some (rm_awsPartition rm)\<rparr> else m);
          m = (if meta_OwnerAccountID m = None
               then m\<lparr>meta_OwnerAccountID := Some (rm_awsAccountID rm)\<rparr> else m);
          conds = (case st_Conditions (ko_Status ko) of None \<Rightarrow> Some [] | Some cs \<Rightarrow> Some cs)
      in onStatus (\<lambda>st. st\<lparr>st_ACKResourceMetadata := Some m, st_Conditions := conds\<rparr>) ko)"

definition terminalCodes :: "string list" where
  "terminalCodes = [''InvalidParameterException'', ''InvalidDomainValidationOptionsException'',
     ''InvalidTagException'', ''TagPolicyException'', ''TooManyTagsException'',
     ''InvalidArnException'']"

definition terminalAWSError :: "Ext \<Rightarrow> goerror option \<Rightarrow> bool" where
  "terminalAWSError X err =
     (case err of
        None \<Rightarrow> False
      | Some e \<Rightarrow>
          (case as_APIErrorCode X e of None \<Rightarrow> False | Some code \<Rightarrow> code \<in> set terminalCodes))"

fun scanConditions ::
  "Condition list \<Rightarrow> nat \<Rightarrow> nat option \<times> nat option \<times> nat option \<Rightarrow>
     nat option \<times> nat option \<times> nat option" where
  "scanConditions [] i ptrs = ptrs"
| "scanConditions (c # cs) i (terminal, recoverable, sync) =
     scanConditions cs (Suc i)
       (if cond_Type c = ConditionTypeTerminal then Some i else terminal,
        if cond_Type c = ConditionTypeRecoverable then Some i else recoverable,
        if cond_Type c = ConditionTypeResourceSynced then Some i else sync)"

definition newCondition :: "ConditionType \<Rightarrow> Condition" where
  "newCondition ty = \<lparr>cond_Type = ty, cond_Status = ConditionUnset, cond_Reason = None,
     cond_Message = None\<rparr>"

definition setCond ::
  "nat \<Rightarrow> ConditionStatus \<Rightarrow> string option \<Rightarrow> Condition list \<Rightarrow> Condition list" where
  "setCond i status msg cs = cs[i := (cs ! i)\<lparr>cond_Status := status, cond_Message := msg\<rparr>]"

text \<open>The condition a pointer points to, appended first where the pointer is nil.\<close>

definition orAppend ::
  "ConditionType \<Rightarrow> nat option \<Rightarrow> Condition list \<Rightarrow> Condition list \<times> nat" where
  "orAppend ty ptr cs =
     (case ptr of Some i \<Rightarrow> (cs, i) | None \<Rightarrow> (cs @ [newCondition ty], length cs))"

definition ownTerminal :: "Ext \<Rightarrow> goerror option \<Rightarrow> bool" where
  "ownTerminal X err \<longleftrightarrow> err = Some SecretTypeNotSupported \<or> err = Some SecretNotFound \<or>
     (case err of None \<Rightarrow> False | Some e \<Rightarrow> as_TerminalError X e)"

definition terminalMessage :: "Ext \<Rightarrow> goerror option \<Rightarrow> string option" where
  "terminalMessage X err =
     (case err of
        None \<Rightarrow> None
      | Some e \<Rightarrow> if ownTerminal X err then Some (Error_text X e)
                  else map_option (Error_text X) (ackerr_AWSError X e))"

definition recoverableMessage :: "Ext \<Rightarrow> goerror \<Rightarrow> string" where
  "recoverableMessage X e =
     (case ackerr_AWSError X e of None \<Rightarrow> Error_text X e | Some awsErr \<Rightarrow> Error_text X awsErr)"

definition updateConditions ::
  "Ext \<Rightarrow> 'w resourceManager \<Rightarrow> Certificate \<Rightarrow> bool \<Rightarrow> goerror option \<Rightarrow>
     (Certificate option \<times> bool) option" where
  "updateConditions X rm r onSuccess err =
     do {
       let ko = setStatusDefaults rm r;
       cs \<leftarrow> those (elems (st_Conditions (ko_Status ko)));
       let (terminal, recoverable, sync) = scanConditions cs 0 (None, None, None);
       (cs, terminal, recoverable) \<leftarrow>
         (if terminalAWSError X err \<or> ownTerminal X err
          then do {
            let (cs, t) = orAppend ConditionTypeTerminal terminal cs;
            errorMessage \<leftarrow> terminalMessage X err;
            Some (setCond t ConditionTrue (Some errorMessage) cs, Some t, recoverable)
          }
          else do {
            let cs = (case terminal of
                        None \<Rightarrow> cs | Some t \<Rightarrow> setCond t ConditionFalse None cs);
            (case err of
               Some e \<Rightarrow> do {
                 let (cs, q) = orAppend ConditionTypeRecoverable recoverable cs;
                 Some (setCond q ConditionTrue (Some (recoverableMessage X e)) cs,
                       terminal, Some q)
               }
             | None \<Rightarrow>
                 Some (case recoverable of
                         None \<Rightarrow> cs | Some q \<Rightarrow> setCond q ConditionFalse None cs,
                       terminal, recoverable))
          });
       let (cs, sync) =
         (if sync = None \<and> onSuccess
          then (cs @ [(newCondition ConditionTypeResourceSynced)\<lparr>cond_Status := ConditionTrue\<rparr>],
                Some (length cs))
          else (cs, sync));
       if terminal \<noteq> None \<or> recoverable \<noteq> None \<or> sync \<noteq> None
       then Some (Some (onStatus (\<lambda>st. st\<lparr>st_Conditions := Some (map Some cs)\<rparr>) ko), True)
       else Some (None, False)
     }"

section \<open>manager.go\<close>

definition onError ::
  "Ext \<Rightarrow> 'w resourceManager \<Rightarrow> Certificate option \<Rightarrow> goerror option \<Rightarrow>
     (Certificate option \<times> goerror option) option" where
  "onError X rm r err =
     (case r of
        None \<Rightarrow> Some (None, err)
      | Some ko \<Rightarrow> do {
          (r1, updated) \<leftarrow> updateConditions X rm ko False err;
          if \<not> updated then Some (Some ko, err)
          else do {
            ko1 \<leftarrow> r1;
            cs \<leftarrow> those (elems (st_Conditions (ko_Status ko1)));
            if list_ex (\<lambda>c. cond_Type c = ConditionTypeTerminal \<and> cond_Status c = ConditionTrue) cs
            then Some (Some ko1, Some TerminalSentinel)
            else Some (Some ko1, err)
          }
        })"

definition onSuccess ::
  "Ext \<Rightarrow> 'w resourceManager \<Rightarrow> Certificate option \<Rightarrow>
     (Certificate option \<times> goerror option) option" where
  "onSuccess X rm r =
     (case r of
        None \<Rightarrow> Some (None, None)
      | Some ko \<Rightarrow> do {
          (r1, updated) \<leftarrow> updateConditions X rm ko True None;
          if \<not> updated then Some (Some ko, None) else Some (r1, None)
        })"

section \<open>Reading conditions\<close>

definition cond_of :: "ConditionType \<Rightarrow> Condition list \<Rightarrow> Condition option" where
  "cond_of ty cs = find (\<lambda>c. cond_Type c = ty) (rev cs)"

fun lastIdxRev :: "ConditionType \<Rightarrow> Condition list \<Rightarrow> nat option" where
  "lastIdxRev ty [] = None"
| "lastIdxRev ty (c # cs) = (if cond_Type c = ty then Some (length cs) else lastIdxRev ty cs)"

definition lastIdx :: "ConditionType \<Rightarrow> Condition list \<Rightarrow> nat option" where
  "lastIdx ty cs = lastIdxRev ty (rev cs)"

lemma lastIdx_simps [simp]:
  "lastIdx ty [] = None"
  "lastIdx ty (cs @ [c]) = (if cond_Type c = ty then Some (length cs) else lastIdx ty cs)"
  by (simp_all add: lastIdx_def)

lemma cond_of_simps [simp]:
  "cond_of ty [] = None"
  "cond_of ty (cs @ [c]) = (if cond_Type c = ty then Some c else cond_of ty cs)"
  by (simp_all add: cond_of_def)

lemma scanConditions_snoc:
  "scanConditions (cs @ [c]) i ptrs =
     (case scanConditions cs i ptrs of (t, q, s) \<Rightarrow>
       (if cond_Type c = ConditionTypeTerminal then Some (i + length cs) else t,
        if cond_Type c = ConditionTypeRecoverable then Some (i + length cs) else q,
        if cond_Type c = ConditionTypeResourceSynced then Some (i + length cs) else s))"
  by (induction cs i ptrs rule: scanConditions.induct) (auto split: prod.split)

lemma scanConditions_lastIdx:
  "scanConditions cs 0 (None, None, None) =
     (lastIdx ConditionTypeTerminal cs, lastIdx ConditionTypeRecoverable cs,
      lastIdx ConditionTypeResourceSynced cs)"
  by (induction cs rule: rev_induct) (auto simp: scanConditions_snoc)

lemma lastIdx_bound: "lastIdx ty cs = Some i \<Longrightarrow> i < length cs"
  by (induction cs rule: rev_induct) (auto split: if_splits)

lemma lastIdx_None_iff: "lastIdx ty cs = None \<longleftrightarrow> cond_of ty cs = None"
  by (induction cs rule: rev_induct) auto

lemma setCond_types [simp]: "map cond_Type (setCond i st msg cs) = map cond_Type cs"
  unfolding setCond_def
  by (metis (no_types, lifting) Condition.select_convs(1) Condition.surjective
      Condition.update_convs(2,4) list_update_id map_update)

lemma lastIdx_cong_types: "map cond_Type cs = map cond_Type ds \<Longrightarrow> lastIdx ty cs = lastIdx ty ds"
proof (induction cs arbitrary: ds rule: rev_induct)
  case (snoc c cs)
  then obtain d ds' where "ds = ds' @ [d]" by (cases ds rule: rev_cases) auto
  with snoc show ?case using map_eq_imp_length_eq [of cond_Type cs cond_Type ds'] by auto
qed simp

lemma lastIdx_setCond [simp]: "lastIdx ty (setCond i st msg cs) = lastIdx ty cs"
  by (rule lastIdx_cong_types) simp

text \<open>Updating the last condition of a type changes that reading and no other.\<close>

lemma cond_of_setCond:
  "lastIdx ty cs = Some i \<Longrightarrow> cond_of ty' (setCond i st msg cs) =
     (if ty' = ty then map_option (\<lambda>c. c\<lparr>cond_Status := st, cond_Message := msg\<rparr>) (cond_of ty cs)
      else cond_of ty' cs)"
proof (induction cs rule: rev_induct)
  case (snoc c cs)
  show ?case
  proof (cases "cond_Type c = ty")
    case True
    with snoc.prems have "i = length cs" by simp
    then show ?thesis using True by (simp add: setCond_def)
  next
    case False
    with snoc.prems have i: "lastIdx ty cs = Some i" by simp
    from lastIdx_bound [OF this] have
      "setCond i st msg (cs @ [c]) = setCond i st msg cs @ [c]"
      by (simp add: setCond_def list_update_append nth_append)
    with snoc.IH [OF i] False show ?thesis by auto
  qed
qed simp

lemma cond_of_Some_type: "cond_of ty cs = Some c \<Longrightarrow> cond_Type c = ty"
  by (auto simp: cond_of_def find_Some_iff)

section \<open>What updateConditions does\<close>

definition condList :: "Certificate \<Rightarrow> Condition list" where
  "condList ko = map the (elems (st_Conditions (ko_Status ko)))"

definition no_nil_condition :: "Certificate \<Rightarrow> bool" where
  "no_nil_condition ko \<longleftrightarrow> None \<notin> set (elems (st_Conditions (ko_Status ko)))"

definition condition :: "ConditionType \<Rightarrow> Certificate \<Rightarrow> Condition option" where
  "condition ty ko = cond_of ty (condList ko)"

text \<open>No condition type occurs twice, which the runtime's readers of conditions assume.\<close>

definition single_conditions :: "Certificate \<Rightarrow> bool" where
  "single_conditions ko \<longleftrightarrow> distinct (map cond_Type (condList ko))"

definition markCond ::
  "ConditionStatus \<Rightarrow> string option \<Rightarrow> ConditionType \<Rightarrow> Condition option \<Rightarrow> Condition option" where
  "markCond st msg ty old =
     Some ((case old of None \<Rightarrow> newCondition ty | Some c \<Rightarrow> c)
       \<lparr>cond_Status := st, cond_Message := msg\<rparr>)"

definition clearCond :: "Condition option \<Rightarrow> Condition option" where
  "clearCond old = map_option (\<lambda>c. c\<lparr>cond_Status := ConditionFalse, cond_Message := None\<rparr>) old"

definition is_terminal :: "Ext \<Rightarrow> goerror option \<Rightarrow> bool" where
  "is_terminal X err \<longleftrightarrow> terminalAWSError X err \<or> ownTerminal X err"

lemma newCondition_type [simp]: "cond_Type (newCondition ty) = ty"
  by (simp add: newCondition_def)

lemma mark_step:
  assumes "orAppend ty (lastIdx ty cs) cs = (ds, t)"
  shows "cond_of ty' (setCond t st msg ds) =
      (if ty' = ty then markCond st msg ty (cond_of ty cs) else cond_of ty' cs)"
    and "ty' \<noteq> ty \<Longrightarrow> lastIdx ty' (setCond t st msg ds) = lastIdx ty' cs"
    and "distinct (map cond_Type cs) \<Longrightarrow> distinct (map cond_Type (setCond t st msg ds))"
proof -
  show "cond_of ty' (setCond t st msg ds) =
      (if ty' = ty then markCond st msg ty (cond_of ty cs) else cond_of ty' cs)"
  proof (cases "lastIdx ty cs")
    case None
    with assms have "ds = cs @ [newCondition ty]" and "t = length cs"
      by (auto simp: orAppend_def)
    moreover have "setCond (length cs) st msg (cs @ [newCondition ty]) =
        cs @ [(newCondition ty)\<lparr>cond_Status := st, cond_Message := msg\<rparr>]"
      by (simp add: setCond_def)
    ultimately show ?thesis using None
      by (auto simp: lastIdx_None_iff markCond_def)
  next
    case (Some i)
    with assms have "ds = cs" and "t = i" by (auto simp: orAppend_def)
    with Some show ?thesis
      by (cases "cond_of ty cs") (auto simp: cond_of_setCond lastIdx_None_iff [symmetric] markCond_def)
  qed
  show "lastIdx ty' (setCond t st msg ds) = lastIdx ty' cs" if "ty' \<noteq> ty"
    using assms that by (auto simp: orAppend_def split: option.splits)
  show "distinct (map cond_Type (setCond t st msg ds))" if "distinct (map cond_Type cs)"
  proof (cases "lastIdx ty cs")
    case None
    then have "ty \<notin> cond_Type ` set cs"
      by (auto simp: lastIdx_None_iff cond_of_def find_None_iff)
    with None assms that show ?thesis by (auto simp: orAppend_def)
  qed (use assms that in \<open>auto simp: orAppend_def\<close>)
qed

lemma clear_step:
  fixes cs ty
  defines "ds \<equiv> (case lastIdx ty cs of None \<Rightarrow> cs | Some t \<Rightarrow> setCond t ConditionFalse None cs)"
  shows "cond_of ty' ds = (if ty' = ty then clearCond (cond_of ty cs) else cond_of ty' cs)"
    and "lastIdx ty' ds = lastIdx ty' cs"
    and "map cond_Type ds = map cond_Type cs"
  unfolding ds_def
  by (auto simp: cond_of_setCond clearCond_def lastIdx_None_iff split: option.splits)

lemma those_map_Some [simp]: "those (map Some xs) = Some xs"
  by (induction xs) auto

lemma those_no_None: "None \<notin> set xs \<Longrightarrow> those xs = Some (map the xs)"
proof (induction xs)
  case (Cons x xs)
  then show ?case by (cases x) auto
qed simp

lemma condList_setStatusDefaults [simp]: "condList (setStatusDefaults rm ko) = condList ko"
  by (auto simp: condList_def setStatusDefaults_def Let_def split: option.splits)

lemma those_conditions:
  "no_nil_condition ko \<Longrightarrow>
   those (elems (st_Conditions (ko_Status (setStatusDefaults rm ko)))) = Some (condList ko)"
  using condList_setStatusDefaults [of rm ko]
  by (auto simp: no_nil_condition_def condList_def setStatusDefaults_def Let_def elems_def
      those_no_None split: option.splits)

lemma terminalMessage_Some:
  assumes "err_laws X" and "is_terminal X err"
  obtains e msg where "err = Some e" and "terminalMessage X err = Some msg"
proof (cases err)
  case None
  then show ?thesis using assms(2)
    by (simp add: is_terminal_def terminalAWSError_def ownTerminal_def)
next
  case (Some e)
  show ?thesis
  proof (cases "ownTerminal X err")
    case True
    then show ?thesis using that [OF Some, of "Error_text X e"] Some
      by (simp add: terminalMessage_def)
  next
    case False
    then have "as_APIErrorCode X e \<noteq> None"
      using assms(2) Some by (auto simp: is_terminal_def terminalAWSError_def split: option.splits)
    then obtain a where "ackerr_AWSError X e = Some a"
      using assms(1) unfolding err_laws_def by blast
    then show ?thesis using that [OF Some, of "Error_text X a"] False Some
      by (simp add: terminalMessage_def)
  qed
qed

text \<open>The list of conditions \<open>updateConditions\<close> ends with, and the three pointers it holds then.\<close>

definition conds_main :: "Ext \<Rightarrow> goerror option \<Rightarrow> Condition list \<Rightarrow> Condition list" where
  "conds_main X err cs =
     (if is_terminal X err
      then (let (ds, t) = orAppend ConditionTypeTerminal (lastIdx ConditionTypeTerminal cs) cs
            in setCond t ConditionTrue (terminalMessage X err) ds)
      else (let ds = (case lastIdx ConditionTypeTerminal cs of
                        None \<Rightarrow> cs | Some t \<Rightarrow> setCond t ConditionFalse None cs)
            in case err of
                 Some e \<Rightarrow> (let (es, q) = orAppend ConditionTypeRecoverable
                               (lastIdx ConditionTypeRecoverable ds) ds
                           in setCond q ConditionTrue (Some (recoverableMessage X e)) es)
               | None \<Rightarrow> (case lastIdx ConditionTypeRecoverable ds of
                            None \<Rightarrow> ds | Some q \<Rightarrow> setCond q ConditionFalse None ds)))"

definition conds_after ::
  "Ext \<Rightarrow> bool \<Rightarrow> goerror option \<Rightarrow> Condition list \<Rightarrow> Condition list" where
  "conds_after X ok err cs =
     (if lastIdx ConditionTypeResourceSynced cs = None \<and> ok
      then conds_main X err cs @
        [(newCondition ConditionTypeResourceSynced)\<lparr>cond_Status := ConditionTrue\<rparr>]
      else conds_main X err cs)"

definition reported :: "Certificate \<Rightarrow> bool \<Rightarrow> goerror option \<Rightarrow> bool" where
  "reported ko ok err \<longleftrightarrow> err \<noteq> None \<or> ok \<or>
     condition ConditionTypeTerminal ko \<noteq> None \<or> condition ConditionTypeRecoverable ko \<noteq> None \<or>
     condition ConditionTypeResourceSynced ko \<noteq> None"

lemma updateConditions_run:
  assumes "err_laws X" and "no_nil_condition r"
  shows "updateConditions X rm r ok err =
    Some (if reported r ok err
          then (Some (onStatus (\<lambda>st. st\<lparr>st_Conditions :=
                  Some (map Some (conds_after X ok err (condList r)))\<rparr>)
                  (setStatusDefaults rm r)), True)
          else (None, False))"
proof -
  let ?cs = "condList r"
  have ls: "lastIdx ConditionTypeRecoverable (case lastIdx ConditionTypeTerminal ?cs of
      None \<Rightarrow> ?cs | Some t \<Rightarrow> setCond t ConditionFalse None ?cs) =
    lastIdx ConditionTypeRecoverable ?cs"
    by (rule clear_step(2))
  note defs = updateConditions_def Let_def those_conditions [OF assms(2)] scanConditions_lastIdx
    is_terminal_def [symmetric] conds_after_def conds_main_def reported_def condition_def
    lastIdx_None_iff [symmetric] ls
  show ?thesis
  proof (cases "is_terminal X err")
    case True
    from terminalMessage_Some [OF assms(1) True] obtain e msg where
      "err = Some e" and "terminalMessage X err = Some msg" .
    with True show ?thesis
      by (simp add: defs split: prod.split)
  next
    case False
    then show ?thesis
      by (cases err) (simp_all add: defs split: prod.split)
  qed
qed

lemma conds_main_view:
  "cond_of ty (conds_main X err cs) =
     (if is_terminal X err
      then (if ty = ConditionTypeTerminal
            then markCond ConditionTrue (terminalMessage X err) ty (cond_of ty cs)
            else cond_of ty cs)
      else if ty = ConditionTypeTerminal then clearCond (cond_of ty cs)
      else if ty = ConditionTypeRecoverable
      then (case err of
              Some e \<Rightarrow> markCond ConditionTrue (Some (recoverableMessage X e)) ty (cond_of ty cs)
            | None \<Rightarrow> clearCond (cond_of ty cs))
      else cond_of ty cs)"
proof (cases "is_terminal X err")
  case True
  then show ?thesis
    by (auto simp: conds_main_def mark_step(1) split: prod.split)
next
  case False
  let ?ds = "case lastIdx ConditionTypeTerminal cs of
      None \<Rightarrow> cs | Some t \<Rightarrow> setCond t ConditionFalse None cs"
  have ds: "cond_of ty ?ds =
      (if ty = ConditionTypeTerminal then clearCond (cond_of ty cs) else cond_of ty cs)" for ty
    using clear_step(1) [where ty = ConditionTypeTerminal and cs = cs and ty' = ty] by simp
  show ?thesis
  proof (cases err)
    case None
    with False ds show ?thesis
      using clear_step(1) [where ty = ConditionTypeRecoverable and cs = "?ds" and ty' = ty] by (simp add: conds_main_def Let_def)
  next
    case (Some e)
    obtain es q where o: "orAppend ConditionTypeRecoverable (lastIdx ConditionTypeRecoverable ?ds) ?ds = (es, q)"
      by fastforce
    with False Some ds mark_step(1) [OF o, of ty] show ?thesis
      by (simp add: conds_main_def Let_def)
  qed
qed

lemma conds_main_distinct:
  assumes "distinct (map cond_Type cs)"
  shows "distinct (map cond_Type (conds_main X err cs))"
proof (cases "is_terminal X err")
  case True
  then show ?thesis
    using assms mark_step(3) by (auto simp: conds_main_def split: prod.split)
next
  case False
  let ?ds = "case lastIdx ConditionTypeTerminal cs of
      None \<Rightarrow> cs | Some t \<Rightarrow> setCond t ConditionFalse None cs"
  have ds: "distinct (map cond_Type ?ds)"
    using assms clear_step(3) [where ty = ConditionTypeTerminal and cs = cs] by simp
  show ?thesis
  proof (cases err)
    case None
    with False ds show ?thesis
      using clear_step(3) [where ty = ConditionTypeRecoverable and cs = "?ds"] by (simp add: conds_main_def Let_def)
  next
    case (Some e)
    obtain es q where o: "orAppend ConditionTypeRecoverable (lastIdx ConditionTypeRecoverable ?ds) ?ds = (es, q)"
      by fastforce
    with False Some mark_step(3) [OF o ds] show ?thesis
      by (simp add: conds_main_def Let_def)
  qed
qed

lemma conds_after_view:
  "cond_of ty (conds_after X ok err cs) =
     (if ty = ConditionTypeResourceSynced \<and> cond_of ty cs = None \<and> ok
      then Some ((newCondition ty)\<lparr>cond_Status := ConditionTrue\<rparr>)
      else cond_of ty (conds_main X err cs))"
  by (auto simp: conds_after_def lastIdx_None_iff)

lemma conds_after_distinct:
  assumes "distinct (map cond_Type cs)"
  shows "distinct (map cond_Type (conds_after X ok err cs))"
proof (cases "lastIdx ConditionTypeResourceSynced cs = None \<and> ok")
  case True
  then have "cond_of ConditionTypeResourceSynced (conds_main X err cs) = None"
    by (simp add: conds_main_view lastIdx_None_iff)
  then have "ConditionTypeResourceSynced \<notin> cond_Type ` set (conds_main X err cs)"
    by (auto simp: cond_of_def find_None_iff)
  with True conds_main_distinct [OF assms] show ?thesis by (simp add: conds_after_def)
next
  case False
  then show ?thesis by (simp only: conds_after_def if_False conds_main_distinct [OF assms])
qed

section \<open>The state machine of the conditions\<close>

definition withConditions :: "Condition list \<Rightarrow> Certificate \<Rightarrow> Certificate" where
  "withConditions cs ko = onStatus (\<lambda>st. st\<lparr>st_Conditions := Some (map Some cs)\<rparr>) ko"

lemma condition_withConditions [simp]: "condition ty (withConditions cs ko) = cond_of ty cs"
  by (simp add: condition_def condList_def withConditions_def o_def)

lemma condList_withConditions [simp]: "condList (withConditions cs ko) = cs"
  by (simp add: condList_def withConditions_def o_def)

text \<open>
  C9. \<open>updateConditions\<close> reports the outcome of an operation. It never panics on conditions
  without nil. When it returns an object, that object is the given one with the status
  defaults, whose conditions are: Terminal is True with the error's message if the error is
  terminal, and otherwise cleared if present; Recoverable is True with the message of any
  other error, is cleared if present when there is no error, and is left as it was by a
  terminal error; ResourceSynced is added as True on success if there is none, and is never
  changed if there is one; all other conditions stay. No type gets a second condition.
\<close>

theorem updateConditions_spec:
  assumes "err_laws X" and "no_nil_condition r" and "reported r ok err"
  shows "\<exists>cs. updateConditions X rm r ok err =
      Some (Some (withConditions cs (setStatusDefaults rm r)), True) \<and>
    cond_of ConditionTypeTerminal cs =
      (if is_terminal X err
       then markCond ConditionTrue (terminalMessage X err) ConditionTypeTerminal
              (condition ConditionTypeTerminal r)
       else clearCond (condition ConditionTypeTerminal r)) \<and>
    cond_of ConditionTypeRecoverable cs =
      (if is_terminal X err then condition ConditionTypeRecoverable r
       else case err of
              Some e \<Rightarrow> markCond ConditionTrue (Some (recoverableMessage X e))
                         ConditionTypeRecoverable (condition ConditionTypeRecoverable r)
            | None \<Rightarrow> clearCond (condition ConditionTypeRecoverable r)) \<and>
    cond_of ConditionTypeResourceSynced cs =
      (if condition ConditionTypeResourceSynced r = None \<and> ok
       then Some ((newCondition ConditionTypeResourceSynced)\<lparr>cond_Status := ConditionTrue\<rparr>)
       else condition ConditionTypeResourceSynced r) \<and>
    (\<forall>ty. cond_of (ConditionTypeOther ty) cs = condition (ConditionTypeOther ty) r) \<and>
    (single_conditions r \<longrightarrow> distinct (map cond_Type cs))"
  using assms(3)
  by (intro exI [of _ "conds_after X ok err (condList r)"])
    (simp add: updateConditions_run [OF assms(1,2)] withConditions_def conds_after_view
      conds_main_view condition_def single_conditions_def conds_after_distinct
      split: option.split)

text \<open>A resource with a stale Terminal condition, and what the sample laws make of errors.\<close>

definition sampleFailed :: Certificate where
  "sampleFailed = withConditions
     [(newCondition ConditionTypeTerminal)\<lparr>cond_Status := ConditionTrue,
        cond_Message := Some ''bad''\<rparr>,
      (newCondition ConditionTypeResourceSynced)\<lparr>cond_Status := ConditionFalse\<rparr>]
     emptyCertificate"

lemma sampleFailed_ok: "no_nil_condition sampleFailed" "single_conditions sampleFailed"
  by (simp_all add: sampleFailed_def no_nil_condition_def withConditions_def
      single_conditions_def condList_def newCondition_def)

lemma sampleFailed_conditions:
  "condition ConditionTypeTerminal sampleFailed =
     Some ((newCondition ConditionTypeTerminal)\<lparr>cond_Status := ConditionTrue,
        cond_Message := Some ''bad''\<rparr>)"
  "condition ConditionTypeRecoverable sampleFailed = None"
  "condition ConditionTypeResourceSynced sampleFailed =
     Some ((newCondition ConditionTypeResourceSynced)\<lparr>cond_Status := ConditionFalse\<rparr>)"
  by (simp_all add: sampleFailed_def cond_of_def newCondition_def)

lemma sample_is_terminal:
  "is_terminal sampleExt (Some (APIError ''InvalidArnException'' m))"
  "\<not> is_terminal sampleExt (Some (APIError ''ThrottlingException'' m))"
  "\<not> is_terminal sampleExt None"
  by (simp_all add: is_terminal_def terminalAWSError_def ownTerminal_def sampleExt_def
      terminalCodes_def)

theorem updateConditions_spec_witness:
  "\<exists>cs. updateConditions sampleExt sampleManager sampleFailed False
       (Some (APIError ''ThrottlingException'' ''slow'')) =
      Some (Some (withConditions cs (setStatusDefaults sampleManager sampleFailed)), True) \<and>
    map_option cond_Status (cond_of ConditionTypeTerminal cs) = Some ConditionFalse \<and>
    map_option cond_Message (cond_of ConditionTypeRecoverable cs) =
      Some (Some ''ThrottlingException: slow'')"
proof -
  have "reported sampleFailed False (Some (APIError ''ThrottlingException'' ''slow''))"
    by (simp add: reported_def)
  from updateConditions_spec [OF sample_err sampleFailed_ok(1) this, of sampleManager]
  obtain cs where cs: "updateConditions sampleExt sampleManager sampleFailed False
       (Some (APIError ''ThrottlingException'' ''slow'')) =
      Some (Some (withConditions cs (setStatusDefaults sampleManager sampleFailed)), True)"
    and t: "cond_of ConditionTypeTerminal cs =
      clearCond (condition ConditionTypeTerminal sampleFailed)"
    and q: "cond_of ConditionTypeRecoverable cs = markCond ConditionTrue
      (Some (recoverableMessage sampleExt (APIError ''ThrottlingException'' ''slow'')))
      ConditionTypeRecoverable (condition ConditionTypeRecoverable sampleFailed)"
    by (auto simp: sample_is_terminal)
  from t q have "map_option cond_Status (cond_of ConditionTypeTerminal cs) = Some ConditionFalse"
    and "map_option cond_Message (cond_of ConditionTypeRecoverable cs) =
      Some (Some ''ThrottlingException: slow'')"
    by (simp_all add: sampleFailed_conditions clearCond_def markCond_def recoverableMessage_def
        sampleExt_def)
  with cs show ?thesis by blast
qed

lemma cond_of_member:
  assumes "distinct (map cond_Type cs)" and "c \<in> set cs"
  shows "cond_of (cond_Type c) cs = Some c"
  using assms
proof (induction cs rule: rev_induct)
  case (snoc d cs)
  then show ?case by (cases "c = d") force+
qed simp

lemma cond_of_in_set: "cond_of ty cs = Some c \<Longrightarrow> c \<in> set cs \<and> cond_Type c = ty"
  by (induction cs rule: rev_induct) (auto split: if_splits)

lemma terminal_True_iff:
  assumes "distinct (map cond_Type cs)"
  shows "list_ex (\<lambda>c. cond_Type c = ConditionTypeTerminal \<and> cond_Status c = ConditionTrue) cs \<longleftrightarrow>
    map_option cond_Status (cond_of ConditionTypeTerminal cs) = Some ConditionTrue"
  using cond_of_member [OF assms] cond_of_in_set [of ConditionTypeTerminal cs]
  unfolding list_ex_iff map_option_eq_Some by metis

lemma setStatusDefaults_frame [simp]:
  "ko_Spec (setStatusDefaults rm ko) = ko_Spec ko"
  "ko_ObjectMeta (setStatusDefaults rm ko) = ko_ObjectMeta ko"
  by (simp_all add: setStatusDefaults_def Let_def)

lemma withConditions_frame [simp]:
  "ko_Spec (withConditions cs ko) = ko_Spec ko"
  "ko_ObjectMeta (withConditions cs ko) = ko_ObjectMeta ko"
  "elems (st_Conditions (ko_Status (withConditions cs ko))) = map Some cs"
  by (simp_all add: withConditions_def)

lemma clearCond_not_True: "map_option cond_Status (clearCond c) \<noteq> Some ConditionTrue"
  by (cases c) (simp_all add: clearCond_def)

lemma markCond_status: "map_option cond_Status (markCond st msg ty c) = Some st"
  by (simp add: markCond_def)

lemma updateConditions_after:
  assumes "err_laws X" and "no_nil_condition ko" and "reported ko ok err"
  shows "updateConditions X rm ko ok err =
    Some (Some (withConditions (conds_after X ok err (condList ko)) (setStatusDefaults rm ko)), True)"
  using assms by (simp add: updateConditions_run withConditions_def)

text \<open>
  What a report keeps of the object it is made of: all but the conditions; the resource
  metadata takes the manager's account, partition and region where it had none.
\<close>

definition owned :: "'w resourceManager \<Rightarrow> ResourceMetadata option \<Rightarrow> ResourceMetadata" where
  "owned rm m =
     (let or = (\<lambda>a b. case a of None \<Rightarrow> Some b | Some x \<Rightarrow> Some x) in
      \<lparr>meta_ARN = Option.bind m meta_ARN,
       meta_OwnerAccountID = or (Option.bind m meta_OwnerAccountID) (rm_awsAccountID rm),
       meta_Region = or (Option.bind m meta_Region) (rm_awsRegion rm),
       meta_Partition = or (Option.bind m meta_Partition) (rm_awsPartition rm)\<rparr>)"

definition report_of :: "'w resourceManager \<Rightarrow> Certificate \<Rightarrow> Certificate \<Rightarrow> bool" where
  "report_of rm ko ko' \<longleftrightarrow>
     ko_ObjectMeta ko' = ko_ObjectMeta ko \<and> ko_Spec ko' = ko_Spec ko \<and>
     (\<exists>cs. ko_Status ko' = (ko_Status ko)\<lparr>
        st_ACKResourceMetadata := Some (owned rm (st_ACKResourceMetadata (ko_Status ko))),
        st_Conditions := cs\<rparr>)"

lemma report_of_spec: "report_of rm ko ko' \<Longrightarrow> ko_Spec ko' = ko_Spec ko"
  by (simp add: report_of_def)

lemma report_withConditions: "report_of rm ko (withConditions cs (setStatusDefaults rm ko))"
proof -
  let ?m = "st_ACKResourceMetadata (ko_Status ko)"
  have "st_ACKResourceMetadata (ko_Status (setStatusDefaults rm ko)) = Some (owned rm ?m)"
    by (cases ?m) (auto simp: setStatusDefaults_def owned_def emptyResourceMetadata_def Let_def
        split: option.split)
  then have "ko_Status (withConditions cs (setStatusDefaults rm ko)) = (ko_Status ko)\<lparr>
      st_ACKResourceMetadata := Some (owned rm ?m), st_Conditions := Some (map Some cs)\<rparr>"
    by (intro CertificateStatus.equality)
      (simp_all add: withConditions_def setStatusDefaults_def Let_def)
  then show ?thesis unfolding report_of_def by (auto simp: setStatusDefaults_def Let_def)
qed

lemma onError_reports:
  assumes "err_laws X" and "no_nil_condition ko" and "single_conditions ko"
  shows "\<exists>ko'. onError X rm (Some ko) (Some e) =
      Some (Some ko', Some (if is_terminal X (Some e) then TerminalSentinel else e)) \<and>
    report_of rm ko ko' \<and>
    (map_option cond_Status (condition ConditionTypeTerminal ko') = Some ConditionTrue \<longleftrightarrow>
       is_terminal X (Some e)) \<and>
    condition ConditionTypeResourceSynced ko' = condition ConditionTypeResourceSynced ko"
proof -
  let ?cs = "conds_after X False (Some e) (condList ko)"
  have "reported ko False (Some e)" by (simp add: reported_def)
  note run = updateConditions_after [OF assms(1,2) this, of rm]
  have dist: "distinct (map cond_Type ?cs)"
    using assms(3) unfolding single_conditions_def by (rule conds_after_distinct)
  have view: "map_option cond_Status (cond_of ConditionTypeTerminal ?cs) = Some ConditionTrue \<longleftrightarrow>
      is_terminal X (Some e)"
    by (simp add: conds_after_view conds_main_view clearCond_not_True markCond_status
        del: map_option_eq_Some)
  show ?thesis
    by (intro exI [of _ "withConditions ?cs (setStatusDefaults rm ko)"])
      (simp add: onError_def run report_withConditions terminal_True_iff [OF dist] view conds_after_view
        conds_main_view condition_def [of _ ko] clearCond_not_True markCond_status
        del: map_option_eq_Some)
qed

lemma onError_outcome:
  assumes "err_laws X" and "no_nil_condition ko" and "single_conditions ko"
  shows "\<exists>ko'. onError X rm (Some ko) (Some e) =
      Some (Some ko', Some (if is_terminal X (Some e) then TerminalSentinel else e)) \<and>
    ko_Spec ko' = ko_Spec ko \<and> ko_ObjectMeta ko' = ko_ObjectMeta ko \<and>
    (map_option cond_Status (condition ConditionTypeTerminal ko') = Some ConditionTrue \<longleftrightarrow>
       is_terminal X (Some e)) \<and>
    condition ConditionTypeResourceSynced ko' = condition ConditionTypeResourceSynced ko"
  using onError_reports [OF assms, of rm e] unfolding report_of_def by blast

text \<open>
  C33. \<open>onError\<close> gives the reconciler the terminal sentinel exactly when the error is terminal
  (one of the six AWS codes of \<open>terminalAWSError\<close>, a secret error, or an \<open>ackerr.TerminalError\<close>), and
  the unchanged error otherwise - also when the object carries a stale Terminal condition
  from an earlier run. The object it returns differs from the given one in the status only.
\<close>

theorem onError_spec:
  assumes "err_laws X" and "no_nil_condition ko" and "single_conditions ko"
  shows "\<exists>ko'. onError X rm (Some ko) (Some e) =
      Some (Some ko', Some (if is_terminal X (Some e) then TerminalSentinel else e)) \<and>
    ko_Spec ko' = ko_Spec ko \<and> ko_ObjectMeta ko' = ko_ObjectMeta ko \<and>
    (map_option cond_Status (condition ConditionTypeTerminal ko') = Some ConditionTrue \<longleftrightarrow>
       is_terminal X (Some e)) \<and>
    condition ConditionTypeResourceSynced ko' = condition ConditionTypeResourceSynced ko"
  using assms by (rule onError_outcome)

theorem onError_spec_witness:
  "(\<exists>ko'. onError sampleExt sampleManager (Some sampleFailed)
      (Some (APIError ''InvalidArnException'' ''x'')) = Some (Some ko', Some TerminalSentinel)) \<and>
   (\<exists>ko'. onError sampleExt sampleManager (Some sampleFailed)
      (Some (APIError ''ThrottlingException'' ''x'')) =
      Some (Some ko', Some (APIError ''ThrottlingException'' ''x'')))"
  using onError_spec [OF sample_err sampleFailed_ok,
      of sampleManager "APIError ''InvalidArnException'' ''x''"]
    onError_spec [OF sample_err sampleFailed_ok,
      of sampleManager "APIError ''ThrottlingException'' ''x''"]
  by (auto simp: sample_is_terminal)

lemma onSuccess_reports:
  assumes "err_laws X" and "no_nil_condition ko"
  shows "\<exists>ko'. onSuccess X rm (Some ko) = Some (Some ko', None) \<and>
    report_of rm ko ko' \<and>
    map_option cond_Status (condition ConditionTypeTerminal ko') \<noteq> Some ConditionTrue \<and>
    map_option cond_Status (condition ConditionTypeRecoverable ko') \<noteq> Some ConditionTrue \<and>
    condition ConditionTypeResourceSynced ko' =
      (case condition ConditionTypeResourceSynced ko of
         Some c \<Rightarrow> Some c
       | None \<Rightarrow> Some ((newCondition ConditionTypeResourceSynced)\<lparr>cond_Status := ConditionTrue\<rparr>))"
proof -
  let ?cs = "conds_after X True None (condList ko)"
  have "reported ko True None" by (simp add: reported_def)
  note run = updateConditions_after [OF assms this, of rm]
  have "\<not> is_terminal X None"
    by (simp add: is_terminal_def terminalAWSError_def ownTerminal_def)
  then show ?thesis
    by (intro exI [of _ "withConditions ?cs (setStatusDefaults rm ko)"])
      (simp add: onSuccess_def run report_withConditions conds_after_view conds_main_view clearCond_not_True
        condition_def [of _ ko] del: map_option_eq_Some split: option.split)
qed

lemma onSuccess_outcome:
  assumes "err_laws X" and "no_nil_condition ko"
  shows "\<exists>ko'. onSuccess X rm (Some ko) = Some (Some ko', None) \<and>
    ko_Spec ko' = ko_Spec ko \<and> ko_ObjectMeta ko' = ko_ObjectMeta ko \<and>
    map_option cond_Status (condition ConditionTypeTerminal ko') \<noteq> Some ConditionTrue \<and>
    map_option cond_Status (condition ConditionTypeRecoverable ko') \<noteq> Some ConditionTrue \<and>
    condition ConditionTypeResourceSynced ko' =
      (case condition ConditionTypeResourceSynced ko of
         Some c \<Rightarrow> Some c
       | None \<Rightarrow> Some ((newCondition ConditionTypeResourceSynced)\<lparr>cond_Status := ConditionTrue\<rparr>))"
  using onSuccess_reports [OF assms, of rm] unfolding report_of_def by blast

text \<open>
  \<open>onSuccess\<close> returns no error, and an object that differs from the given one in the status
  only: it is neither Terminal nor Recoverable any more, and it has a ResourceSynced
  condition, which is the one it had, or True if it had none.
\<close>

theorem onSuccess_spec:
  assumes "err_laws X" and "no_nil_condition ko"
  shows "\<exists>ko'. onSuccess X rm (Some ko) = Some (Some ko', None) \<and>
    ko_Spec ko' = ko_Spec ko \<and> ko_ObjectMeta ko' = ko_ObjectMeta ko \<and>
    map_option cond_Status (condition ConditionTypeTerminal ko') \<noteq> Some ConditionTrue \<and>
    map_option cond_Status (condition ConditionTypeRecoverable ko') \<noteq> Some ConditionTrue \<and>
    condition ConditionTypeResourceSynced ko' =
      (case condition ConditionTypeResourceSynced ko of
         Some c \<Rightarrow> Some c
       | None \<Rightarrow> Some ((newCondition ConditionTypeResourceSynced)\<lparr>cond_Status := ConditionTrue\<rparr>))"
  using assms by (rule onSuccess_outcome)

theorem onSuccess_spec_witness:
  "\<exists>ko'. onSuccess sampleExt sampleManager (Some sampleFailed) = Some (Some ko', None) \<and>
     map_option cond_Status (condition ConditionTypeTerminal ko') \<noteq> Some ConditionTrue \<and>
     map_option cond_Status (condition ConditionTypeResourceSynced ko') = Some ConditionFalse"
  using onSuccess_spec [OF sample_err sampleFailed_ok(1), of sampleManager]
  by (auto simp: sampleFailed_conditions)

end
