(* ===== verification/DeltaCompare.thy ===== *)
theory DeltaCompare
  imports TagMaps Conditions
begin

text \<open>
  \<open>delta.go\<close> and the comparison hooks of \<open>hooks.go\<close>: which differences between the desired
  and the latest resource the reconciler sees. A Delta is the list of the \<open>Add\<close> calls, in
  order. The specification is \<open>in_sync\<close>: the delta is empty exactly when the two resources
  agree on what the controller manages. The second part reads the delta the way \<open>sdkUpdate\<close>
  does, through \<open>DifferentAt\<close> and \<open>DifferentExcept\<close>.
\<close>

section \<open>hooks.go\<close>

definition normalizeKeyAlgorithm :: "string \<Rightarrow> string" where
  "normalizeKeyAlgorithm algorithm = ReplaceAllChar algorithm (CHR ''-'') (CHR ''_'')"

definition compareKeyAlgorithm :: "Certificate \<Rightarrow> Certificate \<Rightarrow> Delta \<Rightarrow> Delta" where
  "compareKeyAlgorithm a b delta =
     (case (spec_KeyAlgorithm (ko_Spec a), spec_KeyAlgorithm (ko_Spec b)) of
        (Some ka, Some kb) \<Rightarrow>
          if normalizeKeyAlgorithm ka \<noteq> normalizeKeyAlgorithm kb
          then delta @ [(''Spec.KeyAlgorithm'', VString (Some ka), VString (Some kb))]
          else delta
      | _ \<Rightarrow> delta)"

definition compareCertificateIssuedAt :: "Certificate \<Rightarrow> Certificate \<Rightarrow> Delta \<Rightarrow> Delta" where
  "compareCertificateIssuedAt a b delta =
     (if spec_ExportTo (ko_Spec a) \<noteq> None then
        let sa = ko_Status a; sb = ko_Status b;
            delta = (if st_IssuedAt sa = None \<and> st_Status sb = Some ''ISSUED''
                     then delta @ [(''Spec.Status.IssuedAt'', VTime (st_IssuedAt sa),
                                    VTime (st_IssuedAt sb))]
                     else delta)
        in (case (st_Serial sa, st_Serial sb) of
              (Some x, Some y) \<Rightarrow>
                if x \<noteq> y
                then delta @ [(''Spec.Status.Serial'', VString (Some x), VString (Some y))]
                else delta
            | _ \<Rightarrow> delta)
      else delta)"

section \<open>delta.go\<close>

text \<open>The block the code repeats for every field that is a pointer to a string.\<close>

definition compareStringField ::
  "Ext \<Rightarrow> string \<Rightarrow> string option \<Rightarrow> string option \<Rightarrow> Delta \<Rightarrow> Delta" where
  "compareStringField X path a b delta =
     (if HasNilDifference_string X a b then delta @ [(path, VString a, VString b)]
      else (case (a, b) of
              (Some x, Some y) \<Rightarrow> if x \<noteq> y then delta @ [(path, VString a, VString b)] else delta
            | _ \<Rightarrow> delta))"

definition compareOptions ::
  "Ext \<Rightarrow> CertificateOptions option \<Rightarrow> CertificateOptions option \<Rightarrow> Delta \<Rightarrow> Delta" where
  "compareOptions X a b delta =
     (if HasNilDifference_options X a b
      then delta @ [(''Spec.Options'', VOptions a, VOptions b)]
      else (case (a, b) of
              (Some x, Some y) \<Rightarrow>
                compareStringField X ''Spec.Options.Export'' (opts_Export x) (opts_Export y)
                 (compareStringField X ''Spec.Options.CertificateTransparencyLoggingPreference''
                   (opts_CertificateTransparencyLoggingPreference x)
                   (opts_CertificateTransparencyLoggingPreference y) delta)
            | _ \<Rightarrow> delta))"

definition newResourceDelta ::
  "Ext \<Rightarrow> Certificate option \<Rightarrow> Certificate option \<Rightarrow> Delta option" where
  "newResourceDelta X a b =
     (case (a, b) of
        (None, None) \<Rightarrow> None
      | (Some ako, Some bko) \<Rightarrow>
          do {
            let asp = ko_Spec ako;
            let bsp = ko_Spec bko;
            let delta = compareCertificateIssuedAt ako bko [];
            let delta = compareKeyAlgorithm ako bko delta;
            let delta = compareStringField X ''Spec.CertificateARN''
              (spec_CertificateARN asp) (spec_CertificateARN bsp) delta;
            let delta = compareStringField X ''Spec.CertificateAuthorityARN''
              (spec_CertificateAuthorityARN asp) (spec_CertificateAuthorityARN bsp) delta;
            let delta =
              (if \<not> DeepEqual_ref X (spec_CertificateAuthorityRef asp)
                    (spec_CertificateAuthorityRef bsp)
               then delta @ [(''Spec.CertificateAuthorityRef'',
                  VRef (spec_CertificateAuthorityRef asp), VRef (spec_CertificateAuthorityRef bsp))]
               else delta);
            let delta = compareStringField X ''Spec.DomainName''
              (spec_DomainName asp) (spec_DomainName bsp) delta;
            let delta = compareOptions X (spec_Options asp) (spec_Options bsp) delta;
            (desiredACKTags, _) \<leftarrow> convertToOrderedACKTags (spec_Tags asp);
            (latestACKTags, _) \<leftarrow> convertToOrderedACKTags (spec_Tags bsp);
            Some (if \<not> MapStringStringEqual X desiredACKTags latestACKTags
                  then delta @ [(''Spec.Tags'', VTags (spec_Tags asp), VTags (spec_Tags bsp))]
                  else delta)
          }
      | _ \<Rightarrow> Some [('''', VResource a, VResource b)])"

section \<open>What a difference is\<close>

text \<open>
  A field of \<open>Spec\<close> set to the empty string is a value the API server does not store for an
  absent field; whether \<open>HasNilDifference\<close> tells it from nil is left open.
\<close>

definition nonempty :: "string option \<Rightarrow> bool" where
  "nonempty a \<longleftrightarrow> a \<noteq> Some []"

definition comparable :: "Certificate \<Rightarrow> bool" where
  "comparable ko \<longleftrightarrow>
     nonempty (spec_CertificateARN (ko_Spec ko)) \<and>
     nonempty (spec_CertificateAuthorityARN (ko_Spec ko)) \<and>
     nonempty (spec_DomainName (ko_Spec ko)) \<and>
     (case spec_Options (ko_Spec ko) of None \<Rightarrow> True
      | Some opts \<Rightarrow> nonempty (opts_Export opts) \<and>
          nonempty (opts_CertificateTransparencyLoggingPreference opts)) \<and>
     no_nil_tag (specTags ko)"

definition awaits_export :: "Certificate \<Rightarrow> Certificate \<Rightarrow> bool" where
  "awaits_export a b \<longleftrightarrow> spec_ExportTo (ko_Spec a) \<noteq> None \<and>
     st_IssuedAt (ko_Status a) = None \<and> st_Status (ko_Status b) = Some ''ISSUED''"

definition both_differ :: "string option \<Rightarrow> string option \<Rightarrow> bool" where
  "both_differ a b \<longleftrightarrow> a \<noteq> None \<and> b \<noteq> None \<and> a \<noteq> b"

definition renewed :: "Certificate \<Rightarrow> Certificate \<Rightarrow> bool" where
  "renewed a b \<longleftrightarrow> spec_ExportTo (ko_Spec a) \<noteq> None \<and>
     both_differ (st_Serial (ko_Status a)) (st_Serial (ko_Status b))"

definition same_key :: "Certificate \<Rightarrow> Certificate \<Rightarrow> bool" where
  "same_key a b \<longleftrightarrow> \<not> both_differ
     (map_option normalizeKeyAlgorithm (spec_KeyAlgorithm (ko_Spec a)))
     (map_option normalizeKeyAlgorithm (spec_KeyAlgorithm (ko_Spec b)))"

definition same_identity :: "Certificate \<Rightarrow> Certificate \<Rightarrow> bool" where
  "same_identity a b \<longleftrightarrow>
     spec_CertificateARN (ko_Spec a) = spec_CertificateARN (ko_Spec b) \<and>
     spec_CertificateAuthorityARN (ko_Spec a) = spec_CertificateAuthorityARN (ko_Spec b) \<and>
     spec_CertificateAuthorityRef (ko_Spec a) = spec_CertificateAuthorityRef (ko_Spec b) \<and>
     spec_DomainName (ko_Spec a) = spec_DomainName (ko_Spec b)"

text \<open>What \<open>HasNilDifference\<close> says of two option structs one of which is nil.\<close>

definition same_options :: "Ext \<Rightarrow> Certificate \<Rightarrow> Certificate \<Rightarrow> bool" where
  "same_options X a b \<longleftrightarrow>
     (case (spec_Options (ko_Spec a), spec_Options (ko_Spec b)) of
        (Some x, Some y) \<Rightarrow> x = y
      | (x, y) \<Rightarrow> \<not> HasNilDifference_options X x y)"

definition same_tags :: "Certificate \<Rightarrow> Certificate \<Rightarrow> bool" where
  "same_tags a b \<longleftrightarrow> tag_view (specTags a) = tag_view (specTags b)"

definition in_sync :: "Ext \<Rightarrow> Certificate \<Rightarrow> Certificate \<Rightarrow> bool" where
  "in_sync X a b \<longleftrightarrow> \<not> awaits_export a b \<and> \<not> renewed a b \<and> same_key a b \<and> same_identity a b \<and>
     same_options X a b \<and> same_tags a b"

text \<open>
  The same for any two resources, whatever strings they hold. A string is read as absent when
  it is nil, and when it is empty and the comparison takes the empty string for nil; two fields
  agree when they read the same.
\<close>

definition as_read :: "Ext \<Rightarrow> string option \<Rightarrow> string option" where
  "as_read X a = (if a = Some [] \<and> \<not> HasNilDifference_string X None a then None else a)"

definition read_options ::
  "Ext \<Rightarrow> CertificateOptions option \<Rightarrow> (string option \<times> string option) option" where
  "read_options X = map_option (\<lambda>opts.
     (as_read X (opts_Export opts),
      as_read X (opts_CertificateTransparencyLoggingPreference opts)))"

definition agree_identity :: "Ext \<Rightarrow> Certificate \<Rightarrow> Certificate \<Rightarrow> bool" where
  "agree_identity X a b \<longleftrightarrow>
     as_read X (spec_CertificateARN (ko_Spec a)) = as_read X (spec_CertificateARN (ko_Spec b)) \<and>
     as_read X (spec_CertificateAuthorityARN (ko_Spec a)) =
       as_read X (spec_CertificateAuthorityARN (ko_Spec b)) \<and>
     spec_CertificateAuthorityRef (ko_Spec a) = spec_CertificateAuthorityRef (ko_Spec b) \<and>
     as_read X (spec_DomainName (ko_Spec a)) = as_read X (spec_DomainName (ko_Spec b))"

definition agree_options :: "Ext \<Rightarrow> Certificate \<Rightarrow> Certificate \<Rightarrow> bool" where
  "agree_options X a b \<longleftrightarrow>
     read_options X (spec_Options (ko_Spec a)) = read_options X (spec_Options (ko_Spec b))"

definition agree :: "Ext \<Rightarrow> Certificate \<Rightarrow> Certificate \<Rightarrow> bool" where
  "agree X a b \<longleftrightarrow> \<not> awaits_export a b \<and> \<not> renewed a b \<and> same_key a b \<and>
     agree_identity X a b \<and> agree_options X a b \<and> same_tags a b"

section \<open>The delta, entry by entry\<close>

definition entry_if :: "bool \<Rightarrow> string \<Rightarrow> delta_value \<Rightarrow> delta_value \<Rightarrow> Delta" where
  "entry_if c p x y = (if c then [(p, x, y)] else [])"

lemma entry_if_simps [simp]:
  "entry_if c p x y = [] \<longleftrightarrow> \<not> c"
  "list_ex P (entry_if c p x y) \<longleftrightarrow> c \<and> P (p, x, y)"
  by (simp_all add: entry_if_def)

definition str_differs :: "Ext \<Rightarrow> string option \<Rightarrow> string option \<Rightarrow> bool" where
  "str_differs X a b \<longleftrightarrow> HasNilDifference_string X a b \<or> both_differ a b"

lemma compare_lawsD:
  assumes "compare_laws X"
  shows "HasNilDifference_string X a b \<Longrightarrow> (a = None) \<noteq> (b = None)"
    and "v \<noteq> [] \<Longrightarrow> HasNilDifference_string X (Some v) None"
    and "v \<noteq> [] \<Longrightarrow> HasNilDifference_string X None (Some v)"
    and "HasNilDifference_options X x y \<Longrightarrow> (x = None) \<noteq> (y = None)"
    and "DeepEqual_ref X r r' \<longleftrightarrow> r = r'"
    and "wf_map m \<Longrightarrow> wf_map n \<Longrightarrow> MapStringStringEqual X m n \<longleftrightarrow> map_of m = map_of n"
proof -
  note L = assms [unfolded compare_laws_def]
  note L1 = L [THEN conjunct2] and L2 = L [THEN conjunct2, THEN conjunct2]
  note L3 = L2 [THEN conjunct2]
  show "HasNilDifference_string X a b \<Longrightarrow> (a = None) \<noteq> (b = None)"
    by (rule L [THEN conjunct1, rule_format])
  show "v \<noteq> [] \<Longrightarrow> HasNilDifference_string X (Some v) None"
    by (rule L1 [THEN conjunct1, rule_format, THEN conjunct1])
  show "v \<noteq> [] \<Longrightarrow> HasNilDifference_string X None (Some v)"
    by (rule L1 [THEN conjunct1, rule_format, THEN conjunct2])
  show "HasNilDifference_options X x y \<Longrightarrow> (x = None) \<noteq> (y = None)"
    by (rule L2 [THEN conjunct1, rule_format])
  show "DeepEqual_ref X r r' \<longleftrightarrow> r = r'"
    by (rule L3 [THEN conjunct1, rule_format])
  show "wf_map m \<Longrightarrow> wf_map n \<Longrightarrow> MapStringStringEqual X m n \<longleftrightarrow> map_of m = map_of n"
    by (rule L3 [THEN conjunct2, rule_format])
qed

lemma str_differs_iff:
  assumes "compare_laws X" and "nonempty a" and "nonempty b"
  shows "str_differs X a b \<longleftrightarrow> a \<noteq> b"
  using compare_lawsD(1) [OF assms(1), of a b] compare_lawsD(2,3) [OF assms(1)] assms(2,3)
  by (cases a; cases b) (auto simp: str_differs_def both_differ_def nonempty_def)

lemma str_differs_refl [simp]: "compare_laws X \<Longrightarrow> \<not> str_differs X a a"
  using compare_lawsD(1) [of X a a] by (auto simp: str_differs_def both_differ_def)

lemma compareStringField_eq:
  "compareStringField X p a b d = d @ entry_if (str_differs X a b) p (VString a) (VString b)"
  by (cases a; cases b)
    (auto simp: compareStringField_def str_differs_def both_differ_def entry_if_def)

lemma compareKeyAlgorithm_eq:
  "compareKeyAlgorithm a b d = d @ entry_if (\<not> same_key a b) ''Spec.KeyAlgorithm''
     (VString (spec_KeyAlgorithm (ko_Spec a))) (VString (spec_KeyAlgorithm (ko_Spec b)))"
  by (auto simp: compareKeyAlgorithm_def same_key_def both_differ_def entry_if_def
      split: option.split)

lemma compareCertificateIssuedAt_eq:
  "compareCertificateIssuedAt a b d = d @
     entry_if (awaits_export a b) ''Spec.Status.IssuedAt'' (VTime (st_IssuedAt (ko_Status a)))
       (VTime (st_IssuedAt (ko_Status b))) @
     entry_if (renewed a b) ''Spec.Status.Serial'' (VString (st_Serial (ko_Status a)))
       (VString (st_Serial (ko_Status b)))"
  by (auto simp: compareCertificateIssuedAt_def awaits_export_def renewed_def both_differ_def
      entry_if_def Let_def split: option.split)

text \<open>The entries of the options: one for the struct, or one for each field.\<close>

definition options_entries ::
  "Ext \<Rightarrow> CertificateOptions option \<Rightarrow> CertificateOptions option \<Rightarrow> Delta" where
  "options_entries X a b = compareOptions X a b []"

lemma compareOptions_eq: "compareOptions X a b d = d @ options_entries X a b"
  by (simp add: compareOptions_def options_entries_def compareStringField_eq split: option.split)

lemma options_entries_paths:
  "e \<in> set (options_entries X a b) \<Longrightarrow> fst e \<in> {''Spec.Options'', ''Spec.Options.Export'',
     ''Spec.Options.CertificateTransparencyLoggingPreference''}"
  by (auto simp: options_entries_def compareOptions_def compareStringField_eq entry_if_def
      split: option.splits if_splits)

lemma options_entries_Nil:
  assumes "compare_laws X" and "comparable a" and "comparable b"
  shows "options_entries X (spec_Options (ko_Spec a)) (spec_Options (ko_Spec b)) = [] \<longleftrightarrow>
    same_options X a b"
  using compare_lawsD(4) [OF assms(1), of "spec_Options (ko_Spec a)" "spec_Options (ko_Spec b)"]
    assms(2,3)
  by (auto simp: options_entries_def compareOptions_def compareStringField_eq same_options_def
      comparable_def str_differs_iff [OF assms(1)] split: option.splits)

text \<open>No string is excluded: two fields differ exactly when they are read differently.\<close>

lemma str_differs_read:
  assumes "compare_laws X" and "nil_laws X"
  shows "str_differs X a b \<longleftrightarrow> as_read X a \<noteq> as_read X b"
proof -
  define e where "e = HasNilDifference_string X None (Some [])"
  have some: "HasNilDifference_string X (Some v) None \<longleftrightarrow> v \<noteq> [] \<or> e"
    "HasNilDifference_string X None (Some v) \<longleftrightarrow> v \<noteq> [] \<or> e" for v
    using assms(2) compare_lawsD(2,3) [OF assms(1), of v]
    by (cases "v = []"; simp add: nil_laws_def e_def)+
  have same: "\<not> HasNilDifference_string X a b" if "(a = None) = (b = None)" for a b
    using compare_lawsD(1) [OF assms(1)] that by blast
  show ?thesis
    by (cases a; cases b) (auto simp: str_differs_def both_differ_def as_read_def some same)
qed

lemma options_entries_agree:
  assumes "compare_laws X" and "nil_laws X"
  shows "options_entries X (spec_Options (ko_Spec a)) (spec_Options (ko_Spec b)) = [] \<longleftrightarrow>
    agree_options X a b"
proof -
  have "HasNilDifference_options X x y \<longleftrightarrow> (x = None) \<noteq> (y = None)" for x y
    using assms(2) by (simp add: nil_laws_def)
  then show ?thesis
    by (cases "spec_Options (ko_Spec a)"; cases "spec_Options (ko_Spec b)")
      (auto simp: options_entries_def compareOptions_def compareStringField_eq
        agree_options_def read_options_def str_differs_read [OF assms])
qed

lemma MapStringStringEqual_iff:
  assumes "compare_laws X" and "convertToOrderedACKTags a = Some (m, ks)"
    and "convertToOrderedACKTags b = Some (n, ls)"
  shows "MapStringStringEqual X m n \<longleftrightarrow> tag_view a = tag_view b"
proof -
  have "no_nil_tag a" and "no_nil_tag b"
    using assms(2,3) convert_panics [of a] convert_panics [of b] by simp_all
  from convert_hub [OF this(1)] convert_hub [OF this(2)] assms(2,3)
  have m: "wf_map m" "map_of m = tag_view a" "wf_map n" "map_of n = tag_view b"
    by auto
  then show ?thesis using compare_lawsD(6) [OF assms(1), of m n] by simp
qed

lemma newResourceDelta_eq:
  assumes "compare_laws X" and "no_nil_tag (specTags a)" and "no_nil_tag (specTags b)"
  shows "newResourceDelta X (Some a) (Some b) = Some (
    entry_if (awaits_export a b) ''Spec.Status.IssuedAt'' (VTime (st_IssuedAt (ko_Status a)))
      (VTime (st_IssuedAt (ko_Status b))) @
    entry_if (renewed a b) ''Spec.Status.Serial'' (VString (st_Serial (ko_Status a)))
      (VString (st_Serial (ko_Status b))) @
    entry_if (\<not> same_key a b) ''Spec.KeyAlgorithm''
      (VString (spec_KeyAlgorithm (ko_Spec a))) (VString (spec_KeyAlgorithm (ko_Spec b))) @
    entry_if (str_differs X (spec_CertificateARN (ko_Spec a)) (spec_CertificateARN (ko_Spec b)))
      ''Spec.CertificateARN'' (VString (spec_CertificateARN (ko_Spec a)))
      (VString (spec_CertificateARN (ko_Spec b))) @
    entry_if (str_differs X (spec_CertificateAuthorityARN (ko_Spec a))
        (spec_CertificateAuthorityARN (ko_Spec b)))
      ''Spec.CertificateAuthorityARN'' (VString (spec_CertificateAuthorityARN (ko_Spec a)))
      (VString (spec_CertificateAuthorityARN (ko_Spec b))) @
    entry_if (spec_CertificateAuthorityRef (ko_Spec a) \<noteq> spec_CertificateAuthorityRef (ko_Spec b))
      ''Spec.CertificateAuthorityRef'' (VRef (spec_CertificateAuthorityRef (ko_Spec a)))
      (VRef (spec_CertificateAuthorityRef (ko_Spec b))) @
    entry_if (str_differs X (spec_DomainName (ko_Spec a)) (spec_DomainName (ko_Spec b)))
      ''Spec.DomainName'' (VString (spec_DomainName (ko_Spec a)))
      (VString (spec_DomainName (ko_Spec b))) @
    options_entries X (spec_Options (ko_Spec a)) (spec_Options (ko_Spec b)) @
    entry_if (\<not> same_tags a b) ''Spec.Tags'' (VTags (specTags a)) (VTags (specTags b)))"
proof -
  note ref = compare_lawsD(5) [OF assms(1)]
  obtain m ks n ls where
    m: "convertToOrderedACKTags (specTags a) = Some (m, ks)"
    and n: "convertToOrderedACKTags (specTags b) = Some (n, ls)"
    using convert_hub [OF assms(2)] convert_hub [OF assms(3)] by blast
  note tags = MapStringStringEqual_iff [OF assms(1) m n]
  have deep: "(if x \<noteq> y then d @ [(p, u, v)] else d) = d @ entry_if (x \<noteq> y) p u v"
    for x y :: "AWSResourceReferenceWrapper option" and p u v and d :: Delta
    by (simp add: entry_if_def)
  have tagent: "(if \<not> c then d @ [(p, u, v)] else d) = d @ entry_if (\<not> c) p u v"
    for c p u v and d :: Delta
    by (simp add: entry_if_def)
  show ?thesis
    using m n
    by (simp add: newResourceDelta_def Let_def ref tags compareStringField_eq
        compareKeyAlgorithm_eq compareCertificateIssuedAt_eq compareOptions_eq deep tagent
        same_tags_def specTags_def)
qed

section \<open>Properties of the delta\<close>

lemma comparable_parts:
  assumes "comparable ko"
  shows "no_nil_tag (specTags ko)" and "nonempty (spec_CertificateARN (ko_Spec ko))"
    and "nonempty (spec_CertificateAuthorityARN (ko_Spec ko))"
    and "nonempty (spec_DomainName (ko_Spec ko))"
  using assms by (simp_all add: comparable_def)

lemma newResourceDelta_exact:
  assumes "compare_laws X" and "comparable a" and "comparable b"
  shows "\<exists>d. newResourceDelta X (Some a) (Some b) = Some d \<and> (d = [] \<longleftrightarrow> in_sync X a b)"
  by (auto simp: newResourceDelta_eq [OF assms(1)] comparable_parts [OF assms(2)]
      comparable_parts [OF assms(3)] options_entries_Nil [OF assms] str_differs_iff [OF assms(1)]
      in_sync_def same_identity_def)

text \<open>
  C4. \<open>newResourceDelta\<close> is exact: on two resources that exist and have no nil tag it returns,
  and the delta is empty if and only if the resources agree on everything the controller
  manages - the ARN, the CA's ARN and reference, the domain name, the two options (options set
  on one side only disagree), the tag map, the key algorithm up to the dash/underscore spelling
  (a nil one agrees with any), and no pending export. No value of a field is excluded: an empty
  string agrees with a nil one exactly when \<open>HasNilDifference\<close> takes it for nil.
\<close>

theorem newResourceDelta_in_sync:
  assumes "compare_laws X" and "nil_laws X"
    and "no_nil_tag (specTags a)" and "no_nil_tag (specTags b)"
  shows "\<exists>d. newResourceDelta X (Some a) (Some b) = Some d \<and> (d = [] \<longleftrightarrow> agree X a b)"
  by (auto simp: newResourceDelta_eq [OF assms(1,3,4)] options_entries_agree [OF assms(1,2)]
      str_differs_read [OF assms(1,2)] agree_def agree_identity_def)

definition sampleCert :: Certificate where
  "sampleCert = emptyCertificate\<lparr>ko_Spec := emptySpec\<lparr>
     spec_DomainName := Some ''example.com'', spec_KeyAlgorithm := Some ''RSA_2048'',
     spec_Tags := Some [mkTag ''env'' ''dev'']\<rparr>\<rparr>"

text \<open>The same certificate as ACM describes it: other spelling, other list, same tag map.\<close>

definition sampleObserved :: Certificate where
  "sampleObserved = onStatus (\<lambda>st. st\<lparr>st_Status := Some ''ISSUED''\<rparr>)
     (onSpec (\<lambda>sp. sp\<lparr>spec_KeyAlgorithm := Some ''RSA-2048'',
        spec_SubjectAlternativeNames := Some [Some ''example.com''],
        spec_Tags := Some [mkTag ''env'' ''test'', mkTag ''env'' ''dev'']\<rparr>) sampleCert)"

lemma sampleCerts_comparable: "comparable sampleCert" "comparable sampleObserved"
  by (simp_all add: comparable_def sampleCert_def sampleObserved_def nonempty_def specTags_def
      emptyCertificate_def emptySpec_def no_nil_tag_def mkTag_def)

lemma sampleCerts_in_sync: "in_sync sampleExt sampleCert sampleObserved"
proof -
  have "same_tags sampleCert sampleObserved"
    by (auto simp: same_tags_def tag_view_def specTags_def sampleCert_def sampleObserved_def
        mkTag_def)
  then show ?thesis
    by (simp add: in_sync_def awaits_export_def renewed_def same_key_def same_identity_def
        same_options_def both_differ_def sampleCert_def sampleObserved_def emptyCertificate_def
        emptySpec_def normalizeKeyAlgorithm_def ReplaceAllChar_def sampleExt_def)
qed

text \<open>It differs when the options are set on one side only.\<close>

definition sampleOptions :: Certificate where
  "sampleOptions = onSpec (\<lambda>sp. sp\<lparr>spec_Options := Some
     \<lparr>opts_CertificateTransparencyLoggingPreference = None, opts_Export = None\<rparr>\<rparr>) sampleCert"

lemma sampleCerts_agree:
  "agree sampleExt sampleCert sampleObserved" "\<not> agree sampleExt sampleOptions sampleObserved"
proof -
  have "same_tags sampleCert sampleObserved"
    using sampleCerts_in_sync by (simp add: in_sync_def)
  then show "agree sampleExt sampleCert sampleObserved"
    using sampleCerts_in_sync
    by (simp add: agree_def in_sync_def same_identity_def agree_identity_def agree_options_def
        read_options_def sampleCert_def sampleObserved_def emptyCertificate_def emptySpec_def)
  show "\<not> agree sampleExt sampleOptions sampleObserved"
    by (simp add: agree_def agree_options_def read_options_def sampleOptions_def sampleCert_def
        sampleObserved_def emptyCertificate_def emptySpec_def)
qed

lemma sampleCerts_tags:
  "no_nil_tag (specTags sampleCert)" "no_nil_tag (specTags sampleObserved)"
  "no_nil_tag (specTags sampleOptions)"
  using sampleCerts_comparable by (simp_all add: comparable_def sampleOptions_def specTags_def)

theorem newResourceDelta_in_sync_witness:
  "newResourceDelta sampleExt (Some sampleCert) (Some sampleObserved) = Some [] \<and>
   (\<exists>d. newResourceDelta sampleExt (Some sampleOptions) (Some sampleObserved) = Some d \<and> d \<noteq> [])"
  using newResourceDelta_in_sync [OF sample_compare sample_nil sampleCerts_tags(1,2)]
    newResourceDelta_in_sync [OF sample_compare sample_nil sampleCerts_tags(3,2)] sampleCerts_agree
  by auto

text \<open>Which of the tests of \<open>sdkUpdate\<close> the path of an entry answers.\<close>

lemma options_entries_ex:
  "(\<And>p. p \<in> {''Spec.Options'', ''Spec.Options.Export'',
      ''Spec.Options.CertificateTransparencyLoggingPreference''} \<Longrightarrow> P p) \<Longrightarrow>
   list_ex (\<lambda>e. P (fst e)) (options_entries X x y) \<longleftrightarrow> options_entries X x y \<noteq> []"
  unfolding list_ex_iff using options_entries_paths [of _ X x y]
  by (metis hd_in_set empty_iff empty_set)

lemma options_entries_not_ex:
  "(\<And>p. p \<in> {''Spec.Options'', ''Spec.Options.Export'',
      ''Spec.Options.CertificateTransparencyLoggingPreference''} \<Longrightarrow> \<not> P p) \<Longrightarrow>
   \<not> list_ex (\<lambda>e. P (fst e)) (options_entries X x y)"
  unfolding list_ex_iff using options_entries_paths [of _ X x y] by blast

lemma options_at:
  "list_ex (\<lambda>e. path_contains (fst e) ''Spec.Options'') (options_entries X x y) \<longleftrightarrow>
     options_entries X x y \<noteq> []"
  "list_ex (\<lambda>e. \<not> path_contains (fst e) ''Spec.Tags'') (options_entries X x y) \<longleftrightarrow>
     options_entries X x y \<noteq> []"
  "\<not> list_ex (\<lambda>e. path_contains (fst e) ''Spec.Tags'') (options_entries X x y)"
  "\<not> list_ex (\<lambda>e. path_contains (fst e) ''Spec.Status.IssuedAt'') (options_entries X x y)"
  "\<not> list_ex (\<lambda>e. path_contains (fst e) ''Spec.Status.Serial'') (options_entries X x y)"
  by (rule options_entries_ex [where P = "\<lambda>p. path_contains p ''Spec.Options''"]
        options_entries_ex [where P = "\<lambda>p. \<not> path_contains p ''Spec.Tags''"]
        options_entries_not_ex [where P = "\<lambda>p. path_contains p ''Spec.Tags''"]
        options_entries_not_ex [where P = "\<lambda>p. path_contains p ''Spec.Status.IssuedAt''"]
        options_entries_not_ex [where P = "\<lambda>p. path_contains p ''Spec.Status.Serial''"],
      (auto simp: path_contains_def)[1])+

lemma paths_at:
  "path_contains ''Spec.Status.IssuedAt'' ''Spec.Status.IssuedAt''"
  "path_contains ''Spec.Status.Serial'' ''Spec.Status.Serial''"
  "path_contains ''Spec.Tags'' ''Spec.Tags''"
  "p \<in> {''Spec.Status.Serial'', ''Spec.KeyAlgorithm'', ''Spec.CertificateARN'',
     ''Spec.CertificateAuthorityARN'', ''Spec.CertificateAuthorityRef'', ''Spec.DomainName'',
     ''Spec.Tags''} \<Longrightarrow> \<not> path_contains p ''Spec.Status.IssuedAt''"
  "p \<in> {''Spec.Status.IssuedAt'', ''Spec.KeyAlgorithm'', ''Spec.CertificateARN'',
     ''Spec.CertificateAuthorityARN'', ''Spec.CertificateAuthorityRef'', ''Spec.DomainName'',
     ''Spec.Tags''} \<Longrightarrow> \<not> path_contains p ''Spec.Status.Serial''"
  "p \<in> {''Spec.Status.IssuedAt'', ''Spec.Status.Serial'', ''Spec.KeyAlgorithm'',
     ''Spec.CertificateARN'', ''Spec.CertificateAuthorityARN'', ''Spec.CertificateAuthorityRef'',
     ''Spec.DomainName''} \<Longrightarrow> \<not> path_contains p ''Spec.Tags''"
  "p \<in> {''Spec.Status.IssuedAt'', ''Spec.Status.Serial'', ''Spec.KeyAlgorithm'',
     ''Spec.CertificateARN'', ''Spec.CertificateAuthorityARN'', ''Spec.CertificateAuthorityRef'',
     ''Spec.DomainName'', ''Spec.Tags''} \<Longrightarrow> \<not> path_contains p ''Spec.Options''"
  unfolding path_contains_def by auto

lemma delta_answers:
  assumes "compare_laws X" and "delta_laws X" and "comparable a" and "comparable b"
  shows "\<exists>d. newResourceDelta X (Some a) (Some b) = Some d \<and>
    DifferentAt X d ''Spec.Status.IssuedAt'' = awaits_export a b \<and>
    DifferentAt X d ''Spec.Status.Serial'' = renewed a b \<and>
    DifferentAt X d ''Spec.Tags'' = (\<not> same_tags a b) \<and>
    DifferentAt X d ''Spec.Options'' = (\<not> same_options X a b) \<and>
    DifferentExcept X d ''Spec.Tags'' =
      (awaits_export a b \<or> renewed a b \<or> \<not> same_key a b \<or> \<not> same_identity a b \<or>
       \<not> same_options X a b)"
proof -
  have at: "DifferentAt X d p \<longleftrightarrow> list_ex (\<lambda>e. path_contains (fst e) p) d"
    and except: "DifferentExcept X d p \<longleftrightarrow> list_ex (\<lambda>e. \<not> path_contains (fst e) p) d" for d p
    using assms(2) unfolding delta_laws_def by blast+
  note parts = comparable_parts [OF assms(3)] comparable_parts [OF assms(4)]
  note differ = str_differs_iff [OF assms(1) parts(2,6)] str_differs_iff [OF assms(1) parts(3,7)]
    str_differs_iff [OF assms(1) parts(4,8)]
  note eq = newResourceDelta_eq [OF assms(1) parts(1,5), unfolded differ]
  show ?thesis
    unfolding eq at except
    by (intro exI conjI, rule refl)
      (simp_all add: options_at paths_at options_entries_Nil [OF assms(1,3,4)]
        same_identity_def del: split_path.simps, blast)
qed

lemma delta_reads:
  assumes "compare_laws X" and "nil_laws X" and "delta_laws X"
    and "no_nil_tag (specTags a)" and "no_nil_tag (specTags b)"
  shows "\<exists>d. newResourceDelta X (Some a) (Some b) = Some d \<and>
    DifferentAt X d ''Spec.Status.IssuedAt'' = awaits_export a b \<and>
    DifferentAt X d ''Spec.Status.Serial'' = renewed a b \<and>
    DifferentAt X d ''Spec.Tags'' = (\<not> same_tags a b) \<and>
    DifferentAt X d ''Spec.Options'' = (\<not> agree_options X a b) \<and>
    DifferentExcept X d ''Spec.Tags'' =
      (awaits_export a b \<or> renewed a b \<or> \<not> same_key a b \<or> \<not> agree_identity X a b \<or>
       \<not> agree_options X a b)"
proof -
  have at: "DifferentAt X d p \<longleftrightarrow> list_ex (\<lambda>e. path_contains (fst e) p) d"
    and except: "DifferentExcept X d p \<longleftrightarrow> list_ex (\<lambda>e. \<not> path_contains (fst e) p) d" for d p
    using assms(3) unfolding delta_laws_def by blast+
  note eq = newResourceDelta_eq [OF assms(1,4,5), unfolded str_differs_read [OF assms(1,2)]]
  show ?thesis
    unfolding eq at except
    by (intro exI conjI, rule refl)
      (simp_all add: options_at paths_at options_entries_agree [OF assms(1,2)]
        agree_identity_def del: split_path.simps, blast)
qed

text \<open>
  C30. The delta drives \<open>sdkUpdate\<close>: its tests on the delta mean what they are meant to mean, for
  any two resources without a nil tag. The two export paths stand for a certificate issued
  while the desired object has no issue time and for a changed serial number, both only with
  \<open>exportTo\<close>; \<open>Spec.Tags\<close> for different tag maps; \<open>Spec.Options\<close> for options set on one side only or
  with one of the two options different; and a difference other than the tags is a
  disagreement in one of the remaining parts. An empty string differs from a nil one exactly
  when \<open>HasNilDifference\<close> tells them apart.
\<close>

theorem delta_drives_update:
  assumes "compare_laws X" and "nil_laws X" and "delta_laws X"
    and "no_nil_tag (specTags a)" and "no_nil_tag (specTags b)"
  shows "\<exists>d. newResourceDelta X (Some a) (Some b) = Some d \<and>
    DifferentAt X d ''Spec.Status.IssuedAt'' = awaits_export a b \<and>
    DifferentAt X d ''Spec.Status.Serial'' = renewed a b \<and>
    DifferentAt X d ''Spec.Tags'' = (\<not> same_tags a b) \<and>
    DifferentAt X d ''Spec.Options'' = (\<not> agree_options X a b) \<and>
    DifferentExcept X d ''Spec.Tags'' =
      (awaits_export a b \<or> renewed a b \<or> \<not> same_key a b \<or> \<not> agree_identity X a b \<or>
       \<not> agree_options X a b)"
  using assms by (rule delta_reads)

text \<open>An exportable certificate that has been issued, with a tag and the options changed.\<close>

definition sampleWanted :: Certificate where
  "sampleWanted = onSpec (\<lambda>sp. sp\<lparr>spec_ExportTo :=
       Some \<lparr>skr_Name = ''tls'', skr_Namespace = [], skr_Key = ''tls.crt''\<rparr>,
     spec_Options := Some \<lparr>opts_CertificateTransparencyLoggingPreference = None,
       opts_Export = Some ''ENABLED''\<rparr>,
     spec_Tags := Some [mkTag ''env'' ''prod'']\<rparr>) sampleCert"

theorem delta_drives_update_witness:
  "\<exists>d. newResourceDelta sampleExt (Some sampleWanted) (Some sampleObserved) = Some d \<and>
     DifferentAt sampleExt d ''Spec.Status.IssuedAt'' \<and>
     \<not> DifferentAt sampleExt d ''Spec.Status.Serial'' \<and>
     DifferentAt sampleExt d ''Spec.Tags'' \<and> DifferentAt sampleExt d ''Spec.Options''"
proof -
  have "no_nil_tag (specTags sampleWanted)"
    by (simp add: sampleWanted_def specTags_def no_nil_tag_def mkTag_def)
  note wit = delta_drives_update [OF sample_compare sample_nil sample_delta this
      sampleCerts_tags(2)]
  have "awaits_export sampleWanted sampleObserved" and "\<not> renewed sampleWanted sampleObserved"
    by (simp_all add: awaits_export_def renewed_def both_differ_def sampleWanted_def sampleCert_def
        sampleObserved_def emptyCertificate_def emptyStatus_def)
  moreover have "tag_view (specTags sampleWanted) ''env'' \<noteq> tag_view (specTags sampleObserved) ''env''"
    by (simp add: tag_view_def specTags_def sampleWanted_def sampleObserved_def mkTag_def)
  then have "\<not> same_tags sampleWanted sampleObserved" by (auto simp: same_tags_def)
  moreover have "\<not> agree_options sampleExt sampleWanted sampleObserved"
    by (simp add: agree_options_def read_options_def sampleWanted_def sampleObserved_def
        sampleCert_def emptyCertificate_def emptySpec_def)
  ultimately show ?thesis using wit by auto
qed

text \<open>
  A resource has no difference from itself, whatever its fields hold, unless it asks for
  an export, has status ISSUED and has no issue time. This is the one state (an imported
  certificate with \<open>exportTo\<close>: ACM gives it no \<open>IssuedAt\<close>) in which the reconciler finds a
  difference again after every update.
\<close>

theorem delta_with_itself:
  assumes "compare_laws X" and "no_nil_tag (specTags a)"
  shows "\<exists>d. newResourceDelta X (Some a) (Some a) = Some d \<and> (d = [] \<longleftrightarrow> \<not> awaits_export a a)"
proof -
  have "options_entries X x x = []" for x
    using compare_lawsD(4) [OF assms(1), of x x]
    by (auto simp: options_entries_def compareOptions_def compareStringField_eq assms(1)
        split: option.split)
  then show ?thesis
    by (simp add: newResourceDelta_eq [OF assms(1,2,2)] assms(1) renewed_def same_key_def
        same_tags_def both_differ_def)
qed

theorem delta_with_itself_witness:
  "newResourceDelta sampleExt (Some sampleCert) (Some sampleCert) = Some [] \<and>
   (\<exists>d. newResourceDelta sampleExt
          (Some (onStatus (\<lambda>st. st\<lparr>st_Status := Some ''ISSUED''\<rparr>) sampleWanted))
          (Some (onStatus (\<lambda>st. st\<lparr>st_Status := Some ''ISSUED''\<rparr>) sampleWanted)) = Some d \<and>
        d \<noteq> [])"
proof -
  let ?w = "onStatus (\<lambda>st. st\<lparr>st_Status := Some ''ISSUED''\<rparr>) sampleWanted"
  have "no_nil_tag (specTags sampleCert)" and "no_nil_tag (specTags ?w)"
    by (simp_all add: specTags_def sampleWanted_def sampleCert_def no_nil_tag_def mkTag_def)
  from delta_with_itself [OF sample_compare this(1)] delta_with_itself [OF sample_compare this(2)]
  show ?thesis
    by (simp add: awaits_export_def sampleWanted_def sampleCert_def emptyCertificate_def
        emptySpec_def emptyStatus_def)
qed

text \<open>
  The key algorithms the comparison takes for the same are those that differ only in the
  choice between dash and underscore, position by position: \<open>RSA-2048\<close> of the ACM answer and
  \<open>RSA_2048\<close> of the spec. The normal form has no dash and normalising twice changes nothing.
\<close>

theorem normalizeKeyAlgorithm_same:
  "(normalizeKeyAlgorithm x = normalizeKeyAlgorithm y \<longleftrightarrow>
     list_all2 (\<lambda>c d. c = d \<or> {c, d} \<subseteq> {CHR ''-'', CHR ''_''}) x y) \<and>
   CHR ''-'' \<notin> set (normalizeKeyAlgorithm x) \<and>
   normalizeKeyAlgorithm (normalizeKeyAlgorithm x) = normalizeKeyAlgorithm x"
proof (intro conjI)
  show "normalizeKeyAlgorithm x = normalizeKeyAlgorithm y \<longleftrightarrow>
     list_all2 (\<lambda>c d. c = d \<or> {c, d} \<subseteq> {CHR ''-'', CHR ''_''}) x y"
    unfolding normalizeKeyAlgorithm_def ReplaceAllChar_def
  proof (induction x arbitrary: y)
    case (Cons c x)
    then show ?case by (cases y) auto
  qed auto
qed (auto simp: normalizeKeyAlgorithm_def ReplaceAllChar_def)

text \<open>
  C34. No update is caused by the fields that are only used to create or to describe a
  certificate: changing, on either side, the metadata, the secrets to import from, the chain, the
  managing service, the validation options, the alternative names and every status field except
  the serial number, the issue time and the status does not change the delta - not one entry of
  it - nor whether the comparison panics.
\<close>

theorem newResourceDelta_ignores:
  assumes "\<And>ko. ko \<in> {a, b} \<Longrightarrow> st_IssuedAt (h ko) = st_IssuedAt (ko_Status ko) \<and>
      st_Status (h ko) = st_Status (ko_Status ko) \<and> st_Serial (h ko) = st_Serial (ko_Status ko)"
  shows "newResourceDelta X
    (Some \<lparr>ko_ObjectMeta = m a, ko_Spec = (ko_Spec a)\<lparr>spec_Certificate := p a, spec_PrivateKey := q a,
       spec_CertificateChain := r a, spec_ManagedBy := s a, spec_DomainValidationOptions := t a,
       spec_SubjectAlternativeNames := u a\<rparr>, ko_Status = h a\<rparr>)
    (Some \<lparr>ko_ObjectMeta = m b, ko_Spec = (ko_Spec b)\<lparr>spec_Certificate := p b, spec_PrivateKey := q b,
       spec_CertificateChain := r b, spec_ManagedBy := s b, spec_DomainValidationOptions := t b,
       spec_SubjectAlternativeNames := u b\<rparr>, ko_Status = h b\<rparr>) =
    newResourceDelta X (Some a) (Some b)"
proof -
  let ?A = "\<lambda>ko. \<lparr>ko_ObjectMeta = m ko, ko_Spec = (ko_Spec ko)\<lparr>spec_Certificate := p ko,
    spec_PrivateKey := q ko, spec_CertificateChain := r ko, spec_ManagedBy := s ko,
    spec_DomainValidationOptions := t ko, spec_SubjectAlternativeNames := u ko\<rparr>,
    ko_Status = h ko\<rparr>"
  have issued: "compareCertificateIssuedAt (?A a) (?A b) = compareCertificateIssuedAt a b"
    using assms [of a] assms [of b] by (intro ext) (auto simp: compareCertificateIssuedAt_def Let_def split: option.split)
  have key: "compareKeyAlgorithm (?A a) (?A b) = compareKeyAlgorithm a b"
    by (intro ext) (simp add: compareKeyAlgorithm_def)
  show ?thesis
    unfolding newResourceDelta_def prod.case option.case issued key Let_def by (simp cong: if_cong)
qed

theorem newResourceDelta_ignores_witness:
  "newResourceDelta sampleExt
    (Some \<lparr>ko_ObjectMeta = emptyObjectMeta, ko_Spec = (ko_Spec sampleCert)\<lparr>spec_Certificate := None,
       spec_PrivateKey := None, spec_CertificateChain := None, spec_ManagedBy := Some ''CLOUDFRONT'',
       spec_DomainValidationOptions := None, spec_SubjectAlternativeNames := Some []\<rparr>,
       ko_Status = (ko_Status sampleCert)\<lparr>st_Type := Some ''AMAZON_ISSUED''\<rparr>\<rparr>)
    (Some \<lparr>ko_ObjectMeta = emptyObjectMeta, ko_Spec = (ko_Spec sampleObserved)\<lparr>spec_Certificate := None,
       spec_PrivateKey := None, spec_CertificateChain := None, spec_ManagedBy := Some ''CLOUDFRONT'',
       spec_DomainValidationOptions := None, spec_SubjectAlternativeNames := Some []\<rparr>,
       ko_Status = (ko_Status sampleObserved)\<lparr>st_Type := Some ''AMAZON_ISSUED''\<rparr>\<rparr>) =
    newResourceDelta sampleExt (Some sampleCert) (Some sampleObserved)"
  by (rule newResourceDelta_ignores
      [where h = "\<lambda>ko. (ko_Status ko)\<lparr>st_Type := Some ''AMAZON_ISSUED''\<rparr>"
         and m = "\<lambda>_. emptyObjectMeta" and p = "\<lambda>_. None" and q = "\<lambda>_. None"
         and r = "\<lambda>_. None" and s = "\<lambda>_. Some ''CLOUDFRONT''" and t = "\<lambda>_. None"
         and u = "\<lambda>_. Some []" and a = sampleCert and b = sampleObserved]) simp

end
