(* ===== verification/TagSync.thy ===== *)
theory TagSync
  imports TagMaps SampleWorld
begin

text \<open>
  \<open>pkg/tags/sync.go\<close>: \<open>SyncTags\<close> compares the desired tags with the existing ones and calls
  the tag API of ACM, first to remove and then to add; \<open>ListTags\<close> reads the tags. The maps
  have pointers as values, which the code dereferences when it compares two values and when
  it logs a tag, so a nil value can panic; both dereferences are in the model.

  The abstract specification is one assignment: the tag store of the certificate becomes the
  desired map. \<open>SyncTags_store\<close> is the refinement.
\<close>

section \<open>sync.go\<close>

fun buildTagMap ::
  "Tag option list \<Rightarrow> (string, string option) gomap \<Rightarrow> (string, string option) gomap option"
  where
  "buildTagMap [] m = Some m"
| "buildTagMap (None # ts) m = None"
| "buildTagMap (Some t # ts) m =
     (case tag_Key t of None \<Rightarrow> None | Some k \<Rightarrow> buildTagMap ts (mput k (tag_Value t) m))"

fun toAddLoop ::
  "(string, string option) gomap \<Rightarrow> (string \<times> string option) list \<Rightarrow>
     (string, string option) gomap \<Rightarrow> (string, string option) gomap option" where
  "toAddLoop existing [] toAdd = Some toAdd"
| "toAddLoop existing ((k, v) # es) toAdd =
     (case map_of existing k of
        None \<Rightarrow> toAddLoop existing es (mput k v toAdd)
      | Some ev \<Rightarrow>
          (case (ev, v) of
             (Some ev', Some v') \<Rightarrow>
               if ev' \<noteq> v' then toAddLoop existing es (mput k v toAdd)
               else toAddLoop existing es toAdd
           | _ \<Rightarrow> None))"

fun toDeleteLoop ::
  "(string, string option) gomap \<Rightarrow> (string \<times> string option) list \<Rightarrow>
     (string, string option) gomap \<Rightarrow> (string, string option) gomap" where
  "toDeleteLoop desired [] toDelete = toDelete"
| "toDeleteLoop desired ((k, v) # es) toDelete =
     (case map_of desired k of
        None \<Rightarrow> toDeleteLoop desired es (mput k v toDelete)
      | Some _ \<Rightarrow> toDeleteLoop desired es toDelete)"

text \<open>The logging loops evaluate \<open>*v\<close> for every tag before the call.\<close>

fun logTags :: "(string \<times> string option) list \<Rightarrow> unit option" where
  "logTags [] = Some ()"
| "logTags ((k, None) # es) = None"
| "logTags ((k, Some v) # es) = logTags es"

definition sdkTagsOf :: "Ext \<Rightarrow> (string, string option) gomap \<Rightarrow> SdkTag list" where
  "sdkTagsOf X tags =
     map (\<lambda>(k, v). \<lparr>sdktag_Key = Some k, sdktag_Value = v\<rparr>) (range_ptrs X tags)"

definition addTags ::
  "Ext \<Rightarrow> 'w AcmClient \<Rightarrow> string \<Rightarrow> (string, string option) gomap \<Rightarrow>
     ('w sys, goerror option) prog" where
  "addTags X client resourceARN tags =
     (let input = \<lparr>ti_CertificateArn = resourceARN, ti_Tags = sdkTagsOf X tags\<rparr> in
      bindP (callP (EvAddTags input) (api_AddTagsToCertificate client input)) (\<lambda>err.
      bindP (emitP (RecordAPICall ''UPDATE'' ''AddTagsToCertificate'' err)) (\<lambda>_.
      retP err)))"

definition removeTags ::
  "Ext \<Rightarrow> 'w AcmClient \<Rightarrow> string \<Rightarrow> (string, string option) gomap \<Rightarrow>
     ('w sys, goerror option) prog" where
  "removeTags X client resourceARN tags =
     (let input = \<lparr>ti_CertificateArn = resourceARN, ti_Tags = sdkTagsOf X tags\<rparr> in
      bindP (callP (EvRemoveTags input) (api_RemoveTagsFromCertificate client input)) (\<lambda>err.
      bindP (emitP (RecordAPICall ''UPDATE'' ''RemoveTagsFromCertificate'' err)) (\<lambda>_.
      retP err)))"

definition SyncTags ::
  "Ext \<Rightarrow> 'w AcmClient \<Rightarrow> string \<Rightarrow> Tag option slice \<Rightarrow> Tag option slice \<Rightarrow>
     ('w sys, goerror option) prog" where
  "SyncTags X client resourceID aTags bTags =
     bindP (liftP (buildTagMap (elems aTags) [])) (\<lambda>desiredTags.
     bindP (liftP (buildTagMap (elems bTags) [])) (\<lambda>existingTags.
     bindP (liftP (toAddLoop existingTags (range_ptrs X desiredTags) [])) (\<lambda>toAdd.
     let toDelete = toDeleteLoop desiredTags (range_ptrs X existingTags) [] in
     bindP (if length toDelete > 0
            then bindP (liftP (logTags (range_ptrs X toDelete))) (\<lambda>_.
                 removeTags X client resourceID toDelete)
            else retP None) (\<lambda>err.
     if err \<noteq> None then retP err
     else if length toAdd > 0
     then bindP (liftP (logTags (range_ptrs X toAdd))) (\<lambda>_.
          addTags X client resourceID toAdd)
     else retP None))))"

definition resourceTagsFromSDKTags :: "SdkTag slice \<Rightarrow> Tag option slice" where
  "resourceTagsFromSDKTags svcTags =
     Some (map (\<lambda>t. Some \<lparr>tag_Key = sdktag_Key t, tag_Value = sdktag_Value t\<rparr>) (elems svcTags))"

definition ListTags ::
  "'w AcmClient \<Rightarrow> string \<Rightarrow> ('w sys, Tag option slice \<times> goerror option) prog" where
  "ListTags client resourceARN =
     bindP (callP (EvListTags resourceARN) (api_ListTagsForCertificate client resourceARN))
       (\<lambda>resp.
     bindP (emitP (RecordAPICall ''GET'' ''ListTagsForCertificate'' (error_of resp))) (\<lambda>_.
     case resp of
       Inl err \<Rightarrow> retP (None, Some err)
     | Inr out \<Rightarrow> retP (resourceTagsFromSDKTags out, None)))"

section \<open>What the loops compute\<close>

text \<open>Every tag is there and has a key and a value: what \<open>SyncTags\<close> needs not to panic.\<close>

definition tags_full :: "Tag option slice \<Rightarrow> bool" where
  "tags_full tags \<longleftrightarrow> list_all (\<lambda>t. case t of None \<Rightarrow> False
     | Some t \<Rightarrow> tag_Key t \<noteq> None \<and> tag_Value t \<noteq> None) (elems tags)"

lemma tags_normal_full: "tags_normal tags \<Longrightarrow> tags_full tags"
  by (simp add: tags_normal_def tags_full_def)

definition full_map :: "(string, string option) gomap \<Rightarrow> bool" where
  "full_map m \<longleftrightarrow> wf_map m \<and> (\<forall>k. map_of m k \<noteq> Some None)"

definition lookup_full :: "(string, string option) gomap \<Rightarrow> string \<Rightarrow> string option" where
  "lookup_full m k = (case map_of m k of None \<Rightarrow> None | Some v \<Rightarrow> v)"

lemma full_map_get: "full_map m \<Longrightarrow> map_of m k = map_option Some (lookup_full m k)"
  by (cases "map_of m k"; cases "the (map_of m k)") (auto simp: full_map_def lookup_full_def)

lemma map_option_Some_eq_iff [simp]: "map_option Some a = map_option Some b \<longleftrightarrow> a = b"
  by (cases a; cases b) auto

lemma lookup_fullI:
  assumes "\<And>k. map_of m k = map_option Some (f k)"
  shows "lookup_full m = f"
  by (rule ext) (simp add: lookup_full_def assms split: option.split)

lemma buildTagMap_eq:
  "list_all (\<lambda>t. case t of None \<Rightarrow> False
     | Some t \<Rightarrow> tag_Key t \<noteq> None \<and> tag_Value t \<noteq> None) ts \<Longrightarrow>
   buildTagMap ts m =
     Some (foldl (\<lambda>m (k, v). mput k v m) m (map (\<lambda>(k, v). (k, Some v)) (tag_pairs ts)))"
  by (induction ts m rule: buildTagMap.induct) (auto split: option.splits)

lemma buildTagMap_full:
  assumes "tags_full tags"
  obtains m where "buildTagMap (elems tags) [] = Some m" and "full_map m"
    and "lookup_full m = tag_view tags"
proof -
  let ?kvs = "map (\<lambda>(k, v). (k, Some v)) (tag_pairs (elems tags))"
  let ?m = "foldl (\<lambda>m (k, v). mput k v m) [] ?kvs"
  have "map_of (rev ?kvs) = map_option Some \<circ> tag_view tags"
    unfolding rev_map tag_view_def by (rule map_of_map)
  then have get: "map_of ?m k = map_option Some (tag_view tags k)" for k
    by (simp add: gm.get_put_all del: map_map rev_map)
  have wf: "wf_map ?m" by (simp add: gm.ok_put_all del: map_map)
  have full: "full_map ?m"
    unfolding full_map_def using wf get by (auto simp del: map_map)
  have look: "lookup_full ?m = tag_view tags"
    by (rule lookup_fullI) (rule get)
  show ?thesis
    by (rule that [OF _ full look]) (use assms buildTagMap_eq in \<open>auto simp: tags_full_def\<close>)
qed

lemma range_ptrs_set: "order_laws X \<Longrightarrow> set (range_ptrs X m) = set m"
  unfolding order_laws_def by (metis mset_eq_setD)

lemma toAddLoop_eq:
  "full_map existing \<Longrightarrow> set es \<subseteq> set desired \<Longrightarrow> full_map desired \<Longrightarrow>
   toAddLoop existing es acc =
     Some (foldl (\<lambda>m (k, v). if map_of existing k \<noteq> map_of desired k
                   then mput k (the (map_of desired k)) m else m) acc es)"
proof (induction es arbitrary: acc)
  case Nil
  then show ?case by simp
next
  case (Cons e es)
  obtain k v where e: "e = (k, v)" by (cases e)
  have d: "map_of desired k = Some v"
    using Cons.prems e by (auto simp: full_map_def wf_map_def)
  obtain v' where v: "v = Some v'"
    using d Cons.prems(3) by (cases v) (auto simp: full_map_def)
  have "map_of existing k \<noteq> Some None"
    using Cons.prems(1) by (simp add: full_map_def)
  then show ?case
    using Cons d v e by (auto split: option.splits)
qed

lemma toDeleteLoop_eq:
  "set es \<subseteq> set existing \<Longrightarrow> wf_map existing \<Longrightarrow>
   toDeleteLoop desired es acc =
     foldl (\<lambda>m (k, v). if map_of desired k = None
                   then mput k (the (map_of existing k)) m else m) acc es"
proof (induction es arbitrary: acc)
  case Nil
  then show ?case by simp
next
  case (Cons e es)
  obtain k v where e: "e = (k, v)" by (cases e)
  have "map_of existing k = Some v"
    using Cons.prems e by (auto simp: wf_map_def)
  then show ?case
    using Cons e by (auto split: option.splits)
qed

definition to_add :: "(string \<Rightarrow> string option) \<Rightarrow> (string \<Rightarrow> string option) \<Rightarrow> string \<Rightarrow> string option"
  where "to_add desired existing k = (if existing k \<noteq> desired k then desired k else None)"

definition to_delete :: "(string \<Rightarrow> string option) \<Rightarrow> (string \<Rightarrow> string option) \<Rightarrow> string \<Rightarrow> string option"
  where "to_delete desired existing k = (if desired k = None then existing k else None)"

lemma toAddLoop_full:
  assumes "order_laws X" and "full_map existing" and "full_map desired"
  obtains m where "toAddLoop existing (range_ptrs X desired) [] = Some m" and "full_map m"
    and "lookup_full m = to_add (lookup_full desired) (lookup_full existing)"
proof -
  let ?m = "foldl (\<lambda>m (k, v). if map_of existing k \<noteq> map_of desired k
      then mput k (the (map_of desired k)) m else m) [] (range_ptrs X desired)"
  have dom: "k \<in> fst ` set (range_ptrs X desired) \<longleftrightarrow> map_of desired k \<noteq> None" for k
    by (simp add: range_ptrs_set [OF assms(1)] map_of_eq_None_iff)
  have get: "map_of ?m k = (if map_of existing k \<noteq> map_of desired k then map_of desired k else None)"
    for k
    using gm.get_put_if [OF wf_map_Nil, of "\<lambda>k. map_of existing k \<noteq> map_of desired k"
        "\<lambda>k. the (map_of desired k)" "range_ptrs X desired"] dom [of k] by auto
  have wf: "wf_map ?m" by (rule gm.ok_put_if [OF wf_map_Nil])
  have full: "full_map ?m"
    unfolding full_map_def using wf get assms(3) by (auto simp: full_map_def)
  have look: "lookup_full ?m = to_add (lookup_full desired) (lookup_full existing)"
    by (rule lookup_fullI)
      (use get full_map_get [OF assms(2)] full_map_get [OF assms(3)] in
        \<open>simp add: to_add_def\<close>)
  show ?thesis
    by (rule that [OF _ full look])
      (rule toAddLoop_eq, use assms range_ptrs_set in \<open>auto\<close>)
qed

lemma toDeleteLoop_full:
  assumes "order_laws X" and "full_map existing" and "full_map desired"
  shows "full_map (toDeleteLoop desired (range_ptrs X existing) [])" (is "full_map ?m")
    and "lookup_full (toDeleteLoop desired (range_ptrs X existing) []) =
      to_delete (lookup_full desired) (lookup_full existing)"
proof -
  have eq: "?m = foldl (\<lambda>m (k, v). if map_of desired k = None
      then mput k (the (map_of existing k)) m else m) [] (range_ptrs X existing)"
    using assms by (intro toDeleteLoop_eq) (auto simp: range_ptrs_set full_map_def)
  have dom: "k \<in> fst ` set (range_ptrs X existing) \<longleftrightarrow> map_of existing k \<noteq> None" for k
    by (simp add: range_ptrs_set [OF assms(1)] map_of_eq_None_iff)
  have get: "map_of ?m k = (if map_of desired k = None then map_of existing k else None)" for k
    unfolding eq using gm.get_put_if [OF wf_map_Nil, of "\<lambda>k. map_of desired k = None"
        "\<lambda>k. the (map_of existing k)" "range_ptrs X existing"] dom [of k] by auto
  have wf: "wf_map ?m" unfolding eq by (rule gm.ok_put_if [OF wf_map_Nil])
  show "full_map ?m"
    unfolding full_map_def using wf get assms(2) by (auto simp: full_map_def)
  show "lookup_full ?m = to_delete (lookup_full desired) (lookup_full existing)"
    by (rule lookup_fullI)
      (use get full_map_get [OF assms(2)] full_map_get [OF assms(3)] in
        \<open>simp add: to_delete_def\<close>)
qed

lemma logTags_full:
  assumes "order_laws X" and "full_map m"
  shows "logTags (range_ptrs X m) = Some ()"
proof -
  have "v \<noteq> None" if "(k, v) \<in> set (range_ptrs X m)" for k v
    using assms that by (cases v) (auto simp: range_ptrs_set full_map_def wf_map_def)
  then have "list_all (\<lambda>e. snd e \<noteq> None) (range_ptrs X m)"
    by (auto simp: list_all_iff)
  moreover have "list_all (\<lambda>e. snd e \<noteq> None) es \<Longrightarrow> logTags es = Some ()" for es
    by (induction es rule: logTags.induct) auto
  ultimately show ?thesis by blast
qed

section \<open>The effect of a synchronisation\<close>

text \<open>The keys and values an input for the tag API names.\<close>

definition sdk_view :: "SdkTag list \<Rightarrow> string \<Rightarrow> string option" where
  "sdk_view ts = map_of (rev (map (\<lambda>t. (the (sdktag_Key t), the (sdktag_Value t))) ts))"

definition sdk_full :: "SdkTag list \<Rightarrow> bool" where
  "sdk_full ts \<longleftrightarrow> list_all (\<lambda>t. sdktag_Key t \<noteq> None \<and> sdktag_Value t \<noteq> None) ts \<and>
     distinct (map sdktag_Key ts)"

lemma sdkTagsOf_full:
  assumes "order_laws X" and "full_map m"
  shows "sdk_full (sdkTagsOf X m)" and "sdk_view (sdkTagsOf X m) = lookup_full m"
proof -
  let ?es = "range_ptrs X m"
  have perm: "mset ?es = mset m" using assms(1) by (simp add: order_laws_def)
  have wf: "wf_map ?es" using wf_map_perm [OF perm] assms(2) by (simp add: full_map_def)
  have get: "map_of ?es = map_of m"
    using map_of_perm [OF perm] assms(2) by (simp add: full_map_def)
  have vals: "v \<noteq> None" if "(k, v) \<in> set ?es" for k v
    using assms that by (cases v) (auto simp: range_ptrs_set full_map_def wf_map_def)
  have keys: "map sdktag_Key (sdkTagsOf X m) = map Some (map fst ?es)"
    by (auto simp: sdkTagsOf_def)
  show "sdk_full (sdkTagsOf X m)"
    unfolding sdk_full_def keys distinct_map [of Some]
    using wf vals by (auto simp: sdkTagsOf_def list_all_iff wf_map_def)
  have "map (\<lambda>t. (the (sdktag_Key t), the (sdktag_Value t))) (sdkTagsOf X m) =
      map (\<lambda>(k, v). (k, the v)) ?es"
    by (auto simp: sdkTagsOf_def)
  then have "sdk_view (sdkTagsOf X m) = map_of (rev (map (\<lambda>(k, v). (k, the v)) ?es))"
    by (simp add: sdk_view_def)
  also have "\<dots> = map_of (map (\<lambda>(k, v). (k, the v)) ?es)"
    using wf by (intro map_of_perm) (simp_all add: wf_map_def case_prod_unfold o_def)
  also have "\<dots> = map_option the \<circ> map_of m"
    by (simp add: map_of_map get)
  also have "\<dots> = lookup_full m"
    using full_map_get [OF assms(2)] by (auto simp: fun_eq_iff option.map_comp o_def option.map_ident)
  finally show "sdk_view (sdkTagsOf X m) = lookup_full m" .
qed

lemma full_map_empty: "full_map m \<Longrightarrow> length m > 0 \<longleftrightarrow> lookup_full m \<noteq> (\<lambda>_. None)"
proof
  assume "full_map m" and "length m > 0"
  then obtain k v l where "m = (k, v) # l"
    by (cases m) auto
  then have "map_of m k = Some v" by simp
  with full_map_get [OF \<open>full_map m\<close>, of k] show "lookup_full m \<noteq> (\<lambda>_. None)"
    by (auto dest!: fun_cong [of _ _ k])
qed (auto simp: lookup_full_def)

lemma sdk_view_empty:
  assumes "sdk_full ts" and "sdk_view ts = (\<lambda>_. None)"
  shows "ts = []"
  using assms by (cases ts) (auto simp: sdk_view_def sdk_full_def map_add_def fun_eq_iff
      split: option.splits if_splits)

text \<open>
  One call of the tag API, with its metric: the outcome is the error of the client, the
  effects are the call and the metric.
\<close>

definition tag_call ::
  "(TagsInput \<Rightarrow> effect) \<Rightarrow> (TagsInput \<Rightarrow> 'w \<Rightarrow> goerror option \<times> 'w) \<Rightarrow> string \<Rightarrow> TagsInput \<Rightarrow>
     'w sys \<Rightarrow> goerror option \<times> 'w sys" where
  "tag_call ev f nm i s = (case f i (env s) of (err, w) \<Rightarrow>
     (err, s\<lparr>env := w, trace := trace s @ [ev i, RecordAPICall ''UPDATE'' nm err]\<rparr>))"

abbreviation "remove_call client \<equiv>
  tag_call EvRemoveTags (api_RemoveTagsFromCertificate client) ''RemoveTagsFromCertificate''"

abbreviation "add_call client \<equiv>
  tag_call EvAddTags (api_AddTagsToCertificate client) ''AddTagsToCertificate''"

lemma removeTags_run:
  "removeTags X client arn m s =
     (case remove_call client \<lparr>ti_CertificateArn = arn, ti_Tags = sdkTagsOf X m\<rparr> s of
        (err, t) \<Rightarrow> Returns err t)"
  by (simp add: removeTags_def tag_call_def Let_def bindP_apply prog_simps split: prod.split)

lemma addTags_run:
  "addTags X client arn m s =
     (case add_call client \<lparr>ti_CertificateArn = arn, ti_Tags = sdkTagsOf X m\<rparr> s of
        (err, t) \<Rightarrow> Returns err t)"
  by (simp add: addTags_def tag_call_def Let_def bindP_apply prog_simps split: prod.split)

text \<open>
  \<open>SyncTags\<close> as a plan: which calls are made with which tags. The inputs are determined up to
  the order of the tags in them.
\<close>

definition sync_plan ::
  "'w AcmClient \<Rightarrow> string \<Rightarrow> SdkTag list \<Rightarrow> SdkTag list \<Rightarrow> 'w sys \<Rightarrow> goerror option \<times> 'w sys"
  where
  "sync_plan client arn del add s =
     (let (err, t) = (if del = [] then (None, s)
            else remove_call client \<lparr>ti_CertificateArn = arn, ti_Tags = del\<rparr> s)
      in if err \<noteq> None \<or> add = [] then (err, t)
         else add_call client \<lparr>ti_CertificateArn = arn, ti_Tags = add\<rparr> t)"

lemma sdkTagsOf_empty: "order_laws X \<Longrightarrow> sdkTagsOf X m = [] \<longleftrightarrow> m = []"
  unfolding sdkTagsOf_def order_laws_def by (metis map_is_Nil_conv mset_zero_iff)

lemma SyncTags_plan:
  assumes "order_laws X" and "tags_full aTags" and "tags_full bTags"
  obtains del add where
    "\<And>s. SyncTags X client arn aTags bTags s =
       (case sync_plan client arn del add s of (err, t) \<Rightarrow> Returns err t)"
    and "sdk_full del" and "sdk_view del = to_delete (tag_view aTags) (tag_view bTags)"
    and "sdk_full add" and "sdk_view add = to_add (tag_view aTags) (tag_view bTags)"
proof -
  from buildTagMap_full [OF assms(2)] obtain a where
    a: "buildTagMap (elems aTags) [] = Some a" "full_map a" "lookup_full a = tag_view aTags" .
  from buildTagMap_full [OF assms(3)] obtain b where
    b: "buildTagMap (elems bTags) [] = Some b" "full_map b" "lookup_full b = tag_view bTags" .
  from toAddLoop_full [OF assms(1) b(2) a(2)] obtain m where
    m: "toAddLoop b (range_ptrs X a) [] = Some m" "full_map m"
      "lookup_full m = to_add (tag_view aTags) (tag_view bTags)"
    unfolding a(3) b(3) .
  let ?d = "toDeleteLoop a (range_ptrs X b) []"
  note d = toDeleteLoop_full [OF assms(1) b(2) a(2), unfolded a(3) b(3)]
  show ?thesis
  proof (rule that [of "sdkTagsOf X ?d" "sdkTagsOf X m"])
    show "SyncTags X client arn aTags bTags s =
       (case sync_plan client arn (sdkTagsOf X ?d) (sdkTagsOf X m) s of (err, t) \<Rightarrow> Returns err t)"
      for s
      using logTags_full [OF assms(1) d(1)] logTags_full [OF assms(1) m(2)]
      by (auto simp: SyncTags_def a(1) b(1) m(1) Let_def prog_simps bindP_apply removeTags_run
          addTags_run sync_plan_def sdkTagsOf_empty [OF assms(1)] split: prod.splits)
  qed (use sdkTagsOf_full [OF assms(1)] d m in auto)
qed

section \<open>Convergence\<close>

text \<open>
  The contract of the tag API (ACM API reference): \<open>AddTagsToCertificate\<close> adds the tags and
  overwrites the value of a key that is there; \<open>RemoveTagsFromCertificate\<close> removes a tag whose
  key and value are both given only if the value matches, and a tag given by key alone
  whatever its value. Both touch only the certificate they name. \<open>store\<close> reads the tags of a
  certificate off the world.
\<close>

definition tag_service_laws ::
  "'w AcmClient \<Rightarrow> ('w \<Rightarrow> string \<Rightarrow> string \<Rightarrow> string option) \<Rightarrow> bool" where
  "tag_service_laws client store \<longleftrightarrow>
     (\<forall>i w w'. sdk_full (ti_Tags i) \<longrightarrow> api_AddTagsToCertificate client i w = (None, w') \<longrightarrow>
        store w' = (store w)(ti_CertificateArn i :=
          store w (ti_CertificateArn i) ++ sdk_view (ti_Tags i))) \<and>
     (\<forall>i w w'. sdk_full (ti_Tags i) \<longrightarrow> api_RemoveTagsFromCertificate client i w = (None, w') \<longrightarrow>
        store w' = (store w)(ti_CertificateArn i :=
          (\<lambda>k. if sdk_view (ti_Tags i) k \<noteq> None \<and>
                  sdk_view (ti_Tags i) k = store w (ti_CertificateArn i) k
               then None else store w (ti_CertificateArn i) k)))"

lemma tag_service_add:
  "tag_service_laws client store \<Longrightarrow> sdk_full (ti_Tags i) \<Longrightarrow>
   api_AddTagsToCertificate client i w = (None, w') \<Longrightarrow>
   store w' = (store w)(ti_CertificateArn i :=
     store w (ti_CertificateArn i) ++ sdk_view (ti_Tags i))"
  unfolding tag_service_laws_def by blast

lemma tag_service_remove:
  "tag_service_laws client store \<Longrightarrow> sdk_full (ti_Tags i) \<Longrightarrow>
   api_RemoveTagsFromCertificate client i w = (None, w') \<Longrightarrow>
   store w' = (store w)(ti_CertificateArn i :=
     (\<lambda>k. if sdk_view (ti_Tags i) k \<noteq> None \<and>
             sdk_view (ti_Tags i) k = store w (ti_CertificateArn i) k
          then None else store w (ti_CertificateArn i) k))"
  unfolding tag_service_laws_def by blast

lemma remove_call_store:
  assumes "tag_service_laws client store" and "sdk_full del" and "store (env s) arn = b"
    and "sdk_view del = to_delete a b"
    and "(if del = [] then (None, s)
          else remove_call client \<lparr>ti_CertificateArn = arn, ti_Tags = del\<rparr> s) = (None, t)"
  shows "store (env t) = (store (env s))(arn := (\<lambda>k. if a k = None then None else b k))"
proof (cases "del = []")
  case True
  then have "to_delete a b = (\<lambda>_. None)" using assms(4) by (simp add: sdk_view_def)
  then have "to_delete a b k = None" for k by simp
  then have "b k = None" if "a k = None" for k
    using that unfolding to_delete_def by presburger
  then have "(\<lambda>k. if a k = None then None else b k) = b"
    by (simp add: fun_eq_iff)
  with True assms(3,5) show ?thesis by auto
next
  case False
  let ?i = "\<lparr>ti_CertificateArn = arn, ti_Tags = del\<rparr> :: TagsInput"
  from False assms(5) obtain w where "api_RemoveTagsFromCertificate client ?i (env s) = (None, w)"
    and w: "env t = w"
    by (auto simp: tag_call_def split: prod.splits)
  then have "store w = (store (env s))(arn := (\<lambda>k. if sdk_view del k \<noteq> None \<and>
      sdk_view del k = store (env s) arn k then None else store (env s) arn k))"
    using tag_service_remove [OF assms(1), of ?i] assms(2) by (simp cong: if_cong)
  then show ?thesis
    using w assms(3,4) by (auto simp: to_delete_def fun_eq_iff)
qed

lemma add_call_store:
  assumes "tag_service_laws client store" and "sdk_full add" and "sdk_view add = v"
    and "(if add = [] then (None, s)
          else add_call client \<lparr>ti_CertificateArn = arn, ti_Tags = add\<rparr> s) = (None, t)"
  shows "store (env t) = (store (env s))(arn := store (env s) arn ++ v)"
proof (cases "add = []")
  case True
  with assms(3,4) show ?thesis by (auto simp: sdk_view_def)
next
  case False
  let ?i = "\<lparr>ti_CertificateArn = arn, ti_Tags = add\<rparr> :: TagsInput"
  from False assms(4) obtain w where "api_AddTagsToCertificate client ?i (env s) = (None, w)"
    and w: "env t = w"
    by (auto simp: tag_call_def split: prod.splits)
  then show ?thesis
    using tag_service_add [OF assms(1), of ?i] assms(2,3) w by simp
qed

lemma SyncTags_store:
  assumes "order_laws X" and "tag_service_laws client store"
    and "tags_full desired" and "tags_full existing"
    and "store (env s) arn = tag_view existing"
    and "SyncTags X client arn desired existing s = Returns None t"
  shows "store (env t) = (store (env s))(arn := tag_view desired)"
proof -
  from SyncTags_plan [OF assms(1,3,4), of client arn] obtain del add where
    run: "\<And>s. SyncTags X client arn desired existing s =
       (case sync_plan client arn del add s of (err, t) \<Rightarrow> Returns err t)"
    and del: "sdk_full del" "sdk_view del = to_delete (tag_view desired) (tag_view existing)"
    and add: "sdk_full add" "sdk_view add = to_add (tag_view desired) (tag_view existing)"
    by metis
  from assms(6) run [of s] have "sync_plan client arn del add s = (None, t)"
    by (auto split: prod.splits)
  then obtain u where
    u: "(if del = [] then (None, s)
         else remove_call client \<lparr>ti_CertificateArn = arn, ti_Tags = del\<rparr> s) = (None, u)"
    and t: "(if add = [] then (None, u)
         else add_call client \<lparr>ti_CertificateArn = arn, ti_Tags = add\<rparr> u) = (None, t)"
    unfolding sync_plan_def Let_def by (auto split: prod.splits if_splits)
  have "store (env u) = (store (env s))(arn :=
      (\<lambda>k. if tag_view desired k = None then None else tag_view existing k))"
    by (rule remove_call_store [OF assms(2) del(1) assms(5) del(2) u])
  moreover have "store (env t) = (store (env u))(arn := store (env u) arn ++
      to_add (tag_view desired) (tag_view existing))"
    by (rule add_call_store [OF assms(2) add t])
  ultimately show ?thesis
    by (auto simp: to_add_def map_add_def fun_eq_iff split: option.splits)
qed

text \<open>
  C2. Refinement of the abstract operation "the tags of the certificate become the desired
  tags": if the existing tags handed to \<open>SyncTags\<close> are those the service has, and the run
  ends without error, the service's tags are exactly the desired ones, and no other
  certificate's tags have changed.
\<close>

theorem SyncTags_converges:
  assumes "order_laws X" and "tag_service_laws client store"
    and "tags_full desired" and "tags_full existing"
    and "store (env s) arn = tag_view existing"
    and "SyncTags X client arn desired existing s = Returns None t"
  shows "store (env t) = (store (env s))(arn := tag_view desired)"
  using assms by (rule SyncTags_store)

lemma sample_tag_service: "tag_service_laws sampleClient sw_tags"
  unfolding tag_service_laws_def sdk_view_def
  by (auto simp: sampleClient_def sample_sdk_view_def)

text \<open>A run on the sample client: \<open>env\<close> changes value, \<open>old\<close> goes, \<open>new\<close> comes.\<close>

abbreviation sampleDesired :: "Tag option slice" where
  "sampleDesired \<equiv> Some [mkTag ''env'' ''dev2'', mkTag ''new'' ''1'']"

abbreviation sampleExisting :: "Tag option slice" where
  "sampleExisting \<equiv> Some [mkTag ''env'' ''dev'', mkTag ''old'' ''0'']"

definition sampleTagSys :: "sample_world sys" where
  "sampleTagSys = sampleSys (sampleWorld\<lparr>sw_tags := (\<lambda>_. Map.empty)(''arn'' :=
     tag_view sampleExisting)\<rparr>)"

lemma sampleTags_full: "tags_full sampleDesired" "tags_full sampleExisting"
  by (simp_all add: tags_full_def mkTag_def)

lemma sample_SyncTags_ok:
  assumes "tags_full a" and "tags_full b"
  obtains t where "SyncTags sampleExt sampleClient arn a b s = Returns None t"
proof -
  from SyncTags_plan [OF sample_order assms, of sampleClient arn] obtain del add where
    "SyncTags sampleExt sampleClient arn a b s =
       (case sync_plan sampleClient arn del add s of (err, t) \<Rightarrow> Returns err t)"
    by metis
  moreover have "\<exists>t. sync_plan sampleClient arn del add s = (None, t)"
    by (simp add: sync_plan_def tag_call_def sampleClient_def Let_def)
  ultimately show ?thesis using that by auto
qed

theorem SyncTags_converges_witness:
  "\<exists>t. SyncTags sampleExt sampleClient ''arn'' sampleDesired sampleExisting sampleTagSys =
     Returns None t \<and>
   sw_tags (env t) ''arn'' = [''env'' \<mapsto> ''dev2'', ''new'' \<mapsto> ''1'']"
proof -
  have st: "sw_tags (env sampleTagSys) ''arn'' = tag_view sampleExisting"
    by (simp add: sampleTagSys_def sampleSys_def sampleWorld_def)
  obtain t where run: "SyncTags sampleExt sampleClient ''arn'' sampleDesired sampleExisting
      sampleTagSys = Returns None t"
    by (rule sample_SyncTags_ok [OF sampleTags_full])
  from SyncTags_converges [OF sample_order sample_tag_service sampleTags_full st run]
  have "sw_tags (env t) ''arn'' = tag_view sampleDesired" by simp
  also have "\<dots> = [''env'' \<mapsto> ''dev2'', ''new'' \<mapsto> ''1'']"
    by (auto simp: tag_view_def mkTag_def fun_eq_iff)
  finally show ?thesis using run by blast
qed

text \<open>
  C29. \<open>SyncTags\<close> never panics on complete tags, and it makes at most two calls: first the
  removal of exactly the existing tags whose key is not desired, then the addition of
  exactly the desired tags that are missing or have another value. Nothing is called when
  nothing differs, and nothing is added after a failed removal.
\<close>

theorem SyncTags_calls:
  assumes "order_laws X" and "tags_full desired" and "tags_full existing"
  shows "\<exists>del add err t. SyncTags X client arn desired existing s = Returns err t \<and>
    sdk_view del = to_delete (tag_view desired) (tag_view existing) \<and>
    sdk_view add = to_add (tag_view desired) (tag_view existing) \<and>
    (let rem = \<lparr>ti_CertificateArn = arn, ti_Tags = del\<rparr>;
         ins = \<lparr>ti_CertificateArn = arn, ti_Tags = add\<rparr>;
         plan = (if del = [] then [] else [EvRemoveTags rem]) @
                (if add = [] then [] else [EvAddTags ins]);
         calls = filter mutating (drop (length (trace s)) (trace t))
     in prefix calls plan \<and> (err = None \<longrightarrow> calls = plan) \<and>
        (del \<noteq> [] \<and> fst (api_RemoveTagsFromCertificate client rem (env s)) \<noteq> None \<longrightarrow>
           calls = [EvRemoveTags rem] \<and>
           err = fst (api_RemoveTagsFromCertificate client rem (env s)))) \<and>
    (tag_view desired = tag_view existing \<longrightarrow> err = None \<and> t = s)"
proof -
  from SyncTags_plan [OF assms, of client arn] obtain del add where
    run: "\<And>s. SyncTags X client arn desired existing s =
       (case sync_plan client arn del add s of (err, t) \<Rightarrow> Returns err t)"
    and del: "sdk_full del" "sdk_view del = to_delete (tag_view desired) (tag_view existing)"
    and add: "sdk_full add" "sdk_view add = to_add (tag_view desired) (tag_view existing)"
    by metis
  obtain err t where plan: "sync_plan client arn del add s = (err, t)"
    by (cases "sync_plan client arn del add s")
  have same: "del = [] \<and> add = []" if "tag_view desired = tag_view existing"
  proof -
    have "to_delete v v = (\<lambda>_. None)" and "to_add v v = (\<lambda>_. None)" for v
      by (auto simp: to_delete_def to_add_def)
    with that del add sdk_view_empty [of del] sdk_view_empty [of add] show ?thesis
      by simp
  qed
  show ?thesis
    using plan run [of s] del(2) add(2) same
    by (intro exI [of _ del] exI [of _ add] exI [of _ err] exI [of _ t])
      (auto simp: sync_plan_def tag_call_def Let_def split: prod.splits if_splits)
qed

lemma sampleTags_view:
  "tag_view sampleDesired = [''env'' \<mapsto> ''dev2'', ''new'' \<mapsto> ''1'']"
  "tag_view sampleExisting = [''env'' \<mapsto> ''dev'', ''old'' \<mapsto> ''0'']"
  by (auto simp: tag_view_def mkTag_def fun_eq_iff)

theorem SyncTags_calls_witness:
  "\<exists>del add t. SyncTags sampleExt sampleClient ''arn'' sampleDesired sampleExisting sampleTagSys =
     Returns None t \<and>
   sdk_view del = [''old'' \<mapsto> ''0''] \<and> sdk_view add = [''env'' \<mapsto> ''dev2'', ''new'' \<mapsto> ''1''] \<and>
   filter mutating (trace t) =
     [EvRemoveTags \<lparr>ti_CertificateArn = ''arn'', ti_Tags = del\<rparr>,
      EvAddTags \<lparr>ti_CertificateArn = ''arn'', ti_Tags = add\<rparr>]"
proof -
  obtain t where run: "SyncTags sampleExt sampleClient ''arn'' sampleDesired sampleExisting
      sampleTagSys = Returns None t"
    by (rule sample_SyncTags_ok [OF sampleTags_full])
  have d: "to_delete (tag_view sampleDesired) (tag_view sampleExisting) = [''old'' \<mapsto> ''0'']"
    and a: "to_add (tag_view sampleDesired) (tag_view sampleExisting) =
      [''env'' \<mapsto> ''dev2'', ''new'' \<mapsto> ''1'']"
    unfolding sampleTags_view by (auto simp: to_delete_def to_add_def fun_eq_iff)
  have tr: "trace sampleTagSys = []" by (simp add: sampleTagSys_def sampleSys_def)
  have ne: "sdk_view ts \<noteq> (\<lambda>_. None) \<Longrightarrow> ts \<noteq> []" for ts
    by (auto simp: sdk_view_def)
  from SyncTags_calls [OF sample_order sampleTags_full, of sampleClient "''arn''" sampleTagSys]
  show ?thesis
    unfolding run d a tr Let_def using ne
    by (elim exE conjE) (rule exI, rule exI, rule exI [of _ t], auto)
qed

end
