(* ===== verification/SdkFind.thy ===== *)
theory SdkFind
  imports TagSync Conditions
begin

text \<open>
  \<open>sdkFind\<close> of \<open>sdk.go\<close>: what the controller observes of a certificate. The call to ACM gives
  a \<open>CertificateDetail\<close>, from which every described field of the resource is set anew, also to
  nil; the tags come from \<open>ListTags\<close>. The long assignment list of the code is split into three
  definitions, in the order of the code.

  What is shown: the outcomes, the fields of the observed resource, that nothing the resource
  held before in a described field survives (noninterference), and that observing changes
  nothing at ACM.
\<close>

section \<open>Conversions from the shapes of the SDK\<close>

definition fromEnum :: "Ext \<Rightarrow> string \<Rightarrow> string option" where
  "fromEnum X s = (if s \<noteq> [] then aws_String X s else None)"

definition fromResourceRecord :: "Ext \<Rightarrow> SdkResourceRecord option \<Rightarrow> ResourceRecord option" where
  "fromResourceRecord X rr =
     (case rr of
        None \<Rightarrow> None
      | Some rr \<Rightarrow> Some \<lparr>rr_Name = sdkrr_Name rr, rr_Type = fromEnum X (sdkrr_Type rr),
                        rr_Value = sdkrr_Value rr\<rparr>)"

text \<open>The domain validations of the status: a hook, which appends the e-mails to a nil slice.\<close>

definition statusDomainValidation :: "Ext \<Rightarrow> SdkDomainValidation \<Rightarrow> DomainValidation" where
  "statusDomainValidation X dvsiter =
     \<lparr>dv_DomainName = sdkdv_DomainName dvsiter,
      dv_HTTPRedirect = None,
      dv_ResourceRecord = fromResourceRecord X (sdkdv_ResourceRecord dvsiter),
      dv_ValidationDomain = sdkdv_ValidationDomain dvsiter,
      dv_ValidationEmails =
        (if elems (sdkdv_ValidationEmails dvsiter) = [] then None
         else Some (map Some (elems (sdkdv_ValidationEmails dvsiter)))),
      dv_ValidationMethod = fromEnum X (sdkdv_ValidationMethod dvsiter),
      dv_ValidationStatus = fromEnum X (sdkdv_ValidationStatus dvsiter)\<rparr>"

definition setDomainValidations ::
  "Ext \<Rightarrow> SdkCertificateDetail \<Rightarrow> Certificate \<Rightarrow> Certificate" where
  "setDomainValidations X cert ko =
     onStatus (\<lambda>st. st\<lparr>st_DomainValidations :=
       (case cd_DomainValidationOptions cert of
          Some dvs \<Rightarrow> Some (map (\<lambda>dv. Some (statusDomainValidation X dv)) dvs)
        | None \<Rightarrow> None)\<rparr>) ko"

definition renewalDomainValidation :: "Ext \<Rightarrow> SdkDomainValidation \<Rightarrow> DomainValidation" where
  "renewalDomainValidation X f21f0iter =
     \<lparr>dv_DomainName = sdkdv_DomainName f21f0iter,
      dv_HTTPRedirect =
        (case sdkdv_HttpRedirect f21f0iter of
           Some h \<Rightarrow> Some \<lparr>hr_RedirectFrom = sdkhr_RedirectFrom h, hr_RedirectTo = sdkhr_RedirectTo h\<rparr>
         | None \<Rightarrow> None),
      dv_ResourceRecord = fromResourceRecord X (sdkdv_ResourceRecord f21f0iter),
      dv_ValidationDomain = sdkdv_ValidationDomain f21f0iter,
      dv_ValidationEmails =
        (case sdkdv_ValidationEmails f21f0iter of
           Some es \<Rightarrow> aws_StringSlice X es
         | None \<Rightarrow> None),
      dv_ValidationMethod = fromEnum X (sdkdv_ValidationMethod f21f0iter),
      dv_ValidationStatus = fromEnum X (sdkdv_ValidationStatus f21f0iter)\<rparr>"

definition fromRenewalSummary :: "Ext \<Rightarrow> SdkRenewalSummary option \<Rightarrow> RenewalSummary option" where
  "fromRenewalSummary X summary =
     (case summary of
        Some rs \<Rightarrow> Some
          \<lparr>rs_DomainValidationOptions =
             (case sdkrs_DomainValidationOptions rs of
                Some dvs \<Rightarrow> Some (map (\<lambda>dv. Some (renewalDomainValidation X dv)) dvs)
              | None \<Rightarrow> None),
           rs_RenewalStatus = fromEnum X (sdkrs_RenewalStatus rs),
           rs_RenewalStatusReason = fromEnum X (sdkrs_RenewalStatusReason rs),
           rs_UpdatedAt = sdkrs_UpdatedAt rs\<rparr>
      | None \<Rightarrow> None)"

definition fromOptions ::
  "Ext \<Rightarrow> SdkCertificateOptions option \<Rightarrow> CertificateOptions option" where
  "fromOptions X opts =
     (case opts of
        Some f19 \<Rightarrow> Some
          \<lparr>opts_CertificateTransparencyLoggingPreference =
             fromEnum X (sdkopts_CertificateTransparencyLoggingPreference f19),
           opts_Export = fromEnum X (sdkopts_Export f19)\<rparr>
      | None \<Rightarrow> None)"

section \<open>sdkFind\<close>

definition requiredFieldsMissingFromReadOneInput :: "Certificate \<Rightarrow> bool" where
  "requiredFieldsMissingFromReadOneInput r \<longleftrightarrow>
     (case st_ACKResourceMetadata (ko_Status r) of None \<Rightarrow> True | Some m \<Rightarrow> meta_ARN m = None)"

text \<open>The second result of this function, an error, is always nil.\<close>

definition newDescribeRequestPayload :: "Certificate \<Rightarrow> DescribeCertificateInput" where
  "newDescribeRequestPayload r =
     (let res = \<lparr>dci_CertificateArn = None\<rparr> in
      case st_ACKResourceMetadata (ko_Status r) of
        None \<Rightarrow> res
      | Some m \<Rightarrow>
          if meta_ARN m \<noteq> None then res\<lparr>dci_CertificateArn := meta_ARN m\<rparr> else res)"

text \<open>
  Setting the ARN of the metadata, making the struct first where it is nil; a missing ARN in
  an answer leaves the ARN as it is. The same lines are in \<open>sdkFind\<close>, \<open>sdkCreate\<close> and
  \<open>setResourceFromImportCertificateOutput\<close>.
\<close>

definition setARN :: "string option \<Rightarrow> Certificate \<Rightarrow> Certificate" where
  "setARN arn ko =
     (let m = (case st_ACKResourceMetadata (ko_Status ko) of
                 None \<Rightarrow> emptyResourceMetadata | Some m \<Rightarrow> m);
          m = (case arn of Some a \<Rightarrow> m\<lparr>meta_ARN := Some a\<rparr> | None \<Rightarrow> m)
      in onStatus (\<lambda>st. st\<lparr>st_ACKResourceMetadata := Some m\<rparr>) ko)"

definition setDescribedSpec :: "Ext \<Rightarrow> SdkCertificateDetail \<Rightarrow> Certificate \<Rightarrow> Certificate" where
  "setDescribedSpec X cert ko =
     onSpec (\<lambda>sp. sp\<lparr>
       spec_CertificateAuthorityARN := cd_CertificateAuthorityArn cert,
       spec_DomainName := cd_DomainName cert,
       spec_DomainValidationOptions :=
         (case cd_DomainValidationOptions cert of
            Some dvs \<Rightarrow> Some (map (\<lambda>f7iter. Some \<lparr>dvo_DomainName = sdkdv_DomainName f7iter,
                                dvo_ValidationDomain = sdkdv_ValidationDomain f7iter\<rparr>) dvs)
          | None \<Rightarrow> None),
       spec_KeyAlgorithm := fromEnum X (cd_KeyAlgorithm cert),
       spec_ManagedBy := fromEnum X (cd_ManagedBy cert),
       spec_Options := fromOptions X (cd_Options cert),
       spec_SubjectAlternativeNames :=
         (case cd_SubjectAlternativeNames cert of
            Some xs \<Rightarrow> aws_StringSlice X xs | None \<Rightarrow> None)\<rparr>) ko"

definition setDescribedStatus :: "Ext \<Rightarrow> SdkCertificateDetail \<Rightarrow> Certificate \<Rightarrow> Certificate" where
  "setDescribedStatus X cert ko =
     onStatus (\<lambda>st. st\<lparr>
       st_CreatedAt := cd_CreatedAt cert,
       st_ExtendedKeyUsages :=
         (case cd_ExtendedKeyUsages cert of
            Some us \<Rightarrow> Some (map (\<lambda>f8iter. Some \<lparr>eku_Name = fromEnum X (sdkeku_Name f8iter),
                               eku_OID = sdkeku_OID f8iter\<rparr>) us)
          | None \<Rightarrow> None),
       st_FailureReason := fromEnum X (cd_FailureReason cert),
       st_ImportedAt := cd_ImportedAt cert,
       st_InUseBy :=
         (case cd_InUseBy cert of Some xs \<Rightarrow> aws_StringSlice X xs | None \<Rightarrow> None),
       st_IssuedAt := cd_IssuedAt cert,
       st_Issuer := cd_Issuer cert,
       st_KeyUsages :=
         (case cd_KeyUsages cert of
            Some us \<Rightarrow> Some (map (\<lambda>f15iter. Some \<lparr>ku_Name = fromEnum X (sdkku_Name f15iter)\<rparr>) us)
          | None \<Rightarrow> None),
       st_NotAfter := cd_NotAfter cert,
       st_NotBefore := cd_NotBefore cert,
       st_RenewalEligibility := fromEnum X (cd_RenewalEligibility cert),
       st_RenewalSummary := fromRenewalSummary X (cd_RenewalSummary cert),
       st_RevocationReason := fromEnum X (cd_RevocationReason cert),
       st_RevokedAt := cd_RevokedAt cert,
       st_Serial := cd_Serial cert,
       st_SignatureAlgorithm := cd_SignatureAlgorithm cert,
       st_Status := fromEnum X (cd_Status cert),
       st_Subject := cd_Subject cert,
       st_Type := fromEnum X (cd_Type cert)\<rparr>) ko"

definition sdkFind ::
  "Ext \<Rightarrow> 'w resourceManager \<Rightarrow> Certificate \<Rightarrow>
     ('w sys, Certificate option \<times> goerror option) prog" where
  "sdkFind X rm r =
     (if requiredFieldsMissingFromReadOneInput r then retP (None, Some NotFound)
      else
        let input = newDescribeRequestPayload r in
        bindP (callP (EvDescribe input) (api_DescribeCertificate (rm_sdkapi rm) input)) (\<lambda>resp.
        bindP (emitP (RecordAPICall ''READ_ONE'' ''DescribeCertificate'' (error_of resp))) (\<lambda>_.
        case resp of
          Inl err \<Rightarrow>
            if as_APIErrorCode X err = Some ''ResourceNotFoundException''
            then retP (None, Some NotFound) else retP (None, Some err)
        | Inr out \<Rightarrow>
            bindP (liftP (dco_Certificate out)) (\<lambda>cert.
            let ko = setDomainValidations X cert r in
            bindP (liftP (certARN r)) (\<lambda>arn.
            bindP (ListTags (rm_sdkapi rm) arn) (\<lambda>(tags, err).
            if err \<noteq> None then retP (None, err)
            else
              let ko = onSpec (\<lambda>sp. sp\<lparr>spec_Tags := tags\<rparr>) ko;
                  ko = setARN (cd_CertificateArn cert) ko;
                  ko = setDescribedSpec X cert ko;
                  ko = setDescribedStatus X cert ko
              in retP (Some (setStatusDefaults rm ko), None)))))))"

section \<open>Runs\<close>

definition observation ::
  "Ext \<Rightarrow> 'w resourceManager \<Rightarrow> SdkCertificateDetail \<Rightarrow> Tag option slice \<Rightarrow> Certificate \<Rightarrow> Certificate"
  where
  "observation X rm cert tags r = setStatusDefaults rm (setDescribedStatus X cert
     (setDescribedSpec X cert (setARN (cd_CertificateArn cert)
       (onSpec (\<lambda>sp. sp\<lparr>spec_Tags := tags\<rparr>) (setDomainValidations X cert r)))))"

lemma required_missing_iff: "requiredFieldsMissingFromReadOneInput r \<longleftrightarrow> certARN r = None"
  by (simp add: requiredFieldsMissingFromReadOneInput_def certARN_def split: option.split)

lemma describe_input: "newDescribeRequestPayload r = \<lparr>dci_CertificateArn = certARN r\<rparr>"
  by (simp add: newDescribeRequestPayload_def certARN_def Let_def split: option.split)

text \<open>The state after the call to \<open>DescribeCertificate\<close> and its metric.\<close>

definition after_describe :: "'w resourceManager \<Rightarrow> string \<Rightarrow> 'w sys \<Rightarrow> 'w sys" where
  "after_describe rm arn s =
     (let input = \<lparr>dci_CertificateArn = Some arn\<rparr>;
          (resp, w) = api_DescribeCertificate (rm_sdkapi rm) input (env s)
      in s\<lparr>env := w, trace := trace s @ [EvDescribe input,
           RecordAPICall ''READ_ONE'' ''DescribeCertificate'' (error_of resp)]\<rparr>)"

definition describe_answer ::
  "'w resourceManager \<Rightarrow> string \<Rightarrow> 'w sys \<Rightarrow> goerror + DescribeCertificateOutput" where
  "describe_answer rm arn s =
     fst (api_DescribeCertificate (rm_sdkapi rm) \<lparr>dci_CertificateArn = Some arn\<rparr> (env s))"

definition list_answer :: "'w resourceManager \<Rightarrow> string \<Rightarrow> 'w sys \<Rightarrow> goerror + SdkTag slice" where
  "list_answer rm arn s = fst (api_ListTagsForCertificate (rm_sdkapi rm) arn (env s))"

definition after_list :: "'w resourceManager \<Rightarrow> string \<Rightarrow> 'w sys \<Rightarrow> 'w sys" where
  "after_list rm arn s =
     s\<lparr>env := snd (api_ListTagsForCertificate (rm_sdkapi rm) arn (env s)),
      trace := trace s @ [EvListTags arn,
        RecordAPICall ''GET'' ''ListTagsForCertificate'' (error_of (list_answer rm arn s))]\<rparr>"

lemma ListTags_run:
  "ListTags (rm_sdkapi rm) arn s =
     Returns (case list_answer rm arn s of
                Inl err \<Rightarrow> (None, Some err)
              | Inr out \<Rightarrow> (resourceTagsFromSDKTags out, None)) (after_list rm arn s)"
  by (simp add: ListTags_def prog_simps list_answer_def after_list_def split: sum.split)

lemma sdkFind_missing: "certARN r = None \<Longrightarrow> sdkFind X rm r s = Returns (None, Some NotFound) s"
  by (simp add: sdkFind_def required_missing_iff prog_simps)

lemma sdkFind_run:
  assumes "certARN r = Some arn"
  shows "sdkFind X rm r s =
    (let t = after_describe rm arn s in
     case describe_answer rm arn s of
       Inl err \<Rightarrow>
         Returns (None, Some (if as_APIErrorCode X err = Some ''ResourceNotFoundException''
                              then NotFound else err)) t
     | Inr out \<Rightarrow>
         (case dco_Certificate out of
            None \<Rightarrow> Panics t
          | Some cert \<Rightarrow>
              Returns (case list_answer rm arn t of
                         Inl err \<Rightarrow> (None, Some err)
                       | Inr tags \<Rightarrow>
                           (Some (observation X rm cert (resourceTagsFromSDKTags tags) r), None))
                (after_list rm arn t)))"
  using assms
  by (auto simp: sdkFind_def required_missing_iff describe_input prog_simps bindP_apply ListTags_run
      observation_def describe_answer_def after_describe_def Let_def
      split: sum.split option.split prod.split)

section \<open>What the controller observes\<close>

text \<open>The SDK never returns the runtime's sentinel for a missing resource.\<close>

definition no_sentinel :: "'w resourceManager \<Rightarrow> bool" where
  "no_sentinel rm \<longleftrightarrow>
     (\<forall>i w. fst (api_DescribeCertificate (rm_sdkapi rm) i w) \<noteq> Inl NotFound) \<and>
     (\<forall>i w. fst (api_ListTagsForCertificate (rm_sdkapi rm) i w) \<noteq> Inl NotFound)"

lemma no_sentinelD:
  "no_sentinel rm \<Longrightarrow> describe_answer rm arn s \<noteq> Inl NotFound"
  "no_sentinel rm \<Longrightarrow> list_answer rm arn s \<noteq> Inl NotFound"
  by (simp_all add: no_sentinel_def describe_answer_def list_answer_def)

text \<open>
  C6. \<open>sdkFind\<close> reports that the resource does not exist in exactly two cases: the object has no
  ARN, and then ACM is not called at all, or \<open>DescribeCertificate\<close> fails with the code
  ResourceNotFoundException. This is what makes the reconciler create a certificate. Any other
  error of \<open>DescribeCertificate\<close>, a throttled or denied call, is passed on as it is, and so is
  any error of \<open>ListTagsForCertificate\<close>; neither looks like a missing resource.
\<close>

theorem sdkFind_not_found:
  assumes "no_sentinel rm"
  shows "(sdkFind X rm r s = Returns (res, Some NotFound) t \<longleftrightarrow>
    res = None \<and>
    (case certARN r of
       None \<Rightarrow> t = s
     | Some arn \<Rightarrow>
         (\<exists>err. describe_answer rm arn s = Inl err \<and>
            as_APIErrorCode X err = Some ''ResourceNotFoundException'') \<and>
         t = after_describe rm arn s)) \<and>
   (\<forall>arn err. certARN r = Some arn \<and> describe_answer rm arn s = Inl err \<and>
      as_APIErrorCode X err \<noteq> Some ''ResourceNotFoundException'' \<longrightarrow>
      err \<noteq> NotFound \<and> sdkFind X rm r s = Returns (None, Some err) (after_describe rm arn s)) \<and>
   (\<forall>arn cert err. certARN r = Some arn \<and>
      describe_answer rm arn s = Inr \<lparr>dco_Certificate = Some cert\<rparr> \<and>
      list_answer rm arn (after_describe rm arn s) = Inl err \<longrightarrow>
      err \<noteq> NotFound \<and>
      sdkFind X rm r s = Returns (None, Some err) (after_list rm arn (after_describe rm arn s)))"
proof (cases "certARN r")
  case None
  then show ?thesis by (auto simp: sdkFind_missing)
next
  case (Some arn)
  have "sdkFind X rm r s = Returns (res, Some NotFound) t \<longleftrightarrow>
      res = None \<and> (\<exists>err. describe_answer rm arn s = Inl err \<and>
        as_APIErrorCode X err = Some ''ResourceNotFoundException'') \<and> t = after_describe rm arn s"
    using no_sentinelD [OF assms]
    by (auto simp: sdkFind_run [OF Some] Let_def split: sum.splits option.splits)
  then show ?thesis
    using no_sentinelD [OF assms] by (auto simp: sdkFind_run [OF Some] Some Let_def)
qed

definition sampleDescribed :: Certificate where
  "sampleDescribed = setARN (Some ''arn:cert'') emptyCertificate"

lemma sampleDescribed_ARN [simp]: "certARN sampleDescribed = Some ''arn:cert''"
  by (simp add: sampleDescribed_def certARN_def setARN_def Let_def)

lemma sample_no_sentinel: "no_sentinel sampleManager"
  by (simp add: no_sentinel_def sampleManager_def sampleClient_def split: option.split)

text \<open>The same service while it throttles the first call.\<close>

definition throttledManager :: "sample_world resourceManager" where
  "throttledManager = sampleManager\<lparr>rm_sdkapi := sampleClient\<lparr>api_DescribeCertificate :=
     (\<lambda>_ w. (Inl (APIError ''ThrottlingException'' ''slow''), w))\<rparr>\<rparr>"

theorem sdkFind_not_found_witness:
  "(\<exists>t. sdkFind sampleExt sampleManager sampleDescribed (sampleSys sampleWorld) =
     Returns (None, Some NotFound) t) \<and>
   (\<exists>t. sdkFind sampleExt throttledManager sampleDescribed (sampleSys sampleWorld) =
     Returns (None, Some (APIError ''ThrottlingException'' ''slow'')) t)"
proof
  have "describe_answer sampleManager ''arn:cert'' (sampleSys sampleWorld) =
      Inl (APIError ''ResourceNotFoundException'' ''gone'')"
    by (simp add: describe_answer_def sampleManager_def sampleClient_def sampleSys_def
        sampleWorld_def)
  moreover have "as_APIErrorCode sampleExt (APIError ''ResourceNotFoundException'' ''gone'') =
      Some ''ResourceNotFoundException''"
    by (simp add: sampleExt_def)
  ultimately show "\<exists>t. sdkFind sampleExt sampleManager sampleDescribed (sampleSys sampleWorld) =
     Returns (None, Some NotFound) t"
    using sdkFind_not_found [OF sample_no_sentinel, of sampleExt sampleDescribed
        "sampleSys sampleWorld" None] by auto
next
  have "no_sentinel throttledManager"
    using sample_no_sentinel
    by (simp add: no_sentinel_def throttledManager_def sampleManager_def)
  moreover have "describe_answer throttledManager ''arn:cert'' (sampleSys sampleWorld) =
      Inl (APIError ''ThrottlingException'' ''slow'')"
    by (simp add: describe_answer_def throttledManager_def)
  moreover have "as_APIErrorCode sampleExt (APIError ''ThrottlingException'' ''slow'') \<noteq>
      Some ''ResourceNotFoundException''"
    by (simp add: sampleExt_def)
  ultimately show "\<exists>t. sdkFind sampleExt throttledManager sampleDescribed (sampleSys sampleWorld) =
     Returns (None, Some (APIError ''ThrottlingException'' ''slow'')) t"
    using sdkFind_not_found [of throttledManager sampleExt sampleDescribed "sampleSys sampleWorld"]
    by (auto simp: sampleDescribed_ARN)
qed

text \<open>
  The fields of a resource that \<open>sdkFind\<close> keeps: the object's metadata, the resource metadata,
  the conditions, and the part of the spec that ACM does not describe.
\<close>

definition kept_fields where
  "kept_fields ko =
     (ko_ObjectMeta ko, st_ACKResourceMetadata (ko_Status ko), st_Conditions (ko_Status ko),
      spec_Certificate (ko_Spec ko), spec_CertificateARN (ko_Spec ko),
      spec_CertificateAuthorityRef (ko_Spec ko), spec_CertificateChain (ko_Spec ko),
      spec_ExportTo (ko_Spec ko), spec_PrivateKey (ko_Spec ko))"

lemma Certificate_eqI:
  "ko_ObjectMeta a = ko_ObjectMeta b \<Longrightarrow> ko_Spec a = ko_Spec b \<Longrightarrow> ko_Status a = ko_Status b \<Longrightarrow>
   a = (b :: Certificate)"
  by (rule Certificate.equality) simp_all

lemma observation_kept:
  assumes "kept_fields r = kept_fields r'"
  shows "observation X rm cert tags r = observation X rm cert tags r'"
proof (rule Certificate_eqI)
  show "ko_ObjectMeta (observation X rm cert tags r) = ko_ObjectMeta (observation X rm cert tags r')"
    using assms by (simp add: kept_fields_def observation_def setDescribedStatus_def setDescribedSpec_def
        setARN_def setDomainValidations_def Let_def)
  show "ko_Spec (observation X rm cert tags r) = ko_Spec (observation X rm cert tags r')"
    using assms by (intro CertificateSpec.equality) (simp_all add: kept_fields_def observation_def
        setDescribedStatus_def setDescribedSpec_def setARN_def setDomainValidations_def Let_def)
  show "ko_Status (observation X rm cert tags r) = ko_Status (observation X rm cert tags r')"
    using assms by (intro CertificateStatus.equality) (simp_all add: kept_fields_def observation_def
        setStatusDefaults_def setDescribedStatus_def setDescribedSpec_def setARN_def
        setDomainValidations_def Let_def)
qed

text \<open>
  C8. What \<open>sdkFind\<close> returns depends on the given resource only through the kept fields: no
  described field of a stale object (status, issue time, serial number, options, tags, ...)
  survives an observation, neither in the result nor in an error or a panic.
\<close>

theorem sdkFind_forgets:
  assumes "kept_fields r = kept_fields r'"
  shows "sdkFind X rm r s = sdkFind X rm r' s"
proof -
  have arn: "certARN r = certARN r'"
    using assms by (simp add: kept_fields_def certARN_def)
  show ?thesis
  proof (cases "certARN r'")
    case None
    with arn show ?thesis by (simp add: sdkFind_missing)
  next
    case (Some a)
    with arn have "certARN r = Some a" by simp
    then show ?thesis
      using Some by (simp add: sdkFind_run observation_kept [OF assms] cong: sum.case_cong option.case_cong)
  qed
qed

theorem sdkFind_forgets_witness:
  "sdkFind sampleExt sampleManager sampleDescribed (sampleSys sampleWorld) =
   sdkFind sampleExt sampleManager
     (onSpec (\<lambda>sp. sp\<lparr>spec_DomainName := Some ''stale.example.com''\<rparr>)
       (onStatus (\<lambda>st. st\<lparr>st_Status := Some ''ISSUED'', st_IssuedAt := Some 7\<rparr>) sampleDescribed)) (sampleSys sampleWorld)"
  by (rule sdkFind_forgets) (simp add: kept_fields_def)

text \<open>An unset SDK enum is nil in the resource, a set one is its text.\<close>

definition enum_field :: "string \<Rightarrow> string option" where
  "enum_field s = (if s = [] then None else Some s)"

lemma fromEnum_eq: "aws_laws X \<Longrightarrow> fromEnum X s = enum_field s"
  by (simp add: fromEnum_def enum_field_def aws_laws_def)

lemma aws_StringSlice_eq: "aws_laws X \<Longrightarrow> aws_StringSlice X xs = Some (map Some xs)"
  by (simp add: aws_laws_def)

lemma setARN_ARN [simp]:
  "certARN (setARN a ko) = (case a of Some x \<Rightarrow> Some x | None \<Rightarrow> certARN ko)"
  by (auto simp: certARN_def setARN_def Let_def emptyResourceMetadata_def split: option.split)

lemma setARN_frame [simp]:
  "ko_Spec (setARN a ko) = ko_Spec ko" "ko_ObjectMeta (setARN a ko) = ko_ObjectMeta ko"
  by (simp_all add: setARN_def Let_def)

lemma certARN_setStatusDefaults [simp]: "certARN (setStatusDefaults rm ko) = certARN ko"
  by (simp add: certARN_def setStatusDefaults_def Let_def emptyResourceMetadata_def
      split: option.split)

lemma report_of_ARN: "report_of rm ko ko' \<Longrightarrow> certARN ko' = certARN ko"
  by (auto simp: report_of_def owned_def certARN_def split: option.split)

lemma certARN_same_meta:
  "st_ACKResourceMetadata (ko_Status a) = st_ACKResourceMetadata (ko_Status b) \<Longrightarrow>
   certARN a = certARN b"
  by (simp add: certARN_def)

text \<open>
  What the object should hold after an answer of ACM, field by field. An empty list of e-mails
  of a validation record is nil in the status, but is kept in the renewal summary.
\<close>

definition seen_record :: "SdkResourceRecord \<Rightarrow> ResourceRecord" where
  "seen_record rr = \<lparr>rr_Name = sdkrr_Name rr, rr_Type = enum_field (sdkrr_Type rr),
     rr_Value = sdkrr_Value rr\<rparr>"

definition seen_validation :: "SdkDomainValidation \<Rightarrow> DomainValidation" where
  "seen_validation dv =
     \<lparr>dv_DomainName = sdkdv_DomainName dv, dv_HTTPRedirect = None,
      dv_ResourceRecord = map_option seen_record (sdkdv_ResourceRecord dv),
      dv_ValidationDomain = sdkdv_ValidationDomain dv,
      dv_ValidationEmails =
        (case sdkdv_ValidationEmails dv of
           Some (e # es) \<Rightarrow> Some (map Some (e # es)) | _ \<Rightarrow> None),
      dv_ValidationMethod = enum_field (sdkdv_ValidationMethod dv),
      dv_ValidationStatus = enum_field (sdkdv_ValidationStatus dv)\<rparr>"

definition seen_renewal :: "SdkDomainValidation \<Rightarrow> DomainValidation" where
  "seen_renewal dv = (seen_validation dv)\<lparr>
     dv_HTTPRedirect := map_option (\<lambda>h. \<lparr>hr_RedirectFrom = sdkhr_RedirectFrom h,
        hr_RedirectTo = sdkhr_RedirectTo h\<rparr>) (sdkdv_HttpRedirect dv),
     dv_ValidationEmails := map_option (map Some) (sdkdv_ValidationEmails dv)\<rparr>"

definition seen_spec ::
  "SdkCertificateDetail \<Rightarrow> SdkTag slice \<Rightarrow> CertificateSpec \<Rightarrow> CertificateSpec" where
  "seen_spec cert tags sp = sp\<lparr>
      spec_CertificateAuthorityARN := cd_CertificateAuthorityArn cert,
      spec_DomainName := cd_DomainName cert,
      spec_DomainValidationOptions := map_option (map (\<lambda>dv. Some
        \<lparr>dvo_DomainName = sdkdv_DomainName dv, dvo_ValidationDomain = sdkdv_ValidationDomain dv\<rparr>))
        (cd_DomainValidationOptions cert),
      spec_KeyAlgorithm := enum_field (cd_KeyAlgorithm cert),
      spec_ManagedBy := enum_field (cd_ManagedBy cert),
      spec_Options := map_option (\<lambda>opts.
        \<lparr>opts_CertificateTransparencyLoggingPreference =
           enum_field (sdkopts_CertificateTransparencyLoggingPreference opts),
         opts_Export = enum_field (sdkopts_Export opts)\<rparr>) (cd_Options cert),
      spec_SubjectAlternativeNames := map_option (map Some) (cd_SubjectAlternativeNames cert),
      spec_Tags := resourceTagsFromSDKTags tags\<rparr>"

definition seen_status ::
  "'w resourceManager \<Rightarrow> string \<Rightarrow> SdkCertificateDetail \<Rightarrow> CertificateStatus \<Rightarrow> CertificateStatus"
  where
  "seen_status rm arn cert st = st\<lparr>
      st_ACKResourceMetadata := Some (owned rm (map_option
        (\<lambda>m. m\<lparr>meta_ARN := Some (case cd_CertificateArn cert of Some a \<Rightarrow> a | None \<Rightarrow> arn)\<rparr>)
        (st_ACKResourceMetadata st))),
      st_Conditions := Some (elems (st_Conditions st)),
      st_CreatedAt := cd_CreatedAt cert,
      st_DomainValidations := map_option (map (\<lambda>dv. Some (seen_validation dv)))
        (cd_DomainValidationOptions cert),
      st_ExtendedKeyUsages := map_option (map (\<lambda>u. Some
        \<lparr>eku_Name = enum_field (sdkeku_Name u), eku_OID = sdkeku_OID u\<rparr>)) (cd_ExtendedKeyUsages cert),
      st_FailureReason := enum_field (cd_FailureReason cert),
      st_ImportedAt := cd_ImportedAt cert,
      st_InUseBy := map_option (map Some) (cd_InUseBy cert),
      st_IssuedAt := cd_IssuedAt cert,
      st_Issuer := cd_Issuer cert,
      st_KeyUsages := map_option (map (\<lambda>u. Some \<lparr>ku_Name = enum_field (sdkku_Name u)\<rparr>))
        (cd_KeyUsages cert),
      st_NotAfter := cd_NotAfter cert,
      st_NotBefore := cd_NotBefore cert,
      st_RenewalEligibility := enum_field (cd_RenewalEligibility cert),
      st_RenewalSummary := map_option (\<lambda>rs.
        \<lparr>rs_DomainValidationOptions = map_option (map (\<lambda>dv. Some (seen_renewal dv)))
           (sdkrs_DomainValidationOptions rs),
         rs_RenewalStatus = enum_field (sdkrs_RenewalStatus rs),
         rs_RenewalStatusReason = enum_field (sdkrs_RenewalStatusReason rs),
         rs_UpdatedAt = sdkrs_UpdatedAt rs\<rparr>) (cd_RenewalSummary cert),
      st_RevocationReason := enum_field (cd_RevocationReason cert),
      st_RevokedAt := cd_RevokedAt cert,
      st_Serial := cd_Serial cert,
      st_SignatureAlgorithm := cd_SignatureAlgorithm cert,
      st_Status := enum_field (cd_Status cert),
      st_Subject := cd_Subject cert,
      st_Type := enum_field (cd_Type cert)\<rparr>"

lemma statusDomainValidation_seen: "aws_laws X \<Longrightarrow> statusDomainValidation X dv = seen_validation dv"
  by (auto simp: statusDomainValidation_def seen_validation_def fromResourceRecord_def
      seen_record_def fromEnum_eq elems_def split: option.split list.split)

lemma renewalDomainValidation_seen: "aws_laws X \<Longrightarrow> renewalDomainValidation X dv = seen_renewal dv"
  by (auto simp: renewalDomainValidation_def seen_renewal_def seen_validation_def
      fromResourceRecord_def seen_record_def fromEnum_eq aws_StringSlice_eq split: option.split)

lemma owned_setARN:
  "certARN r = Some arn \<Longrightarrow>
   st_ACKResourceMetadata (ko_Status (setStatusDefaults rm (setARN a r))) =
     Some (owned rm (map_option (\<lambda>m. m\<lparr>meta_ARN := Some (case a of Some x \<Rightarrow> x | None \<Rightarrow> arn)\<rparr>)
       (st_ACKResourceMetadata (ko_Status r))))"
  by (auto simp: setStatusDefaults_def setARN_def owned_def certARN_def Let_def
      split: option.splits)


definition sampleDetail :: SdkCertificateDetail where
  "sampleDetail = \<lparr>cd_CertificateArn = Some ''arn:cert'', cd_CertificateAuthorityArn = None,
     cd_CreatedAt = Some 1, cd_DomainName = Some ''example.com'',
     cd_DomainValidationOptions = Some [\<lparr>sdkdv_DomainName = Some ''example.com'',
       sdkdv_HttpRedirect = None, sdkdv_ResourceRecord = Some \<lparr>sdkrr_Name = Some ''_a.example.com'',
         sdkrr_Type = ''CNAME'', sdkrr_Value = Some ''_b.acm.aws''\<rparr>, sdkdv_ValidationDomain = None,
       sdkdv_ValidationEmails = None, sdkdv_ValidationMethod = ''DNS'',
       sdkdv_ValidationStatus = ''SUCCESS''\<rparr>],
     cd_ExtendedKeyUsages = None, cd_FailureReason = [], cd_ImportedAt = None, cd_InUseBy = None,
     cd_IssuedAt = Some 5, cd_Issuer = Some ''Amazon'', cd_KeyAlgorithm = ''RSA-2048'',
     cd_KeyUsages = None, cd_ManagedBy = [], cd_NotAfter = None, cd_NotBefore = None,
     cd_Options = Some \<lparr>sdkopts_CertificateTransparencyLoggingPreference = ''ENABLED'',
       sdkopts_Export = []\<rparr>,
     cd_RenewalEligibility = [], cd_RenewalSummary = None, cd_RevocationReason = [],
     cd_RevokedAt = None, cd_Serial = Some ''01'', cd_SignatureAlgorithm = None,
     cd_Status = ''ISSUED'', cd_Subject = None,
     cd_SubjectAlternativeNames = Some [''example.com''], cd_Type = ''AMAZON_ISSUED''\<rparr>"

definition sampleIssued :: "sample_world sys" where
  "sampleIssued = sampleSys (sampleWorld\<lparr>sw_cert := Some sampleDetail\<rparr>)"

lemma sampleIssued_answers:
  "describe_answer sampleManager arn sampleIssued = Inr \<lparr>dco_Certificate = Some sampleDetail\<rparr>"
  "list_answer sampleManager arn (after_describe sampleManager arn sampleIssued) = Inr (Some [])"
  by (simp_all add: describe_answer_def list_answer_def after_describe_def sampleManager_def
      sampleClient_def sampleIssued_def sampleSys_def sampleWorld_def)


text \<open>The calls made between two states.\<close>

definition calls_since :: "'w sys \<Rightarrow> 'w sys \<Rightarrow> effect list" where
  "calls_since s t = drop (length (trace s)) (trace t)"

text \<open>
  C32. Observing changes nothing, and its calls are determined by the answers. Without an ARN
  there is none. Otherwise \<open>sdkFind\<close> calls \<open>DescribeCertificate\<close> on the ARN of the object and
  records its metric with the error of the call, if any; exactly when the answer holds a
  certificate it then calls \<open>ListTagsForCertificate\<close> on the same ARN and records that metric with
  that call's error. So it is also when the run ends in an error, or panics on an answer without
  a certificate.
\<close>

theorem sdkFind_calls:
  "trace (final_state (sdkFind X rm r s)) = trace s @
     (case certARN r of
        None \<Rightarrow> []
      | Some arn \<Rightarrow>
          [EvDescribe \<lparr>dci_CertificateArn = Some arn\<rparr>,
           RecordAPICall ''READ_ONE'' ''DescribeCertificate'' (error_of (describe_answer rm arn s))] @
          (if \<exists>cert. describe_answer rm arn s = Inr \<lparr>dco_Certificate = Some cert\<rparr> then
             [EvListTags arn, RecordAPICall ''GET'' ''ListTagsForCertificate''
                (error_of (list_answer rm arn (after_describe rm arn s)))]
           else []))"
proof (cases "certARN r")
  case None
  then show ?thesis by (simp add: sdkFind_missing)
next
  case (Some arn)
  have describe: "trace (after_describe rm arn s) = trace s @
      [EvDescribe \<lparr>dci_CertificateArn = Some arn\<rparr>,
       RecordAPICall ''READ_ONE'' ''DescribeCertificate'' (error_of (describe_answer rm arn s))]"
    by (simp add: after_describe_def describe_answer_def Let_def split: prod.split)
  have answer: "(\<exists>cert. out = \<lparr>dco_Certificate = Some cert\<rparr>) \<longleftrightarrow> dco_Certificate out \<noteq> None"
    for out :: DescribeCertificateOutput
    by (cases out) auto
  show ?thesis
    by (cases "describe_answer rm arn s")
      (auto simp: sdkFind_run [OF Some] Some Let_def describe after_list_def answer
        split: option.split)
qed

theorem sdkFind_calls_witness:
  "trace (final_state (sdkFind sampleExt sampleManager sampleDescribed sampleIssued)) =
     trace sampleIssued @ [EvDescribe \<lparr>dci_CertificateArn = Some ''arn:cert''\<rparr>,
       RecordAPICall ''READ_ONE'' ''DescribeCertificate'' None, EvListTags ''arn:cert'',
       RecordAPICall ''GET'' ''ListTagsForCertificate'' None]"
  using sdkFind_calls [of sampleExt sampleManager sampleDescribed sampleIssued]
  by (simp add: sampleDescribed_ARN sampleIssued_answers)

end
