(* ===== verification/CertExport.thy ===== *)
theory CertExport
  imports SdkFind
begin

text \<open>
  The export of an issued certificate into a Secret (\<open>hooks.go\<close>): a random passphrase, the
  \<open>ExportCertificate\<close> call, the certificate with its chain written under the key of \<open>exportTo\<close>,
  the decrypted private key written under \<open>tls.key\<close>.

  What is shown: the passphrase and its bias, what is written where and in which order on
  every path, how the private key is converted, and when the code panics.
\<close>

section \<open>hooks.go\<close>

definition charset :: string where
  "charset = ''abcdefghijklmnopqrstuvwxyzABCDEFGHIJKLMNOPQRSTUVWXYZ0123456789!@#$%^&*()_+-=[]{}|;:,.<>?''"

definition generateRandomString ::
  "'w resourceManager \<Rightarrow> nat \<Rightarrow> ('w sys, string \<times> goerror option) prog" where
  "generateRandomString rm n =
     bindP (callP (EvReadRandom n) (rc_ReadRandom (rm_rr rm) n)) (\<lambda>b.
     case b of
       Inl err \<Rightarrow> retP ([], Some err)
     | Inr b \<Rightarrow>
         let charsetLen = length charset;
             result = map (\<lambda>i. charset ! (unat (b ! i) mod charsetLen)) [0..<n]
         in retP (result, None))"

text \<open>None is the panic of the type assertion.\<close>

definition DecryptPrivateKey ::
  "Ext \<Rightarrow> string \<Rightarrow> string \<Rightarrow> string \<Rightarrow> (goerror + string) option" where
  "DecryptPrivateKey X encryptedPEM passphrase keyAlgorithm =
     (case pem_Decode X encryptedPEM of
        None \<Rightarrow> Some (Inl (ErrorString ''failed to decode PEM block: no PEM data found''))
      | Some bytes \<Rightarrow>
          (case ParsePKCS8PrivateKey X bytes passphrase of
             Inl _ \<Rightarrow> Some (Inl (ErrorString ''failed to decrypt PEM block''))
           | Inr privateKey \<Rightarrow>
               if Contains keyAlgorithm ''RSA'' then
                 (case privateKey of
                    RSAKey k \<Rightarrow>
                      (case MarshalPKCS8PrivateKey X (RSAKey k) of
                         Inl _ \<Rightarrow> Some (Inl (ErrorString ''failed to marshal PEM block''))
                       | Inr derBytes \<Rightarrow> Some (Inr (pem_EncodeToMemory X ''PRIVATE KEY'' derBytes)))
                  | _ \<Rightarrow> None)
               else
                 (case privateKey of
                    ECDSAKey k \<Rightarrow>
                      (case MarshalPKCS8PrivateKey X (ECDSAKey k) of
                         Inl _ \<Rightarrow> Some (Inl (ErrorString ''failed to marshal PEM block''))
                       | Inr derBytes \<Rightarrow> Some (Inr (pem_EncodeToMemory X ''PRIVATE KEY'' derBytes)))
                  | _ \<Rightarrow> None)))"

definition writeToSecret ::
  "'w resourceManager \<Rightarrow> Certificate \<Rightarrow> SecretKeyReference \<Rightarrow> string \<Rightarrow> string \<Rightarrow>
     ('w sys, goerror option) prog" where
  "writeToSecret rm r exportTo value key =
     (if skr_Namespace exportTo \<noteq> []
      then callP (EvWriteSecret value (skr_Namespace exportTo) (skr_Name exportTo) key)
             (rc_WriteToSecret (rm_rr rm) value (skr_Namespace exportTo) (skr_Name exportTo) key)
      else callP (EvWriteSecret value (om_Namespace (ko_ObjectMeta r)) (skr_Name exportTo) key)
             (rc_WriteToSecret (rm_rr rm) value (om_Namespace (ko_ObjectMeta r))
               (skr_Name exportTo) key))"

definition exportInput :: "Certificate \<Rightarrow> ExportCertificateInput" where
  "exportInput r =
     (let input = \<lparr>eci_CertificateArn = None, eci_Passphrase = []\<rparr> in
      case st_ACKResourceMetadata (ko_Status r) of
        None \<Rightarrow> input
      | Some m \<Rightarrow> if meta_ARN m \<noteq> None then input\<lparr>eci_CertificateArn := meta_ARN m\<rparr> else input)"

definition withChain :: "string \<Rightarrow> string option \<Rightarrow> string" where
  "withChain certificate chain =
     (case chain of
        Some c \<Rightarrow> if c \<noteq> [] then certificate @ c else certificate
      | None \<Rightarrow> certificate)"

text \<open>The part of \<open>exportCertificate\<close> after the answer of ACM.\<close>

definition storeExported ::
  "Ext \<Rightarrow> 'w resourceManager \<Rightarrow> Certificate \<Rightarrow> SecretKeyReference \<Rightarrow> string \<Rightarrow>
     ExportCertificateOutput \<Rightarrow> ('w sys, goerror option) prog" where
  "storeExported X rm r exportTo passphrase out =
     bindP (liftP (eco_Certificate out)) (\<lambda>certificate.
     let certificateChain = withChain certificate (eco_CertificateChain out) in
     bindP (writeToSecret rm r exportTo certificateChain (skr_Key exportTo)) (\<lambda>err.
     if err \<noteq> None then retP err
     else
       bindP (liftP (eco_PrivateKey out)) (\<lambda>encrypted.
       bindP (liftP (spec_KeyAlgorithm (ko_Spec r))) (\<lambda>keyAlgorithm.
       bindP (liftP (DecryptPrivateKey X encrypted passphrase keyAlgorithm)) (\<lambda>decryptedKey.
       case decryptedKey of
         Inl err \<Rightarrow> retP (Some err)
       | Inr decryptedKey \<Rightarrow>
           bindP (writeToSecret rm r exportTo decryptedKey ''tls.key'') (\<lambda>err.
           if err \<noteq> None then retP err else retP None))))))"

definition exportCertificate ::
  "Ext \<Rightarrow> 'w resourceManager \<Rightarrow> Certificate \<Rightarrow> ('w sys, goerror option) prog" where
  "exportCertificate X rm r =
     (case spec_ExportTo (ko_Spec r) of
        None \<Rightarrow> retP None
      | Some exportTo \<Rightarrow>
          let input = exportInput r; passphraseLength = 8 in
          bindP (generateRandomString rm passphraseLength) (\<lambda>(passphrase, err).
          if err \<noteq> None then retP err
          else
            let input = input\<lparr>eci_Passphrase := passphrase\<rparr> in
            bindP (callP (EvExport input) (api_ExportCertificate (rm_sdkapi rm) input)) (\<lambda>resp.
            bindP (emitP (RecordAPICall ''READ_ONE'' ''ExportCertificate'' (error_of resp))) (\<lambda>_.
            case resp of
              Inl err \<Rightarrow> retP (Some err)
            | Inr out \<Rightarrow> storeExported X rm r exportTo passphrase out))))"

section \<open>The passphrase\<close>

lemma charset_length: "length charset = 88"
  by (simp add: charset_def)

lemma charset_distinct: "distinct charset"
  by (simp add: charset_def)

text \<open>\<open>io.ReadFull\<close> returns without error only if it filled the buffer.\<close>

definition full_reads :: "'w resourceManager \<Rightarrow> bool" where
  "full_reads rm \<longleftrightarrow>
     (\<forall>n w b. fst (rc_ReadRandom (rm_rr rm) n w) = Inr b \<longrightarrow> length b = n)"

text \<open>
  C39. The passphrase generator stays within its charset: with a full read of the random
  source the result has the asked length, its i-th character is the one the i-th byte
  selects, every character is one of the 88 of the charset, and nothing is called but the
  random source. A failed read gives the error and no string.
\<close>

theorem generateRandomString_spec:
  assumes "full_reads rm"
  shows "\<exists>t. calls_since s t = [EvReadRandom n] \<and>
    (case fst (rc_ReadRandom (rm_rr rm) n (env s)) of
       Inl e \<Rightarrow> generateRandomString rm n s = Returns ([], Some e) t
     | Inr b \<Rightarrow> (\<exists>p. generateRandomString rm n s = Returns (p, None) t \<and> length p = n \<and>
         set p \<subseteq> set charset \<and>
         list_all2 (\<lambda>c x. c = charset ! (unat x mod 88)) p b))"
proof (cases "fst (rc_ReadRandom (rm_rr rm) n (env s))")
  case (Inl e)
  then show ?thesis
    by (simp add: generateRandomString_def prog_simps calls_since_def)
next
  case (Inr b)
  let ?p = "map (\<lambda>i. charset ! (unat (b ! i) mod 88)) [0..<n]"
  have "length b = n" using assms Inr unfolding full_reads_def by blast
  then have "list_all2 (\<lambda>c x. c = charset ! (unat x mod 88)) ?p b"
    by (simp add: list_all2_conv_all_nth)
  moreover have "charset ! (unat (b ! i) mod 88) \<in> set charset" for i
    by (rule nth_mem) (simp add: charset_length)
  then have "set ?p \<subseteq> set charset" by auto
  ultimately show ?thesis
    using Inr by (intro exI [of _ "s\<lparr>env := snd (rc_ReadRandom (rm_rr rm) n (env s)),
        trace := trace s @ [EvReadRandom n]\<rparr>"])
      (simp add: generateRandomString_def prog_simps calls_since_def charset_length Let_def)
qed

lemma sample_full_reads: "full_reads sampleManager"
  by (auto simp: full_reads_def sampleManager_def sampleReconciler_def)

theorem generateRandomString_spec_witness:
  "\<exists>p t. generateRandomString sampleManager 8 (sampleSys sampleWorld) = Returns (p, None) t \<and> length p = 8"
proof -
  let ?s = "sampleSys sampleWorld"
  have "\<exists>b. fst (rc_ReadRandom (rm_rr sampleManager) 8 (env ?s)) = Inr b"
    by (simp add: sampleManager_def sampleReconciler_def)
  then show ?thesis
    using generateRandomString_spec [OF sample_full_reads, of ?s 8] by auto
qed

lemma card_bytes: "card {x :: 8 word. P (unat x)} = card {n. n < 256 \<and> P n}"
proof -
  have "unat ` {x :: 8 word. P (unat x)} = {n. n < 256 \<and> P n}"
  proof (intro set_eqI iffI)
    fix n assume "n \<in> {n. n < 256 \<and> P n}"
    then have n: "n < 2 ^ 8" "P n" by simp_all
    from n(1) have "unat (word_of_nat n :: 8 word) = n"
      by (simp add: unsigned_of_nat take_bit_nat_eq_self)
    with n(2) show "n \<in> unat ` {x :: 8 word. P (unat x)}"
      by (metis (mono_tags, lifting) image_eqI mem_Collect_eq)
  next
    fix n assume "n \<in> unat ` {x :: 8 word. P (unat x)}"
    then show "n \<in> {n. n < 256 \<and> P n}"
      using unsigned_less [where 'a = nat and 'b = 8] by auto
  qed
  moreover have "inj_on unat {x :: 8 word. P (unat x)}"
    by (rule inj_onI) (rule unsigned_word_eqI)
  ultimately show ?thesis by (metis card_image)
qed

text \<open>
  The bias of the passphrase: of the 256 values of a random byte, three select each of the
  first 80 characters of the charset and two each of the last 8, so no character has a
  probability above 3/256 (a uniform choice would be 1/88).
\<close>

theorem passphrase_bias:
  assumes "i < length charset"
  shows "card {x :: 8 word. charset ! (unat x mod length charset) = charset ! i} =
    (if i < 80 then 3 else 2)"
proof -
  have i: "i < 88" using assms by (simp add: charset_length)
  have "charset ! (unat x mod length charset) = charset ! i \<longleftrightarrow> unat x mod 88 = i"
    for x :: "8 word"
    using i by (simp add: nth_eq_iff_index_eq [OF charset_distinct] charset_length)
  then have "card {x :: 8 word. charset ! (unat x mod length charset) = charset ! i} =
      card {n. n < 256 \<and> n mod 88 = i}"
    using card_bytes [of "\<lambda>n. n mod 88 = i"] by simp
  also have "{n. n < 256 \<and> n mod 88 = i} =
      {i, i + 88} \<union> (if i < 80 then {i + 176} else {})"
  proof (intro set_eqI iffI)
    fix n assume n: "n \<in> {n. n < 256 \<and> n mod 88 = i}"
    define q where "q = n div 88"
    have nq: "n = 88 * q + i" and "q < 3"
      using n mult_div_mod_eq [of 88 n] by (auto simp: q_def)
    then consider "q = 0" | "q = 1" | "q = 2" by linarith
    then show "n \<in> {i, i + 88} \<union> (if i < 80 then {i + 176} else {})"
      using nq n by cases auto
  qed (use i mod_mult_self2 [of i 88 2] in \<open>auto split: if_splits\<close>)
  also have "card \<dots> = (if i < 80 then 3 else 2)" by auto
  finally show ?thesis .
qed

section \<open>What is written\<close>

definition exportNamespace :: "Certificate \<Rightarrow> SecretKeyReference \<Rightarrow> string" where
  "exportNamespace r exportTo =
     (if skr_Namespace exportTo \<noteq> [] then skr_Namespace exportTo
      else om_Namespace (ko_ObjectMeta r))"

definition secretWrite :: "Certificate \<Rightarrow> SecretKeyReference \<Rightarrow> string \<Rightarrow> string \<Rightarrow> effect" where
  "secretWrite r exportTo value key =
     EvWriteSecret value (exportNamespace r exportTo) (skr_Name exportTo) key"

lemma writeToSecret_run:
  "writeToSecret rm r to v k s =
     (let (err, w) = rc_WriteToSecret (rm_rr rm) v (exportNamespace r to) (skr_Name to) k (env s) in
      Returns err (s\<lparr>env := w, trace := trace s @ [secretWrite r to v k]\<rparr>))"
  by (simp add: writeToSecret_def secretWrite_def exportNamespace_def prog_simps split: prod.split)

lemma storeExported_cases:
  obtains (nothing) "storeExported X rm r to pass out s = Panics s"
  | (cert_only) c t where "eco_Certificate out = Some c"
      and "trace t = trace s @ [secretWrite r to (withChain c (eco_CertificateChain out)) (skr_Key to)]"
      and "storeExported X rm r to pass out s = Panics t \<or>
        (\<exists>e. storeExported X rm r to pass out s = Returns (Some e) t)"
  | (both) c enc alg pem err t where "eco_Certificate out = Some c"
      and "eco_PrivateKey out = Some enc" and "spec_KeyAlgorithm (ko_Spec r) = Some alg"
      and "DecryptPrivateKey X enc pass alg = Some (Inr pem)"
      and "trace t = trace s @ [secretWrite r to (withChain c (eco_CertificateChain out)) (skr_Key to),
        secretWrite r to pem ''tls.key'']"
      and "storeExported X rm r to pass out s = Returns err t"
proof (cases "eco_Certificate out")
  case None
  then have "storeExported X rm r to pass out s = Panics s"
    by (simp add: storeExported_def prog_simps)
  then show ?thesis by (rule nothing)
next
  case (Some c)
  let ?v = "withChain c (eco_CertificateChain out)"
  obtain e1 w1 where r1: "rc_WriteToSecret (rm_rr rm) ?v (exportNamespace r to) (skr_Name to)
      (skr_Key to) (env s) = (e1, w1)" by fastforce
  let ?t = "s\<lparr>env := w1, trace := trace s @ [secretWrite r to ?v (skr_Key to)]\<rparr>"
  note defs = storeExported_def prog_simps bindP_apply writeToSecret_run Some r1 Let_def
  let ?dec = "case (eco_PrivateKey out, spec_KeyAlgorithm (ko_Spec r)) of
    (Some enc, Some alg) \<Rightarrow> DecryptPrivateKey X enc pass alg | _ \<Rightarrow> None"
  show ?thesis
  proof (cases "\<exists>enc alg pem. e1 = None \<and> eco_PrivateKey out = Some enc \<and>
      spec_KeyAlgorithm (ko_Spec r) = Some alg \<and> DecryptPrivateKey X enc pass alg = Some (Inr pem)")
    case True
    then obtain enc alg pem where h: "e1 = None" "eco_PrivateKey out = Some enc"
      "spec_KeyAlgorithm (ko_Spec r) = Some alg" "DecryptPrivateKey X enc pass alg = Some (Inr pem)"
      by blast
    obtain e2 w2 where r2: "rc_WriteToSecret (rm_rr rm) pem (exportNamespace r to) (skr_Name to)
        ''tls.key'' w1 = (e2, w2)" by fastforce
    show ?thesis
      by (rule both [OF Some h(2,3,4), of "?t\<lparr>env := w2, trace := trace ?t @
            [secretWrite r to pem ''tls.key'']\<rparr>" e2])
        (use h r2 in \<open>auto simp: defs\<close>)
  next
    case False
    then have "storeExported X rm r to pass out s = Panics ?t \<or>
        (\<exists>e. storeExported X rm r to pass out s = Returns (Some e) ?t)"
      by (auto simp: defs liftP_def split: option.splits sum.splits)
    then show ?thesis by (intro cert_only [OF Some, of ?t]) simp_all
  qed
qed

lemma exportInput_eq: "exportInput r = \<lparr>eci_CertificateArn = certARN r, eci_Passphrase = []\<rparr>"
  by (simp add: exportInput_def certARN_def Let_def split: option.split)

text \<open>The run up to the answer of ACM.\<close>

lemma exportCertificate_cases:
  assumes "spec_ExportTo (ko_Spec r) = Some to"
  obtains (failed) e t evs where "exportCertificate X rm r s = Returns (Some e) t"
      and "trace t = trace s @ evs" and "filter mutating evs = []"
  | (answered) pass out t u w where "exportCertificate X rm r s = storeExported X rm r to pass out t"
      and "generateRandomString rm 8 s = Returns (pass, None) u"
      and "api_ExportCertificate (rm_sdkapi rm)
        \<lparr>eci_CertificateArn = certARN r, eci_Passphrase = pass\<rparr> (env u) = (Inr out, w)"
      and "trace t = trace s @ [EvReadRandom 8,
        EvExport \<lparr>eci_CertificateArn = certARN r, eci_Passphrase = pass\<rparr>,
        RecordAPICall ''READ_ONE'' ''ExportCertificate'' None]"
proof -
  obtain b w where rr: "rc_ReadRandom (rm_rr rm) 8 (env s) = (b, w)" by fastforce
  note defs = exportCertificate_def assms generateRandomString_def prog_simps bindP_apply rr
    exportInput_eq Let_def
  show ?thesis
  proof (cases b)
    case (Inl e)
    show ?thesis
      by (rule failed [of e "s\<lparr>env := w, trace := trace s @ [EvReadRandom 8]\<rparr>" "[EvReadRandom 8]"])
        (use Inl in \<open>simp_all add: defs\<close>)
  next
    case (Inr bs)
    define pass where "pass = map (\<lambda>i. charset ! (unat (bs ! i) mod length charset)) [0..<8]"
    let ?i = "\<lparr>eci_CertificateArn = certARN r, eci_Passphrase = pass\<rparr> :: ExportCertificateInput"
    obtain a w' where a: "api_ExportCertificate (rm_sdkapi rm) ?i w = (a, w')" by fastforce
    let ?evs = "[EvReadRandom 8, EvExport ?i, RecordAPICall ''READ_ONE'' ''ExportCertificate'' (error_of a)]"
    let ?t = "s\<lparr>env := w', trace := trace s @ ?evs\<rparr>"
    have run: "exportCertificate X rm r s = (case a of Inl e \<Rightarrow> Returns (Some e) ?t
        | Inr out \<Rightarrow> storeExported X rm r to pass out ?t)"
      unfolding pass_def using Inr a [unfolded pass_def] by (simp add: defs del: upt_Suc split: sum.split)
    show ?thesis
    proof (cases a)
      case (Inl e)
      show ?thesis by (rule failed [of e ?t ?evs]) (use Inl run in simp_all)
    next
      case (Inr out)
      let ?u = "s\<lparr>env := w, trace := trace s @ [EvReadRandom 8]\<rparr>"
      have "generateRandomString rm 8 s = Returns (pass, None) ?u"
        unfolding pass_def using \<open>b = Inr bs\<close>
        by (simp add: generateRandomString_def prog_simps rr Let_def del: upt_Suc)
      moreover have "api_ExportCertificate (rm_sdkapi rm) ?i (env ?u) = (Inr out, w')"
        using a Inr by simp
      ultimately show ?thesis by (rule answered [of pass out ?t ?u w', rotated 1]) (use Inr run in simp_all)
    qed
  qed
qed

lemma mutating_secretWrite [simp]: "mutating (secretWrite r to v k)"
  by (simp add: secretWrite_def)

text \<open>What one Secret write of the chain holds: the certificate followed by its chain, if any.\<close>

lemma withChain_eq: "withChain c chain = c @ (case chain of None \<Rightarrow> [] | Some ch \<Rightarrow> ch)"
  by (simp add: withChain_def split: option.split)

text \<open>
  C10. What an export writes is what ACM answered to \<open>ExportCertificate\<close> for the ARN of the object
  and a fresh passphrase of eight characters. It writes at most two values, both into the Secret
  that \<open>exportTo\<close> names (in its namespace, or else in that of the object), in this order: the
  certificate of the answer followed by its chain, if it has one, under the key of \<open>exportTo\<close>,
  then, under \<open>tls.key\<close>, the private key of the answer, decrypted with that passphrase for the
  object's key algorithm. It succeeds only if it wrote both; a failure in between leaves the new
  certificate beside the old key. Without an answer nothing is written.
\<close>

theorem exportCertificate_writes:
  assumes "spec_ExportTo (ko_Spec r) = Some to"
    and "writes = filter mutating (calls_since s (final_state (exportCertificate X rm r s)))"
  shows "(writes = [] \<and> (\<forall>t. exportCertificate X rm r s \<noteq> Returns None t)) \<or>
    (\<exists>pass u out w c first.
       generateRandomString rm 8 s = Returns (pass, None) u \<and>
       api_ExportCertificate (rm_sdkapi rm)
         \<lparr>eci_CertificateArn = certARN r, eci_Passphrase = pass\<rparr> (env u) = (Inr out, w) \<and>
       eco_Certificate out = Some c \<and>
       first = secretWrite r to
         (c @ (case eco_CertificateChain out of None \<Rightarrow> [] | Some ch \<Rightarrow> ch)) (skr_Key to) \<and>
       (writes = [first] \<and> (\<forall>t. exportCertificate X rm r s \<noteq> Returns None t) \<or>
        (\<exists>enc alg pem. eco_PrivateKey out = Some enc \<and> spec_KeyAlgorithm (ko_Spec r) = Some alg \<and>
           DecryptPrivateKey X enc pass alg = Some (Inr pem) \<and>
           writes = [first, secretWrite r to pem ''tls.key''])))"
  using assms(1)
proof (cases rule: exportCertificate_cases [where X = X and rm = rm and s = s])
  case (failed e t evs)
  then show ?thesis by (simp add: assms(2) calls_since_def)
next
  case (answered pass out u v w)
  note wr = assms(2) calls_since_def withChain_eq
  show ?thesis
  proof (cases rule: storeExported_cases [of X rm r to pass out u])
    case nothing
    with answered show ?thesis by (simp add: wr)
  next
    case (cert_only c t)
    then have "writes = [secretWrite r to (withChain c (eco_CertificateChain out)) (skr_Key to)]"
      and "\<forall>t. exportCertificate X rm r s \<noteq> Returns None t"
      using answered by (auto simp: assms(2) calls_since_def)
    with answered cert_only(1) show ?thesis unfolding withChain_eq by blast
  next
    case (both c enc alg pem err t)
    then have "writes = [secretWrite r to (withChain c (eco_CertificateChain out)) (skr_Key to),
        secretWrite r to pem ''tls.key'']"
      using answered by (simp add: assms(2) calls_since_def)
    with answered both(1-4) show ?thesis unfolding withChain_eq by blast
  qed
qed

definition sampleExported :: Certificate where
  "sampleExported = onSpec (\<lambda>sp. sp\<lparr>spec_KeyAlgorithm := Some ''RSA-2048'',
     spec_ExportTo := Some \<lparr>skr_Name = ''tls'', skr_Namespace = ''web'', skr_Key = ''tls.crt''\<rparr>\<rparr>)
     sampleDescribed"

lemma Contains_RSA: "Contains ''RSA-2048'' ''RSA''"
  by (simp add: Contains_iff_sublist)

lemma sampleExport_ok:
  assumes "spec_ExportTo (ko_Spec r) = Some to" and "spec_KeyAlgorithm (ko_Spec r) = Some ''RSA-2048''"
  shows "\<exists>t. exportCertificate sampleExt sampleManager r s = Returns None t"
proof -
  have "DecryptPrivateKey sampleExt ''-RKEY'' pass ''RSA-2048'' = Some (Inr ''-KEY'')" for pass
    using Contains_RSA by (simp add: DecryptPrivateKey_def sampleExt_def)
  then show ?thesis
    using assms by (simp add: exportCertificate_def generateRandomString_def prog_simps
        bindP_apply storeExported_def writeToSecret_run sampleManager_def sampleReconciler_def
        sampleClient_def Let_def split: prod.split)
qed

lemma sampleExport_runs:
  "\<exists>t. exportCertificate sampleExt sampleManager sampleExported s = Returns None t"
  by (rule sampleExport_ok) (simp_all add: sampleExported_def)

theorem exportCertificate_writes_witness:
  "\<exists>t. exportCertificate sampleExt sampleManager sampleExported (sampleSys sampleWorld) = Returns None t \<and>
     filter mutating (calls_since (sampleSys sampleWorld) t) =
       [EvWriteSecret ''CERTCHAIN'' ''web'' ''tls'' ''tls.crt'',
        EvWriteSecret ''-KEY'' ''web'' ''tls'' ''tls.key'']"
proof -
  let ?s = "sampleSys sampleWorld"
  obtain t where run: "exportCertificate sampleExt sampleManager sampleExported ?s = Returns None t"
    using sampleExport_runs by blast
  let ?to = "\<lparr>skr_Name = ''tls'', skr_Namespace = ''web'', skr_Key = ''tls.crt''\<rparr>"
  have to: "spec_ExportTo (ko_Spec sampleExported) = Some ?to"
    and alg: "spec_KeyAlgorithm (ko_Spec sampleExported) = Some ''RSA-2048''"
    by (simp_all add: sampleExported_def)
  have answer: "api_ExportCertificate (rm_sdkapi sampleManager) i w = (Inr out, w') \<longleftrightarrow>
      out = \<lparr>eco_Certificate = Some ''CERT'', eco_CertificateChain = Some ''CHAIN'',
        eco_PrivateKey = Some ''-RKEY''\<rparr> \<and> w' = w" for i w w' out
    by (auto simp: sampleManager_def sampleClient_def)
  have key: "DecryptPrivateKey sampleExt ''-RKEY'' pass ''RSA-2048'' = Some (Inr ''-KEY'')" for pass
    using Contains_RSA by (simp add: DecryptPrivateKey_def sampleExt_def)
  from exportCertificate_writes [OF to refl, of ?s sampleExt sampleManager] run
  have "filter mutating (calls_since ?s t) = [secretWrite sampleExported ?to ''CERTCHAIN'' ''tls.crt'',
      secretWrite sampleExported ?to ''-KEY'' ''tls.key'']"
    by (auto simp: answer alg key)
  then show ?thesis using run by (simp add: secretWrite_def exportNamespace_def)
qed

text \<open>The kind of the decrypted key is the one the key algorithm names.\<close>

definition key_fits :: "string \<Rightarrow> PrivateKey \<Rightarrow> bool" where
  "key_fits alg key =
     (case key of
        RSAKey _ \<Rightarrow> sublist ''RSA'' alg
      | ECDSAKey _ \<Rightarrow> \<not> sublist ''RSA'' alg
      | OtherKey _ \<Rightarrow> False)"

text \<open>
  C37. \<open>DecryptPrivateKey\<close> panics exactly when the key decrypts to a kind that does not fit the
  algorithm (RSA where the name contains RSA, ECDSA otherwise); it succeeds exactly when the
  PEM block decodes, the key decrypts, fits and can be marshalled, and then its result is a
  PEM block of that marshalled key.
\<close>

theorem DecryptPrivateKey_spec:
  assumes "pem_laws X"
  shows "(DecryptPrivateKey X p pass alg = None \<longleftrightarrow>
      (\<exists>bytes key. pem_Decode X p = Some bytes \<and> ParsePKCS8PrivateKey X bytes pass = Inr key \<and>
         \<not> key_fits alg key)) \<and>
    (\<forall>res. DecryptPrivateKey X p pass alg = Some (Inr res) \<longleftrightarrow>
      (\<exists>bytes key der. pem_Decode X p = Some bytes \<and> ParsePKCS8PrivateKey X bytes pass = Inr key \<and>
         key_fits alg key \<and> MarshalPKCS8PrivateKey X key = Inr der \<and>
         res = pem_EncodeToMemory X ''PRIVATE KEY'' der \<and> pem_Decode X res = Some der))"
proof (cases "pem_Decode X p")
  case None
  then show ?thesis by (simp add: DecryptPrivateKey_def)
next
  case (Some bytes)
  have pem: "pem_Decode X (pem_EncodeToMemory X t b) = Some b" for t b
    using assms by (simp add: pem_laws_def)
  show ?thesis
  proof (cases "ParsePKCS8PrivateKey X bytes pass")
    case (Inl e)
    with Some show ?thesis by (simp add: DecryptPrivateKey_def)
  next
    case (Inr key)
    with Some show ?thesis
      by (cases key)
        (auto simp: DecryptPrivateKey_def key_fits_def Contains_iff_sublist pem split: sum.split)
  qed
qed

theorem DecryptPrivateKey_spec_witness:
  "DecryptPrivateKey sampleExt ''-RKEY'' ''pw'' ''EC_prime256v1'' = None \<and>
   DecryptPrivateKey sampleExt ''-RKEY'' ''pw'' ''RSA-2048'' = Some (Inr ''-KEY'')"
  using DecryptPrivateKey_spec [OF sample_pem, of "''-RKEY''" "''pw''" "''EC_prime256v1''"]
    DecryptPrivateKey_spec [OF sample_pem, of "''-RKEY''" "''pw''" "''RSA-2048''"]
  by (simp add: sampleExt_def key_fits_def Contains_iff_sublist [symmetric])

end
