(* ===== verification/SdkCreate.thy ===== *)
theory SdkCreate
  imports SdkFind
begin

text \<open>
  \<open>sdkCreate\<close> and the payload builders of \<open>sdk.go\<close>, \<open>validatePublicValidationOptions\<close>,
  \<open>maybeImportCertificate\<close> and \<open>importCertificate\<close> of \<open>hooks.go\<close>: a certificate is created either
  by importing it from Secrets or by requesting it from ACM.

  What is shown: a run makes at most one creating call, and exactly one if it succeeds; the
  contradictory specs are refused before any call; what the request asks for; how the Secrets
  are read; and that what is requested is read back by \<open>sdkFind\<close> as it was.
\<close>

section \<open>Conversions to the shapes of the SDK\<close>

text \<open>A nil element of a slice of pointers panics in these loops.\<close>

definition toSdkTags :: "Tag option list \<Rightarrow> SdkTag list option" where
  "toSdkTags ts =
     those (map (map_option (\<lambda>t. \<lparr>sdktag_Key = tag_Key t, sdktag_Value = tag_Value t\<rparr>)) ts)"

definition toSdkValidationOptions ::
  "DomainValidationOption option list \<Rightarrow> SdkDomainValidationOption list option" where
  "toSdkValidationOptions dvos =
     those (map (map_option (\<lambda>d. \<lparr>sdkdvo_DomainName = dvo_DomainName d,
       sdkdvo_ValidationDomain = dvo_ValidationDomain d\<rparr>)) dvos)"

text \<open>A nil pointer leaves the SDK enum at its zero value.\<close>

definition toEnum :: "string option \<Rightarrow> string" where
  "toEnum s = (case s of None \<Rightarrow> [] | Some v \<Rightarrow> v)"

definition toOptions :: "CertificateOptions option \<Rightarrow> SdkCertificateOptions option" where
  "toOptions opts =
     (case opts of
        None \<Rightarrow> None
      | Some f5 \<Rightarrow> Some
          \<lparr>sdkopts_CertificateTransparencyLoggingPreference =
             toEnum (opts_CertificateTransparencyLoggingPreference f5),
           sdkopts_Export = toEnum (opts_Export f5)\<rparr>)"

section \<open>hooks.go\<close>

definition limitDomainValidationOptionsPublic :: nat where
  "limitDomainValidationOptionsPublic = 5"

definition errTooManyDomainValidationOptions :: goerror where
  "errTooManyDomainValidationOptions = ErrorString ''Too many domain validation errors''"

definition validatePublicValidationOptions :: "Certificate \<Rightarrow> goerror option" where
  "validatePublicValidationOptions r =
     (if spec_CertificateAuthorityARN (ko_Spec r) \<noteq> None then
        let numDVOptions = length (elems (spec_DomainValidationOptions (ko_Spec r))) in
        if numDVOptions > limitDomainValidationOptionsPublic
        then Some errTooManyDomainValidationOptions else None
      else None)"

text \<open>
  One of the three blocks of \<open>newImportCertificateInput\<close>: the value of a Secret, or the error
  that makes the reconciler come back. An empty value leaves the field empty.
\<close>

definition readSecret ::
  "'w resourceManager \<Rightarrow> SecretKeyReference option \<Rightarrow> ('w sys, goerror + string) prog" where
  "readSecret rm ref =
     bindP (callP (EvReadSecret ref) (rc_SecretValueFromReference (rm_rr rm) ref)) (\<lambda>tmpSecret.
     retP (case tmpSecret of
             Inl err \<Rightarrow> Inl (RequeueNeeded err)
           | Inr v \<Rightarrow> Inr (if v \<noteq> [] then v else [])))"

definition newImportCertificateInput ::
  "'w resourceManager \<Rightarrow> Certificate \<Rightarrow> ('w sys, goerror + ImportCertificateInput) prog" where
  "newImportCertificateInput rm r =
     bindP (liftP (case spec_Tags (ko_Spec r) of
                     None \<Rightarrow> Some None
                   | Some ts \<Rightarrow> map_option Some (toSdkTags ts))) (\<lambda>tags.
     bindP (readSecret rm (spec_PrivateKey (ko_Spec r))) (\<lambda>key.
     case key of Inl err \<Rightarrow> retP (Inl err) | Inr key \<Rightarrow>
     bindP (readSecret rm (spec_Certificate (ko_Spec r))) (\<lambda>cert.
     case cert of Inl err \<Rightarrow> retP (Inl err) | Inr cert \<Rightarrow>
     bindP (readSecret rm (spec_CertificateChain (ko_Spec r))) (\<lambda>chain.
     case chain of Inl err \<Rightarrow> retP (Inl err) | Inr chain \<Rightarrow>
     retP (Inr \<lparr>ici_Certificate = cert, ici_CertificateArn = spec_CertificateARN (ko_Spec r),
                ici_CertificateChain = chain, ici_PrivateKey = key, ici_Tags = tags\<rparr>)))))"

definition setResourceFromImportCertificateOutput ::
  "ImportCertificateOutput \<Rightarrow> Certificate \<Rightarrow> Certificate" where
  "setResourceFromImportCertificateOutput resp r = setARN (ico_CertificateArn resp) r"

definition importCertificate ::
  "'w resourceManager \<Rightarrow> Certificate \<Rightarrow> ImportCertificateInput \<Rightarrow>
     ('w sys, Certificate option \<times> goerror option) prog" where
  "importCertificate rm desired input =
     bindP (callP (EvImport input) (api_ImportCertificate (rm_sdkapi rm) input)) (\<lambda>resp.
     bindP (emitP (RecordAPICall ''CREATE'' ''ImportCertificate'' (error_of resp))) (\<lambda>_.
     case resp of
       Inl respErr \<Rightarrow> retP (None, Some respErr)
     | Inr out \<Rightarrow>
         let ko = setResourceFromImportCertificateOutput out desired
         in retP (Some (setStatusDefaults rm ko), None)))"

definition requestFieldsWithImport :: goerror where
  "requestFieldsWithImport = TerminalError (ErrorString
     ''cannot set fields used for requesting a certificate when importing a certificate'')"

definition importFieldsWithRequest :: goerror where
  "importFieldsWithRequest = TerminalError (ErrorString
     ''cannot set fields used for importing a certificate when requesting a certificate'')"

definition privateKeyRequired :: goerror where
  "privateKeyRequired =
     TerminalError (ErrorString ''privateKey is required when importing a certificate'')"

text \<open>\<open>certSpec\<close> is a copy of the spec: clearing its fields leaves the resource as it is.\<close>

definition maybeImportCertificate ::
  "'w resourceManager \<Rightarrow> Certificate \<Rightarrow>
     ('w sys, Certificate option \<times> bool \<times> goerror option) prog" where
  "maybeImportCertificate rm r =
     (let certSpec = ko_Spec r in
      if spec_Certificate certSpec \<noteq> None then
        let certSpec =
          (case st_ACKResourceMetadata (ko_Status r) of
             None \<Rightarrow> certSpec
           | Some m \<Rightarrow>
               if meta_ARN m \<noteq> None
               then certSpec\<lparr>spec_DomainValidationOptions := None, spec_KeyAlgorithm := None,
                      spec_SubjectAlternativeNames := None, spec_Options := None,
                      spec_DomainName := None\<rparr>
               else certSpec)
        in
        if spec_DomainName certSpec \<noteq> None \<or>
           length (elems (spec_DomainValidationOptions certSpec)) > 0 \<or>
           spec_KeyAlgorithm certSpec \<noteq> None \<or>
           length (elems (spec_SubjectAlternativeNames certSpec)) > 0 \<or>
           spec_Options certSpec \<noteq> None
        then retP (None, False, Some requestFieldsWithImport)
        else
          bindP (newImportCertificateInput rm r) (\<lambda>input.
          case input of
            Inl err \<Rightarrow> retP (None, False, Some err)
          | Inr input \<Rightarrow>
              if length (ici_PrivateKey input) = 0
              then retP (None, False, Some privateKeyRequired)
              else
                bindP (importCertificate rm r input) (\<lambda>(created, err).
                if err \<noteq> None then retP (None, False, err) else retP (created, True, None)))
      else if spec_DomainName certSpec \<noteq> None \<and>
        (spec_Certificate certSpec \<noteq> None \<or> spec_PrivateKey certSpec \<noteq> None \<or>
         spec_CertificateChain certSpec \<noteq> None)
      then retP (None, False, Some importFieldsWithRequest)
      else retP (None, False, None))"

section \<open>sdk.go\<close>

text \<open>The error result of this function is always nil; None is the panic on a nil element.\<close>

definition newCreateRequestPayload ::
  "Ext \<Rightarrow> Certificate \<Rightarrow> RequestCertificateInput option" where
  "newCreateRequestPayload X r =
     do {
       let sp = ko_Spec r;
       f2 \<leftarrow> (case spec_DomainValidationOptions sp of
               None \<Rightarrow> Some None
             | Some dvos \<Rightarrow> map_option Some (toSdkValidationOptions dvos));
       f7 \<leftarrow> (case spec_Tags sp of
               None \<Rightarrow> Some None
             | Some ts \<Rightarrow> map_option Some (toSdkTags ts));
       Some \<lparr>rci_CertificateAuthorityArn = spec_CertificateAuthorityARN sp,
             rci_DomainName = spec_DomainName sp,
             rci_DomainValidationOptions = f2,
             rci_KeyAlgorithm = toEnum (spec_KeyAlgorithm sp),
             rci_ManagedBy = toEnum (spec_ManagedBy sp),
             rci_Options = toOptions (spec_Options sp),
             rci_SubjectAlternativeNames =
               (case spec_SubjectAlternativeNames sp of
                  None \<Rightarrow> None | Some xs \<Rightarrow> aws_ToStringSlice X xs),
             rci_Tags = f7,
             rci_ValidationMethod = []\<rparr>
     }"

definition forceExport :: "Certificate \<Rightarrow> RequestCertificateInput \<Rightarrow> RequestCertificateInput" where
  "forceExport desired input =
     (if spec_ExportTo (ko_Spec desired) \<noteq> None \<and>
         spec_CertificateAuthorityARN (ko_Spec desired) = None \<and>
         spec_CertificateAuthorityRef (ko_Spec desired) = None
      then
        let opts = (case rci_Options input of
                      None \<Rightarrow> emptySdkCertificateOptions | Some opts \<Rightarrow> opts)
        in input\<lparr>rci_Options := Some (opts\<lparr>sdkopts_Export := ''ENABLED''\<rparr>)\<rparr>
      else input)"

definition sdkCreate ::
  "Ext \<Rightarrow> 'w resourceManager \<Rightarrow> Certificate \<Rightarrow>
     ('w sys, Certificate option \<times> goerror option) prog" where
  "sdkCreate X rm desired =
     bindP (maybeImportCertificate rm desired) (\<lambda>(created, isImport, err).
     if err \<noteq> None then retP (None, err)
     else if isImport then retP (created, None)
     else
       case validatePublicValidationOptions desired of
         Some err \<Rightarrow> retP (None, Some (TerminalError err))
       | None \<Rightarrow>
           bindP (liftP (newCreateRequestPayload X desired)) (\<lambda>input.
           let input = input\<lparr>rci_ValidationMethod := ''DNS''\<rparr>;
               input = forceExport desired input in
           bindP (callP (EvRequest input) (api_RequestCertificate (rm_sdkapi rm) input)) (\<lambda>resp.
           bindP (emitP (RecordAPICall ''CREATE'' ''RequestCertificate'' (error_of resp))) (\<lambda>_.
           case resp of
             Inl err \<Rightarrow> retP (None, Some err)
           | Inr out \<Rightarrow>
               let ko = setARN (rco_CertificateArn out) desired
               in retP (Some (setStatusDefaults rm ko), None)))))"

section \<open>Runs\<close>

definition secret_refs :: "Certificate \<Rightarrow> SecretKeyReference option list" where
  "secret_refs r = [spec_PrivateKey (ko_Spec r), spec_Certificate (ko_Spec r),
     spec_CertificateChain (ko_Spec r)]"

lemma readSecret_run:
  "readSecret rm ref s =
     (let (v, w) = rc_SecretValueFromReference (rm_rr rm) ref (env s) in
      Returns (case v of Inl e \<Rightarrow> Inl (RequeueNeeded e) | Inr v \<Rightarrow> Inr v)
        (s\<lparr>env := w, trace := trace s @ [EvReadSecret ref]\<rparr>))"
  by (simp add: readSecret_def prog_simps split: prod.split sum.split)

lemma newImportCertificateInput_cases:
  obtains (panic) "newImportCertificateInput rm r s = Panics s"
  | (unreadable) e t n where "newImportCertificateInput rm r s = Returns (Inl (RequeueNeeded e)) t"
      and "n < 3" and "trace t = trace s @ map EvReadSecret (take (Suc n) (secret_refs r))"
  | (ready) i t where "newImportCertificateInput rm r s = Returns (Inr i) t"
      and "trace t = trace s @ map EvReadSecret (secret_refs r)"
      and "ici_CertificateArn i = spec_CertificateARN (ko_Spec r)"
proof -
  let ?tags = "case spec_Tags (ko_Spec r) of None \<Rightarrow> Some None
    | Some ts \<Rightarrow> map_option Some (toSdkTags ts)"
  let ?at = "\<lambda>w n. s\<lparr>env := w, trace := trace s @ map EvReadSecret (take n (secret_refs r))\<rparr>"
  note defs = newImportCertificateInput_def secret_refs_def prog_simps bindP_apply readSecret_run
    Let_def
  show ?thesis
  proof (cases ?tags)
    case None
    then show ?thesis by (intro panic) (simp add: newImportCertificateInput_def prog_simps)
  next
    case (Some tags)
    obtain v1 w1 where r1: "rc_SecretValueFromReference (rm_rr rm) (spec_PrivateKey (ko_Spec r))
        (env s) = (v1, w1)" by fastforce
    obtain v2 w2 where r2: "rc_SecretValueFromReference (rm_rr rm) (spec_Certificate (ko_Spec r))
        w1 = (v2, w2)" by fastforce
    obtain v3 w3 where r3: "rc_SecretValueFromReference (rm_rr rm)
        (spec_CertificateChain (ko_Spec r)) w2 = (v3, w3)" by fastforce
    show ?thesis
    proof (cases v1)
      case (Inl e)
      show ?thesis
        by (rule unreadable [of e "?at w1 1" 0]) (use Some r1 Inl in \<open>simp_all add: defs\<close>)
    next
      case v1: (Inr k)
      show ?thesis
      proof (cases v2)
        case (Inl e)
        show ?thesis
          by (rule unreadable [of e "?at w2 2" 1]) (use Some r1 r2 v1 Inl in \<open>simp_all add: defs\<close>)
      next
        case v2: (Inr c)
        show ?thesis
        proof (cases v3)
          case (Inl e)
          show ?thesis
            by (rule unreadable [of e "?at w3 3" 2]) (use Some r1 r2 r3 v1 v2 Inl in \<open>simp_all add: defs\<close>)
        next
          case v3: (Inr h)
          show ?thesis
            by (rule ready [of "\<lparr>ici_Certificate = c,
                  ici_CertificateArn = spec_CertificateARN (ko_Spec r), ici_CertificateChain = h,
                  ici_PrivateKey = k, ici_Tags = tags\<rparr>" "?at w3 3"]) (use Some r1 r2 r3 v1 v2 v3 in \<open>simp_all add: defs\<close>)
        qed
      qed
    qed
  qed
qed

text \<open>
  What the Secrets answer, read one after the other until one cannot be read: the error or the
  values, how many were asked for, and the world afterwards.
\<close>

fun read_secrets ::
  "'w resourceManager \<Rightarrow> SecretKeyReference option list \<Rightarrow> 'w \<Rightarrow> (goerror + string list) \<times> nat \<times> 'w"
  where
  "read_secrets rm [] w = (Inr [], 0, w)"
| "read_secrets rm (ref # refs) w =
     (case rc_SecretValueFromReference (rm_rr rm) ref w of
        (Inl e, w) \<Rightarrow> (Inl e, 1, w)
      | (Inr v, w) \<Rightarrow>
          (case read_secrets rm refs w of
             (Inl e, n, w) \<Rightarrow> (Inl e, Suc n, w)
           | (Inr vs, n, w) \<Rightarrow> (Inr (v # vs), Suc n, w)))"

definition import_input :: "Certificate \<Rightarrow> string list \<Rightarrow> ImportCertificateInput" where
  "import_input r vs =
     \<lparr>ici_Certificate = vs ! 1, ici_CertificateArn = spec_CertificateARN (ko_Spec r),
      ici_CertificateChain = vs ! 2, ici_PrivateKey = vs ! 0,
      ici_Tags = Option.bind (spec_Tags (ko_Spec r)) toSdkTags\<rparr>"

definition after_reads :: "Certificate \<Rightarrow> nat \<Rightarrow> 'w \<Rightarrow> 'w sys \<Rightarrow> 'w sys" where
  "after_reads r n w s =
     s\<lparr>env := w, trace := trace s @ map EvReadSecret (take n (secret_refs r))\<rparr>"

lemma toSdkTags_None: "toSdkTags ts = None \<longleftrightarrow> None \<in> set ts"
  by (induction ts) (auto simp: toSdkTags_def split: option.splits)

lemma read_secrets_length: "read_secrets rm refs w = (Inr vs, n, w') \<Longrightarrow> length vs = length refs \<and> n = length refs"
  by (induction refs arbitrary: w vs n w') (auto split: prod.splits sum.splits)

lemma newImportCertificateInput_eq:
  "newImportCertificateInput rm r s =
     (if no_nil_tag (specTags r) then
        (case read_secrets rm (secret_refs r) (env s) of
           (Inl e, n, w) \<Rightarrow> Returns (Inl (RequeueNeeded e)) (after_reads r n w s)
         | (Inr vs, n, w) \<Rightarrow> Returns (Inr (import_input r vs)) (after_reads r n w s))
      else Panics s)"
proof (cases "no_nil_tag (specTags r)")
  case True
  then have "(case spec_Tags (ko_Spec r) of None \<Rightarrow> Some None
      | Some ts \<Rightarrow> map_option Some (toSdkTags ts)) =
      Some (Option.bind (spec_Tags (ko_Spec r)) toSdkTags)"
    using toSdkTags_None [of "the (spec_Tags (ko_Spec r))"]
    by (cases "spec_Tags (ko_Spec r)"; cases "toSdkTags (the (spec_Tags (ko_Spec r)))")
      (auto simp: no_nil_tag_def specTags_def)
  with True show ?thesis
    by (auto simp: newImportCertificateInput_def prog_simps bindP_apply readSecret_run
        secret_refs_def import_input_def after_reads_def Let_def split: prod.split sum.split)
next
  case False
  then have "(case spec_Tags (ko_Spec r) of None \<Rightarrow> Some None
      | Some ts \<Rightarrow> map_option Some (toSdkTags ts)) = None"
    by (cases "spec_Tags (ko_Spec r)") (auto simp: no_nil_tag_def specTags_def toSdkTags_None)
  with False show ?thesis by (simp add: newImportCertificateInput_def prog_simps)
qed

definition import_run ::
  "'w resourceManager \<Rightarrow> Certificate \<Rightarrow> ImportCertificateInput \<Rightarrow>
     ('w sys, Certificate option \<times> goerror option) prog" where
  "import_run rm r i s =
     (let (resp, w) = api_ImportCertificate (rm_sdkapi rm) i (env s) in
      Returns (case resp of
                 Inl e \<Rightarrow> (None, Some e)
               | Inr out \<Rightarrow> (Some (setStatusDefaults rm (setARN (ico_CertificateArn out) r)), None))
        (s\<lparr>env := w, trace := trace s @ [EvImport i,
           RecordAPICall ''CREATE'' ''ImportCertificate'' (error_of resp)]\<rparr>))"

definition request_run ::
  "'w resourceManager \<Rightarrow> Certificate \<Rightarrow> RequestCertificateInput \<Rightarrow>
     ('w sys, Certificate option \<times> goerror option) prog" where
  "request_run rm r i s =
     (let (resp, w) = api_RequestCertificate (rm_sdkapi rm) i (env s) in
      Returns (case resp of
                 Inl e \<Rightarrow> (None, Some e)
               | Inr out \<Rightarrow> (Some (setStatusDefaults rm (setARN (rco_CertificateArn out) r)), None))
        (s\<lparr>env := w, trace := trace s @ [EvRequest i,
           RecordAPICall ''CREATE'' ''RequestCertificate'' (error_of resp)]\<rparr>))"

definition request_fields_set :: "Certificate \<Rightarrow> bool" where
  "request_fields_set r \<longleftrightarrow>
     spec_DomainName (ko_Spec r) \<noteq> None \<or> elems (spec_DomainValidationOptions (ko_Spec r)) \<noteq> [] \<or>
     spec_KeyAlgorithm (ko_Spec r) \<noteq> None \<or>
     elems (spec_SubjectAlternativeNames (ko_Spec r)) \<noteq> [] \<or> spec_Options (ko_Spec r) \<noteq> None"

definition import_fields_set :: "Certificate \<Rightarrow> bool" where
  "import_fields_set r \<longleftrightarrow>
     spec_PrivateKey (ko_Spec r) \<noteq> None \<or> spec_CertificateChain (ko_Spec r) \<noteq> None"

definition requestInput :: "Ext \<Rightarrow> Certificate \<Rightarrow> RequestCertificateInput option" where
  "requestInput X r =
     map_option (\<lambda>i. forceExport r (i\<lparr>rci_ValidationMethod := ''DNS''\<rparr>))
       (newCreateRequestPayload X r)"

lemma importCertificate_run: "importCertificate rm r i s = import_run rm r i s"
  by (simp add: importCertificate_def import_run_def prog_simps Let_def
      setResourceFromImportCertificateOutput_def split: prod.split sum.split)

lemma sdkCreate_import_eq:
  assumes "spec_Certificate (ko_Spec r) \<noteq> None"
  shows "sdkCreate X rm r s =
    (if certARN r = None \<and> request_fields_set r then Returns (None, Some requestFieldsWithImport) s
     else case newImportCertificateInput rm r s of
            Panics t \<Rightarrow> Panics t
          | Returns (Inl e) t \<Rightarrow> Returns (None, Some e) t
          | Returns (Inr i) t \<Rightarrow>
              if ici_PrivateKey i = [] then Returns (None, Some privateKeyRequired) t
              else import_run rm r i t)"
proof -
  let ?cleared = "(ko_Spec r)\<lparr>spec_DomainValidationOptions := None, spec_KeyAlgorithm := None,
    spec_SubjectAlternativeNames := None, spec_Options := None, spec_DomainName := None\<rparr>"
  have spec: "(case st_ACKResourceMetadata (ko_Status r) of None \<Rightarrow> ko_Spec r
       | Some m \<Rightarrow> if meta_ARN m \<noteq> None then ?cleared else ko_Spec r) =
      (if certARN r = None then ko_Spec r else ?cleared)"
    by (simp add: certARN_def split: option.split)
  show ?thesis
    using assms unfolding sdkCreate_def maybeImportCertificate_def Let_def spec
    by (auto simp: request_fields_set_def prog_simps bindP_apply importCertificate_run
        import_run_def Let_def split: outcome.split sum.split prod.split)
qed

lemma sdkCreate_request_eq:
  assumes "spec_Certificate (ko_Spec r) = None"
  shows "sdkCreate X rm r s =
    (if spec_DomainName (ko_Spec r) \<noteq> None \<and> import_fields_set r
     then Returns (None, Some importFieldsWithRequest) s
     else case validatePublicValidationOptions r of
            Some e \<Rightarrow> Returns (None, Some (TerminalError e)) s
          | None \<Rightarrow>
              (case requestInput X r of None \<Rightarrow> Panics s | Some i \<Rightarrow> request_run rm r i s))"
  using assms
  by (auto simp: sdkCreate_def maybeImportCertificate_def import_fields_set_def requestInput_def
      prog_simps bindP_apply request_run_def Let_def liftP_def
      split: option.split prod.split sum.split)

section \<open>Creating once\<close>

lemma import_run_trace:
  "trace (final_state (import_run rm r i s)) = trace s @ [EvImport i, RecordAPICall ''CREATE''
     ''ImportCertificate'' (error_of (fst (api_ImportCertificate (rm_sdkapi rm) i (env s))))]"
  by (simp add: import_run_def Let_def split: prod.split)

lemma request_run_trace:
  "trace (final_state (request_run rm r i s)) = trace s @ [EvRequest i, RecordAPICall ''CREATE''
     ''RequestCertificate'' (error_of (fst (api_RequestCertificate (rm_sdkapi rm) i (env s))))]"
  by (simp add: request_run_def Let_def split: prod.split)

lemma run_results:
  "import_run rm r i s = Returns (res, err) t \<Longrightarrow> (res = None) = (err \<noteq> None)"
  "request_run rm r i' s = Returns (res, err) t \<Longrightarrow> (res = None) = (err \<noteq> None)"
  by (auto simp: import_run_def request_run_def Let_def split: prod.splits sum.splits)

lemma filter_mutating_reads [simp]: "filter mutating (map EvReadSecret rs) = []"
  by (induction rs) simp_all

text \<open>
  How a run of \<open>sdkCreate\<close> ends: refused or failed before the creating call, or after it.
  \<open>evs\<close> are the effects of the run.
\<close>

lemma sdkCreate_import_cases:
  assumes "spec_Certificate (ko_Spec r) \<noteq> None"
  obtains (panic) "sdkCreate X rm r s = Panics s"
  | (failed) err t n where "sdkCreate X rm r s = Returns (None, Some err) t"
      and "trace t = trace s @ map EvReadSecret (take n (secret_refs r))"
      and "n < 3 \<Longrightarrow> 0 < n \<Longrightarrow> \<exists>e. err = RequeueNeeded e"
  | (called) i u where "sdkCreate X rm r s = import_run rm r i u"
      and "trace u = trace s @ map EvReadSecret (secret_refs r)"
      and "ici_PrivateKey i \<noteq> []" and "ici_CertificateArn i = spec_CertificateARN (ko_Spec r)"
proof (cases "certARN r = None \<and> request_fields_set r")
  case True
  then show ?thesis
    by (intro failed [of requestFieldsWithImport s 0]) (simp_all add: sdkCreate_import_eq [OF assms])
next
  case False
  note eq = sdkCreate_import_eq [OF assms, of X rm s, unfolded if_not_P [OF False]]
  show ?thesis
  proof (cases rule: newImportCertificateInput_cases [of rm r s])
    case panic
    then show ?thesis by (intro that(1)) (simp add: eq)
  next
    case (unreadable e t n)
    then show ?thesis by (intro failed [of "RequeueNeeded e" t "Suc n"]) (simp_all add: eq)
  next
    case (ready i t)
    show ?thesis
    proof (cases "ici_PrivateKey i = []")
      case True
      with ready show ?thesis
        by (intro failed [of privateKeyRequired t 3]) (simp_all add: eq secret_refs_def)
    next
      case False
      with ready show ?thesis by (intro called [of i t]) (simp_all add: eq)
    qed
  qed
qed

lemma sdkCreate_request_cases:
  assumes "spec_Certificate (ko_Spec r) = None"
  obtains (panic) "sdkCreate X rm r s = Panics s"
  | (refused) err where "sdkCreate X rm r s = Returns (None, Some err) s"
  | (called) i where "requestInput X r = Some i" and "sdkCreate X rm r s = request_run rm r i s"
  using sdkCreate_request_eq [OF assms, of X rm s]
  by (cases "spec_DomainName (ko_Spec r) \<noteq> None \<and> import_fields_set r";
      cases "validatePublicValidationOptions r"; cases "requestInput X r") (auto intro: that)

text \<open>The call that creates a certificate as the spec asks.\<close>

definition creating :: "Ext \<Rightarrow> Certificate \<Rightarrow> effect \<Rightarrow> bool" where
  "creating X r ev =
     (case ev of
        EvImport i \<Rightarrow> spec_Certificate (ko_Spec r) \<noteq> None \<and> ici_PrivateKey i \<noteq> []
      | EvRequest i \<Rightarrow> spec_Certificate (ko_Spec r) = None \<and> requestInput X r = Some i
      | _ \<Rightarrow> False)"

text \<open>
  C1. A run of \<open>sdkCreate\<close> changes ACM at most once, by one \<open>ImportCertificate\<close> if
  \<open>spec.certificate\<close> is set and by one \<open>RequestCertificate\<close> otherwise, and never writes anything
  else; if it reports success it made that call, and with an error there is no object.
\<close>

theorem sdkCreate_once:
  "\<exists>evs. trace (final_state (sdkCreate X rm r s)) = trace s @ evs \<and>
    list_all (creating X r) (filter mutating evs) \<and>
    length (filter mutating evs) \<le> 1 \<and>
    (\<forall>ko t. sdkCreate X rm r s = Returns (ko, None) t \<longrightarrow> length (filter mutating evs) = 1) \<and>
    (\<forall>ko err t. sdkCreate X rm r s = Returns (ko, err) t \<longrightarrow> (ko = None) = (err \<noteq> None))"
proof (cases "spec_Certificate (ko_Spec r) = None")
  case True
  then show ?thesis
  proof (cases rule: sdkCreate_request_cases [where X = X and rm = rm and s = s])
    case panic
    then show ?thesis by simp
  next
    case (refused err)
    then show ?thesis by simp
  next
    case (called i)
    then show ?thesis using True
      by (auto simp: request_run_trace creating_def dest: run_results(2))
  qed
next
  case False
  then show ?thesis
  proof (cases rule: sdkCreate_import_cases [where X = X and rm = rm and s = s])
    case panic
    then show ?thesis by simp
  next
    case (failed err t n)
    then show ?thesis by simp
  next
    case (called i u)
    then show ?thesis using False
      by (auto simp: import_run_trace creating_def dest: run_results(1))
  qed
qed

definition sampleRequest :: Certificate where
  "sampleRequest = emptyCertificate\<lparr>ko_Spec := emptySpec\<lparr>
     spec_DomainName := Some ''example.com'',
     spec_ExportTo := Some \<lparr>skr_Name = ''tls'', skr_Namespace = [], skr_Key = ''tls.crt''\<rparr>,
     spec_Tags := Some [Some \<lparr>tag_Key = Some ''env'', tag_Value = Some ''dev''\<rparr>]\<rparr>\<rparr>"

lemma sampleRequest_runs:
  "\<exists>ko t. sdkCreate sampleExt sampleManager sampleRequest s = Returns (Some ko, None) t"
  by (simp add: sdkCreate_request_eq sampleRequest_def emptyCertificate_def emptySpec_def
      import_fields_set_def validatePublicValidationOptions_def requestInput_def
      newCreateRequestPayload_def toSdkTags_def request_run_def sampleManager_def sampleClient_def
      Let_def)

theorem sdkCreate_once_witness:
  "\<exists>ko t evs. sdkCreate sampleExt sampleManager sampleRequest (sampleSys sampleWorld) =
     Returns (Some ko, None) t \<and> trace t = evs \<and> length (filter mutating evs) = 1"
proof -
  obtain ko t where run: "sdkCreate sampleExt sampleManager sampleRequest (sampleSys sampleWorld) =
      Returns (Some ko, None) t"
    using sampleRequest_runs by blast
  moreover have "trace (sampleSys w) = []" for w by (simp add: sampleSys_def)
  ultimately show ?thesis
    using sdkCreate_once [of sampleExt sampleManager sampleRequest "sampleSys sampleWorld"] by auto
qed

section \<open>Contradictory specs\<close>


definition sampleBoth :: Certificate where
  "sampleBoth = onSpec (\<lambda>sp. sp\<lparr>spec_PrivateKey := spec_ExportTo sp\<rparr>) sampleRequest"


text \<open>
  The limit of five validation options is tested on the wrong side: a request for a private
  certificate (with a CA ARN) that has more is refused, one for a public certificate is sent,
  although the comment and the message in \<open>hooks.go\<close> say the limit is for public certificates.
\<close>

lemma validation_limit_inverted:
  assumes "spec_Certificate (ko_Spec r) = None" and "\<not> import_fields_set r"
    and "5 < length (elems (spec_DomainValidationOptions (ko_Spec r)))"
    and "requestInput X r = Some i"
  shows "sdkCreate X rm r s =
    (if spec_CertificateAuthorityARN (ko_Spec r) \<noteq> None
     then Returns (None, Some (TerminalError errTooManyDomainValidationOptions)) s
     else request_run rm r i s)"
  using assms by (simp add: sdkCreate_request_eq validatePublicValidationOptions_def
      limitDomainValidationOptionsPublic_def)

section \<open>Requesting\<close>

text \<open>The certificate is to be exportable and is not issued by a certificate authority.\<close>

definition wants_export :: "Certificate \<Rightarrow> bool" where
  "wants_export r \<longleftrightarrow> spec_ExportTo (ko_Spec r) \<noteq> None \<and>
     spec_CertificateAuthorityARN (ko_Spec r) = None \<and>
     spec_CertificateAuthorityRef (ko_Spec r) = None"

lemma requestInput_fields:
  assumes "requestInput X r = Some i"
  shows "rci_ValidationMethod i = ''DNS''"
    and "rci_DomainName i = spec_DomainName (ko_Spec r)"
    and "rci_CertificateAuthorityArn i = spec_CertificateAuthorityARN (ko_Spec r)"
    and "rci_KeyAlgorithm i = toEnum (spec_KeyAlgorithm (ko_Spec r))"
    and "rci_ManagedBy i = toEnum (spec_ManagedBy (ko_Spec r))"
    and "map_option sdkopts_Export (rci_Options i) =
      (if wants_export r then Some ''ENABLED''
       else map_option (\<lambda>opts. toEnum (opts_Export opts)) (spec_Options (ko_Spec r)))"
    and "\<not> wants_export r \<Longrightarrow> rci_Options i = toOptions (spec_Options (ko_Spec r))"
    and "spec_Tags (ko_Spec r) = Some ts \<Longrightarrow> rci_Tags i = toSdkTags ts"
proof -
  obtain p where p: "newCreateRequestPayload X r = Some p"
    and i: "i = forceExport r (p\<lparr>rci_ValidationMethod := ''DNS''\<rparr>)"
    using assms by (auto simp: requestInput_def)
  have fields: "rci_DomainName p = spec_DomainName (ko_Spec r)"
    "rci_CertificateAuthorityArn p = spec_CertificateAuthorityARN (ko_Spec r)"
    "rci_KeyAlgorithm p = toEnum (spec_KeyAlgorithm (ko_Spec r))"
    "rci_ManagedBy p = toEnum (spec_ManagedBy (ko_Spec r))"
    "rci_Options p = toOptions (spec_Options (ko_Spec r))"
    "spec_Tags (ko_Spec r) = Some ts \<Longrightarrow> rci_Tags p = toSdkTags ts"
    using p by (auto simp: newCreateRequestPayload_def Let_def bind_eq_Some_conv)
  note export = i forceExport_def wants_export_def Let_def
  show "rci_ValidationMethod i = ''DNS''" and "rci_DomainName i = spec_DomainName (ko_Spec r)"
    and "rci_CertificateAuthorityArn i = spec_CertificateAuthorityARN (ko_Spec r)"
    and "rci_KeyAlgorithm i = toEnum (spec_KeyAlgorithm (ko_Spec r))"
    and "rci_ManagedBy i = toEnum (spec_ManagedBy (ko_Spec r))"
    and "\<not> wants_export r \<Longrightarrow> rci_Options i = toOptions (spec_Options (ko_Spec r))"
    and "spec_Tags (ko_Spec r) = Some ts \<Longrightarrow> rci_Tags i = toSdkTags ts"
    using fields by (auto simp: export)
  show "map_option sdkopts_Export (rci_Options i) =
      (if wants_export r then Some ''ENABLED''
       else map_option (\<lambda>opts. toEnum (opts_Export opts)) (spec_Options (ko_Spec r)))"
    using fields(5) by (auto simp: export toOptions_def split: option.split)
qed

text \<open>
  C25. A certificate is requested with DNS validation, for exactly the domain name, the
  authority, the key algorithm and the tags of the spec, and with the export option the spec
  gives - except that \<open>exportTo\<close> of a certificate without an authority (neither ARN nor
  reference) turns the export on, also where the spec disables it or sets no options.
\<close>

theorem sdkCreate_requests:
  assumes "spec_Certificate (ko_Spec r) = None"
    and "EvRequest i \<in> set (calls_since s (final_state (sdkCreate X rm r s)))"
  shows "rci_ValidationMethod i = ''DNS'' \<and> rci_DomainName i = spec_DomainName (ko_Spec r) \<and>
    rci_CertificateAuthorityArn i = spec_CertificateAuthorityARN (ko_Spec r) \<and>
    rci_KeyAlgorithm i = toEnum (spec_KeyAlgorithm (ko_Spec r)) \<and>
    map_option sdkopts_Export (rci_Options i) =
      (if wants_export r then Some ''ENABLED''
       else map_option (\<lambda>opts. toEnum (opts_Export opts)) (spec_Options (ko_Spec r))) \<and>
    (\<forall>ts. spec_Tags (ko_Spec r) = Some ts \<longrightarrow> rci_Tags i = toSdkTags ts)"
  using assms(1)
proof (cases rule: sdkCreate_request_cases [where X = X and rm = rm and s = s])
  case panic
  with assms(2) show ?thesis by (simp add: calls_since_def)
next
  case (refused err)
  with assms(2) show ?thesis by (simp add: calls_since_def)
next
  case (called j)
  with assms(2) have "i = j" by (simp add: calls_since_def request_run_trace)
  with called(1) show ?thesis using requestInput_fields [of X r i] by simp
qed

theorem sdkCreate_requests_witness:
  "\<exists>i. EvRequest i \<in> set (calls_since (sampleSys sampleWorld)
      (final_state (sdkCreate sampleExt sampleManager sampleRequest (sampleSys sampleWorld)))) \<and>
    rci_ValidationMethod i = ''DNS'' \<and> map_option sdkopts_Export (rci_Options i) = Some ''ENABLED''"
proof -
  have c: "spec_Certificate (ko_Spec sampleRequest) = None" and w: "wants_export sampleRequest"
    by (simp_all add: sampleRequest_def wants_export_def emptySpec_def)
  obtain i where "EvRequest i \<in> set (calls_since (sampleSys sampleWorld)
      (final_state (sdkCreate sampleExt sampleManager sampleRequest (sampleSys sampleWorld))))"
    using c
  proof (cases rule: sdkCreate_request_cases [where X = sampleExt and rm = sampleManager
        and s = "sampleSys sampleWorld"])
    case (called i)
    then show ?thesis by (intro that [of i]) (simp add: calls_since_def request_run_trace)
  qed (use sampleRequest_runs [of "sampleSys sampleWorld"] in simp_all)
  moreover from sdkCreate_requests [OF c this] w
  have "rci_ValidationMethod i = ''DNS''" and "map_option sdkopts_Export (rci_Options i) =
      Some ''ENABLED''" by simp_all
  ultimately show ?thesis by blast
qed

section \<open>Importing\<close>

text \<open>
  C26. An import that is not refused reads the private key, the certificate and the chain from
  their Secrets, in this order and before it calls ACM. If one of them cannot be read it stops
  there, calls nothing else, and returns that error in the form that makes the reconciler come
  back. It never imports without a private key. Otherwise it makes the one call to import exactly
  the values it read, with the tags of the spec, into the ARN of the spec (not into that of the
  status). (The object has no nil tag; with one the conversion of the tags panics first.)
\<close>

theorem sdkCreate_imports:
  assumes "spec_Certificate (ko_Spec r) \<noteq> None"
    and "\<not> (certARN r = None \<and> request_fields_set r)" and "no_nil_tag (specTags r)"
  shows "case read_secrets rm [spec_PrivateKey (ko_Spec r), spec_Certificate (ko_Spec r),
        spec_CertificateChain (ko_Spec r)] (env s) of
      (Inl e, n, w) \<Rightarrow>
        sdkCreate X rm r s = Returns (None, Some (RequeueNeeded e)) (after_reads r n w s)
    | (Inr vs, n, w) \<Rightarrow>
        (\<exists>key cert chain. vs = [key, cert, chain] \<and> n = 3 \<and>
           sdkCreate X rm r s =
             (if key = [] then Returns (None, Some privateKeyRequired) (after_reads r 3 w s)
              else import_run rm r
                \<lparr>ici_Certificate = cert, ici_CertificateArn = spec_CertificateARN (ko_Spec r),
                 ici_CertificateChain = chain, ici_PrivateKey = key,
                 ici_Tags = Option.bind (spec_Tags (ko_Spec r)) toSdkTags\<rparr> (after_reads r 3 w s)))"
proof -
  obtain v n w where read: "read_secrets rm (secret_refs r) (env s) = (v, n, w)" by (metis surj_pair)
  have eq: "sdkCreate X rm r s =
      (case v of
         Inl e \<Rightarrow> Returns (None, Some (RequeueNeeded e)) (after_reads r n w s)
       | Inr vs \<Rightarrow>
           if ici_PrivateKey (import_input r vs) = []
           then Returns (None, Some privateKeyRequired) (after_reads r n w s)
           else import_run rm r (import_input r vs) (after_reads r n w s))"
    unfolding sdkCreate_import_eq [OF assms(1)] if_not_P [OF assms(2)]
    using assms(3) by (simp add: newImportCertificateInput_eq read split: sum.split)
  show ?thesis
  proof (cases v)
    case (Inl e)
    with eq read show ?thesis by (simp add: secret_refs_def)
  next
    case (Inr vs)
    from read_secrets_length read Inr have "length vs = 3" "n = 3"
      by (fastforce simp: secret_refs_def)+
    then obtain key cert chain where "vs = [key, cert, chain]"
      by (auto simp: numeral_3_eq_3 length_Suc_conv)
    with eq read Inr \<open>n = 3\<close> show ?thesis by (simp add: secret_refs_def import_input_def)
  qed
qed

definition sampleImport :: Certificate where
  "sampleImport = emptyCertificate\<lparr>ko_Spec := emptySpec\<lparr>
     spec_Certificate := Some \<lparr>skr_Name = ''c'', skr_Namespace = [], skr_Key = ''tls.crt''\<rparr>,
     spec_PrivateKey := Some \<lparr>skr_Name = ''c'', skr_Namespace = [], skr_Key = ''tls.key''\<rparr>\<rparr>\<rparr>"

lemma sampleImport_runs:
  "\<exists>ko t. sdkCreate sampleExt sampleManager sampleImport s = Returns (Some ko, None) t"
  by (simp add: sdkCreate_import_eq sampleImport_def emptyCertificate_def emptySpec_def
      request_fields_set_def newImportCertificateInput_def prog_simps bindP_apply readSecret_run
      import_run_def sampleManager_def sampleReconciler_def sampleClient_def Let_def)

text \<open>The same reconciler when the certificate's Secret is gone.\<close>

definition lostSecretManager :: "sample_world resourceManager" where
  "lostSecretManager = sampleManager\<lparr>rm_rr := sampleReconciler\<lparr>rc_SecretValueFromReference :=
     (\<lambda>ref w. (case ref of Some r \<Rightarrow> if skr_Key r = ''tls.crt'' then Inl SecretNotFound else Inr ''k''
        | None \<Rightarrow> Inr [], w))\<rparr>\<rparr>"

theorem sdkCreate_imports_witness:
  "(\<exists>ko t i. sdkCreate sampleExt sampleManager sampleImport (sampleSys sampleWorld) = Returns (Some ko, None) t \<and>
     calls_since (sampleSys sampleWorld) t = map EvReadSecret (secret_refs sampleImport) @
       [EvImport i, RecordAPICall ''CREATE'' ''ImportCertificate'' None] \<and>
     ici_PrivateKey i = ''c/tls.key'' \<and> ici_Certificate i = ''c/tls.crt'') \<and>
   (\<exists>t. sdkCreate sampleExt lostSecretManager sampleImport (sampleSys sampleWorld) =
       Returns (None, Some (RequeueNeeded SecretNotFound)) t \<and>
     calls_since (sampleSys sampleWorld) t = map EvReadSecret (take 2 (secret_refs sampleImport)))"
proof -
  let ?s = "sampleSys sampleWorld"
  have r: "spec_Certificate (ko_Spec sampleImport) \<noteq> None"
    "\<not> (certARN sampleImport = None \<and> request_fields_set sampleImport)"
    "no_nil_tag (specTags sampleImport)"
    by (simp_all add: sampleImport_def emptySpec_def emptyCertificate_def request_fields_set_def
        specTags_def no_nil_tag_def)
  have refs: "secret_refs sampleImport = [spec_PrivateKey (ko_Spec sampleImport),
      spec_Certificate (ko_Spec sampleImport), spec_CertificateChain (ko_Spec sampleImport)]"
    by (simp add: secret_refs_def)
  have "read_secrets sampleManager [spec_PrivateKey (ko_Spec sampleImport),
      spec_Certificate (ko_Spec sampleImport), spec_CertificateChain (ko_Spec sampleImport)] (env ?s) =
      (Inr [''c/tls.key'', ''c/tls.crt'', []], 3, env ?s)"
    by (simp add: sampleImport_def emptySpec_def sampleManager_def sampleReconciler_def)
  with sdkCreate_imports [OF r, of sampleExt sampleManager ?s] have
    "\<exists>ko t i. sdkCreate sampleExt sampleManager sampleImport ?s = Returns (Some ko, None) t \<and>
      calls_since ?s t = map EvReadSecret (secret_refs sampleImport) @
        [EvImport i, RecordAPICall ''CREATE'' ''ImportCertificate'' None] \<and>
      ici_PrivateKey i = ''c/tls.key'' \<and> ici_Certificate i = ''c/tls.crt''"
    by (simp add: import_run_def after_reads_def refs calls_since_def sampleManager_def
        sampleClient_def Let_def)
  moreover have "read_secrets lostSecretManager [spec_PrivateKey (ko_Spec sampleImport),
      spec_Certificate (ko_Spec sampleImport), spec_CertificateChain (ko_Spec sampleImport)] (env ?s) =
      (Inl SecretNotFound, 2, env ?s)"
    by (simp add: sampleImport_def emptySpec_def lostSecretManager_def numeral_2_eq_2)
  with sdkCreate_imports [OF r, of sampleExt lostSecretManager ?s] have
    "\<exists>t. sdkCreate sampleExt lostSecretManager sampleImport ?s =
       Returns (None, Some (RequeueNeeded SecretNotFound)) t \<and>
     calls_since ?s t = map EvReadSecret (take 2 (secret_refs sampleImport))"
    by (simp add: after_reads_def calls_since_def)
  ultimately show ?thesis by blast
qed

section \<open>The created object\<close>

text \<open>ACM answers a successful creation with the ARN (a required element of both answers).\<close>

definition answers_with_arn :: "'w resourceManager \<Rightarrow> bool" where
  "answers_with_arn rm \<longleftrightarrow>
     (\<forall>i w out. fst (api_RequestCertificate (rm_sdkapi rm) i w) = Inr out \<longrightarrow>
        rco_CertificateArn out \<noteq> None) \<and>
     (\<forall>i w out. fst (api_ImportCertificate (rm_sdkapi rm) i w) = Inr out \<longrightarrow>
        ico_CertificateArn out \<noteq> None)"

text \<open>What ACM answers to a creating call made in a world.\<close>

definition answered_arn :: "'w resourceManager \<Rightarrow> effect \<Rightarrow> 'w \<Rightarrow> string option" where
  "answered_arn rm ev w =
     (case ev of
        EvRequest i \<Rightarrow>
          (case fst (api_RequestCertificate (rm_sdkapi rm) i w) of
             Inr out \<Rightarrow> rco_CertificateArn out | Inl _ \<Rightarrow> None)
      | EvImport i \<Rightarrow>
          (case fst (api_ImportCertificate (rm_sdkapi rm) i w) of
             Inr out \<Rightarrow> ico_CertificateArn out | Inl _ \<Rightarrow> None)
      | _ \<Rightarrow> None)"

text \<open>The world in which \<open>sdkCreate\<close> calls ACM: an import has read the Secrets by then.\<close>

definition world_of_call :: "'w resourceManager \<Rightarrow> Certificate \<Rightarrow> 'w sys \<Rightarrow> 'w" where
  "world_of_call rm r s =
     (if spec_Certificate (ko_Spec r) = None then env s
      else snd (snd (read_secrets rm (secret_refs r) (env s))))"

lemma created_status:
  "ko_Status (setStatusDefaults rm (setARN (Some a) r)) = (ko_Status r)\<lparr>
     st_ACKResourceMetadata :=
       Some ((owned rm (st_ACKResourceMetadata (ko_Status r)))\<lparr>meta_ARN := Some a\<rparr>),
     st_Conditions := Some (elems (st_Conditions (ko_Status r)))\<rparr>"
  by (cases "st_ACKResourceMetadata (ko_Status r)"; intro CertificateStatus.equality)
    (auto simp: setStatusDefaults_def setARN_def owned_def emptyResourceMetadata_def elems_def
      Let_def split: option.split)

lemma sdkCreate_answer:
  assumes "answers_with_arn rm" and "sdkCreate X rm r s = Returns (Some ko, err) t"
  shows "err = None \<and> (\<exists>ev arn. filter mutating (calls_since s t) = [ev] \<and>
    answered_arn rm ev (world_of_call rm r s) = Some arn \<and>
    ko = setStatusDefaults rm (setARN (Some arn) r))"
proof (cases "spec_Certificate (ko_Spec r) = None")
  case True
  then show ?thesis
  proof (cases rule: sdkCreate_request_cases [where X = X and rm = rm and s = s])
    case (called i)
    obtain resp w where a: "api_RequestCertificate (rm_sdkapi rm) i (env s) = (resp, w)" by fastforce
    then have "\<And>out. resp = Inr out \<Longrightarrow> rco_CertificateArn out \<noteq> None"
      using assms(1) unfolding answers_with_arn_def by (metis fst_conv)
    with called a assms(2) True show ?thesis
      by (auto simp: request_run_def answered_arn_def world_of_call_def calls_since_def Let_def
          split: sum.splits)
  qed (use assms(2) in simp_all)
next
  case False
  obtain v n w where read: "read_secrets rm (secret_refs r) (env s) = (v, n, w)" by (metis surj_pair)
  obtain i where run: "import_run rm r i (after_reads r n w s) = Returns (Some ko, err) t"
    using assms(2) False read by (auto simp: sdkCreate_import_eq newImportCertificateInput_eq
        split: if_splits sum.splits)
  obtain resp w' where a: "api_ImportCertificate (rm_sdkapi rm) i w = (resp, w')" by fastforce
  then have "\<And>out. resp = Inr out \<Longrightarrow> ico_CertificateArn out \<noteq> None"
    using assms(1) unfolding answers_with_arn_def by (metis fst_conv)
  with run a False read show ?thesis
    by (auto simp: import_run_def answered_arn_def world_of_call_def calls_since_def after_reads_def
        Let_def split: sum.splits)
qed

text \<open>
  C28. The object \<open>sdkCreate\<close> returns is the given one and knows its ARN: that of the answer of
  ACM to the one creating call (a successful answer has one), in place of any ARN it had. Nothing else of it changes but the
  region, partition and account, which become the manager's where they were not set. The next
  read of it therefore describes the new certificate and does not report it as missing, so the
  reconciler does not create a second one.
\<close>

theorem sdkCreate_known:
  assumes "answers_with_arn rm" and "sdkCreate X rm r s = Returns (Some ko, err) t"
  shows "err = None \<and> ko_Spec ko = ko_Spec r \<and> ko_ObjectMeta ko = ko_ObjectMeta r \<and>
    (\<exists>ev arn. filter mutating (calls_since s t) = [ev] \<and>
       answered_arn rm ev (world_of_call rm r s) = Some arn \<and>
       ko_Status ko = (ko_Status r)\<lparr>
         st_ACKResourceMetadata :=
           Some ((owned rm (st_ACKResourceMetadata (ko_Status r)))\<lparr>meta_ARN := Some arn\<rparr>),
         st_Conditions := Some (elems (st_Conditions (ko_Status r)))\<rparr> \<and>
       \<not> requiredFieldsMissingFromReadOneInput ko \<and>
       newDescribeRequestPayload ko = \<lparr>dci_CertificateArn = Some arn\<rparr>)"
proof -
  obtain ev arn where "err = None" and ev: "filter mutating (calls_since s t) = [ev]"
    "answered_arn rm ev (world_of_call rm r s) = Some arn"
    and ko: "ko = setStatusDefaults rm (setARN (Some arn) r)"
    using sdkCreate_answer [OF assms] by blast
  moreover have "certARN ko = Some arn" unfolding ko by simp
  ultimately show ?thesis
    by (simp add: required_missing_iff describe_input created_status)
qed

text \<open>An object that was created before, and whose certificate is gone: it has a stale ARN.\<close>

definition sampleStale :: Certificate where
  "sampleStale = setARN (Some ''arn:old'') sampleRequest"

lemma sampleStale_created:
  "\<exists>ko t. sdkCreate sampleExt sampleManager sampleStale s = Returns (Some ko, None) t \<and>
     certARN ko = Some ''arn:requested''"
proof -
  have "\<exists>t. sdkCreate sampleExt sampleManager sampleStale s = Returns
      (Some (setStatusDefaults sampleManager (setARN (Some ''arn:requested'') sampleStale)), None) t"
    by (simp add: sdkCreate_request_eq sampleStale_def sampleRequest_def emptyCertificate_def
        emptySpec_def import_fields_set_def validatePublicValidationOptions_def requestInput_def
        newCreateRequestPayload_def toSdkTags_def request_run_def sampleManager_def sampleClient_def
        Let_def)
  then show ?thesis by auto
qed

theorem sdkCreate_known_witness:
  "\<exists>ko t. sdkCreate sampleExt sampleManager sampleStale (sampleSys sampleWorld) = Returns (Some ko, None) t \<and>
     newDescribeRequestPayload ko = \<lparr>dci_CertificateArn = Some ''arn:requested''\<rparr>"
proof -
  let ?s = "sampleSys sampleWorld"
  obtain ko t where run: "sdkCreate sampleExt sampleManager sampleStale ?s = Returns (Some ko, None) t"
    and arn: "certARN ko = Some ''arn:requested''"
    using sampleStale_created by blast
  have "answers_with_arn sampleManager"
    by (auto simp: answers_with_arn_def sampleManager_def sampleClient_def)
  from sdkCreate_known [OF this run] have "\<exists>arn. newDescribeRequestPayload ko = \<lparr>dci_CertificateArn = Some arn\<rparr>"
    by blast
  with arn run show ?thesis by (auto simp: describe_input)
qed

section \<open>What is requested is read back\<close>

lemma those_map_option:
  "those (map (map_option f) xs) = Some ys \<Longrightarrow> map Some ys = map (map_option f) xs"
proof (induction xs arbitrary: ys)
  case (Cons x xs)
  then show ?case by (cases x) (auto split: option.splits)
qed simp

lemma tags_read_back:
  assumes "toSdkTags ts = Some sts"
  shows "resourceTagsFromSDKTags (Some sts) = Some ts"
proof -
  let ?f = "\<lambda>t. \<lparr>sdktag_Key = tag_Key t, sdktag_Value = tag_Value t\<rparr>"
  have eq: "map Some sts = map (map_option ?f) ts"
    using assms unfolding toSdkTags_def by (rule those_map_option)
  have id: "(\<lambda>t. \<lparr>tag_Key = tag_Key t, tag_Value = tag_Value t\<rparr>) = (id :: Tag \<Rightarrow> Tag)"
    by (rule ext) simp
  have "map (\<lambda>t. Some \<lparr>tag_Key = sdktag_Key t, tag_Value = sdktag_Value t\<rparr>) sts =
      map (map_option (\<lambda>t. \<lparr>tag_Key = sdktag_Key t, tag_Value = sdktag_Value t\<rparr>)) (map Some sts)"
    by simp
  also have "\<dots> = ts"
    unfolding eq by (simp add: option.map_comp o_def id option.map_id)
  finally show ?thesis by (simp add: resourceTagsFromSDKTags_def)
qed

lemma enum_read_back: "s \<noteq> Some [] \<Longrightarrow> enum_field (toEnum s) = s"
  by (cases s) (simp_all add: enum_field_def toEnum_def)

lemma options_read_back:
  assumes "aws_laws X"
    and "\<And>x. opts = Some x \<Longrightarrow> opts_Export x \<noteq> Some [] \<and>
      opts_CertificateTransparencyLoggingPreference x \<noteq> Some []"
  shows "fromOptions X (toOptions opts) = opts"
  using assms(2) by (cases opts) (auto simp: fromOptions_def toOptions_def fromEnum_eq [OF assms(1)]
      enum_read_back)

end
