(* ===== verification/SdkUpdate.thy ===== *)
theory SdkUpdate
  imports DeltaCompare CertExport SdkCreate
begin

text \<open>
  \<open>sdkUpdate\<close> and \<open>sdkDelete\<close> of \<open>sdk.go\<close>. An update takes one of five ways, chosen by tests on the
  delta: export because the certificate was issued, export because it was renewed, tags only,
  refusal or nothing for an imported certificate, and the call that changes the options.

  What is shown: which way the delta of \<open>newResourceDelta\<close> selects, what each way changes at
  ACM and in Secrets, and when the difference that caused an update is gone afterwards.
\<close>

section \<open>sdk.go\<close>

text \<open>The error result of both payload functions is always nil.\<close>

definition newUpdateRequestPayload :: "Certificate \<Rightarrow> UpdateCertificateOptionsInput" where
  "newUpdateRequestPayload r =
     (let res = \<lparr>uci_CertificateArn = None, uci_Options = None\<rparr>;
          res = (case st_ACKResourceMetadata (ko_Status r) of
                   None \<Rightarrow> res
                 | Some m \<Rightarrow>
                     if meta_ARN m \<noteq> None then res\<lparr>uci_CertificateArn := meta_ARN m\<rparr> else res)
      in if spec_Options (ko_Spec r) \<noteq> None
         then res\<lparr>uci_Options := toOptions (spec_Options (ko_Spec r))\<rparr> else res)"

definition newDeleteRequestPayload :: "Certificate \<Rightarrow> DeleteCertificateInput" where
  "newDeleteRequestPayload r =
     (let res = \<lparr>del_CertificateArn = None\<rparr> in
      case st_ACKResourceMetadata (ko_Status r) of
        None \<Rightarrow> res
      | Some m \<Rightarrow> if meta_ARN m \<noteq> None then res\<lparr>del_CertificateArn := meta_ARN m\<rparr> else res)"

text \<open>The copy of the desired object that three of the ways return.\<close>

definition updatedFrom ::
  "'w resourceManager \<Rightarrow> Certificate \<Rightarrow> Certificate \<Rightarrow> Certificate" where
  "updatedFrom rm desired latest =
     onStatus (\<lambda>st. st\<lparr>st_IssuedAt := st_IssuedAt (ko_Status latest),
                      st_Status := st_Status (ko_Status latest),
                      st_Serial := st_Serial (ko_Status latest)\<rparr>)
       (setStatusDefaults rm desired)"

definition exportUpdate ::
  "Ext \<Rightarrow> 'w resourceManager \<Rightarrow> Certificate \<Rightarrow> Certificate \<Rightarrow>
     ('w sys, Certificate option \<times> goerror option) prog" where
  "exportUpdate X rm desired latest =
     bindP (exportCertificate X rm latest) (\<lambda>err.
     if err \<noteq> None then retP (None, err)
     else retP (Some (updatedFrom rm desired latest), None))"

definition onlyTagsForImported :: goerror where
  "onlyTagsForImported =
     TerminalError (ErrorString ''only tags can be updated for an imported certificate'')"

definition sdkUpdate ::
  "Ext \<Rightarrow> 'w resourceManager \<Rightarrow> Certificate \<Rightarrow> Certificate \<Rightarrow> Delta \<Rightarrow>
     ('w sys, Certificate option \<times> goerror option) prog" where
  "sdkUpdate X rm desired latest delta =
     (if DifferentAt X delta ''Spec.Status.IssuedAt'' then exportUpdate X rm desired latest
      else if DifferentAt X delta ''Spec.Status.Serial'' then exportUpdate X rm desired latest
      else
        bindP (if DifferentAt X delta ''Spec.Tags''
               then bindP (liftP (certARN desired)) (\<lambda>arn.
                    SyncTags X (rm_sdkapi rm) arn (spec_Tags (ko_Spec desired))
                      (spec_Tags (ko_Spec latest)))
               else retP None) (\<lambda>err.
        if err \<noteq> None then retP (None, err)
        else if \<not> DifferentExcept X delta ''Spec.Tags'' then retP (Some desired, None)
        else if st_Type (ko_Status latest) = Some ''IMPORTED'' then
          (if DifferentAt X delta ''Spec.Options'' then retP (None, Some onlyTagsForImported)
           else retP (Some desired, None))
        else
          let input = newUpdateRequestPayload desired in
          bindP (callP (EvUpdateOptions input)
                   (api_UpdateCertificateOptions (rm_sdkapi rm) input)) (\<lambda>err.
          bindP (emitP (RecordAPICall ''UPDATE'' ''UpdateCertificateOptions'' err)) (\<lambda>_.
          if err \<noteq> None then retP (None, err)
          else retP (Some (updatedFrom rm desired latest), None)))))"

definition sdkDelete ::
  "'w resourceManager \<Rightarrow> Certificate \<Rightarrow> ('w sys, Certificate option \<times> goerror option) prog" where
  "sdkDelete rm r =
     (let input = newDeleteRequestPayload r in
      bindP (callP (EvDelete input) (api_DeleteCertificate (rm_sdkapi rm) input)) (\<lambda>err.
      bindP (emitP (RecordAPICall ''DELETE'' ''DeleteCertificate'' err)) (\<lambda>_.
      retP (None, err))))"

section \<open>The calls of each way\<close>

fun tag_change :: "string \<Rightarrow> effect \<Rightarrow> bool" where
  "tag_change arn (EvAddTags i) \<longleftrightarrow> ti_CertificateArn i = arn"
| "tag_change arn (EvRemoveTags i) \<longleftrightarrow> ti_CertificateArn i = arn"
| "tag_change arn _ \<longleftrightarrow> False"

fun secret_write :: "effect \<Rightarrow> bool" where
  "secret_write (EvWriteSecret _ _ _ _) = True"
| "secret_write _ = False"

lemma SyncTags_changes:
  assumes "order_laws X" and "tags_full a" and "tags_full b"
  obtains err t evs where "SyncTags X client arn a b s = Returns err t"
    and "trace t = trace s @ evs" and "list_all (tag_change arn) (filter mutating evs)"
proof -
  from SyncTags_plan [OF assms, of client arn] obtain del add where
    run: "\<And>s. SyncTags X client arn a b s =
      (case sync_plan client arn del add s of (err, t) \<Rightarrow> Returns err t)"
    by metis
  obtain err t where plan: "sync_plan client arn del add s = (err, t)" by fastforce
  have "\<exists>evs. trace t = trace s @ evs \<and> list_all (tag_change arn) (filter mutating evs)"
    using plan by (auto simp: sync_plan_def tag_call_def Let_def split: prod.splits if_splits)
  with run [of s] plan show ?thesis using that by auto
qed

lemma exportCertificate_changes:
  obtains evs where "trace (final_state (exportCertificate X rm r s)) = trace s @ evs"
    and "list_all secret_write (filter mutating evs)"
proof (cases "spec_ExportTo (ko_Spec r)")
  case None
  then have "exportCertificate X rm r s = Returns None s"
    by (simp add: exportCertificate_def prog_simps)
  then show ?thesis using that [of "[]"] by simp
next
  case (Some to)
  then show ?thesis
  proof (cases rule: exportCertificate_cases [where X = X and rm = rm and s = s])
    case (failed e t evs)
    then show ?thesis using that [of evs] by simp
  next
    case (answered pass out u)
    show ?thesis
      by (cases rule: storeExported_cases [of X rm r to pass out u])
        (use answered in \<open>auto simp: secretWrite_def intro: that\<close>)
  qed
qed

definition options_run ::
  "'w resourceManager \<Rightarrow> Certificate \<Rightarrow> Certificate \<Rightarrow>
     ('w sys, Certificate option \<times> goerror option) prog" where
  "options_run rm desired latest s =
     (let input = \<lparr>uci_CertificateArn = certARN desired,
                   uci_Options = toOptions (spec_Options (ko_Spec desired))\<rparr>;
          (err, w) = api_UpdateCertificateOptions (rm_sdkapi rm) input (env s)
      in Returns (if err \<noteq> None then None else Some (updatedFrom rm desired latest), err)
           (s\<lparr>env := w, trace := trace s @ [EvUpdateOptions input,
              RecordAPICall ''UPDATE'' ''UpdateCertificateOptions'' err]\<rparr>))"

lemma update_input:
  "newUpdateRequestPayload r =
     \<lparr>uci_CertificateArn = certARN r, uci_Options = toOptions (spec_Options (ko_Spec r))\<rparr>"
  by (auto simp: newUpdateRequestPayload_def certARN_def toOptions_def Let_def split: option.split)

lemma delete_input: "newDeleteRequestPayload r = \<lparr>del_CertificateArn = certARN r\<rparr>"
  by (simp add: newDeleteRequestPayload_def certARN_def Let_def split: option.split)

text \<open>The ways without an export, after the tags.\<close>

definition after_tags ::
  "Ext \<Rightarrow> 'w resourceManager \<Rightarrow> Certificate \<Rightarrow> Certificate \<Rightarrow> Delta \<Rightarrow>
     ('w sys, Certificate option \<times> goerror option) prog" where
  "after_tags X rm desired latest d s =
     (if \<not> DifferentExcept X d ''Spec.Tags'' then Returns (Some desired, None) s
      else if st_Type (ko_Status latest) = Some ''IMPORTED''
      then Returns (if DifferentAt X d ''Spec.Options'' then (None, Some onlyTagsForImported)
                    else (Some desired, None)) s
      else options_run rm desired latest s)"

lemma sdkUpdate_no_export:
  assumes "\<not> DifferentAt X d ''Spec.Status.IssuedAt''" and "\<not> DifferentAt X d ''Spec.Status.Serial''"
  shows "sdkUpdate X rm desired latest d s =
    (if DifferentAt X d ''Spec.Tags''
     then case certARN desired of
            None \<Rightarrow> Panics s
          | Some arn \<Rightarrow>
              (case SyncTags X (rm_sdkapi rm) arn (specTags desired) (specTags latest) s of
                 Panics t \<Rightarrow> Panics t
               | Returns err t \<Rightarrow>
                   if err \<noteq> None then Returns (None, err) t
                   else after_tags X rm desired latest d t)
     else after_tags X rm desired latest d s)"
  using assms
  by (auto simp: sdkUpdate_def bindP_apply prog_simps after_tags_def options_run_def update_input
      specTags_def liftP_def Let_def split: option.split outcome.split prod.split)

lemma exportUpdate_run:
  "exportUpdate X rm desired latest s =
     (case exportCertificate X rm latest s of
        Panics t \<Rightarrow> Panics t
      | Returns err t \<Rightarrow>
          Returns (if err \<noteq> None then (None, err) else (Some (updatedFrom rm desired latest), None)) t)"
  by (simp add: exportUpdate_def bindP_apply prog_simps split: outcome.split)

section \<open>Properties of an update\<close>

definition export_pending :: "Certificate \<Rightarrow> Certificate \<Rightarrow> bool" where
  "export_pending a b \<longleftrightarrow> awaits_export a b \<or> renewed a b"

text \<open>What the two objects of an update satisfy: read and written by the controller's handlers.\<close>

definition update_ready :: "Certificate \<Rightarrow> Certificate \<Rightarrow> bool" where
  "update_ready a b \<longleftrightarrow> comparable a \<and> comparable b \<and> tags_full (specTags a) \<and> tags_full (specTags b)"

definition update_laws :: "Ext \<Rightarrow> bool" where
  "update_laws X \<longleftrightarrow> order_laws X \<and> compare_laws X \<and> delta_laws X"

lemma delta_tests:
  assumes "update_laws X" and "update_ready a b" and "newResourceDelta X (Some a) (Some b) = Some d"
  shows "DifferentAt X d ''Spec.Status.IssuedAt'' = awaits_export a b"
    and "DifferentAt X d ''Spec.Status.Serial'' = renewed a b"
    and "DifferentAt X d ''Spec.Tags'' = (\<not> same_tags a b)"
    and "DifferentAt X d ''Spec.Options'' = (\<not> same_options X a b)"
    and "DifferentExcept X d ''Spec.Tags'' = (export_pending a b \<or> \<not> same_key a b \<or>
      \<not> same_identity a b \<or> \<not> same_options X a b)"
proof -
  have "compare_laws X" "delta_laws X" "comparable a" "comparable b"
    using assms(1,2) by (simp_all add: update_laws_def update_ready_def)
  from delta_answers [OF this] assms(3)
  have *: "DifferentAt X d ''Spec.Status.IssuedAt'' = awaits_export a b \<and>
    DifferentAt X d ''Spec.Status.Serial'' = renewed a b \<and>
    DifferentAt X d ''Spec.Tags'' = (\<not> same_tags a b) \<and>
    DifferentAt X d ''Spec.Options'' = (\<not> same_options X a b) \<and>
    DifferentExcept X d ''Spec.Tags'' =
      (awaits_export a b \<or> renewed a b \<or> \<not> same_key a b \<or> \<not> same_identity a b \<or>
       \<not> same_options X a b)" by auto
  then show "DifferentAt X d ''Spec.Status.IssuedAt'' = awaits_export a b"
    and "DifferentAt X d ''Spec.Status.Serial'' = renewed a b"
    and "DifferentAt X d ''Spec.Tags'' = (\<not> same_tags a b)"
    and "DifferentAt X d ''Spec.Options'' = (\<not> same_options X a b)"
    and "DifferentExcept X d ''Spec.Tags'' = (export_pending a b \<or> \<not> same_key a b \<or>
      \<not> same_identity a b \<or> \<not> same_options X a b)"
    unfolding export_pending_def by (elim conjE, simp)+
qed

lemma sdkUpdate_exports:
  assumes "update_laws X" and "update_ready desired latest"
    and "newResourceDelta X (Some desired) (Some latest) = Some d" and "export_pending desired latest"
  shows "sdkUpdate X rm desired latest d s = exportUpdate X rm desired latest s"
  using assms(4) by (auto simp: sdkUpdate_def delta_tests [OF assms(1-3)] export_pending_def)

text \<open>
  C5. While an export is pending - the certificate is issued and the desired object has no
  issue time, or the serial number changed - an update only writes Secrets: it changes no tag
  and no option at ACM, whatever else differs. If it succeeds, the object it returns has the
  desired spec and the issue time, status and serial number of the latest; if not, there is
  no object.
\<close>

theorem sdkUpdate_export_only:
  assumes "update_laws X" and "update_ready desired latest"
    and "newResourceDelta X (Some desired) (Some latest) = Some d" and "export_pending desired latest"
  shows "list_all secret_write
      (filter mutating (calls_since s (final_state (sdkUpdate X rm desired latest d s)))) \<and>
    (\<forall>res err t. sdkUpdate X rm desired latest d s = Returns (res, err) t \<longrightarrow>
      (case res of
         None \<Rightarrow> err \<noteq> None
       | Some ko \<Rightarrow> err = None \<and> ko_Spec ko = ko_Spec desired \<and>
           st_IssuedAt (ko_Status ko) = st_IssuedAt (ko_Status latest) \<and>
           st_Status (ko_Status ko) = st_Status (ko_Status latest) \<and>
           st_Serial (ko_Status ko) = st_Serial (ko_Status latest)))"
proof -
  obtain evs where evs: "trace (final_state (exportCertificate X rm latest s)) = trace s @ evs"
    "list_all secret_write (filter mutating evs)"
    by (rule exportCertificate_changes)
  show ?thesis
    unfolding sdkUpdate_exports [OF assms] exportUpdate_run
    using evs by (cases "exportCertificate X rm latest s")
      (auto simp: calls_since_def updatedFrom_def split: if_splits)
qed

text \<open>
  C14. An export ends the difference that caused it if and only if ACM reports an issue time:
  after a successful update with an export pending, the returned object agrees with the latest
  on the serial number, and awaits an export again exactly if the latest is issued and has no
  issue time. (An imported certificate has none: such an object is exported over and over,
  and none of its tags is synced.)
\<close>

theorem sdkUpdate_export_converges:
  assumes "update_laws X" and "update_ready desired latest"
    and "newResourceDelta X (Some desired) (Some latest) = Some d" and "export_pending desired latest"
    and "sdkUpdate X rm desired latest d s = Returns (Some ko, err) t"
  shows "\<not> renewed ko latest \<and>
    (awaits_export ko latest \<longleftrightarrow>
       st_IssuedAt (ko_Status latest) = None \<and> st_Status (ko_Status latest) = Some ''ISSUED'') \<and>
    same_tags ko latest = same_tags desired latest \<and>
    same_options X ko latest = same_options X desired latest"
proof -
  have "exportUpdate X rm desired latest s = Returns (Some ko, err) t"
    using assms(5) by (simp only: sdkUpdate_exports [OF assms(1-4)])
  then have ko: "ko = updatedFrom rm desired latest"
    by (auto simp: exportUpdate_run split: outcome.splits if_splits)
  have "spec_ExportTo (ko_Spec desired) \<noteq> None"
    using assms(4) by (auto simp: export_pending_def awaits_export_def renewed_def)
  then show ?thesis
    by (simp add: ko renewed_def both_differ_def updatedFrom_def same_tags_def same_options_def
        specTags_def awaits_export_def)
qed

section \<open>A concrete update\<close>

definition sampleLatest :: Certificate where
  "sampleLatest = onSpec (\<lambda>sp. sp\<lparr>spec_ExportTo := spec_ExportTo (ko_Spec sampleWanted)\<rparr>)
     sampleObserved"

lemma sample_update_laws: "update_laws sampleExt"
  by (simp add: update_laws_def sample_laws)

lemma sample_update_ready: "update_ready sampleWanted sampleLatest"
  by (simp add: update_ready_def comparable_def nonempty_def specTags_def no_nil_tag_def
      tags_full_def mkTag_def sampleWanted_def sampleLatest_def sampleObserved_def sampleCert_def
      emptyCertificate_def emptySpec_def)

lemma sample_export_pending: "export_pending sampleWanted sampleLatest"
  by (simp add: export_pending_def awaits_export_def sampleWanted_def sampleLatest_def
      sampleObserved_def sampleCert_def emptyCertificate_def emptyStatus_def)

lemma sample_delta_exists:
  assumes "update_ready a b"
  obtains d where "newResourceDelta sampleExt (Some a) (Some b) = Some d"
  using newResourceDelta_eq [OF sample_compare, of a b] assms
  by (auto simp: update_ready_def comparable_def)

lemma sample_export_update:
  assumes "newResourceDelta sampleExt (Some sampleWanted) (Some sampleLatest) = Some d"
  shows "\<exists>ko t. sdkUpdate sampleExt sampleManager sampleWanted sampleLatest d s = Returns (Some ko, None) t"
proof -
  have "\<exists>t. exportCertificate sampleExt sampleManager sampleLatest s = Returns None t"
    by (rule sampleExport_ok) (simp_all add: sampleLatest_def sampleWanted_def sampleObserved_def)
  then show ?thesis
    unfolding sdkUpdate_exports [OF sample_update_laws sample_update_ready assms sample_export_pending]
      exportUpdate_run by auto
qed

theorem sdkUpdate_export_only_witness:
  "\<exists>d ko t. newResourceDelta sampleExt (Some sampleWanted) (Some sampleLatest) = Some d \<and>
     sdkUpdate sampleExt sampleManager sampleWanted sampleLatest d (sampleSys sampleWorld) = Returns (Some ko, None) t \<and>
     st_Status (ko_Status ko) = Some ''ISSUED'' \<and>
     list_all secret_write (filter mutating (calls_since (sampleSys sampleWorld) t))"
proof -
  let ?s = "sampleSys sampleWorld"
  obtain d where d: "newResourceDelta sampleExt (Some sampleWanted) (Some sampleLatest) = Some d"
    by (rule sample_delta_exists [OF sample_update_ready])
  obtain ko t where run:
    "sdkUpdate sampleExt sampleManager sampleWanted sampleLatest d ?s = Returns (Some ko, None) t"
    using sample_export_update [OF d] by blast
  have "st_Status (ko_Status sampleLatest) = Some ''ISSUED''"
    by (simp add: sampleLatest_def sampleObserved_def)
  with sdkUpdate_export_only [OF sample_update_laws sample_update_ready d sample_export_pending,
      of ?s sampleManager] run d show ?thesis by auto
qed

theorem sdkUpdate_export_converges_witness:
  "\<exists>d ko t. newResourceDelta sampleExt (Some sampleWanted) (Some sampleLatest) = Some d \<and>
     sdkUpdate sampleExt sampleManager sampleWanted sampleLatest d (sampleSys sampleWorld) = Returns (Some ko, None) t \<and>
     awaits_export ko sampleLatest"
proof -
  let ?s = "sampleSys sampleWorld"
  obtain d where d: "newResourceDelta sampleExt (Some sampleWanted) (Some sampleLatest) = Some d"
    by (rule sample_delta_exists [OF sample_update_ready])
  obtain ko t where run:
    "sdkUpdate sampleExt sampleManager sampleWanted sampleLatest d ?s = Returns (Some ko, None) t"
    using sample_export_update [OF d] by blast
  have "st_Status (ko_Status sampleLatest) = Some ''ISSUED''"
    and "st_IssuedAt (ko_Status sampleLatest) = None"
    by (simp_all add: sampleLatest_def sampleObserved_def sampleCert_def emptyCertificate_def
        emptyStatus_def)
  with sdkUpdate_export_converges [OF sample_update_laws sample_update_ready d
      sample_export_pending run] run d show ?thesis by auto
qed

section \<open>Updates without an export\<close>

text \<open>
  C13. With no export pending and equal tags, an update does exactly one of three things: nothing,
  returning the desired object, if there is no other difference; for an imported certificate
  nothing as well, or the terminal error if the options differ; and otherwise one
  \<open>UpdateCertificateOptions\<close> on the object's ARN with its options, whose error is returned.
\<close>

theorem sdkUpdate_same_tags:
  assumes "update_laws X" and "update_ready desired latest"
    and "newResourceDelta X (Some desired) (Some latest) = Some d"
    and "\<not> export_pending desired latest" and "same_tags desired latest"
  shows "sdkUpdate X rm desired latest d s =
    (if same_key desired latest \<and> same_identity desired latest \<and> same_options X desired latest
     then Returns (Some desired, None) s
     else if st_Type (ko_Status latest) = Some ''IMPORTED''
     then Returns (if same_options X desired latest then (Some desired, None)
                   else (None, Some onlyTagsForImported)) s
     else options_run rm desired latest s)"
proof -
  note tests = delta_tests [OF assms(1-3)]
  have "\<not> DifferentAt X d ''Spec.Status.IssuedAt''" "\<not> DifferentAt X d ''Spec.Status.Serial''"
    using tests assms(4) by (simp_all add: export_pending_def)
  note eq = sdkUpdate_no_export [OF this, of rm desired latest s]
  show ?thesis
    unfolding eq using tests assms(4,5) by (simp add: after_tags_def)
qed

definition sampleChanged :: Certificate where
  "sampleChanged = onSpec (\<lambda>sp. sp\<lparr>spec_Options := Some \<lparr>opts_CertificateTransparencyLoggingPreference =
     Some ''DISABLED'', opts_Export = None\<rparr>\<rparr>) sampleCert"

lemma sampleChanged_update:
  "update_ready sampleChanged sampleCert" "\<not> export_pending sampleChanged sampleCert"
  "same_tags sampleChanged sampleCert" "\<not> same_options sampleExt sampleChanged sampleCert"
  "st_Type (ko_Status sampleCert) = None"
  by (simp_all add: update_ready_def comparable_def nonempty_def specTags_def no_nil_tag_def
      tags_full_def mkTag_def sampleChanged_def sampleCert_def emptyCertificate_def emptySpec_def
      emptyStatus_def export_pending_def awaits_export_def renewed_def same_tags_def
      same_options_def sampleExt_def)

theorem sdkUpdate_same_tags_witness:
  "\<exists>d ko t. newResourceDelta sampleExt (Some sampleChanged) (Some sampleCert) = Some d \<and>
     sdkUpdate sampleExt sampleManager sampleChanged sampleCert d (sampleSys sampleWorld) = Returns (Some ko, None) t \<and>
     length (filter mutating (calls_since (sampleSys sampleWorld) t)) = 1"
proof -
  let ?s = "sampleSys sampleWorld"
  obtain d where d: "newResourceDelta sampleExt (Some sampleChanged) (Some sampleCert) = Some d"
    by (rule sample_delta_exists [OF sampleChanged_update(1)])
  from sdkUpdate_same_tags [OF sample_update_laws sampleChanged_update(1) d sampleChanged_update(2,3),
      of sampleManager ?s]
  have "sdkUpdate sampleExt sampleManager sampleChanged sampleCert d ?s =
      options_run sampleManager sampleChanged sampleCert ?s"
    by (simp add: sampleChanged_update(4,5))
  then show ?thesis using d
    by (simp add: options_run_def sampleManager_def sampleClient_def calls_since_def Let_def)
qed

text \<open>The same tests for any two objects whose tags have a key and a value.\<close>

lemma tags_full_no_nil: "tags_full tags \<Longrightarrow> no_nil_tag tags"
  by (auto simp: tags_full_def no_nil_tag_def list_all_iff split: option.splits)

lemma delta_tests_read:
  assumes "update_laws X" and "nil_laws X" and "tags_full (specTags a)" and "tags_full (specTags b)"
    and "newResourceDelta X (Some a) (Some b) = Some d"
  shows "DifferentAt X d ''Spec.Status.IssuedAt'' = awaits_export a b \<and>
    DifferentAt X d ''Spec.Status.Serial'' = renewed a b \<and>
    DifferentAt X d ''Spec.Tags'' = (\<not> same_tags a b) \<and>
    DifferentAt X d ''Spec.Options'' = (\<not> agree_options X a b) \<and>
    DifferentExcept X d ''Spec.Tags'' = (export_pending a b \<or> \<not> same_key a b \<or>
      \<not> agree_identity X a b \<or> \<not> agree_options X a b)"
proof -
  have "compare_laws X" "delta_laws X" using assms(1) by (simp_all add: update_laws_def)
  from delta_reads [OF this(1) assms(2) this(2) assms(3,4) [THEN tags_full_no_nil]] assms(5)
  show ?thesis by (auto simp: export_pending_def)
qed

text \<open>\<open>UpdateCertificateOptions\<close> changes the options of a certificate, not its tags.\<close>

definition options_keep_tags ::
  "'w AcmClient \<Rightarrow> ('w \<Rightarrow> string \<Rightarrow> string \<Rightarrow> string option) \<Rightarrow> bool" where
  "options_keep_tags client store \<longleftrightarrow>
     (\<forall>i w. store (snd (api_UpdateCertificateOptions client i w)) = store w)"


definition sampleRetagged :: "string \<Rightarrow> Certificate" where
  "sampleRetagged v = setARN (Some ''arn:cert'')
     (onSpec (\<lambda>sp. sp\<lparr>spec_Tags := Some [mkTag ''env'' v]\<rparr>) sampleCert)"

lemma sampleRetagged_spec:
  "specTags (sampleRetagged v) = Some [mkTag ''env'' v]"
  "certARN (sampleRetagged v) = Some ''arn:cert''"
  by (simp_all add: sampleRetagged_def specTags_def)

lemma sampleRetagged_update:
  "tags_full (specTags (sampleRetagged u))" "\<not> export_pending (sampleRetagged u) (sampleRetagged v)"
  by (simp_all add: sampleRetagged_spec tags_full_def mkTag_def export_pending_def awaits_export_def
      renewed_def) (simp_all add: sampleRetagged_def sampleCert_def emptyCertificate_def emptySpec_def)

definition withDisabled :: "Certificate \<Rightarrow> Certificate" where
  "withDisabled = onSpec (\<lambda>sp. sp\<lparr>spec_Options := spec_Options (ko_Spec sampleChanged)\<rparr>)"

lemma withDisabled_frame [simp]:
  "specTags (withDisabled ko) = specTags ko" "certARN (withDisabled ko) = certARN ko"
  "export_pending (withDisabled a) b = export_pending a b"
  "same_tags (withDisabled a) b = same_tags a b"
  by (simp_all add: withDisabled_def specTags_def certARN_def export_pending_def awaits_export_def
      renewed_def same_tags_def)


end
