(* ===== verification/References.thy ===== *)
theory References
  imports Conditions SdkFind
begin

text \<open>
  \<open>references.go\<close>: the certificate authority of a certificate can be given as a reference to
  another custom resource. \<open>ResolveReferences\<close> looks it up and writes its ARN into the spec of
  the object it is given (the code works on the object itself, so the model returns it on
  every path); \<open>ClearResolvedReferences\<close> takes the ARN out again before the object is stored.

  The reader of the Kubernetes API is the argument \<open>apiReader\<close>. What is shown: the outcomes,
  and that clearing undoes resolving.
\<close>

section \<open>references.go\<close>

type_synonym 'w Reader = "string \<Rightarrow> string \<Rightarrow> 'w \<Rightarrow> (goerror + CertificateAuthority) \<times> 'w"

definition ClearResolvedReferences :: "Certificate \<Rightarrow> Certificate" where
  "ClearResolvedReferences ko =
     (if spec_CertificateAuthorityRef (ko_Spec ko) \<noteq> None
      then onSpec (\<lambda>sp. sp\<lparr>spec_CertificateAuthorityARN := None\<rparr>) ko else ko)"

definition validateReferenceFields :: "Certificate \<Rightarrow> goerror option" where
  "validateReferenceFields ko =
     (if spec_CertificateAuthorityRef (ko_Spec ko) \<noteq> None \<and>
         spec_CertificateAuthorityARN (ko_Spec ko) \<noteq> None
      then Some (ResourceReferenceAndIDNotSupportedFor ''CertificateAuthorityARN''
                   ''CertificateAuthorityRef'')
      else None)"

text \<open>The two loops over the conditions; a nil condition panics.\<close>

fun refTerminalLoop :: "Condition option list \<Rightarrow> bool option" where
  "refTerminalLoop [] = Some False"
| "refTerminalLoop (None # cs) = None"
| "refTerminalLoop (Some cond # cs) =
     (if cond_Type cond = ConditionTypeTerminal \<and> cond_Status cond = ConditionTrue
      then Some True else refTerminalLoop cs)"

fun refSyncedLoop :: "Condition option list \<Rightarrow> bool \<Rightarrow> bool option" where
  "refSyncedLoop [] synced = Some synced"
| "refSyncedLoop (None # cs) synced = None"
| "refSyncedLoop (Some cond # cs) synced =
     refSyncedLoop cs
       (if cond_Type cond = ConditionTypeResourceSynced \<and> cond_Status cond = ConditionTrue
        then True else synced)"

definition getReferencedResourceState ::
  "'w Reader \<Rightarrow> string \<Rightarrow> string \<Rightarrow> ('w sys, goerror + CertificateAuthority) prog" where
  "getReferencedResourceState apiReader name namespace =
     bindP (callP (EvGetReference namespace name) (apiReader namespace name)) (\<lambda>got.
     case got of
       Inl err \<Rightarrow> retP (Inl err)
     | Inr obj \<Rightarrow>
         bindP (liftP (refTerminalLoop (elems (ca_Conditions obj)))) (\<lambda>refResourceTerminal.
         if refResourceTerminal
         then retP (Inl (ResourceReferenceTerminalFor ''CertificateAuthority'' namespace name))
         else
           bindP (liftP (refSyncedLoop (elems (ca_Conditions obj)) False)) (\<lambda>refResourceSynced.
           if \<not> refResourceSynced
           then retP (Inl (ResourceReferenceNotSyncedFor ''CertificateAuthority'' namespace name))
           else if (case ca_ACKResourceMetadata obj of None \<Rightarrow> True | Some m \<Rightarrow> meta_ARN m = None)
           then retP (Inl (ResourceReferenceMissingTargetFieldFor ''CertificateAuthority''
                  namespace name ''Status.ACKResourceMetadata.ARN''))
           else retP (Inr obj))))"

definition emptyReference :: goerror where
  "emptyReference =
     ErrorString ''provided resource reference is nil or empty: CertificateAuthorityRef''"

definition resolveReferenceForCertificateAuthorityARN ::
  "Ext \<Rightarrow> 'w resourceManager \<Rightarrow> 'w Reader \<Rightarrow> Certificate \<Rightarrow>
     ('w sys, Certificate \<times> bool \<times> goerror option) prog" where
  "resolveReferenceForCertificateAuthorityARN X rm apiReader ko =
     (case spec_CertificateAuthorityRef (ko_Spec ko) of
        None \<Rightarrow> retP (ko, False, None)
      | Some ref \<Rightarrow>
          (case ref_From ref of
             None \<Rightarrow> retP (ko, False, None)
           | Some arr \<Rightarrow>
               (case ref_Name arr of
                  None \<Rightarrow> retP (ko, True, Some emptyReference)
                | Some name \<Rightarrow>
                    if name = [] then retP (ko, True, Some emptyReference)
                    else
                      let (resolved, conds) = ResolveCrossNamespaceReference X
                            (cfg_EnableCrossNamespace (rm_cfg rm)) (st_Conditions (ko_Status ko))
                            (om_Namespace (ko_ObjectMeta ko)) (ref_Namespace arr) name;
                          ko = onStatus (\<lambda>st. st\<lparr>st_Conditions := conds\<rparr>) ko
                      in (case resolved of
                            Inl err \<Rightarrow> retP (ko, True, Some err)
                          | Inr namespace \<Rightarrow>
                              bindP (getReferencedResourceState apiReader name namespace) (\<lambda>state.
                              case state of
                                Inl err \<Rightarrow> retP (ko, True, Some err)
                              | Inr obj \<Rightarrow>
                                  bindP (liftP (ca_ACKResourceMetadata obj)) (\<lambda>m.
                                  retP (onSpec (\<lambda>sp. sp\<lparr>spec_CertificateAuthorityARN :=
                                          meta_ARN m\<rparr>) ko, True, None)))))))"

definition ResolveReferences ::
  "Ext \<Rightarrow> 'w resourceManager \<Rightarrow> 'w Reader \<Rightarrow> Certificate \<Rightarrow>
     ('w sys, Certificate \<times> bool \<times> goerror option) prog" where
  "ResolveReferences X rm apiReader ko =
     (let resourceHasReferences = False; err = validateReferenceFields ko in
      bindP (resolveReferenceForCertificateAuthorityARN X rm apiReader ko)
        (\<lambda>(ko, fieldHasReferences, err').
        if err' \<noteq> None then retP (ko, resourceHasReferences \<or> fieldHasReferences, err')
        else retP (ko, resourceHasReferences \<or> fieldHasReferences, err)))"

section \<open>The referenced resource\<close>

definition ca_ready :: "CertificateAuthority \<Rightarrow> string \<Rightarrow> bool" where
  "ca_ready ca arn \<longleftrightarrow>
     (\<forall>c. Some c \<in> set (elems (ca_Conditions ca)) \<longrightarrow>
        \<not> (cond_Type c = ConditionTypeTerminal \<and> cond_Status c = ConditionTrue)) \<and>
     (\<exists>c. Some c \<in> set (elems (ca_Conditions ca)) \<and>
        cond_Type c = ConditionTypeResourceSynced \<and> cond_Status c = ConditionTrue) \<and>
     (\<exists>m. ca_ACKResourceMetadata ca = Some m \<and> meta_ARN m = Some arn)"

lemma refTerminalLoop_False:
  "refTerminalLoop cs = Some False \<longleftrightarrow> None \<notin> set cs \<and>
     (\<forall>c. Some c \<in> set cs \<longrightarrow> \<not> (cond_Type c = ConditionTypeTerminal \<and> cond_Status c = ConditionTrue))"
  by (induction cs rule: refTerminalLoop.induct) auto

lemma refSyncedLoop_eq:
  "None \<notin> set cs \<Longrightarrow> refSyncedLoop cs b = Some (b \<or>
     (\<exists>c. Some c \<in> set cs \<and> cond_Type c = ConditionTypeResourceSynced \<and> cond_Status c = ConditionTrue))"
  by (induction cs b rule: refSyncedLoop.induct) auto

lemma getReferencedResourceState_ready:
  assumes "getReferencedResourceState apiReader name namespace s = Returns (Inr obj) t"
  shows "fst (apiReader namespace name (env s)) = Inr obj \<and> (\<exists>arn. ca_ready obj arn)"
  using assms
  by (auto simp: getReferencedResourceState_def callP_apply ca_ready_def prog_elims
      refTerminalLoop_False refSyncedLoop_eq split: sum.splits option.splits if_splits)

definition has_reference :: "Certificate \<Rightarrow> bool" where
  "has_reference ko \<longleftrightarrow>
     (case spec_CertificateAuthorityRef (ko_Spec ko) of None \<Rightarrow> False | Some ref \<Rightarrow> ref_From ref \<noteq> None)"

lemma getReferencedResourceState_trace:
  "getReferencedResourceState apiReader name namespace s = Returns res t \<Longrightarrow>
   trace t = trace s @ [EvGetReference namespace name]"
  by (auto simp: getReferencedResourceState_def callP_apply prog_elims
      split: sum.splits option.splits if_splits)

text \<open>
  Where the reference points: the namespace the runtime resolves it to, and its name; None
  without a reference, without a name, or if the runtime refuses the namespace.
\<close>

definition reference_target ::
  "Ext \<Rightarrow> 'w resourceManager \<Rightarrow> Certificate \<Rightarrow> (string \<times> string) option" where
  "reference_target X rm ko =
     (case Option.bind (spec_CertificateAuthorityRef (ko_Spec ko)) ref_From of
        None \<Rightarrow> None
      | Some arr \<Rightarrow>
          (case ref_Name arr of
             None \<Rightarrow> None
           | Some name \<Rightarrow>
               if name = [] then None
               else (case fst (ResolveCrossNamespaceReference X (cfg_EnableCrossNamespace (rm_cfg rm))
                       (st_Conditions (ko_Status ko)) (om_Namespace (ko_ObjectMeta ko))
                       (ref_Namespace arr) name) of
                       Inl _ \<Rightarrow> None
                     | Inr namespace \<Rightarrow> Some (namespace, name))))"

definition same_but_conditions :: "CertificateStatus \<Rightarrow> CertificateStatus \<Rightarrow> bool" where
  "same_but_conditions st st' \<longleftrightarrow> st'\<lparr>st_Conditions := st_Conditions st\<rparr> = st"

lemma same_but_conditions_simps [simp]:
  "same_but_conditions st st" "same_but_conditions st (st\<lparr>st_Conditions := cs\<rparr>)"
  by (simp_all add: same_but_conditions_def)

lemma getReferencedResourceState_error:
  "fst (apiReader namespace name (env s)) = Inl e \<Longrightarrow>
   getReferencedResourceState apiReader name namespace s = Returns res t \<Longrightarrow> res = Inl e"
  by (auto simp: getReferencedResourceState_def callP_apply prog_elims split: sum.splits)

text \<open>The outcomes of resolving the one reference field.\<close>

lemma resolve_cases:
  assumes "resolveReferenceForCertificateAuthorityARN X rm apiReader ko s = Returns (ko', has, err) t"
  shows "has = has_reference ko \<and> ko_ObjectMeta ko' = ko_ObjectMeta ko \<and>
    same_but_conditions (ko_Status ko) (ko_Status ko') \<and>
    trace t = trace s @ (case reference_target X rm ko of
      None \<Rightarrow> [] | Some (namespace, name) \<Rightarrow> [EvGetReference namespace name]) \<and>
    (\<not> has_reference ko \<longrightarrow> ko' = ko \<and> err = None \<and> t = s) \<and>
    (err \<noteq> None \<longrightarrow> ko_Spec ko' = ko_Spec ko) \<and>
    (\<forall>namespace name e. reference_target X rm ko = Some (namespace, name) \<and>
       fst (apiReader namespace name (env s)) = Inl e \<longrightarrow> err = Some e) \<and>
    (has_reference ko \<and> err = None \<longrightarrow> (\<exists>namespace name ca arn.
       reference_target X rm ko = Some (namespace, name) \<and>
       fst (apiReader namespace name (env s)) = Inr ca \<and> ca_ready ca arn \<and>
       ko_Spec ko' = (ko_Spec ko)\<lparr>spec_CertificateAuthorityARN := Some arn\<rparr>))"
proof (cases "has_reference ko")
  case False
  then show ?thesis
    using assms by (auto simp: resolveReferenceForCertificateAuthorityARN_def has_reference_def
        reference_target_def retP_eq_Returns split: option.splits)
next
  case True
  then obtain ref arr where ref: "spec_CertificateAuthorityRef (ko_Spec ko) = Some ref"
    "ref_From ref = Some arr"
    by (auto simp: has_reference_def split: option.splits)
  show ?thesis
  proof (cases "ref_Name arr = None \<or> ref_Name arr = Some []")
    case True
    with ref assms \<open>has_reference ko\<close> show ?thesis
      by (auto simp: resolveReferenceForCertificateAuthorityARN_def reference_target_def
          retP_eq_Returns)
  next
    case False
    then obtain name where name: "ref_Name arr = Some name" "name \<noteq> []" by auto
    obtain res conds where cross: "ResolveCrossNamespaceReference X
        (cfg_EnableCrossNamespace (rm_cfg rm)) (st_Conditions (ko_Status ko))
        (om_Namespace (ko_ObjectMeta ko)) (ref_Namespace arr) name = (res, conds)"
      by fastforce
    note run = assms [unfolded resolveReferenceForCertificateAuthorityARN_def ref name cross
        option.case Let_def prod.case if_not_P [OF name(2)]]
    have target: "reference_target X rm ko =
        (case res of Inl _ \<Rightarrow> None | Inr namespace \<Rightarrow> Some (namespace, name))"
      by (simp add: reference_target_def ref name cross)
    show ?thesis
    proof (cases res)
      case (Inl e)
      with run \<open>has_reference ko\<close> show ?thesis by (auto simp: retP_eq_Returns target)
    next
      case (Inr namespace)
      with run obtain state u where
        get: "getReferencedResourceState apiReader name namespace s = Returns state u"
        and rest: "(case state of Inl err \<Rightarrow> retP (onStatus (\<lambda>st. st\<lparr>st_Conditions := conds\<rparr>) ko, True, Some err)
          | Inr obj \<Rightarrow> bindP (liftP (ca_ACKResourceMetadata obj)) (\<lambda>m.
              retP (onSpec (\<lambda>sp. sp\<lparr>spec_CertificateAuthorityARN := meta_ARN m\<rparr>)
                (onStatus (\<lambda>st. st\<lparr>st_Conditions := conds\<rparr>) ko), True, None))) u =
          Returns (ko', has, err) t"
        by (auto simp: bindP_eq_Returns)
      have target: "reference_target X rm ko = Some (namespace, name)"
        using target Inr by simp
      have tr: "trace u = trace s @ [EvGetReference namespace name]"
        by (rule getReferencedResourceState_trace [OF get])
      show ?thesis
      proof (cases state)
        case (Inl e)
        with rest \<open>has_reference ko\<close> show ?thesis
          using getReferencedResourceState_error [OF _ get] target tr by (auto simp: retP_eq_Returns)
      next
        case (Inr obj)
        with getReferencedResourceState_ready get obtain arn where
          "fst (apiReader namespace name (env s)) = Inr obj" "ca_ready obj arn" by blast
        moreover from this rest Inr have "u = t" "err = None" "has"
          "ko_Spec ko' = (ko_Spec ko)\<lparr>spec_CertificateAuthorityARN := Some arn\<rparr>"
          "ko_ObjectMeta ko' = ko_ObjectMeta ko"
          "same_but_conditions (ko_Status ko) (ko_Status ko')"
          by (auto simp: ca_ready_def prog_elims)
        ultimately show ?thesis
          using target tr \<open>has_reference ko\<close> by auto
      qed
    qed
  qed
qed

lemma ResolveReferences_run:
  "ResolveReferences X rm apiReader ko s =
     (case resolveReferenceForCertificateAuthorityARN X rm apiReader ko s of
        Panics t \<Rightarrow> Panics t
      | Returns (ko', has, err) t \<Rightarrow>
          Returns (ko', has, if err \<noteq> None then err else validateReferenceFields ko) t)"
  by (auto simp: ResolveReferences_def bindP_apply prog_simps split: outcome.split)

section \<open>Resolving and clearing\<close>

text \<open>
  C23. When references are resolved without an error, the spec's authority ARN is that of the
  certificate authority the reference names - read in this run, by its name, in the namespace
  the runtime resolves the reference to - and that authority is synced, is not terminal and has
  an ARN. This one object is all that is read; without a reference nothing is. If the lookup
  fails its error is returned, and whenever an error is returned for an object that does not set
  both the reference and the ARN, the spec is as it was. On no outcome does anything change but
  the authority ARN and the conditions.
\<close>

theorem ResolveReferences_resolves:
  assumes "ResolveReferences X rm apiReader ko s = Returns (ko', has, err) t"
  shows "has = has_reference ko \<and> ko_ObjectMeta ko' = ko_ObjectMeta ko \<and>
    same_but_conditions (ko_Status ko) (ko_Status ko') \<and>
    (\<exists>arn. ko_Spec ko' = (ko_Spec ko)\<lparr>spec_CertificateAuthorityARN := arn\<rparr>) \<and>
    trace t = trace s @ (case reference_target X rm ko of
      None \<Rightarrow> [] | Some (namespace, name) \<Rightarrow> [EvGetReference namespace name]) \<and>
    (\<not> has_reference ko \<longrightarrow> ko' = ko \<and> t = s) \<and>
    (has_reference ko \<and> err = None \<longrightarrow> (\<exists>namespace name ca arn.
       reference_target X rm ko = Some (namespace, name) \<and>
       fst (apiReader namespace name (env s)) = Inr ca \<and> ca_ready ca arn \<and>
       spec_CertificateAuthorityARN (ko_Spec ko) = None \<and>
       ko_Spec ko' = (ko_Spec ko)\<lparr>spec_CertificateAuthorityARN := Some arn\<rparr>)) \<and>
    (\<forall>namespace name e. reference_target X rm ko = Some (namespace, name) \<and>
       fst (apiReader namespace name (env s)) = Inl e \<longrightarrow>
       err = Some e \<and> ko_Spec ko' = ko_Spec ko) \<and>
    (err \<noteq> None \<and> validateReferenceFields ko = None \<longrightarrow> ko_Spec ko' = ko_Spec ko)"
proof -
  from assms obtain err' where
    run: "resolveReferenceForCertificateAuthorityARN X rm apiReader ko s = Returns (ko', has, err') t"
    and err: "err = (if err' \<noteq> None then err' else validateReferenceFields ko)"
    by (auto simp: ResolveReferences_run split: outcome.splits)
  note cases = resolve_cases [OF run]
  have free: "has_reference ko \<Longrightarrow> err = None \<Longrightarrow> spec_CertificateAuthorityARN (ko_Spec ko) = None"
    using err by (auto simp: validateReferenceFields_def has_reference_def
        split: if_splits option.splits)
  have "\<exists>arn. ko_Spec ko' = (ko_Spec ko)\<lparr>spec_CertificateAuthorityARN := arn\<rparr>"
  proof (cases "has_reference ko \<and> err' = None")
    case False
    with cases have "ko_Spec ko' = ko_Spec ko" by auto
    then show ?thesis
      by (intro exI [of _ "spec_CertificateAuthorityARN (ko_Spec ko)"]) simp
  qed (use cases in blast)
  with cases free err show ?thesis by (auto split: if_splits)
qed

definition sampleReader :: "'w Reader" where
  "sampleReader namespace name w =
     (Inr \<lparr>ca_ACKResourceMetadata = Some (emptyResourceMetadata\<lparr>meta_ARN := Some ''arn:ca''\<rparr>),
           ca_Conditions = Some [Some \<lparr>cond_Type = ConditionTypeResourceSynced,
             cond_Status = ConditionTrue, cond_Reason = None, cond_Message = None\<rparr>]\<rparr>, w)"

definition sampleReferring :: Certificate where
  "sampleReferring = onSpec (\<lambda>sp. sp\<lparr>spec_CertificateAuthorityRef :=
     Some \<lparr>ref_From = Some \<lparr>ref_Name = Some ''my-ca'', ref_Namespace = None\<rparr>\<rparr>\<rparr>) emptyCertificate"

lemma sampleReferring_runs:
  "\<exists>ko' t. ResolveReferences sampleExt sampleManager sampleReader sampleReferring s =
     Returns (ko', True, None) t"
  by (simp add: ResolveReferences_def resolveReferenceForCertificateAuthorityARN_def
      getReferencedResourceState_def sampleReader_def sampleReferring_def sampleExt_def
      validateReferenceFields_def emptyCertificate_def emptySpec_def prog_simps bindP_apply Let_def)

lemma sampleReferring_has: "has_reference sampleReferring"
  by (simp add: has_reference_def sampleReferring_def)

theorem ResolveReferences_resolves_witness:
  "\<exists>ko' t. ResolveReferences sampleExt sampleManager sampleReader sampleReferring (sampleSys sampleWorld) =
     Returns (ko', True, None) t \<and> spec_CertificateAuthorityARN (ko_Spec ko') = Some ''arn:ca'' \<and>
     trace t = [EvGetReference [] ''my-ca'']"
proof -
  let ?s = "sampleSys sampleWorld"
  obtain ko' t where run: "ResolveReferences sampleExt sampleManager sampleReader sampleReferring ?s =
      Returns (ko', True, None) t"
    using sampleReferring_runs by blast
  have target: "reference_target sampleExt sampleManager sampleReferring = Some ([], ''my-ca'')"
    by (simp add: reference_target_def sampleReferring_def sampleExt_def emptyCertificate_def
        emptyObjectMeta_def)
  have "trace ?s = []" by (simp add: sampleSys_def)
  with ResolveReferences_resolves [OF run] sampleReferring_has target
  have "spec_CertificateAuthorityARN (ko_Spec ko') = Some ''arn:ca''"
    and "trace t = [EvGetReference [] ''my-ca'']"
    by (auto simp: sampleReader_def ca_ready_def)
  with run show ?thesis by blast
qed

text \<open>
  C22. Clearing undoes resolving: whatever the outcome of \<open>ResolveReferences\<close> on an object that
  does not set both the reference and the ARN, the cleared result has the spec the object had;
  so a resolved ARN is never stored. An object that sets both is reported as an error.
\<close>

theorem ClearResolvedReferences_undoes:
  assumes "ResolveReferences X rm apiReader ko s = Returns (ko', has, err) t"
  shows "if validateReferenceFields ko = None
    then ko_Spec (ClearResolvedReferences ko') = ko_Spec ko \<and> ko_ObjectMeta ko' = ko_ObjectMeta ko
    else err \<noteq> None"
proof -
  from assms obtain err' where
    run: "resolveReferenceForCertificateAuthorityARN X rm apiReader ko s = Returns (ko', has, err') t"
    and err: "err = (if err' \<noteq> None then err' else validateReferenceFields ko)"
    by (auto simp: ResolveReferences_run split: outcome.splits)
  note cases = resolve_cases [OF run]
  show ?thesis
  proof (cases "validateReferenceFields ko")
    case None
    then have both: "spec_CertificateAuthorityRef (ko_Spec ko) = None \<or>
        spec_CertificateAuthorityARN (ko_Spec ko) = None"
      by (auto simp: validateReferenceFields_def split: if_splits)
    consider "ko_Spec ko' = ko_Spec ko" | arn where "has_reference ko"
      "ko_Spec ko' = (ko_Spec ko)\<lparr>spec_CertificateAuthorityARN := Some arn\<rparr>"
      using cases by (cases "has_reference ko \<and> err' = None") auto
    then have "ko_Spec (ClearResolvedReferences ko') = ko_Spec ko"
      using both by cases (auto simp: ClearResolvedReferences_def has_reference_def split: option.splits)
    with None cases show ?thesis by simp
  next
    case (Some e)
    with err show ?thesis by simp
  qed
qed

theorem ClearResolvedReferences_undoes_witness:
  "\<exists>ko' t. ResolveReferences sampleExt sampleManager sampleReader sampleReferring (sampleSys sampleWorld) =
     Returns (ko', True, None) t \<and>
     ko_Spec (ClearResolvedReferences ko') = ko_Spec sampleReferring"
proof -
  let ?s = "sampleSys sampleWorld"
  obtain ko' t where run: "ResolveReferences sampleExt sampleManager sampleReader sampleReferring ?s =
      Returns (ko', True, None) t"
    using sampleReferring_runs by blast
  have "validateReferenceFields sampleReferring = None"
    by (simp add: validateReferenceFields_def sampleReferring_def emptyCertificate_def emptySpec_def)
  with ClearResolvedReferences_undoes [OF run] run show ?thesis by auto
qed

end
