(* ===== verification/ResourceOps.thy ===== *)
theory ResourceOps
  imports DeltaCompare SdkFind
begin

text \<open>
  \<open>resource.go\<close>, \<open>identifiers.go\<close> and \<open>descriptor.go\<close>: the operations the generic reconciler uses
  on a resource without knowing its type. The code changes the object behind the pointer; the
  model returns the changed object. A resource always holds an object here, so the nil checks
  of the descriptor (which compare an interface value with nil) do not fire.
\<close>

section \<open>identifiers.go\<close>

definition Identifiers :: "Certificate \<Rightarrow> ResourceMetadata option" where
  "Identifiers r = st_ACKResourceMetadata (ko_Status r)"

definition ids_ARN :: "ResourceMetadata option \<Rightarrow> string option" where
  "ids_ARN meta = (case meta of Some m \<Rightarrow> meta_ARN m | None \<Rightarrow> None)"

definition ids_OwnerAccountID :: "ResourceMetadata option \<Rightarrow> string option" where
  "ids_OwnerAccountID meta = (case meta of Some m \<Rightarrow> meta_OwnerAccountID m | None \<Rightarrow> None)"

definition ids_Region :: "ResourceMetadata option \<Rightarrow> string option" where
  "ids_Region meta = (case meta of Some m \<Rightarrow> meta_Region m | None \<Rightarrow> None)"

definition ids_Partition :: "ResourceMetadata option \<Rightarrow> string option" where
  "ids_Partition meta = (case meta of Some m \<Rightarrow> meta_Partition m | None \<Rightarrow> None)"

section \<open>resource.go\<close>

definition IsBeingDeleted :: "Ext \<Rightarrow> Certificate \<Rightarrow> bool" where
  "IsBeingDeleted X r \<longleftrightarrow> \<not> Time_IsZero X (om_DeletionTimestamp (ko_ObjectMeta r))"

definition Conditions_of :: "Certificate \<Rightarrow> Condition option slice" where
  "Conditions_of r = st_Conditions (ko_Status r)"

definition ReplaceConditions :: "Condition option slice \<Rightarrow> Certificate \<Rightarrow> Certificate" where
  "ReplaceConditions conditions r = onStatus (\<lambda>st. st\<lparr>st_Conditions := conditions\<rparr>) r"

definition SetObjectMeta :: "ObjectMeta \<Rightarrow> Certificate \<Rightarrow> Certificate" where
  "SetObjectMeta meta r = r\<lparr>ko_ObjectMeta := meta\<rparr>"

definition SetStatus :: "Certificate \<Rightarrow> Certificate \<Rightarrow> Certificate" where
  "SetStatus desired r = r\<lparr>ko_Status := ko_Status desired\<rparr>"

text \<open>The ARN of the identifiers may be nil; it is copied all the same. No error is returned.\<close>

definition SetIdentifiers :: "string option \<Rightarrow> Certificate \<Rightarrow> Certificate" where
  "SetIdentifiers identifierARN r =
     (let m = (case st_ACKResourceMetadata (ko_Status r) of
                 None \<Rightarrow> emptyResourceMetadata | Some m \<Rightarrow> m)
      in onStatus (\<lambda>st. st\<lparr>st_ACKResourceMetadata := Some (m\<lparr>meta_ARN := identifierARN\<rparr>)\<rparr>) r)"

definition missingARN :: goerror where
  "missingARN = TerminalError (ErrorString ''required field missing: arn'')"

definition PopulateResourceFromAnnotation ::
  "(string, string) gomap \<Rightarrow> Certificate \<Rightarrow> Certificate \<times> goerror option" where
  "PopulateResourceFromAnnotation annotated r =
     (case map_of annotated ''arn'' of
        None \<Rightarrow> (r, Some missingARN)
      | Some resourceARN \<Rightarrow>
          let m = (case st_ACKResourceMetadata (ko_Status r) of
                     None \<Rightarrow> emptyResourceMetadata | Some m \<Rightarrow> m)
          in (onStatus (\<lambda>st. st\<lparr>st_ACKResourceMetadata :=
                Some (m\<lparr>meta_ARN := Some resourceARN\<rparr>)\<rparr>) r, None))"

section \<open>descriptor.go\<close>

definition FinalizerString :: string where
  "FinalizerString = ''finalizers.acm.services.k8s.aws/Certificate''"

fun containsFinalizerLoop :: "string list \<Rightarrow> string \<Rightarrow> bool" where
  "containsFinalizerLoop [] finalizer = False"
| "containsFinalizerLoop (e # f) finalizer =
     (if e = finalizer then True else containsFinalizerLoop f finalizer)"

definition containsFinalizer :: "Certificate \<Rightarrow> string \<Rightarrow> bool" where
  "containsFinalizer obj finalizer =
     containsFinalizerLoop (elems (om_Finalizers (ko_ObjectMeta obj))) finalizer"

definition IsManaged :: "Certificate \<Rightarrow> bool" where
  "IsManaged res = containsFinalizer res FinalizerString"

definition MarkManaged :: "Ext \<Rightarrow> Certificate \<Rightarrow> Certificate" where
  "MarkManaged X res = res\<lparr>ko_ObjectMeta := AddFinalizer X (ko_ObjectMeta res) FinalizerString\<rparr>"

definition MarkUnmanaged :: "Ext \<Rightarrow> Certificate \<Rightarrow> Certificate" where
  "MarkUnmanaged X res =
     res\<lparr>ko_ObjectMeta := RemoveFinalizer X (ko_ObjectMeta res) FinalizerString\<rparr>"

definition MarkAdopted :: "Ext \<Rightarrow> Certificate \<Rightarrow> Certificate" where
  "MarkAdopted X res =
     (let curr = (case om_Annotations (ko_ObjectMeta res) of None \<Rightarrow> [] | Some m \<Rightarrow> m)
      in res\<lparr>ko_ObjectMeta := (ko_ObjectMeta res)\<lparr>om_Annotations :=
           Some (mput (AnnotationAdopted X) ''true'' curr)\<rparr>\<rparr>)"

definition descriptor_Delta ::
  "Ext \<Rightarrow> Certificate option \<Rightarrow> Certificate option \<Rightarrow> Delta option" where
  "descriptor_Delta X a b = newResourceDelta X a b"

section \<open>Management by the controller\<close>

lemma containsFinalizerLoop_iff: "containsFinalizerLoop f x \<longleftrightarrow> x \<in> set f"
  by (induction f) auto

definition finalizers :: "Certificate \<Rightarrow> string set" where
  "finalizers ko = set (elems (om_Finalizers (ko_ObjectMeta ko)))"

lemma IsManaged_iff: "IsManaged ko \<longleftrightarrow> FinalizerString \<in> finalizers ko"
  by (simp add: IsManaged_def containsFinalizer_def containsFinalizerLoop_iff finalizers_def)

text \<open>
  C40. Marking an object makes it managed and unmarking makes it unmanaged, whatever it was
  before. Marking and unmarking change the finalizers only, and of these only the controller's
  own: those of other controllers survive both, and the rest of the metadata, the spec and the
  status stay. Marking it adopted sets the one annotation to true, also where the object has no
  annotations yet, keeps every other annotation, and changes nothing else.
\<close>

theorem managed_mark_unmark:
  assumes "finalizer_laws X"
  shows "IsManaged (MarkManaged X ko) \<and> \<not> IsManaged (MarkUnmanaged X ko) \<and>
    (\<forall>ko' \<in> {MarkManaged X ko, MarkUnmanaged X ko}.
       finalizers ko' - {FinalizerString} = finalizers ko - {FinalizerString} \<and>
       (ko_ObjectMeta ko')\<lparr>om_Finalizers := om_Finalizers (ko_ObjectMeta ko)\<rparr> = ko_ObjectMeta ko \<and>
       ko_Spec ko' = ko_Spec ko \<and> ko_Status ko' = ko_Status ko) \<and>
    map_of (elems (om_Annotations (ko_ObjectMeta (MarkAdopted X ko)))) =
      (map_of (elems (om_Annotations (ko_ObjectMeta ko))))(AnnotationAdopted X \<mapsto> ''true'') \<and>
    (ko_ObjectMeta (MarkAdopted X ko))\<lparr>om_Annotations := om_Annotations (ko_ObjectMeta ko)\<rparr> =
      ko_ObjectMeta ko \<and>
    ko_Spec (MarkAdopted X ko) = ko_Spec ko \<and> ko_Status (MarkAdopted X ko) = ko_Status ko \<and>
    IsManaged (MarkAdopted X ko) = IsManaged ko"
proof -
  have adopted: "map_of (elems (om_Annotations (ko_ObjectMeta (MarkAdopted X ko)))) =
      (map_of (elems (om_Annotations (ko_ObjectMeta ko))))(AnnotationAdopted X \<mapsto> ''true'')"
    by (simp add: MarkAdopted_def elems_def gomap_simps Let_def split: option.split)
  have "finalizers (MarkManaged X ko) = insert FinalizerString (finalizers ko)"
    and "finalizers (MarkUnmanaged X ko) = finalizers ko - {FinalizerString}"
    using assms unfolding finalizer_laws_def
    by (simp_all add: finalizers_def MarkManaged_def MarkUnmanaged_def)
  moreover have "finalizers (MarkAdopted X ko) = finalizers ko"
    by (simp add: finalizers_def MarkAdopted_def Let_def)
  moreover have "(ko_ObjectMeta (MarkAdopted X ko))\<lparr>om_Annotations := om_Annotations (ko_ObjectMeta ko)\<rparr> =
      ko_ObjectMeta ko"
    by (simp add: MarkAdopted_def Let_def)
  ultimately show ?thesis
    using assms adopted unfolding finalizer_laws_def
    by (simp add: IsManaged_iff) (simp add: MarkManaged_def MarkUnmanaged_def MarkAdopted_def Let_def)
qed

definition sampleForeign :: Certificate where
  "sampleForeign = emptyCertificate\<lparr>ko_ObjectMeta := emptyObjectMeta\<lparr>om_Finalizers := Some [''other'']\<rparr>\<rparr>"

theorem managed_mark_unmark_witness:
  "IsManaged (MarkManaged sampleExt sampleForeign) \<and> ''other'' \<in> finalizers (MarkManaged sampleExt sampleForeign) \<and>
   \<not> IsManaged (MarkUnmanaged sampleExt sampleForeign) \<and>
   ''other'' \<in> finalizers (MarkUnmanaged sampleExt sampleForeign) \<and>
   map_of (elems (om_Annotations (ko_ObjectMeta (MarkAdopted sampleExt sampleForeign))))
     ''services.k8s.aws/adopted'' = Some ''true''"
proof -
  have "finalizers sampleForeign = {''other''}"
    by (simp add: finalizers_def sampleForeign_def)
  moreover have "''other'' \<noteq> FinalizerString" by (simp add: FinalizerString_def)
  moreover have "AnnotationAdopted sampleExt = ''services.k8s.aws/adopted''"
    by (simp add: sampleExt_def)
  ultimately show ?thesis
    using managed_mark_unmark [OF sample_finalizer, of sampleForeign] by auto
qed

text \<open>
  Adoption gives an object its identity: with an \<open>arn\<close> in the annotation the object knows
  that ARN, keeps its account, region and partition, and the next read describes it; without
  one the object is unchanged and the error is terminal. The identifiers read back the ARN
  either way of setting it.
\<close>

theorem adoption_identity:
  assumes "err_laws X"
  shows "case PopulateResourceFromAnnotation annotated r of (r', err) \<Rightarrow>
    (case map_of annotated ''arn'' of
       Some arn \<Rightarrow> err = None \<and> ids_ARN (Identifiers r') = Some arn \<and>
         \<not> requiredFieldsMissingFromReadOneInput r' \<and> r' = SetIdentifiers (Some arn) r
     | None \<Rightarrow> r' = r \<and> is_terminal X err) \<and>
    ids_OwnerAccountID (Identifiers r') = ids_OwnerAccountID (Identifiers r) \<and>
    ids_Region (Identifiers r') = ids_Region (Identifiers r) \<and>
    ids_Partition (Identifiers r') = ids_Partition (Identifiers r) \<and>
    ko_Spec r' = ko_Spec r \<and> Conditions_of r' = Conditions_of r"
  using assms unfolding err_laws_def
  by (simp add: PopulateResourceFromAnnotation_def SetIdentifiers_def ids_ARN_def Identifiers_def
      ids_OwnerAccountID_def ids_Region_def ids_Partition_def Conditions_of_def missingARN_def
      is_terminal_def ownTerminal_def requiredFieldsMissingFromReadOneInput_def
      emptyResourceMetadata_def Let_def split: option.split)

theorem adoption_identity_witness:
  "ids_ARN (Identifiers (fst (PopulateResourceFromAnnotation [(''arn'', ''arn:x'')] emptyCertificate)))
     = Some ''arn:x'' \<and>
   is_terminal sampleExt (snd (PopulateResourceFromAnnotation [] emptyCertificate))"
  using adoption_identity [OF sample_err, where annotated = "[(''arn'', ''arn:x'')]" and r = emptyCertificate]
    adoption_identity [OF sample_err, where annotated = "[]" and r = emptyCertificate]
  by (simp split: prod.splits)

end
