(* ===== verification/Manager.thy ===== *)
theory Manager
  imports SdkUpdate References ResourceOps
begin

text \<open>
  \<open>manager.go\<close>: the handlers the generic reconciler calls. A handler runs its \<open>sdk\<close> operation,
  and turns the outcome into conditions and into the error the reconciler acts on; this last
  step is the same in all four, so its properties are proved once, in the locale
  \<open>crud_handler\<close>, and instantiated on the four operations. A nil object panics.

  A handler's argument is the object behind the resource (None is nil). \<open>ReadOne\<close> also writes
  the tags of its argument, so the model returns it as well.
\<close>

section \<open>The handlers\<close>

text \<open>The last lines of each handler.\<close>

definition finish ::
  "Ext \<Rightarrow> 'w resourceManager \<Rightarrow> Certificate option \<Rightarrow> Certificate option \<times> goerror option \<Rightarrow>
     (Certificate option \<times> goerror option) option" where
  "finish X rm fallback outcome =
     (case outcome of (observed, err) \<Rightarrow>
        if err \<noteq> None then
          (case observed of
             Some ko \<Rightarrow> onError X rm (Some ko) err
           | None \<Rightarrow> onError X rm fallback err)
        else onSuccess X rm observed)"

definition ReadOne ::
  "Ext \<Rightarrow> 'w resourceManager \<Rightarrow> Certificate option \<Rightarrow>
     ('w sys, Certificate option \<times> Certificate option \<times> goerror option) prog" where
  "ReadOne X rm res =
     (case res of
        None \<Rightarrow> panicP
      | Some r \<Rightarrow>
          bindP (sdkFind X rm r) (\<lambda>(observed, err).
          bindP (liftP (mirrorAWSTags X (Some r) observed)) (\<lambda>r.
          bindP (liftP (finish X rm r (observed, err))) (\<lambda>out.
          retP (r, out)))))"

definition Create ::
  "Ext \<Rightarrow> 'w resourceManager \<Rightarrow> Certificate option \<Rightarrow>
     ('w sys, Certificate option \<times> goerror option) prog" where
  "Create X rm res =
     (case res of
        None \<Rightarrow> panicP
      | Some r \<Rightarrow>
          bindP (sdkCreate X rm r) (\<lambda>out. liftP (finish X rm (Some r) out)))"

definition Update ::
  "Ext \<Rightarrow> 'w resourceManager \<Rightarrow> Certificate option \<Rightarrow> Certificate option \<Rightarrow> Delta \<Rightarrow>
     ('w sys, Certificate option \<times> goerror option) prog" where
  "Update X rm resDesired resLatest delta =
     (case (resDesired, resLatest) of
        (Some desired, Some latest) \<Rightarrow>
          bindP (sdkUpdate X rm desired latest delta) (\<lambda>out.
          liftP (finish X rm (Some latest) out))
      | _ \<Rightarrow> panicP)"

definition Delete ::
  "Ext \<Rightarrow> 'w resourceManager \<Rightarrow> Certificate option \<Rightarrow>
     ('w sys, Certificate option \<times> goerror option) prog" where
  "Delete X rm res =
     (case res of
        None \<Rightarrow> panicP
      | Some r \<Rightarrow>
          bindP (sdkDelete rm r) (\<lambda>out. liftP (finish X rm (Some r) out)))"

definition ARNFromName :: "'w resourceManager \<Rightarrow> string \<Rightarrow> string" where
  "ARNFromName rm name =
     ''arn:'' @ rm_awsPartition rm @ '':acm:'' @ rm_awsRegion rm @ '':'' @ rm_awsAccountID rm @
     '':'' @ name"

definition IsSynced :: "Certificate option \<Rightarrow> bool option" where
  "IsSynced res = (case res of None \<Rightarrow> None | Some _ \<Rightarrow> Some True)"

section \<open>Late initialisation\<close>

definition lateInitializeFieldNames :: "string list" where
  "lateInitializeFieldNames =
     [''KeyAlgorithm'', ''Options'', ''Export'', ''SubjectAlternativeNames'']"

definition lateInitializeFromReadOneOutput :: "Certificate \<Rightarrow> Certificate \<Rightarrow> Certificate" where
  "lateInitializeFromReadOneOutput observed latest =
     (let osp = ko_Spec observed;
          lsp = ko_Spec latest;
          lsp = (if spec_KeyAlgorithm osp \<noteq> None \<and> spec_KeyAlgorithm lsp = None
                 then lsp\<lparr>spec_KeyAlgorithm := spec_KeyAlgorithm osp\<rparr> else lsp);
          lsp = (if spec_Options osp \<noteq> None \<and> spec_Options lsp = None
                 then lsp\<lparr>spec_Options := spec_Options osp\<rparr> else lsp);
          lsp = (case (spec_Options osp, spec_Options lsp) of
                   (Some oo, Some lo) \<Rightarrow>
                     if opts_Export oo \<noteq> None \<and> opts_Export lo = None
                     then lsp\<lparr>spec_Options := Some (lo\<lparr>opts_Export := opts_Export oo\<rparr>)\<rparr> else lsp
                 | _ \<Rightarrow> lsp);
          lsp = (if spec_SubjectAlternativeNames osp \<noteq> None \<and>
                    spec_SubjectAlternativeNames lsp = None
                 then lsp\<lparr>spec_SubjectAlternativeNames := spec_SubjectAlternativeNames osp\<rparr>
                 else lsp)
      in latest\<lparr>ko_Spec := lsp\<rparr>)"

definition incompleteLateInitialization :: "Certificate \<Rightarrow> bool" where
  "incompleteLateInitialization ko =
     (if spec_KeyAlgorithm (ko_Spec ko) = None then True
      else
        (case spec_Options (ko_Spec ko) of
           None \<Rightarrow> True
         | Some opts \<Rightarrow>
             if opts_Export opts = None then True
             else if spec_SubjectAlternativeNames (ko_Spec ko) = None then True
             else False))"

text \<open>The block of \<open>LateInitialize\<close> that comes from a hook.\<close>

definition lateInitializeHook :: "Certificate \<Rightarrow> Certificate \<Rightarrow> Certificate" where
  "lateInitializeHook observed latest =
     (let osp = ko_Spec observed;
          lsp = ko_Spec latest;
          lsp = (if spec_DomainValidationOptions osp \<noteq> None \<and>
                    spec_DomainValidationOptions lsp = None
                 then lsp\<lparr>spec_DomainValidationOptions := spec_DomainValidationOptions osp\<rparr>
                 else lsp);
          lsp = (if spec_SubjectAlternativeNames osp \<noteq> None \<and>
                    spec_SubjectAlternativeNames lsp = None
                 then lsp\<lparr>spec_SubjectAlternativeNames := spec_SubjectAlternativeNames osp\<rparr>
                 else lsp)
      in latest\<lparr>ko_Spec := lsp\<rparr>)"

text \<open>\<open>observed\<close> without an object is a nil interface, whose conversion panics.\<close>

definition LateInitialize ::
  "Ext \<Rightarrow> 'w resourceManager \<Rightarrow> Certificate option \<Rightarrow>
     ('w sys, Certificate option \<times> goerror option) prog" where
  "LateInitialize X rm latest =
     (if length lateInitializeFieldNames = 0 then retP (latest, None)
      else
        bindP (ReadOne X rm latest) (\<lambda>(latestCopy, observed, err).
        bindP (liftP latestCopy) (\<lambda>latestCopy.
        if err \<noteq> None then
          let ko = SetLateInitialized X latestCopy ConditionFalse
                (Some ''Unable to complete Read operation required for late initialization'')
                (Some ''Late Initialization Failure'');
              ko = SetSynced X ko ConditionFalse None None
          in retP (Some ko, err)
        else
          bindP (liftP observed) (\<lambda>observed.
          let latestCopy = lateInitializeHook observed latestCopy;
              ko = lateInitializeFromReadOneOutput observed latestCopy in
          if incompleteLateInitialization ko then
            let ko = SetLateInitialized X ko ConditionFalse
                  (Some ''Late initialization did not complete, requeuing with delay of 5 seconds'')
                  (Some ''Delayed Late Initialization'');
                ko = SetSynced X ko ConditionFalse None None
            in retP (Some ko, Some (RequeueNeededAfter None 5))
          else
            let ko = SetLateInitialized X ko ConditionTrue
                  (Some ''Late initialization successful'') (Some ''Late initialization successful'')
            in retP (Some ko, None)))))"

section \<open>The contract of a handler\<close>

definition clean :: "Certificate \<Rightarrow> bool" where
  "clean ko \<longleftrightarrow> no_nil_condition ko \<and> single_conditions ko"

definition terminal :: "Certificate \<Rightarrow> bool" where
  "terminal ko \<longleftrightarrow>
     map_option cond_Status (condition ConditionTypeTerminal ko) = Some ConditionTrue"

definition reported_error :: "Ext \<Rightarrow> goerror option \<Rightarrow> goerror option" where
  "reported_error X err =
     (case err of
        None \<Rightarrow> None
      | Some e \<Rightarrow> Some (if is_terminal X (Some e) then TerminalSentinel else e))"

text \<open>
  The handler's result for an outcome of its operation: what it returns is a report of the
  operation's object, or of the fallback, which differs from it in the conditions only.
\<close>

definition handled_result ::
  "Ext \<Rightarrow> 'w resourceManager \<Rightarrow> Certificate \<Rightarrow> Certificate option \<times> goerror option \<Rightarrow>
     Certificate option \<times> goerror option \<Rightarrow> bool" where
  "handled_result X rm fallback outcome result \<longleftrightarrow>
     snd result = reported_error X (snd outcome) \<and>
     (case snd outcome of
        None \<Rightarrow>
          (case fst outcome of
             None \<Rightarrow> fst result = None
           | Some ko \<Rightarrow> (\<exists>ko'. fst result = Some ko' \<and> report_of rm ko ko' \<and> \<not> terminal ko'))
      | Some e \<Rightarrow>
          (\<exists>ko'. fst result = Some ko' \<and>
             report_of rm (case fst outcome of None \<Rightarrow> fallback | Some ko \<Rightarrow> ko) ko' \<and>
             (terminal ko' \<longleftrightarrow> is_terminal X (Some e))))"

definition handled ::
  "Ext \<Rightarrow> 'w resourceManager \<Rightarrow> Certificate \<Rightarrow>
     ('s, Certificate option \<times> goerror option) outcome \<Rightarrow>
     ('s, Certificate option \<times> goerror option) outcome \<Rightarrow> bool" where
  "handled X rm fallback o' h =
     (case o' of
        Panics t \<Rightarrow> h = Panics t
      | Returns out t \<Rightarrow> (\<exists>result. h = Returns result t \<and> handled_result X rm fallback out result))"

text \<open>
  The contract between a handler and its operation: on ready input the objects it has and
  gives carry no nil and no doubled condition. Then the handler panics only where the
  operation does, makes no calls of its own, and reports the outcome.
\<close>

locale crud_handler =
  fixes X :: Ext
    and rm :: "'w resourceManager"
    and ready :: "'x \<Rightarrow> bool"
    and op :: "'x \<Rightarrow> ('w sys, Certificate option \<times> goerror option) prog"
    and fallback :: "'x \<Rightarrow> Certificate"
  assumes ready_laws: "ready x \<Longrightarrow> err_laws X"
    and fallback_clean: "ready x \<Longrightarrow> clean (fallback x)"
    and result_clean: "ready x \<Longrightarrow> op x s = Returns (Some ko, err) t \<Longrightarrow> clean ko"
begin

lemma finish_result:
  assumes "ready x" and "op x s = Returns out t"
  shows "\<exists>result. finish X rm (Some (fallback x)) out = Some result \<and>
    handled_result X rm (fallback x) out result"
proof -
  obtain res err where out: "out = (res, err)" by fastforce
  note laws = ready_laws [OF assms(1)]
  show ?thesis
  proof (cases err)
    case None
    show ?thesis
    proof (cases res)
      case None
      with \<open>err = None\<close> show ?thesis
        by (simp add: out finish_def onSuccess_def handled_result_def reported_error_def)
    next
      case (Some ko)
      have "clean ko" using result_clean assms out Some by blast
      then have "no_nil_condition ko" by (simp add: clean_def)
      from onSuccess_reports [OF laws this, of rm] Some \<open>err = None\<close> show ?thesis
        by (auto simp: out finish_def handled_result_def reported_error_def terminal_def)
    qed
  next
    case (Some e)
    let ?ko = "case res of None \<Rightarrow> fallback x | Some ko \<Rightarrow> ko"
    have "clean ?ko" using result_clean fallback_clean assms out by (cases res) auto
    then have c: "no_nil_condition ?ko" "single_conditions ?ko" by (simp_all add: clean_def)
    have "finish X rm (Some (fallback x)) out = onError X rm (Some ?ko) (Some e)"
      by (simp add: out finish_def Some split: option.split)
    with onError_reports [OF laws c, of rm e] show ?thesis
      by (auto simp: out handled_result_def reported_error_def terminal_def Some
          simp del: map_option_eq_Some)
  qed
qed

lemma handler_handles:
  assumes "ready x"
  shows "handled X rm (fallback x) (op x s)
    (bindP (op x) (\<lambda>out. liftP (finish X rm (Some (fallback x)) out)) s)"
proof (cases "op x s")
  case (Returns out t)
  with finish_result [OF assms Returns] show ?thesis
    by (auto simp: handled_def bindP_apply prog_simps)
next
  case (Panics t)
  then show ?thesis by (simp add: handled_def bindP_apply)
qed

end

section \<open>The four operations keep it\<close>

lemma clean_cong:
  assumes "elems (st_Conditions (ko_Status a)) = elems (st_Conditions (ko_Status b))"
  shows "clean a = clean b"
  using assms by (simp add: clean_def no_nil_condition_def single_conditions_def condList_def)

lemma elems_conditions_defaults [simp]:
  "elems (st_Conditions (ko_Status (setStatusDefaults rm ko))) = elems (st_Conditions (ko_Status ko))"
  by (simp add: setStatusDefaults_def Let_def elems_def split: option.split)

lemma conditions_setARN [simp]:
  "st_Conditions (ko_Status (setARN a ko)) = st_Conditions (ko_Status ko)"
  by (simp add: setARN_def Let_def)

lemma clean_observation: "clean (observation X rm cert tags r) = clean r"
  by (rule clean_cong) (simp add: observation_def setDescribedStatus_def setDescribedSpec_def
      setDomainValidations_def)

lemma clean_created: "clean (setStatusDefaults rm (setARN a r)) = clean r"
  by (rule clean_cong) simp

lemma clean_updated: "clean (updatedFrom rm desired latest) = clean desired"
  by (rule clean_cong) (simp add: updatedFrom_def)

lemma sdkFind_clean:
  assumes "clean r" and "sdkFind X rm r s = Returns (Some ko, err) t"
  shows "clean ko"
  using assms by (cases "certARN r")
    (auto simp: sdkFind_missing sdkFind_run Let_def clean_observation
      split: sum.splits option.splits)

lemma sdkFind_tags:
  assumes "sdkFind X rm r s = Returns (Some ko, err) t"
  shows "no_nil_tag (specTags ko) \<and> err = None"
proof (cases "certARN r")
  case None
  with assms show ?thesis by (simp add: sdkFind_missing)
next
  case (Some arn)
  have "no_nil_tag (resourceTagsFromSDKTags ts)" for ts
    by (auto simp: no_nil_tag_def resourceTagsFromSDKTags_def)
  moreover have "specTags (observation X rm cert tags r) = tags" for cert tags
    by (simp add: observation_def specTags_def setDescribedStatus_def setDescribedSpec_def)
  ultimately show ?thesis
    using assms by (auto simp: sdkFind_run [OF Some] Let_def split: sum.splits option.splits)
qed

lemma sdkCreate_clean:
  assumes "clean r" and "sdkCreate X rm r s = Returns (Some ko, err) t"
  shows "clean ko"
proof (cases "spec_Certificate (ko_Spec r) = None")
  case True
  then show ?thesis
    by (cases rule: sdkCreate_request_cases [where X = X and rm = rm and s = s])
      (use assms in \<open>auto simp: request_run_def Let_def clean_created split: prod.splits sum.splits\<close>)
next
  case False
  then show ?thesis
    by (cases rule: sdkCreate_import_cases [where X = X and rm = rm and s = s])
      (use assms in \<open>auto simp: import_run_def Let_def clean_created split: prod.splits sum.splits\<close>)
qed

lemma after_tags_clean:
  "clean desired \<Longrightarrow> after_tags X rm desired latest d s = Returns (Some ko, err) t \<Longrightarrow> clean ko"
  by (auto simp: after_tags_def options_run_def Let_def clean_updated split: if_splits prod.splits)

lemma sdkUpdate_clean:
  assumes "clean desired" and "sdkUpdate X rm desired latest d s = Returns (Some ko, err) t"
  shows "clean ko"
proof (cases "DifferentAt X d ''Spec.Status.IssuedAt'' \<or> DifferentAt X d ''Spec.Status.Serial''")
  case True
  then have "exportUpdate X rm desired latest s = Returns (Some ko, err) t"
    using assms(2) by (simp add: sdkUpdate_def split: if_splits)
  with assms(1) show ?thesis
    by (auto simp: exportUpdate_run clean_updated split: outcome.splits if_splits)
next
  case False
  then have "\<not> DifferentAt X d ''Spec.Status.IssuedAt''" "\<not> DifferentAt X d ''Spec.Status.Serial''"
    by simp_all
  note eq = sdkUpdate_no_export [OF this, of rm desired latest s]
  show ?thesis
    using assms(2) after_tags_clean [OF assms(1)] unfolding eq
    by (auto split: if_splits option.splits outcome.splits)
qed

lemma sdkDelete_run:
  "sdkDelete rm r s =
     (let input = \<lparr>del_CertificateArn = certARN r\<rparr>;
          (err, w) = api_DeleteCertificate (rm_sdkapi rm) input (env s)
      in Returns (None, err) (s\<lparr>env := w, trace := trace s @ [EvDelete input,
           RecordAPICall ''DELETE'' ''DeleteCertificate'' err]\<rparr>))"
  by (simp add: sdkDelete_def delete_input prog_simps Let_def split: prod.split)

interpretation read_h: crud_handler X rm "\<lambda>r. err_laws X \<and> clean r" "sdkFind X rm" "\<lambda>r. r"
  for X rm
  by unfold_locales (auto dest: sdkFind_clean)

interpretation create_h: crud_handler X rm "\<lambda>r. err_laws X \<and> clean r" "sdkCreate X rm" "\<lambda>r. r"
  for X rm
  by unfold_locales (auto dest: sdkCreate_clean)

interpretation update_h: crud_handler X rm
    "\<lambda>(desired, latest, delta). err_laws X \<and> clean desired \<and> clean latest"
    "\<lambda>(desired, latest, delta). sdkUpdate X rm desired latest delta"
    "\<lambda>(desired, latest, delta). latest"
  for X rm
  by unfold_locales (auto dest: sdkUpdate_clean)

interpretation delete_h: crud_handler X rm "\<lambda>r. err_laws X \<and> clean r" "sdkDelete rm" "\<lambda>r. r"
  for X rm
  by unfold_locales (auto simp: sdkDelete_run Let_def split: prod.splits)

section \<open>Properties of the handlers\<close>

text \<open>
  C7. \<open>Create\<close>, \<open>Update\<close> and \<open>Delete\<close> report the outcome of their operation and do nothing else:
  they panic only if the operation does and leave the world as it leaves it; on success they
  return the operation's object without a Terminal condition and no error; on failure they
  return an object - the operation's, or else the given one (the latest, for an update) - that
  is Terminal exactly if the error is, with the terminal sentinel in that case and the error
  itself otherwise. The returned object has the metadata, the spec, the ARN and every status
  field of the one it reports; only its conditions are new, and the account, partition and
  region of the manager are filled in where it had none. (The conditions of the given objects
  hold no nil and no type twice.)
\<close>

theorem handlers_report:
  assumes "err_laws X" and "clean r" and "clean latest"
  shows "handled X rm r (sdkCreate X rm r s) (Create X rm (Some r) s) \<and>
    handled X rm latest (sdkUpdate X rm r latest d s) (Update X rm (Some r) (Some latest) d s) \<and>
    handled X rm r (sdkDelete rm r s) (Delete X rm (Some r) s)"
  using assms create_h.handler_handles [of X r rm s] delete_h.handler_handles [of X r rm s]
    update_h.handler_handles [of X "(r, latest, d)" rm s]
  by (simp add: Create_def Update_def Delete_def)

lemma sampleCert_clean: "clean sampleDescribed" "clean emptyCertificate"
  by (simp_all add: clean_def no_nil_condition_def single_conditions_def condList_def
      sampleDescribed_def emptyCertificate_def emptyStatus_def)

definition sampleRefused :: Certificate where
  "sampleRefused = onSpec (\<lambda>sp. sp\<lparr>spec_DomainName := Some ''example.com'',
     spec_PrivateKey := Some \<lparr>skr_Name = ''k'', skr_Namespace = [], skr_Key = ''tls.key''\<rparr>\<rparr>)
     emptyCertificate"

theorem handlers_report_witness:
  "(\<exists>t. Delete sampleExt sampleManager (Some emptyCertificate) (sampleSys sampleWorld) = Returns (None, None) t) \<and>
   (\<exists>ko t. Create sampleExt sampleManager (Some sampleRefused) (sampleSys sampleWorld) =
      Returns (Some ko, Some TerminalSentinel) t \<and> terminal ko) \<and>
   (\<exists>ko t. Create sampleExt sampleManager (Some sampleStale) (sampleSys sampleWorld) =
      Returns (Some ko, None) t \<and> certARN ko = Some ''arn:requested'')"
proof -
  let ?s = "sampleSys sampleWorld"
  obtain t where del: "sdkDelete sampleManager emptyCertificate ?s = Returns (None, None) t"
    by (simp add: sdkDelete_run sampleManager_def sampleClient_def Let_def)
  have refused: "sdkCreate sampleExt sampleManager sampleRefused ?s =
      Returns (None, Some importFieldsWithRequest) ?s"
    by (simp add: sdkCreate_request_eq sampleRefused_def import_fields_set_def emptyCertificate_def
        emptySpec_def)
  have refusal: "is_terminal sampleExt (Some importFieldsWithRequest)"
    by (simp add: is_terminal_def ownTerminal_def importFieldsWithRequest_def sampleExt_def)
  have cl: "clean sampleRefused" "clean sampleStale"
    using sampleCert_clean(2) clean_cong [of sampleRefused emptyCertificate]
      clean_cong [of sampleStale emptyCertificate]
    by (simp_all add: sampleRefused_def sampleStale_def sampleRequest_def)
  obtain ko t' where made: "sdkCreate sampleExt sampleManager sampleStale ?s = Returns (Some ko, None) t'"
    "certARN ko = Some ''arn:requested''"
    using sampleStale_created by blast
  from handlers_report [OF sample_err sampleCert_clean(2,2), of sampleManager ?s,
      THEN conjunct2, THEN conjunct2] del
  have "\<exists>t. Delete sampleExt sampleManager (Some emptyCertificate) ?s = Returns (None, None) t"
    by (auto simp: handled_def handled_result_def reported_error_def)
  moreover from handlers_report [OF sample_err cl(1) sampleCert_clean(2), of sampleManager ?s,
      THEN conjunct1] refused
  have "\<exists>ko t. Create sampleExt sampleManager (Some sampleRefused) ?s =
      Returns (Some ko, Some TerminalSentinel) t \<and> terminal ko"
    using refusal by (auto simp: handled_def handled_result_def reported_error_def)
  moreover from handlers_report [OF sample_err cl(2) sampleCert_clean(2), of sampleManager ?s,
      THEN conjunct1] made
  have "\<exists>ko t. Create sampleExt sampleManager (Some sampleStale) ?s = Returns (Some ko, None) t \<and>
      certARN ko = Some ''arn:requested''"
    by (auto simp: handled_def handled_result_def reported_error_def dest: report_of_ARN)
  ultimately show ?thesis by blast
qed

text \<open>
  C17. \<open>ReadOne\<close> reports the outcome of \<open>sdkFind\<close> in the same way. On success it also writes into
  the object it was given the \<open>aws:\<close> tags that were observed, each with the observed value, and
  changes nothing else there: every other tag of the object stays as it was, and without an
  observed object so does the whole object. Syncing that object's tags with the observed ones
  therefore removes no tag of AWS and sets none that was observed. (The given object has no nil
  tag, and its conditions hold no nil and no type twice.)
\<close>

theorem ReadOne_reports:
  assumes "err_laws X" and "order_laws X" and "clean r" and "no_nil_tag (specTags r)"
  shows "case sdkFind X rm r s of
      Panics t \<Rightarrow> ReadOne X rm (Some r) s = Panics t
    | Returns (found, err) t \<Rightarrow>
        (\<exists>tags result. ReadOne X rm (Some r) s = Returns (Some (withTags tags r), result) t \<and>
           handled_result X rm r (found, err) result \<and>
           (case found of
              None \<Rightarrow> withTags tags r = r
            | Some ko \<Rightarrow>
                tag_view tags = tag_view (specTags r) ++
                  (tag_view (specTags ko) |` {k. HasPrefix k ''aws:''}) \<and>
                (\<forall>k. HasPrefix k ''aws:'' \<longrightarrow>
                   to_delete (tag_view tags) (tag_view (specTags ko)) k = None) \<and>
                (\<forall>k. HasPrefix k ''aws:'' \<and> tag_view (specTags ko) k \<noteq> None \<longrightarrow>
                   to_add (tag_view tags) (tag_view (specTags ko)) k = None)))"
proof (cases "sdkFind X rm r s")
  case (Panics t)
  then show ?thesis by (simp add: ReadOne_def bindP_apply)
next
  case (Returns out t)
  obtain found err where out: "out = (found, err)" by fastforce
  have same: "withTags (specTags r) r = r"
    by (simp add: withTags_def specTags_def onSpec_def)
  from read_h.finish_result [of X r rm s out t] assms Returns obtain result where
    result: "finish X rm (Some r) (found, err) = Some result" "handled_result X rm r (found, err) result"
    by (auto simp: out)
  show ?thesis
  proof (cases found)
    case None
    with Returns result same show ?thesis
      by (auto simp: ReadOne_def bindP_apply prog_simps mirrorAWSTags_def out
          intro!: exI [of _ "specTags r"])
  next
    case (Some ko)
    have nil: "no_nil_tag (specTags ko)" and err: "err = None"
      using sdkFind_tags Returns Some unfolding out by blast+
    from mirrorAWSTags_view [OF assms(2,4) nil] obtain tags where
      m: "mirrorAWSTags X (Some r) (Some ko) = Some (Some (withTags tags r))"
      and v: "tag_view tags = tag_view (specTags r) ++ (tag_view (specTags ko) |` {k. HasPrefix k ''aws:''})"
      by blast
    have fin: "finish X rm f (Some ko, None) = finish X rm (Some r) (Some ko, None)" for f
      by (simp add: finish_def)
    have aws: "tag_view tags k = (if tag_view (specTags ko) k \<noteq> None
        then tag_view (specTags ko) k else tag_view (specTags r) k)" if "HasPrefix k ''aws:''" for k
      using that by (auto simp: v map_add_def restrict_map_def split: option.split)
    have protect: "\<forall>k. HasPrefix k ''aws:'' \<longrightarrow>
        to_delete (tag_view tags) (tag_view (specTags ko)) k = None"
      "\<forall>k. HasPrefix k ''aws:'' \<and> tag_view (specTags ko) k \<noteq> None \<longrightarrow>
        to_add (tag_view tags) (tag_view (specTags ko)) k = None"
      by (simp_all add: aws to_delete_def to_add_def)
    have "ReadOne X rm (Some r) s = Returns (Some (withTags tags r), result) t"
      using Returns m result(1) fin by (simp add: ReadOne_def bindP_apply prog_simps out Some err)
    then show ?thesis
      using Returns result(2) protect v
      by (auto simp: out Some err intro!: exI [of _ tags])
  qed
qed

lemma sampleDescribed_tags: "no_nil_tag (specTags sampleDescribed)"
  by (simp add: specTags_def sampleDescribed_def emptyCertificate_def emptySpec_def no_nil_tag_def)

lemma sampleIssued_found:
  "\<exists>ko t. sdkFind sampleExt sampleManager sampleDescribed sampleIssued = Returns (Some ko, None) t \<and>
     ko = observation sampleExt sampleManager sampleDetail (resourceTagsFromSDKTags (Some []))
       sampleDescribed"
  by (simp add: sdkFind_run [OF sampleDescribed_ARN] sampleIssued_answers Let_def)

text \<open>An object with a tag of its own, and a service with a tag of AWS and one more.\<close>

definition sampleOwn :: Certificate where
  "sampleOwn = onSpec (\<lambda>sp. sp\<lparr>spec_Tags := Some [mkTag ''env'' ''dev'']\<rparr>) sampleDescribed"

definition sampleListed :: "sample_world sys" where
  "sampleListed = sampleSys (sampleWorld\<lparr>sw_cert := Some sampleDetail,
     sw_listed := [\<lparr>sdktag_Key = Some ''aws:a'', sdktag_Value = Some ''1''\<rparr>,
       \<lparr>sdktag_Key = Some ''other'', sdktag_Value = Some ''0''\<rparr>]\<rparr>)"

lemma sampleListed_found:
  "\<exists>ko t. sdkFind sampleExt sampleManager sampleOwn sampleListed = Returns (Some ko, None) t \<and>
     spec_DomainName (ko_Spec ko) = Some ''example.com'' \<and>
     specTags ko = Some [mkTag ''aws:a'' ''1'', mkTag ''other'' ''0'']"
proof -
  have arn: "certARN sampleOwn = Some ''arn:cert''"
    using sampleDescribed_ARN by (simp add: sampleOwn_def certARN_def)
  have answers: "describe_answer sampleManager a sampleListed = Inr \<lparr>dco_Certificate = Some sampleDetail\<rparr>"
    "list_answer sampleManager a (after_describe sampleManager a sampleListed) =
      Inr (Some [\<lparr>sdktag_Key = Some ''aws:a'', sdktag_Value = Some ''1''\<rparr>,
        \<lparr>sdktag_Key = Some ''other'', sdktag_Value = Some ''0''\<rparr>])" for a
    by (simp_all add: describe_answer_def list_answer_def after_describe_def sampleManager_def
        sampleClient_def sampleListed_def sampleSys_def sampleWorld_def)
  show ?thesis
    by (simp add: sdkFind_run [OF arn] answers Let_def)
      (simp add: observation_def setDescribedStatus_def setDescribedSpec_def sampleDetail_def
        specTags_def resourceTagsFromSDKTags_def mkTag_def)
qed

theorem ReadOne_reports_witness:
  "\<exists>tags ko t. ReadOne sampleExt sampleManager (Some sampleOwn) sampleListed =
     Returns (Some (withTags tags sampleOwn), Some ko, None) t \<and>
     spec_DomainName (ko_Spec ko) = Some ''example.com'' \<and>
     tag_view tags = [''env'' \<mapsto> ''dev'', ''aws:a'' \<mapsto> ''1'']"
proof -
  obtain ko t where found: "sdkFind sampleExt sampleManager sampleOwn sampleListed =
      Returns (Some ko, None) t" and ko: "spec_DomainName (ko_Spec ko) = Some ''example.com''"
    "specTags ko = Some [mkTag ''aws:a'' ''1'', mkTag ''other'' ''0'']"
    using sampleListed_found by blast
  have own: "clean sampleOwn" "no_nil_tag (specTags sampleOwn)"
    using sampleCert_clean(1) clean_cong [of sampleOwn sampleDescribed]
    by (simp_all add: sampleOwn_def specTags_def no_nil_tag_def mkTag_def)
  from ReadOne_reports [OF sample_err sample_order own, of sampleManager sampleListed] found
  obtain tags result where
    run: "ReadOne sampleExt sampleManager (Some sampleOwn) sampleListed =
      Returns (Some (withTags tags sampleOwn), result) t"
    and res: "handled_result sampleExt sampleManager sampleOwn (Some ko, None) result"
    and tags: "tag_view tags = tag_view (specTags sampleOwn) ++
      (tag_view (specTags ko) |` {k. HasPrefix k ''aws:''})"
    by auto
  obtain ko' where "result = (Some ko', None)" "report_of sampleManager ko ko'"
    using res by (cases result) (auto simp: handled_result_def reported_error_def)
  moreover have "tag_view tags = [''env'' \<mapsto> ''dev'', ''aws:a'' \<mapsto> ''1'']"
  proof -
    have "tag_view (specTags sampleOwn) = [''env'' \<mapsto> ''dev'']"
      by (simp add: sampleOwn_def specTags_def tag_view_def mkTag_def)
    moreover have "tag_view (specTags ko) = [''aws:a'' \<mapsto> ''1'', ''other'' \<mapsto> ''0'']"
      unfolding ko(2) by (auto simp: tag_view_def mkTag_def fun_eq_iff)
    moreover have "HasPrefix ''aws:a'' ''aws:''" "\<not> HasPrefix ''other'' ''aws:''"
      by (simp_all add: HasPrefix_def)
    ultimately show ?thesis unfolding tags by (simp add: restrict_map_insert)
  qed
  ultimately show ?thesis
    using run ko(1) report_of_spec by (metis (no_types, lifting))
qed

section \<open>Late initialisation\<close>

text \<open>The specification: a field the user has set stays, an unset one takes the observed value.\<close>

definition or_else :: "'a option \<Rightarrow> 'a option \<Rightarrow> 'a option" where
  "or_else a b = (case a of None \<Rightarrow> b | Some x \<Rightarrow> Some x)"

definition filled_options ::
  "CertificateOptions option \<Rightarrow> CertificateOptions option \<Rightarrow> CertificateOptions option" where
  "filled_options mine seen =
     (case mine of
        None \<Rightarrow> seen
      | Some m \<Rightarrow> Some (m\<lparr>opts_Export := or_else (opts_Export m) (Option.bind seen opts_Export)\<rparr>))"

definition filled :: "CertificateSpec \<Rightarrow> CertificateSpec \<Rightarrow> CertificateSpec" where
  "filled mine seen = mine\<lparr>
     spec_KeyAlgorithm := or_else (spec_KeyAlgorithm mine) (spec_KeyAlgorithm seen),
     spec_Options := filled_options (spec_Options mine) (spec_Options seen),
     spec_DomainValidationOptions :=
       or_else (spec_DomainValidationOptions mine) (spec_DomainValidationOptions seen),
     spec_SubjectAlternativeNames :=
       or_else (spec_SubjectAlternativeNames mine) (spec_SubjectAlternativeNames seen)\<rparr>"

definition late_complete :: "CertificateSpec \<Rightarrow> bool" where
  "late_complete sp \<longleftrightarrow> spec_KeyAlgorithm sp \<noteq> None \<and>
     Option.bind (spec_Options sp) opts_Export \<noteq> None \<and> spec_SubjectAlternativeNames sp \<noteq> None"

text \<open>One step of the code for one field.\<close>

lemma fill_steps:
  "(if spec_KeyAlgorithm o' \<noteq> None \<and> spec_KeyAlgorithm l = None
    then l\<lparr>spec_KeyAlgorithm := spec_KeyAlgorithm o'\<rparr> else l) =
   l\<lparr>spec_KeyAlgorithm := or_else (spec_KeyAlgorithm l) (spec_KeyAlgorithm o')\<rparr>"
  "(if spec_DomainValidationOptions o' \<noteq> None \<and> spec_DomainValidationOptions l = None
    then l\<lparr>spec_DomainValidationOptions := spec_DomainValidationOptions o'\<rparr> else l) =
   l\<lparr>spec_DomainValidationOptions :=
     or_else (spec_DomainValidationOptions l) (spec_DomainValidationOptions o')\<rparr>"
  "(if spec_SubjectAlternativeNames o' \<noteq> None \<and> spec_SubjectAlternativeNames l = None
    then l\<lparr>spec_SubjectAlternativeNames := spec_SubjectAlternativeNames o'\<rparr> else l) =
   l\<lparr>spec_SubjectAlternativeNames :=
     or_else (spec_SubjectAlternativeNames l) (spec_SubjectAlternativeNames o')\<rparr>"
  for l o' :: CertificateSpec
  by (cases l; auto simp: or_else_def split: option.split)+

lemma fill_options_step:
  fixes l o' :: CertificateSpec
  defines "l1 \<equiv> (if spec_Options o' \<noteq> None \<and> spec_Options l = None
    then l\<lparr>spec_Options := spec_Options o'\<rparr> else l)"
  shows "(case (spec_Options o', spec_Options l1) of
      (Some oo, Some lo) \<Rightarrow>
        if opts_Export oo \<noteq> None \<and> opts_Export lo = None
        then l1\<lparr>spec_Options := Some (lo\<lparr>opts_Export := opts_Export oo\<rparr>)\<rparr> else l1
    | _ \<Rightarrow> l1) = l\<lparr>spec_Options := filled_options (spec_Options l) (spec_Options o')\<rparr>"
proof (cases "spec_Options l")
  case None
  then show ?thesis
    unfolding l1_def by (cases l) (auto simp: filled_options_def split: option.split)
next
  case (Some m)
  then show ?thesis
    unfolding l1_def by (cases l; cases m)
      (auto simp: filled_options_def or_else_def split: option.split)
qed

lemma late_filled:
  "ko_Spec (lateInitializeFromReadOneOutput seen (lateInitializeHook seen mine)) =
     filled (ko_Spec mine) (ko_Spec seen)"
proof -
  have twice: "or_else (or_else a b) b = or_else a b" for a b :: "'b option"
    by (simp add: or_else_def split: option.split)
  show ?thesis
    unfolding lateInitializeFromReadOneOutput_def lateInitializeHook_def Let_def fill_options_step
      fill_steps by (simp add: filled_def twice)
qed

lemma incomplete_iff: "incompleteLateInitialization ko \<longleftrightarrow> \<not> late_complete (ko_Spec ko)"
  by (auto simp: incompleteLateInitialization_def late_complete_def split: option.split)

lemma condition_setters_spec:
  assumes "condition_laws X"
  shows "ko_Spec (SetLateInitialized X ko c m r) = ko_Spec ko"
    and "ko_Spec (SetSynced X ko c m r) = ko_Spec ko"
proof -
  note laws = assms [unfolded condition_laws_def, THEN bspec, rule_format, THEN conjunct1]
  show "ko_Spec (SetLateInitialized X ko c m r) = ko_Spec ko" by (rule laws) simp
  show "ko_Spec (SetSynced X ko c m r) = ko_Spec ko" by (rule laws) simp
qed

text \<open>
  C24. Late initialisation never overrides what the user has set: after a successful read the
  returned spec is the given one (with the observed \<open>aws:\<close> tags) in which the key algorithm, the
  options, the export option, the validation options and the alternative names take the
  observed value where they were unset. It ends without error exactly when the key algorithm,
  the export option and the names are then set, and asks to come back in 5 seconds otherwise;
  an error of the read is passed on with the spec unchanged.
\<close>

theorem LateInitialize_fills:
  assumes "condition_laws X" and "ReadOne X rm (Some latest) s = Returns (Some copy, seen, err) t"
    and "err \<noteq> None \<or> seen \<noteq> None"
  shows "\<exists>ko e. LateInitialize X rm (Some latest) s = Returns (Some ko, e) t \<and>
    (case (err, seen) of
       (Some _, _) \<Rightarrow> ko_Spec ko = ko_Spec copy \<and> e = err
     | (None, Some obs) \<Rightarrow> ko_Spec ko = filled (ko_Spec copy) (ko_Spec obs) \<and>
         e = (if late_complete (ko_Spec ko) then None else Some (RequeueNeededAfter None 5))
     | _ \<Rightarrow> False)"
proof -
  have nonempty: "lateInitializeFieldNames \<noteq> []"
    by (simp add: lateInitializeFieldNames_def)
  show ?thesis
    using assms(2,3)
    by (cases err; cases seen)
      (simp_all add: LateInitialize_def nonempty bindP_apply prog_simps Let_def incomplete_iff
        late_filled condition_setters_spec [OF assms(1)])
qed

theorem LateInitialize_fills_witness:
  "\<exists>ko t. LateInitialize sampleExt sampleManager (Some sampleDescribed) sampleIssued =
     Returns (Some ko, Some (RequeueNeededAfter None 5)) t \<and>
     spec_KeyAlgorithm (ko_Spec ko) = Some ''RSA-2048''"
proof -
  let ?obs = "observation sampleExt sampleManager sampleDetail (resourceTagsFromSDKTags (Some []))
    sampleDescribed"
  obtain t where "sdkFind sampleExt sampleManager sampleDescribed sampleIssued =
      Returns (Some ?obs, None) t"
    using sampleIssued_found by blast
  moreover obtain tags where "mirrorAWSTags sampleExt (Some sampleDescribed) (Some ?obs) =
      Some (Some (withTags tags sampleDescribed))"
    using mirrorAWSTags_view [OF sample_order sampleDescribed_tags, of ?obs] sdkFind_tags calculation
    by blast
  moreover obtain ko where ko: "finish sampleExt sampleManager (Some sampleDescribed) (Some ?obs, None) =
      Some (Some ko, None)" "ko_Spec ko = ko_Spec ?obs"
    using read_h.finish_result [of sampleExt sampleDescribed sampleManager sampleIssued _ t]
      sample_err sampleCert_clean(1) calculation(1)
    by (auto simp: handled_result_def reported_error_def dest: report_of_spec)
  ultimately have read: "ReadOne sampleExt sampleManager (Some sampleDescribed) sampleIssued =
      Returns (Some (withTags tags sampleDescribed), Some ko, None) t"
    by (simp add: ReadOne_def bindP_apply prog_simps finish_def)
  have obs: "spec_KeyAlgorithm (ko_Spec ?obs) = Some ''RSA-2048''"
    "Option.bind (spec_Options (ko_Spec ?obs)) opts_Export = None"
    by (simp_all add: observation_def setDescribedStatus_def setDescribedSpec_def sampleDetail_def
        fromOptions_def fromEnum_def sampleExt_def)
  have mine: "spec_KeyAlgorithm (ko_Spec (withTags tags sampleDescribed)) = None"
    "spec_Options (ko_Spec (withTags tags sampleDescribed)) = None"
    by (simp_all add: withTags_def sampleDescribed_def emptyCertificate_def emptySpec_def)
  from LateInitialize_fills [OF sample_condition read]
  obtain ko' e where "LateInitialize sampleExt sampleManager (Some sampleDescribed) sampleIssued =
      Returns (Some ko', e) t"
    and "ko_Spec ko' = filled (ko_Spec (withTags tags sampleDescribed)) (ko_Spec ko)"
    and "e = (if late_complete (ko_Spec ko') then None else Some (RequeueNeededAfter None 5))"
    by auto
  then show ?thesis
    using obs mine ko(2)
    by (simp add: filled_def filled_options_def or_else_def late_complete_def)
qed

end
