(* ===== verification/ManagerFactory.thy ===== *)
theory ManagerFactory
  imports ApiTypes Externals
begin

text \<open>
  \<open>manager_factory.go\<close>: the cache of resource managers, which the reconcilers' goroutines share.
  \<open>ManagerFor\<close> is a step relation on the cache, the read-write lock and the program counters of
  the calls in flight; a step is one action of one call, and a call that waits for the lock
  has no step. Call number t asks for \<open>start t\<close>.

  What is shown: the lock discipline, that a call gets a manager for its own account and
  region, that a cached key stays cached, so that a call made after another one with the same
  key has returned creates nothing, and that two overlapping calls can create two managers.
\<close>

section \<open>manager_factory.go\<close>

text \<open>
  The arguments of a call that matter, with the client configuration as an opaque handle, and
  the manager \<open>newResourceManager\<close> builds from them; \<open>mgr_ptr\<close> is its address.
\<close>

record request =
  rq_Partition :: string
  rq_clientcfg :: nat
  rq_id :: string
  rq_region :: string
  rq_roleARN :: string

record manager =
  mgr_ptr :: nat
  mgr_clientcfg :: nat
  mgr_awsAccountID :: string
  mgr_awsRegion :: string
  mgr_awsPartition :: string

definition rmId :: "request \<Rightarrow> string" where
  "rmId rq = rq_id rq @ ''/'' @ rq_region rq @ ''/'' @ rq_roleARN rq"

text \<open>The error result of this function is always nil.\<close>

definition newResourceManager :: "nat \<Rightarrow> request \<Rightarrow> manager" where
  "newResourceManager ptr rq =
     \<lparr>mgr_ptr = ptr, mgr_clientcfg = rq_clientcfg rq, mgr_awsAccountID = rq_id rq,
      mgr_awsRegion = rq_region rq, mgr_awsPartition = rq_Partition rq\<rparr>"

datatype pc =
    AtRLock
  | Reading
  | Looked "manager option"
  | Unlocked "manager option"
  | Writing
  | Stored manager
  | Returned manager

record factory =
  rmCache :: "string \<Rightarrow> manager option"
  readers :: "nat set"
  writer :: "nat option"
  allocated :: nat
  pcs :: "nat \<Rightarrow> pc"

definition newResourceManagerFactory :: factory where
  "newResourceManagerFactory = \<lparr>rmCache = Map.empty, readers = {}, writer = None, allocated = 0,
     pcs = (\<lambda>_. AtRLock)\<rparr>"

definition goto :: "nat \<Rightarrow> pc \<Rightarrow> factory \<Rightarrow> factory" where
  "goto t p f = f\<lparr>pcs := (pcs f)(t := p)\<rparr>"

inductive ManagerFor :: "(nat \<Rightarrow> request) \<Rightarrow> factory \<Rightarrow> factory \<Rightarrow> bool"
  for start :: "nat \<Rightarrow> request"
where
  rlock: "pcs f t = AtRLock \<Longrightarrow> writer f = None \<Longrightarrow>
    ManagerFor start f (goto t Reading (f\<lparr>readers := insert t (readers f)\<rparr>))"
| lookup: "pcs f t = Reading \<Longrightarrow>
    ManagerFor start f (goto t (Looked (rmCache f (rmId (start t)))) f)"
| runlock: "pcs f t = Looked found \<Longrightarrow>
    ManagerFor start f (goto t (Unlocked found) (f\<lparr>readers := readers f - {t}\<rparr>))"
| hit: "pcs f t = Unlocked (Some rm) \<Longrightarrow> ManagerFor start f (goto t (Returned rm) f)"
| lock: "pcs f t = Unlocked None \<Longrightarrow> writer f = None \<Longrightarrow> readers f = {} \<Longrightarrow>
    ManagerFor start f (goto t Writing (f\<lparr>writer := Some t\<rparr>))"
| store: "pcs f t = Writing \<Longrightarrow> rm = newResourceManager (allocated f) (start t) \<Longrightarrow>
    ManagerFor start f (goto t (Stored rm)
      (f\<lparr>rmCache := (rmCache f)(rmId (start t) \<mapsto> rm), allocated := Suc (allocated f)\<rparr>))"
| unlock: "pcs f t = Stored rm \<Longrightarrow>
    ManagerFor start f (goto t (Returned rm) (f\<lparr>writer := None\<rparr>))"

inductive_cases ManagerForE: "ManagerFor start f g"

inductive reachable :: "(nat \<Rightarrow> request) \<Rightarrow> factory \<Rightarrow> bool"
  for start :: "nat \<Rightarrow> request"
where
  initial: "reachable start newResourceManagerFactory"
| step: "reachable start f \<Longrightarrow> ManagerFor start f g \<Longrightarrow> reachable start g"

section \<open>The invariant\<close>

lemma goto_sel [simp]:
  "pcs (goto t p f) = (pcs f)(t := p)" "rmCache (goto t p f) = rmCache f"
  "readers (goto t p f) = readers f" "writer (goto t p f) = writer f"
  "allocated (goto t p f) = allocated f"
  by (simp_all add: goto_def)

definition lock_inv :: "factory \<Rightarrow> bool" where
  "lock_inv f \<longleftrightarrow>
     (\<forall>t. t \<in> readers f \<longleftrightarrow> pcs f t = Reading \<or> (\<exists>m. pcs f t = Looked m)) \<and>
     (\<forall>t. writer f = Some t \<longleftrightarrow> pcs f t = Writing \<or> (\<exists>m. pcs f t = Stored m)) \<and>
     (writer f \<noteq> None \<longrightarrow> readers f = {})"

text \<open>A manager built for a request whose key is \<open>k\<close>.\<close>

definition made_for :: "(nat \<Rightarrow> request) \<Rightarrow> factory \<Rightarrow> string \<Rightarrow> manager \<Rightarrow> bool" where
  "made_for start f k rm \<longleftrightarrow> mgr_ptr rm < allocated f \<and>
     (\<exists>t. rmId (start t) = k \<and> rm = newResourceManager (mgr_ptr rm) (start t))"

fun manager_at :: "pc \<Rightarrow> manager option" where
  "manager_at (Looked m) = m"
| "manager_at (Unlocked m) = m"
| "manager_at (Stored m) = Some m"
| "manager_at (Returned m) = Some m"
| "manager_at _ = None"

definition cache_inv :: "(nat \<Rightarrow> request) \<Rightarrow> factory \<Rightarrow> bool" where
  "cache_inv start f \<longleftrightarrow>
     (\<forall>k rm. rmCache f k = Some rm \<longrightarrow> made_for start f k rm) \<and>
     (\<forall>t rm. manager_at (pcs f t) = Some rm \<longrightarrow>
        made_for start f (rmId (start t)) rm \<and> rmCache f (rmId (start t)) \<noteq> None)"

lemma lock_inv_step: "ManagerFor start f g \<Longrightarrow> lock_inv f \<Longrightarrow> lock_inv g"
  by (erule ManagerForE) (auto simp: lock_inv_def, (metis option.inject)+)

lemma made_for_mono:
  "made_for start f k rm \<Longrightarrow> allocated f \<le> allocated g \<Longrightarrow> made_for start g k rm"
  by (auto simp: made_for_def)

lemma cache_invD:
  assumes "cache_inv start f"
  shows "rmCache f k = Some rm \<Longrightarrow> made_for start f k rm"
    and "manager_at (pcs f t) = Some rm \<Longrightarrow> made_for start f (rmId (start t)) rm"
    and "manager_at (pcs f t) = Some rm \<Longrightarrow> rmCache f (rmId (start t)) \<noteq> None"
  using assms by (auto simp: cache_inv_def)

text \<open>One call moves to \<open>p\<close>; the cache grows at most by managers made for their keys.\<close>

lemma cache_inv_move:
  assumes "cache_inv start f" and "pcs h = pcs f" and "allocated f \<le> allocated h"
    and "\<And>k rm. rmCache h k = Some rm \<Longrightarrow> rmCache f k = Some rm \<or> made_for start h k rm"
    and "\<And>k. rmCache f k \<noteq> None \<Longrightarrow> rmCache h k \<noteq> None"
    and "\<And>rm. manager_at p = Some rm \<Longrightarrow>
      made_for start h (rmId (start t)) rm \<and> rmCache h (rmId (start t)) \<noteq> None"
  shows "cache_inv start (goto t p h)"
proof -
  have mono: "made_for start f k rm \<Longrightarrow> made_for start (goto t p h) k rm" for k rm
    by (erule made_for_mono) (simp add: assms(3))
  have same: "made_for start h k rm \<Longrightarrow> made_for start (goto t p h) k rm" for k rm
    by (erule made_for_mono) simp
  show ?thesis
    unfolding cache_inv_def goto_sel assms(2)
  proof (intro conjI allI impI)
    fix k rm assume "rmCache h k = Some rm"
    then show "made_for start (goto t p h) k rm"
      using assms(4) cache_invD(1) [OF assms(1)] mono same by blast
  next
    fix u rm assume m: "manager_at (((pcs f)(t := p)) u) = Some rm"
    show "made_for start (goto t p h) (rmId (start u)) rm"
      using m assms(6) cache_invD(2) [OF assms(1)] mono same
      by (cases "u = t") (simp_all add: same)
    show "rmCache h (rmId (start u)) \<noteq> None"
    proof (cases "u = t")
      case True
      with m assms(6) show ?thesis by simp
    next
      case False
      with m cache_invD(3) [OF assms(1), of u rm] assms(5) show ?thesis by simp
    qed
  qed
qed

lemma cache_inv_step:
  assumes "ManagerFor start f g" and "cache_inv start f"
  shows "cache_inv start g"
  using assms(1)
proof cases
  case (store t rm)
  show ?thesis
    unfolding store(1) by (rule cache_inv_move [OF assms(2)])
      (auto simp: store made_for_def newResourceManager_def split: if_splits)
next
  case (lookup t)
  show ?thesis
    unfolding lookup(1) by (rule cache_inv_move [OF assms(2)])
      (auto dest: cache_invD(1) [OF assms(2)])
next
  case (runlock t found)
  show ?thesis
    unfolding runlock(1) by (rule cache_inv_move [OF assms(2)])
      (use cache_invD(2,3) [OF assms(2), of t] runlock in \<open>auto simp: made_for_def\<close>)
next
  case (hit t rm)
  show ?thesis
    unfolding hit(1) by (rule cache_inv_move [OF assms(2)])
      (use cache_invD(2,3) [OF assms(2), of t] hit in auto)
next
  case (unlock t rm)
  show ?thesis
    unfolding unlock(1) by (rule cache_inv_move [OF assms(2)])
      (use cache_invD(2,3) [OF assms(2), of t] unlock in \<open>auto simp: made_for_def\<close>)
next
  case (rlock t)
  show ?thesis
    unfolding rlock(1) by (rule cache_inv_move [OF assms(2)]) auto
next
  case (lock t)
  show ?thesis
    unfolding lock(1) by (rule cache_inv_move [OF assms(2)]) auto
qed

lemma reachable_inv: "reachable start f \<Longrightarrow> lock_inv f \<and> cache_inv start f"
proof (induction rule: reachable.induct)
  case initial
  then show ?case by (simp add: lock_inv_def cache_inv_def newResourceManagerFactory_def)
next
  case (step f g)
  then show ?case using lock_inv_step cache_inv_step by blast
qed

section \<open>Properties\<close>

text \<open>An AWS account ID and a region name contain no slash.\<close>

definition no_slash :: "string \<Rightarrow> bool" where
  "no_slash s \<longleftrightarrow> CHR ''/'' \<notin> set s"

lemma split_at_slash:
  "no_slash a \<Longrightarrow> no_slash b \<Longrightarrow> a @ CHR ''/'' # x = b @ CHR ''/'' # y \<Longrightarrow> a = b \<and> x = y"
proof (induction a arbitrary: b)
  case Nil
  then show ?case by (cases b) (auto simp: no_slash_def)
next
  case (Cons c a)
  then show ?case by (cases b) (auto simp: no_slash_def)
qed

lemma rmId_inject:
  assumes "no_slash (rq_id p)" "no_slash (rq_region p)" "no_slash (rq_id q)" "no_slash (rq_region q)"
    and "rmId p = rmId q"
  shows "rq_id p = rq_id q \<and> rq_region p = rq_region q \<and> rq_roleARN p = rq_roleARN q"
proof -
  have "rq_id p @ CHR ''/'' # (rq_region p @ CHR ''/'' # rq_roleARN p) =
      rq_id q @ CHR ''/'' # (rq_region q @ CHR ''/'' # rq_roleARN q)"
    using assms(5) by (simp add: rmId_def)
  from split_at_slash [OF assms(1,3) this]
  have "rq_id p = rq_id q" and
    rest: "rq_region p @ CHR ''/'' # rq_roleARN p = rq_region q @ CHR ''/'' # rq_roleARN q"
    by blast+
  with split_at_slash [OF assms(2,4) rest] show ?thesis by blast
qed

text \<open>
  C15. Whatever the interleaving, a call of \<open>ManagerFor\<close> returns a manager for the account and
  region it asked for, built by a call with the same role, provided account IDs and regions
  contain no slash (a role ARN may contain some): the cache never hands a manager of one
  account to another.
\<close>

theorem ManagerFor_returns_own:
  assumes "reachable start f" and "pcs f t = Returned rm"
    and "\<And>u. no_slash (rq_id (start u)) \<and> no_slash (rq_region (start u))"
  shows "mgr_awsAccountID rm = rq_id (start t) \<and> mgr_awsRegion rm = rq_region (start t) \<and>
    (\<exists>u. rq_roleARN (start u) = rq_roleARN (start t) \<and>
       rm = newResourceManager (mgr_ptr rm) (start u))"
proof -
  have "made_for start f (rmId (start t)) rm"
    using reachable_inv [OF assms(1)] assms(2) cache_invD(2) [of start f t rm] by simp
  then obtain u where u: "rmId (start u) = rmId (start t)"
    and rm: "rm = newResourceManager (mgr_ptr rm) (start u)"
    by (auto simp: made_for_def)
  have "rq_id (start u) = rq_id (start t) \<and> rq_region (start u) = rq_region (start t) \<and>
      rq_roleARN (start u) = rq_roleARN (start t)"
    using assms(3) by (intro rmId_inject u) auto
  moreover have "mgr_awsAccountID rm = rq_id (start u) \<and> mgr_awsRegion rm = rq_region (start u)"
    using arg_cong [OF rm, of mgr_awsAccountID] arg_cong [OF rm, of mgr_awsRegion]
    by (simp add: newResourceManager_def)
  ultimately show ?thesis using rm by metis
qed

text \<open>A run of one call alone, on an empty cache.\<close>

lemma run_alone:
  assumes "reachable start f" and "pcs f t = Unlocked None" and "writer f = None" and "readers f = {}"
  obtains g where "reachable start g"
    and "pcs g = (pcs f)(t := Returned (newResourceManager (allocated f) (start t)))"
    and "writer g = None" and "readers g = {}" and "allocated g = Suc (allocated f)"
proof -
  let ?rm = "newResourceManager (allocated f) (start t)"
  let ?f1 = "goto t Writing (f\<lparr>writer := Some t\<rparr>)"
  let ?f2 = "goto t (Stored ?rm) (?f1\<lparr>rmCache := (rmCache ?f1)(rmId (start t) \<mapsto> ?rm),
    allocated := Suc (allocated ?f1)\<rparr>)"
  let ?f3 = "goto t (Returned ?rm) (?f2\<lparr>writer := None\<rparr>)"
  have "ManagerFor start f ?f1" by (rule ManagerFor.lock) (use assms in simp_all)
  moreover have "ManagerFor start ?f1 ?f2"
    by (rule ManagerFor.store [where t = t]) simp_all
  moreover have "ManagerFor start ?f2 ?f3" by (rule ManagerFor.unlock) simp
  ultimately have "reachable start ?f3"
    using assms(1) by (meson reachable.step)
  then show ?thesis by (rule that) (use assms in simp_all)
qed

text \<open>A call that finds the cache as it is, up to the moment before it takes the write lock.\<close>

lemma run_reading:
  assumes "reachable start f" and "pcs f t = AtRLock" and "writer f = None" and "readers f = {}"
  obtains g where "reachable start g"
    and "pcs g = (pcs f)(t := Unlocked (rmCache f (rmId (start t))))"
    and "writer g = None" and "readers g = {}" and "allocated g = allocated f"
    and "rmCache g = rmCache f"
proof -
  let ?f1 = "goto t Reading (f\<lparr>readers := insert t (readers f)\<rparr>)"
  let ?f2 = "goto t (Looked (rmCache ?f1 (rmId (start t)))) ?f1"
  let ?f3 = "goto t (Unlocked (rmCache ?f1 (rmId (start t)))) (?f2\<lparr>readers := readers ?f2 - {t}\<rparr>)"
  have "ManagerFor start f ?f1" by (rule ManagerFor.rlock) (use assms in simp_all)
  moreover have "ManagerFor start ?f1 ?f2" by (rule ManagerFor.lookup) simp
  moreover have "ManagerFor start ?f2 ?f3" by (rule ManagerFor.runlock) simp
  ultimately have "reachable start ?f3"
    using assms(1) by (meson reachable.step)
  then show ?thesis by (rule that) (use assms in simp_all)
qed

definition sampleStart :: "nat \<Rightarrow> request" where
  "sampleStart _ = \<lparr>rq_Partition = ''aws'', rq_clientcfg = 0, rq_id = ''111122223333'',
     rq_region = ''us-west-2'', rq_roleARN = ''arn:aws:iam::111122223333:role/ack''\<rparr>"

text \<open>
  The cache is not checked again under the write lock: two calls with the same arguments, both
  past the lookup before either stores, return two different managers.
\<close>

lemma sample_two_managers:
  obtains f where "reachable sampleStart f"
    and "pcs f 0 = Returned (newResourceManager 0 (sampleStart 0))"
    and "pcs f 1 = Returned (newResourceManager 1 (sampleStart 1))"
    and "pcs f 2 = AtRLock" and "writer f = None"
proof -
  let ?f0 = newResourceManagerFactory
  have r0: "reachable sampleStart ?f0" by (rule reachable.initial)
  have s0: "pcs ?f0 0 = AtRLock" "writer ?f0 = None" "readers ?f0 = {}" "rmCache ?f0 = Map.empty"
    "allocated ?f0 = 0" "pcs ?f0 1 = AtRLock" "pcs ?f0 2 = AtRLock"
    by (simp_all add: newResourceManagerFactory_def)
  obtain f1 where f1: "reachable sampleStart f1" "pcs f1 = (pcs ?f0)(0 := Unlocked None)"
    "writer f1 = None" "readers f1 = {}" "allocated f1 = 0" "rmCache f1 = Map.empty"
    by (rule run_reading [OF r0 s0(1,2,3)]) (simp add: s0(4,5))
  have "pcs f1 1 = AtRLock" using f1(2) s0(6) by simp
  from run_reading [OF f1(1) this f1(3,4)] obtain f2 where
    f2: "reachable sampleStart f2" "pcs f2 = (pcs f1)(1 := Unlocked None)"
    "writer f2 = None" "readers f2 = {}" "allocated f2 = 0"
    unfolding f1(5,6) by blast
  have "pcs f2 0 = Unlocked None" using f2(2) f1(2) by simp
  from run_alone [OF f2(1) this f2(3,4)] obtain f3 where
    f3: "reachable sampleStart f3"
      "pcs f3 = (pcs f2)(0 := Returned (newResourceManager 0 (sampleStart 0)))"
    "writer f3 = None" "readers f3 = {}" "allocated f3 = 1"
    unfolding f2(5) by auto
  have "pcs f3 1 = Unlocked None" using f3(2) f2(2) by simp
  from run_alone [OF f3(1) this f3(3,4)] obtain f4 where
    f4: "reachable sampleStart f4"
      "pcs f4 = (pcs f3)(1 := Returned (newResourceManager 1 (sampleStart 1)))"
    "writer f4 = None"
    unfolding f3(5) by auto
  have "pcs f4 0 = Returned (newResourceManager 0 (sampleStart 0))"
    and "pcs f4 1 = Returned (newResourceManager 1 (sampleStart 1))" and "pcs f4 2 = AtRLock"
    using f4(2) f3(2) f2(2) f1(2) s0(7) by simp_all
  with f4(1,3) show ?thesis using that by blast
qed

theorem ManagerFor_twice:
  "\<exists>f a b. reachable sampleStart f \<and> rmId (sampleStart 0) = rmId (sampleStart 1) \<and>
     pcs f 0 = Returned a \<and> pcs f 1 = Returned b \<and> mgr_ptr a \<noteq> mgr_ptr b"
proof -
  obtain f where "reachable sampleStart f"
    and "pcs f 0 = Returned (newResourceManager 0 (sampleStart 0))"
    and "pcs f 1 = Returned (newResourceManager 1 (sampleStart 1))"
    by (rule sample_two_managers)
  moreover have "mgr_ptr (newResourceManager 0 rq) \<noteq> mgr_ptr (newResourceManager 1 rq')" for rq rq'
    by (simp add: newResourceManager_def)
  moreover have "rmId (sampleStart 0) = rmId (sampleStart 1)" by (simp add: sampleStart_def)
  ultimately show ?thesis by blast
qed

theorem ManagerFor_returns_own_witness:
  "\<exists>f rm. reachable sampleStart f \<and> pcs f 0 = Returned rm \<and>
     mgr_awsAccountID rm = ''111122223333'' \<and> mgr_awsRegion rm = ''us-west-2''"
proof -
  obtain f where f: "reachable sampleStart f"
    "pcs f 0 = Returned (newResourceManager 0 (sampleStart 0))"
    by (rule sample_two_managers)
  have "no_slash (rq_id (sampleStart u)) \<and> no_slash (rq_region (sampleStart u))" for u
    by (simp add: no_slash_def sampleStart_def)
  from ManagerFor_returns_own [OF f this] f show ?thesis
    by (auto simp: sampleStart_def)
qed

text \<open>
  C21. After a call has returned, a call with the same key that had not yet started never
  builds a manager: at every later moment it is before its lookup, or it has found one. While a
  call writes, no call reads and no other writes.
\<close>

theorem ManagerFor_shares:
  assumes "reachable start f" and "pcs f t = Returned rm" and "rmId (start u) = rmId (start t)"
    and "pcs f u = AtRLock" and "(ManagerFor start)\<^sup>*\<^sup>* f g"
  shows "(pcs g u \<in> {AtRLock, Reading} \<or> manager_at (pcs g u) \<noteq> None) \<and>
    pcs g u \<noteq> Writing \<and> (\<forall>m. pcs g u \<noteq> Stored m) \<and>
    (\<forall>v w. pcs g v = Writing \<longrightarrow> pcs g w \<noteq> Reading \<and> (w \<noteq> v \<longrightarrow> pcs g w \<noteq> Writing))"
proof -
  let ?ok = "\<lambda>g. reachable start g \<and> rmCache g (rmId (start u)) \<noteq> None \<and>
    (pcs g u \<in> {AtRLock, Reading} \<or>
     (\<exists>m. pcs g u \<in> {Looked (Some m), Unlocked (Some m), Returned m}))"
  have "?ok f"
    using assms(1-4) reachable_inv [OF assms(1)] cache_invD(3) [of start f t rm] by simp
  with assms(5) have ok: "?ok g"
  proof (induction rule: rtranclp_induct)
    case (step y z)
    from step.IH [OF step.prems] have y: "?ok y" .
    from y step.hyps(2) have "reachable start z" by (blast intro: reachable.step)
    moreover from step.hyps(2) y have "rmCache z (rmId (start u)) \<noteq> None"
      by (cases rule: ManagerFor.cases) auto
    moreover from step.hyps(2) y have "pcs z u \<in> {AtRLock, Reading} \<or>
        (\<exists>m. pcs z u \<in> {Looked (Some m), Unlocked (Some m), Returned m})"
      by (cases rule: ManagerFor.cases) (auto split: if_splits)
    ultimately show ?case by blast
  qed
  moreover have "lock_inv g" using ok reachable_inv by blast
  then have "\<forall>v w. pcs g v = Writing \<longrightarrow> pcs g w \<noteq> Reading \<and> (w \<noteq> v \<longrightarrow> pcs g w \<noteq> Writing)"
    unfolding lock_inv_def by (metis empty_iff option.inject option.simps(3))
  ultimately show ?thesis by auto
qed

theorem ManagerFor_shares_witness:
  "\<exists>f g. reachable sampleStart f \<and> pcs f 2 = AtRLock \<and> (ManagerFor sampleStart)\<^sup>*\<^sup>* f g \<and>
     pcs g 2 = Looked (rmCache f (rmId (sampleStart 2))) \<and> manager_at (pcs g 2) \<noteq> None"
proof -
  obtain f where f: "reachable sampleStart f"
    "pcs f 0 = Returned (newResourceManager 0 (sampleStart 0))" "pcs f 2 = AtRLock" "writer f = None"
    by (rule sample_two_managers)
  have key: "rmId (sampleStart 2) = rmId (sampleStart 0)" by (simp add: sampleStart_def)
  let ?f1 = "goto 2 Reading (f\<lparr>readers := insert 2 (readers f)\<rparr>)"
  let ?f2 = "goto 2 (Looked (rmCache ?f1 (rmId (sampleStart 2)))) ?f1"
  have "ManagerFor sampleStart f ?f1" by (rule ManagerFor.rlock) (use f in simp_all)
  moreover have "ManagerFor sampleStart ?f1 ?f2" by (rule ManagerFor.lookup) simp
  ultimately have run: "(ManagerFor sampleStart)\<^sup>*\<^sup>* f ?f2"
    by (meson rtranclp.rtrancl_into_rtrancl rtranclp.rtrancl_refl)
  from ManagerFor_shares [OF f(1,2) key f(3) run] have "manager_at (pcs ?f2 2) \<noteq> None"
    by simp
  with f(1,3) run show ?thesis by (intro exI [of _ f] exI [of _ ?f2]) simp
qed

end
