(* ===== verification/FactoryRuns.thy ===== *)
theory FactoryRuns
  imports ManagerFactory
begin

text \<open>
  Every call of \<open>ManagerFor\<close> ends: calls in flight can take at most six steps each, and while one
  of them has not returned some call can take a step, so no call waits for ever.
\<close>

fun steps_left :: "pc \<Rightarrow> nat" where
  "steps_left AtRLock = 6"
| "steps_left Reading = 5"
| "steps_left (Looked m) = 4"
| "steps_left (Unlocked m) = 3"
| "steps_left Writing = 2"
| "steps_left (Stored m) = 1"
| "steps_left (Returned m) = 0"

text \<open>A step is a step of one call, which then has fewer steps left.\<close>

definition moves :: "nat \<Rightarrow> factory \<Rightarrow> factory \<Rightarrow> bool" where
  "moves t f g \<longleftrightarrow> steps_left (pcs g t) < steps_left (pcs f t) \<and> (\<forall>u. u \<noteq> t \<longrightarrow> pcs g u = pcs f u)"

lemma step_moves: "ManagerFor start f g \<Longrightarrow> \<exists>t. moves t f g"
  by (erule ManagerForE) (auto simp: moves_def)

definition work :: "nat set \<Rightarrow> factory \<Rightarrow> nat" where
  "work T f = (\<Sum>t \<in> T. steps_left (pcs f t))"

lemma work_decreases:
  assumes "finite T" and "moves t f g" and "t \<in> T"
  shows "work T g < work T f"
  unfolding work_def
  by (rule sum_strict_mono_ex1 [OF assms(1)]) (use assms(2,3) in \<open>auto simp: moves_def le_less\<close>)

definition only :: "nat set \<Rightarrow> factory \<Rightarrow> bool" where
  "only T f \<longleftrightarrow> (\<forall>t. t \<notin> T \<longrightarrow> pcs f t = AtRLock)"

lemma pc_start: "steps_left p = 6 \<longleftrightarrow> p = AtRLock" "steps_left p = 0 \<longleftrightarrow> (\<exists>m. p = Returned m)"
  "steps_left p \<le> 6"
  by (cases p; simp)+

lemma moves_only:
  assumes "moves t f g" and "only T g"
  shows "t \<in> T \<and> only T f"
proof -
  have "pcs g t \<noteq> AtRLock"
    using assms(1) pc_start(3) [of "pcs f t"] by (auto simp: moves_def)
  then have "t \<in> T" using assms(2) by (auto simp: only_def)
  with assms show ?thesis unfolding moves_def only_def by metis
qed

lemma run_bound:
  assumes "finite T"
  shows "((ManagerFor start) ^^ n) newResourceManagerFactory f \<Longrightarrow> only T f \<Longrightarrow>
    n + work T f \<le> 6 * card T"
proof (induction n arbitrary: f)
  case 0
  then have "f = newResourceManagerFactory" by simp
  then show ?case by (simp add: work_def newResourceManagerFactory_def)
next
  case (Suc n)
  from Suc.prems(1) obtain h where h: "((ManagerFor start) ^^ n) newResourceManagerFactory h"
    and "ManagerFor start h f" by auto
  then obtain t where t: "moves t h f" using step_moves by blast
  from moves_only [OF t Suc.prems(2)] work_decreases [OF assms t] Suc.IH [OF h]
  show ?case by simp
qed

text \<open>Who holds the lock can go on; if nobody holds it, everybody can.\<close>

lemma some_step:
  assumes "lock_inv f" and "only T f" and "t \<in> T" and "\<And>m. pcs f t \<noteq> Returned m"
  shows "\<exists>g u. ManagerFor start f g \<and> u \<in> T \<and> moves u f g"
proof -
  have go: ?thesis if "ManagerFor start f (goto u p h)" "pcs h = pcs f" "u \<in> T"
    "steps_left p < steps_left (pcs f u)" for u p h
    using that by (auto simp: moves_def intro!: exI [of _ "goto u p h"] exI [of _ u])
  have inside: "u \<in> T" if "pcs f u \<noteq> AtRLock" for u
    using assms(2) that by (auto simp: only_def)
  consider (reader) u where "u \<in> readers f" | (writer) u where "writer f = Some u"
    | (free) "readers f = {}" "writer f = None"
    by (cases "writer f") auto
  then show ?thesis
  proof cases
    case reader
    then have "pcs f u = Reading \<or> (\<exists>m. pcs f u = Looked m)" using assms(1) by (auto simp: lock_inv_def)
    then show ?thesis
      using go [OF ManagerFor.lookup [of f u start]] go [OF ManagerFor.runlock [of f u _ start]] inside
      by fastforce
  next
    case writer
    then have "pcs f u = Writing \<or> (\<exists>m. pcs f u = Stored m)" using assms(1) by (auto simp: lock_inv_def)
    then show ?thesis
      using go [OF ManagerFor.store [OF _ refl, of f u start]] go [OF ManagerFor.unlock [of f u _ start]]
        inside by fastforce
  next
    case free
    have "t \<notin> readers f" "writer f \<noteq> Some t" using free by auto
    then have "pcs f t = AtRLock \<or> pcs f t = Unlocked None \<or> (\<exists>m. pcs f t = Unlocked (Some m))"
      using assms(1,4) unfolding lock_inv_def by (metis not_None_eq pc.exhaust)
    then show ?thesis
      using go [OF ManagerFor.rlock [of f t start]] go [OF ManagerFor.lock [of f t start]]
        go [OF ManagerFor.hit [of f t _ start]] assms(3) free by fastforce
  qed
qed

lemma can_finish:
  assumes "finite T"
  shows "reachable start f \<Longrightarrow> only T f \<Longrightarrow>
    \<exists>g. (ManagerFor start)\<^sup>*\<^sup>* f g \<and> only T g \<and> (\<forall>t \<in> T. \<exists>m. pcs g t = Returned m)"
proof (induction "work T f" arbitrary: f rule: less_induct)
  case less
  show ?case
  proof (cases "\<forall>t \<in> T. \<exists>m. pcs f t = Returned m")
    case False
    then obtain t where "t \<in> T" "\<And>m. pcs f t \<noteq> Returned m" by blast
    with some_step less.prems reachable_inv obtain g u where
      g: "ManagerFor start f g" "u \<in> T" "moves u f g" by metis
    moreover have "only T g" using less.prems(2) g(2,3) by (auto simp: only_def moves_def)
    ultimately obtain h where "(ManagerFor start)\<^sup>*\<^sup>* g h" "only T h" "\<forall>t \<in> T. \<exists>m. pcs h t = Returned m"
      using less.hyps [OF work_decreases [OF assms]] less.prems(1) reachable.step by metis
    with g(1) show ?thesis by (meson converse_rtranclp_into_rtranclp)
  qed (use less.prems in blast)
qed

text \<open>
  C18. Every call of \<open>ManagerFor\<close> ends. When the calls of a finite set T are the ones that have started
  (a call outside T is still at its first line), a run has taken at most six steps for each of
  them; while one has not returned, one of them can take a step, i.e. there is no deadlock; and so
  every run can be continued to one in which all have returned.
\<close>

theorem ManagerFor_ends:
  assumes "((ManagerFor start) ^^ n) newResourceManagerFactory f" and "finite T"
    and "\<And>t. t \<notin> T \<Longrightarrow> pcs f t = AtRLock"
  shows "n \<le> 6 * card T \<and>
    ((\<exists>t \<in> T. \<forall>m. pcs f t \<noteq> Returned m) \<longrightarrow> (\<exists>g. ManagerFor start f g \<and> (\<forall>t. t \<notin> T \<longrightarrow> pcs g t = AtRLock))) \<and>
    (\<exists>g. (ManagerFor start)\<^sup>*\<^sup>* f g \<and> (\<forall>t \<in> T. \<exists>m. pcs g t = Returned m))"
proof -
  have reach: "reachable start f"
    using assms(1) by (induction n arbitrary: f) (auto intro: reachable.intros)
  have on: "only T f" using assms(3) by (simp add: only_def)
  have "\<exists>g. ManagerFor start f g \<and> (\<forall>t. t \<notin> T \<longrightarrow> pcs g t = AtRLock)"
    if "t \<in> T" "\<forall>m. pcs f t \<noteq> Returned m" for t
    using some_step [of f T t start] reachable_inv [OF reach] on that
    unfolding only_def moves_def by metis
  then show ?thesis
    using run_bound [OF assms(2,1) on] can_finish [OF assms(2) reach on] by auto
qed

theorem ManagerFor_ends_witness:
  "\<exists>g. (ManagerFor sampleStart)\<^sup>*\<^sup>* newResourceManagerFactory g \<and>
     (\<forall>t \<in> {0, 1, 2}. \<exists>m. pcs g t = Returned m)"
  using ManagerFor_ends [of 0 sampleStart newResourceManagerFactory "{0, 1, 2}"]
  by (simp add: newResourceManagerFactory_def)

end
