(* ===== verification/TagCycle.thy ===== *)
theory TagCycle
  imports TagSync DeltaCompare
begin

text \<open>
  One round of tag reconciliation, from the handlers the reconciler calls in turn: \<open>EnsureTags\<close>
  adds the default tags to the desired object, \<open>mirrorAWSTags\<close> (called by \<open>ReadOne\<close>) copies the tags
  AWS has set from the observed object, and \<open>SyncTags\<close> (called by \<open>sdkUpdate\<close>) brings ACM to the
  result. A second round finds nothing to do.
\<close>

text \<open>The default tags depend on the configuration and on the object's metadata, not on its tags.\<close>

definition default_tags_laws :: "Ext \<Rightarrow> bool" where
  "default_tags_laws X \<longleftrightarrow>
     (\<forall>c ko tags md. GetDefaultTags X c (withTags tags ko) md = GetDefaultTags X c ko md)"

text \<open>The first two handlers: what the tags of the desired object are when they are compared.\<close>

definition desired_tags ::
  "Ext \<Rightarrow> 'w resourceManager \<Rightarrow> ServiceControllerMetadata \<Rightarrow> Certificate \<Rightarrow> Certificate \<Rightarrow> Certificate option option" where
  "desired_tags X rm md r seen =
     (case EnsureTags X rm md r of None \<Rightarrow> None | Some r \<Rightarrow> mirrorAWSTags X (Some r) (Some seen))"

lemma desired_tags_view:
  assumes "order_laws X" and "merge_laws X" and "no_nil_tag (specTags r)" and "no_nil_tag (specTags seen)"
  obtains tags where "desired_tags X rm md r seen = Some (Some (withTags tags r))"
    and "tag_view tags = map_of (GetDefaultTags X (rm_cfg rm) r md) ++ tag_view (specTags r) ++
      (tag_view (specTags seen) |` {k. HasPrefix k ''aws:''})"
    and "tags_normal tags"
proof -
  from EnsureTags_view [OF assms(1-3)] obtain ts where
    e: "EnsureTags X rm md r = Some (withTags ts r)" "tags_normal ts"
    "tag_view ts = map_of (GetDefaultTags X (rm_cfg rm) r md) ++ tag_view (specTags r)"
    by blast
  from mirrorAWSTags_view [OF assms(1), of "withTags ts r" seen] assms(4) tags_normal_no_nil [OF e(2)]
  obtain us where "mirrorAWSTags X (Some (withTags ts r)) (Some seen) = Some (Some (withTags us r))"
    "tag_view us = tag_view ts ++ (tag_view (specTags seen) |` {k. HasPrefix k ''aws:''})" "tags_normal us"
    by auto
  with e that show ?thesis by (simp add: desired_tags_def)
qed

text \<open>The tags ACM ends with: a second round asks for the same ones.\<close>

lemma tags_stable:
  assumes "v = d ++ u ++ (a |` P)" and "w = u \<or> w = v"
  shows "d ++ w ++ (v |` P) = v"
proof (rule ext)
  fix k
  have "v k = (if k \<in> P \<and> a k \<noteq> None then a k else if u k \<noteq> None then u k else d k)"
    unfolding assms(1) by (auto simp: map_add_def restrict_map_def split: option.split)
  then show "(d ++ w ++ (v |` P)) k = v k"
    using assms(2) by (auto simp: map_add_def restrict_map_def split: option.splits if_splits)
qed

text \<open>
  C12. Reconciling tags settles after one round. Let the observed object carry the tags ACM has. If the
  three handlers succeed, ACM then has the tags of the spec, the default tags for keys the spec
  does not set, and the tags AWS had set (prefix \<open>aws:\<close>), each of which keeps its value, and the tags of no
  other certificate change. In the next round, whether it starts from the spec or from the object
  of this round, the desired object has no tag difference from the observed one.
\<close>

theorem tag_round_settles:
  assumes "order_laws X" and "merge_laws X" and "default_tags_laws X" and "tag_service_laws client store"
    and "no_nil_tag (specTags r)" and "tags_full (specTags seen)"
    and "store (env s) arn = tag_view (specTags seen)"
    and "desired_tags X rm md r seen = Some (Some desired)"
    and "SyncTags X client arn (specTags desired) (specTags seen) s = Returns None t"
    and "no_nil_tag (specTags seen')" and "tag_view (specTags seen') = store (env t) arn"
    and "again \<in> {r, desired}" and "desired_tags X rm md again seen' = Some (Some desired')"
  shows "store (env t) = (store (env s))(arn := map_of (GetDefaultTags X (rm_cfg rm) r md) ++
      tag_view (specTags r) ++ (store (env s) arn |` {k. HasPrefix k ''aws:''})) \<and>
    (\<forall>k. HasPrefix k ''aws:'' \<and> store (env s) arn k \<noteq> None \<longrightarrow> store (env t) arn k = store (env s) arn k) \<and>
    same_tags desired' seen'"
proof -
  let ?aws = "{k. HasPrefix k ''aws:''}" and ?d = "map_of (GetDefaultTags X (rm_cfg rm) r md)"
  have nil: "no_nil_tag (specTags seen)"
    using assms(6) by (auto simp: no_nil_tag_def tags_full_def list_all_iff split: option.splits)
  obtain tags where tags: "desired_tags X rm md r seen = Some (Some (withTags tags r))" "tags_normal tags"
    "tag_view tags = ?d ++ tag_view (specTags r) ++ (tag_view (specTags seen) |` ?aws)"
    by (rule desired_tags_view [OF assms(1,2,5) nil])
  from tags(1) assms(8) have desired: "desired = withTags tags r" by simp
  have st: "store (env t) = (store (env s))(arn := tag_view tags)"
    using SyncTags_store [OF assms(1,4) tags_normal_full [OF tags(2)] assms(6,7)] assms(9) desired by simp
  have "no_nil_tag (specTags again)" "GetDefaultTags X (rm_cfg rm) again md = GetDefaultTags X (rm_cfg rm) r md"
    "tag_view (specTags again) \<in> {tag_view (specTags r), tag_view tags}"
    using assms(3,5,12) desired tags_normal_no_nil [OF tags(2)] by (auto simp: default_tags_laws_def)
  note again = this
  obtain tags' where "desired_tags X rm md again seen' = Some (Some (withTags tags' again))"
    "tag_view tags' = ?d ++ tag_view (specTags again) ++ (store (env t) arn |` ?aws)"
    using desired_tags_view [OF assms(1,2) again(1) assms(10), of rm md] unfolding again(2) assms(11) by metis
  moreover from this(1) assms(13) have "desired' = withTags tags' again" by simp
  ultimately have "tag_view (specTags desired') = ?d ++ tag_view (specTags again) ++ (tag_view tags |` ?aws)"
    by (simp add: st)
  then have "same_tags desired' seen'"
    using tags_stable [OF tags(3), of "tag_view (specTags again)"] again(3) by (simp add: same_tags_def assms(11) st)
  then show ?thesis using st tags(3) assms(7) by (auto simp: map_add_def restrict_map_def)
qed

theorem tag_round_settles_witness:
  "\<exists>desired t. desired_tags sampleExt sampleManager \<lparr>scm_ControllerVersion = ''1.0''\<rparr> (tagged [(''env'', ''dev'')])
       (tagged [(''aws:s'', ''1''), (''old'', ''0'')]) = Some (Some desired) \<and>
     SyncTags sampleExt sampleClient ''arn'' (specTags desired)
       (specTags (tagged [(''aws:s'', ''1''), (''old'', ''0'')]))
       (sampleSys (sampleWorld\<lparr>sw_tags := (\<lambda>_. Map.empty)(''arn'' := [''aws:s'' \<mapsto> ''1'', ''old'' \<mapsto> ''0''])\<rparr>)) =
       Returns None t \<and>
     sw_tags (env t) ''arn'' ''aws:s'' = Some ''1'' \<and> sw_tags (env t) ''arn'' ''env'' = Some ''dev'' \<and>
     sw_tags (env t) ''arn'' ''old'' = None"
proof -
  let ?md = "\<lparr>scm_ControllerVersion = ''1.0''\<rparr> :: ServiceControllerMetadata"
  let ?r = "tagged [(''env'', ''dev'')]" and ?seen = "tagged [(''aws:s'', ''1''), (''old'', ''0'')]"
  let ?s = "sampleSys (sampleWorld\<lparr>sw_tags := (\<lambda>_. Map.empty)(''arn'' := [''aws:s'' \<mapsto> ''1'', ''old'' \<mapsto> ''0''])\<rparr>)"
  have views: "tag_view (specTags ?r) = map_of [(''env'', ''dev'')]"
    "tag_view (specTags ?seen) = map_of [(''aws:s'', ''1''), (''old'', ''0'')]"
    by (rule tag_view_tagged, simp add: wf_map_def)+
  have nil: "no_nil_tag (specTags ?r)" "no_nil_tag (specTags ?seen)"
    unfolding specTags_tagged by (rule no_nil_tagged)+
  have full: "tags_full (specTags ?seen)" by (simp add: tags_full_def mkTag_def)
  have defaults: "default_tags_laws sampleExt"
    by (simp add: default_tags_laws_def sampleExt_def withTags_def onSpec_def)
  have st: "sw_tags (env ?s) ''arn'' = tag_view (specTags ?seen)"
    unfolding views by (auto simp: sampleSys_def)
  obtain tags where d: "desired_tags sampleExt sampleManager ?md ?r ?seen = Some (Some (withTags tags ?r))"
    "tags_normal tags"
    by (rule desired_tags_view [OF sample_order sample_merge nil])
  obtain t where run: "SyncTags sampleExt sampleClient ''arn'' (specTags (withTags tags ?r)) (specTags ?seen) ?s =
      Returns None t"
    by (rule sample_SyncTags_ok [of "specTags (withTags tags ?r)" "specTags ?seen"])
      (simp_all add: tags_normal_full [OF d(2)] full del: specTags_tagged)
  have store: "sw_tags (env t) ''arn'' = tag_view tags"
    using SyncTags_store [OF sample_order sample_tag_service _ full st run] tags_normal_full [OF d(2)]
    by simp
  obtain tags' where d': "desired_tags sampleExt sampleManager ?md ?r (withTags tags ?r) =
      Some (Some (withTags tags' ?r))"
    using desired_tags_view [OF sample_order sample_merge nil(1), of "withTags tags ?r"]
      tags_normal_no_nil [OF d(2)] by (metis specTags_withTags)
  have seen': "no_nil_tag (specTags (withTags tags ?r))"
    "tag_view (specTags (withTags tags ?r)) = sw_tags (env t) ''arn''"
    using tags_normal_no_nil [OF d(2)] store by simp_all
  note settled = tag_round_settles [OF sample_order sample_merge defaults sample_tag_service nil(1) full st d(1)
    run seen' insertI1 d']
  have om: "GetDefaultTags sampleExt (rm_cfg sampleManager) ?r ?md =
      [(''services.k8s.aws/namespace'', []), (''services.k8s.aws/controller-version'', ''1.0'')]"
    by (simp add: sampleExt_def tagged_def withTags_def emptyCertificate_def emptyObjectMeta_def)
  from settled [THEN conjunct1] have "sw_tags (env t) ''arn'' ''aws:s'' = Some ''1''"
    "sw_tags (env t) ''arn'' ''env'' = Some ''dev''" "sw_tags (env t) ''arn'' ''old'' = None"
    unfolding om views st by (simp_all add: HasPrefix_def map_add_def restrict_map_def)
  with d(1) run show ?thesis by blast
qed

end
