(* ===== verification/Enums.thy ===== *)
theory Enums
  imports Main
begin

text \<open>
  \<open>apis/v1alpha1/enums.go\<close>: the enumerations of the ACM API. Go has no enumeration types; a type
  of the code is a string type with constants. Here a type is the datatype of its constants and
  \<open>_value\<close> gives the string of each. The structs keep plain strings, as in the code.
\<close>

datatype AcmeAccountStatus = AcmeAccountStatus_DEACTIVATED | AcmeAccountStatus_REVOKED |
    AcmeAccountStatus_VALID

primrec AcmeAccountStatus_value :: "AcmeAccountStatus \<Rightarrow> string" where
  "AcmeAccountStatus_value AcmeAccountStatus_DEACTIVATED = ''DEACTIVATED''"
| "AcmeAccountStatus_value AcmeAccountStatus_REVOKED = ''REVOKED''"
| "AcmeAccountStatus_value AcmeAccountStatus_VALID = ''VALID''"

datatype AcmeAuthorizationBehavior = AcmeAuthorizationBehavior_PRE_APPROVED

primrec AcmeAuthorizationBehavior_value :: "AcmeAuthorizationBehavior \<Rightarrow> string" where
  "AcmeAuthorizationBehavior_value AcmeAuthorizationBehavior_PRE_APPROVED = ''PRE_APPROVED''"

datatype AcmeContact = AcmeContact_NOT_REQUIRED | AcmeContact_REQUIRED

primrec AcmeContact_value :: "AcmeContact \<Rightarrow> string" where
  "AcmeContact_value AcmeContact_NOT_REQUIRED = ''NOT_REQUIRED''"
| "AcmeContact_value AcmeContact_REQUIRED = ''REQUIRED''"

datatype AcmeDomainValidationFailureReason = AcmeDomainValidationFailureReason_ACCESS_DENIED |
    AcmeDomainValidationFailureReason_DOMAIN_MISMATCH |
    AcmeDomainValidationFailureReason_DOMAIN_NOT_ALLOWED |
    AcmeDomainValidationFailureReason_ENDPOINT_NOT_ACTIVE |
    AcmeDomainValidationFailureReason_HOSTED_ZONE_NOT_FOUND |
    AcmeDomainValidationFailureReason_INTERNAL_FAILURE |
    AcmeDomainValidationFailureReason_INVALID_CHANGE_BATCH |
    AcmeDomainValidationFailureReason_INVALID_PUBLIC_DOMAIN |
    AcmeDomainValidationFailureReason_TIMED_OUT

primrec AcmeDomainValidationFailureReason_value :: "AcmeDomainValidationFailureReason \<Rightarrow> string" where
  "AcmeDomainValidationFailureReason_value AcmeDomainValidationFailureReason_ACCESS_DENIED = ''ACCESS_DENIED''"
| "AcmeDomainValidationFailureReason_value AcmeDomainValidationFailureReason_DOMAIN_MISMATCH = ''DOMAIN_MISMATCH''"
| "AcmeDomainValidationFailureReason_value AcmeDomainValidationFailureReason_DOMAIN_NOT_ALLOWED = ''DOMAIN_NOT_ALLOWED''"
| "AcmeDomainValidationFailureReason_value AcmeDomainValidationFailureReason_ENDPOINT_NOT_ACTIVE = ''ENDPOINT_NOT_ACTIVE''"
| "AcmeDomainValidationFailureReason_value AcmeDomainValidationFailureReason_HOSTED_ZONE_NOT_FOUND = ''HOSTED_ZONE_NOT_FOUND''"
| "AcmeDomainValidationFailureReason_value AcmeDomainValidationFailureReason_INTERNAL_FAILURE = ''INTERNAL_FAILURE''"
| "AcmeDomainValidationFailureReason_value AcmeDomainValidationFailureReason_INVALID_CHANGE_BATCH = ''INVALID_CHANGE_BATCH''"
| "AcmeDomainValidationFailureReason_value AcmeDomainValidationFailureReason_INVALID_PUBLIC_DOMAIN = ''INVALID_PUBLIC_DOMAIN''"
| "AcmeDomainValidationFailureReason_value AcmeDomainValidationFailureReason_TIMED_OUT = ''TIMED_OUT''"

datatype AcmeDomainValidationStatus = AcmeDomainValidationStatus_DELETING |
    AcmeDomainValidationStatus_INVALID | AcmeDomainValidationStatus_VALID |
    AcmeDomainValidationStatus_VALIDATING

primrec AcmeDomainValidationStatus_value :: "AcmeDomainValidationStatus \<Rightarrow> string" where
  "AcmeDomainValidationStatus_value AcmeDomainValidationStatus_DELETING = ''DELETING''"
| "AcmeDomainValidationStatus_value AcmeDomainValidationStatus_INVALID = ''INVALID''"
| "AcmeDomainValidationStatus_value AcmeDomainValidationStatus_VALID = ''VALID''"
| "AcmeDomainValidationStatus_value AcmeDomainValidationStatus_VALIDATING = ''VALIDATING''"

datatype AcmeEndpointStatus = AcmeEndpointStatus_ACTIVE | AcmeEndpointStatus_CREATING |
    AcmeEndpointStatus_DELETING | AcmeEndpointStatus_FAILED

primrec AcmeEndpointStatus_value :: "AcmeEndpointStatus \<Rightarrow> string" where
  "AcmeEndpointStatus_value AcmeEndpointStatus_ACTIVE = ''ACTIVE''"
| "AcmeEndpointStatus_value AcmeEndpointStatus_CREATING = ''CREATING''"
| "AcmeEndpointStatus_value AcmeEndpointStatus_DELETING = ''DELETING''"
| "AcmeEndpointStatus_value AcmeEndpointStatus_FAILED = ''FAILED''"

datatype CertificateExport = CertificateExport_DISABLED | CertificateExport_ENABLED

primrec CertificateExport_value :: "CertificateExport \<Rightarrow> string" where
  "CertificateExport_value CertificateExport_DISABLED = ''DISABLED''"
| "CertificateExport_value CertificateExport_ENABLED = ''ENABLED''"

datatype CertificateKeyPairOrigin = CertificateKeyPairOrigin_ACME |
    CertificateKeyPairOrigin_AWS_MANAGED | CertificateKeyPairOrigin_CUSTOMER_PROVIDED

primrec CertificateKeyPairOrigin_value :: "CertificateKeyPairOrigin \<Rightarrow> string" where
  "CertificateKeyPairOrigin_value CertificateKeyPairOrigin_ACME = ''ACME''"
| "CertificateKeyPairOrigin_value CertificateKeyPairOrigin_AWS_MANAGED = ''AWS_MANAGED''"
| "CertificateKeyPairOrigin_value CertificateKeyPairOrigin_CUSTOMER_PROVIDED = ''CUSTOMER_PROVIDED''"

datatype CertificateManagedBy = CertificateManagedBy_CLOUDFRONT

primrec CertificateManagedBy_value :: "CertificateManagedBy \<Rightarrow> string" where
  "CertificateManagedBy_value CertificateManagedBy_CLOUDFRONT = ''CLOUDFRONT''"

datatype CertificateStatus_SDK = CertificateStatus_SDK_EXPIRED | CertificateStatus_SDK_FAILED |
    CertificateStatus_SDK_INACTIVE | CertificateStatus_SDK_ISSUED |
    CertificateStatus_SDK_PENDING_VALIDATION | CertificateStatus_SDK_REVOKED |
    CertificateStatus_SDK_VALIDATION_TIMED_OUT

primrec CertificateStatus_SDK_value :: "CertificateStatus_SDK \<Rightarrow> string" where
  "CertificateStatus_SDK_value CertificateStatus_SDK_EXPIRED = ''EXPIRED''"
| "CertificateStatus_SDK_value CertificateStatus_SDK_FAILED = ''FAILED''"
| "CertificateStatus_SDK_value CertificateStatus_SDK_INACTIVE = ''INACTIVE''"
| "CertificateStatus_SDK_value CertificateStatus_SDK_ISSUED = ''ISSUED''"
| "CertificateStatus_SDK_value CertificateStatus_SDK_PENDING_VALIDATION = ''PENDING_VALIDATION''"
| "CertificateStatus_SDK_value CertificateStatus_SDK_REVOKED = ''REVOKED''"
| "CertificateStatus_SDK_value CertificateStatus_SDK_VALIDATION_TIMED_OUT = ''VALIDATION_TIMED_OUT''"

datatype CertificateTransparencyLoggingPreference =
    CertificateTransparencyLoggingPreference_DISABLED |
    CertificateTransparencyLoggingPreference_ENABLED

primrec CertificateTransparencyLoggingPreference_value :: "CertificateTransparencyLoggingPreference \<Rightarrow> string" where
  "CertificateTransparencyLoggingPreference_value CertificateTransparencyLoggingPreference_DISABLED = ''DISABLED''"
| "CertificateTransparencyLoggingPreference_value CertificateTransparencyLoggingPreference_ENABLED = ''ENABLED''"

datatype CertificateType = CertificateType_AMAZON_ISSUED | CertificateType_IMPORTED |
    CertificateType_PRIVATE

primrec CertificateType_value :: "CertificateType \<Rightarrow> string" where
  "CertificateType_value CertificateType_AMAZON_ISSUED = ''AMAZON_ISSUED''"
| "CertificateType_value CertificateType_IMPORTED = ''IMPORTED''"
| "CertificateType_value CertificateType_PRIVATE = ''PRIVATE''"

datatype ComparisonOperator = ComparisonOperator_CONTAINS | ComparisonOperator_EQUALS

primrec ComparisonOperator_value :: "ComparisonOperator \<Rightarrow> string" where
  "ComparisonOperator_value ComparisonOperator_CONTAINS = ''CONTAINS''"
| "ComparisonOperator_value ComparisonOperator_EQUALS = ''EQUALS''"

datatype DomainScopeOption = DomainScopeOption_DISABLED | DomainScopeOption_ENABLED

primrec DomainScopeOption_value :: "DomainScopeOption \<Rightarrow> string" where
  "DomainScopeOption_value DomainScopeOption_DISABLED = ''DISABLED''"
| "DomainScopeOption_value DomainScopeOption_ENABLED = ''ENABLED''"

datatype DomainStatus = DomainStatus_FAILED | DomainStatus_PENDING_VALIDATION |
    DomainStatus_SUCCESS

primrec DomainStatus_value :: "DomainStatus \<Rightarrow> string" where
  "DomainStatus_value DomainStatus_FAILED = ''FAILED''"
| "DomainStatus_value DomainStatus_PENDING_VALIDATION = ''PENDING_VALIDATION''"
| "DomainStatus_value DomainStatus_SUCCESS = ''SUCCESS''"

datatype ExtendedKeyUsageName = ExtendedKeyUsageName_ANY | ExtendedKeyUsageName_CODE_SIGNING |
    ExtendedKeyUsageName_CUSTOM | ExtendedKeyUsageName_EMAIL_PROTECTION |
    ExtendedKeyUsageName_IPSEC_END_SYSTEM | ExtendedKeyUsageName_IPSEC_TUNNEL |
    ExtendedKeyUsageName_IPSEC_USER | ExtendedKeyUsageName_NONE |
    ExtendedKeyUsageName_OCSP_SIGNING | ExtendedKeyUsageName_TIME_STAMPING |
    ExtendedKeyUsageName_TLS_WEB_CLIENT_AUTHENTICATION |
    ExtendedKeyUsageName_TLS_WEB_SERVER_AUTHENTICATION

primrec ExtendedKeyUsageName_value :: "ExtendedKeyUsageName \<Rightarrow> string" where
  "ExtendedKeyUsageName_value ExtendedKeyUsageName_ANY = ''ANY''"
| "ExtendedKeyUsageName_value ExtendedKeyUsageName_CODE_SIGNING = ''CODE_SIGNING''"
| "ExtendedKeyUsageName_value ExtendedKeyUsageName_CUSTOM = ''CUSTOM''"
| "ExtendedKeyUsageName_value ExtendedKeyUsageName_EMAIL_PROTECTION = ''EMAIL_PROTECTION''"
| "ExtendedKeyUsageName_value ExtendedKeyUsageName_IPSEC_END_SYSTEM = ''IPSEC_END_SYSTEM''"
| "ExtendedKeyUsageName_value ExtendedKeyUsageName_IPSEC_TUNNEL = ''IPSEC_TUNNEL''"
| "ExtendedKeyUsageName_value ExtendedKeyUsageName_IPSEC_USER = ''IPSEC_USER''"
| "ExtendedKeyUsageName_value ExtendedKeyUsageName_NONE = ''NONE''"
| "ExtendedKeyUsageName_value ExtendedKeyUsageName_OCSP_SIGNING = ''OCSP_SIGNING''"
| "ExtendedKeyUsageName_value ExtendedKeyUsageName_TIME_STAMPING = ''TIME_STAMPING''"
| "ExtendedKeyUsageName_value ExtendedKeyUsageName_TLS_WEB_CLIENT_AUTHENTICATION = ''TLS_WEB_CLIENT_AUTHENTICATION''"
| "ExtendedKeyUsageName_value ExtendedKeyUsageName_TLS_WEB_SERVER_AUTHENTICATION = ''TLS_WEB_SERVER_AUTHENTICATION''"

datatype FailureReason = FailureReason_ADDITIONAL_VERIFICATION_REQUIRED |
    FailureReason_CAA_ERROR | FailureReason_DOMAIN_NOT_ALLOWED |
    FailureReason_DOMAIN_VALIDATION_DENIED | FailureReason_INVALID_PUBLIC_DOMAIN |
    FailureReason_NO_AVAILABLE_CONTACTS | FailureReason_OTHER | FailureReason_PCA_ACCESS_DENIED
    | FailureReason_PCA_INVALID_ARGS | FailureReason_PCA_INVALID_ARN |
    FailureReason_PCA_INVALID_DURATION | FailureReason_PCA_INVALID_STATE |
    FailureReason_PCA_LIMIT_EXCEEDED | FailureReason_PCA_NAME_CONSTRAINTS_VALIDATION |
    FailureReason_PCA_REQUEST_FAILED | FailureReason_PCA_RESOURCE_NOT_FOUND |
    FailureReason_SLR_NOT_FOUND

primrec FailureReason_value :: "FailureReason \<Rightarrow> string" where
  "FailureReason_value FailureReason_ADDITIONAL_VERIFICATION_REQUIRED = ''ADDITIONAL_VERIFICATION_REQUIRED''"
| "FailureReason_value FailureReason_CAA_ERROR = ''CAA_ERROR''"
| "FailureReason_value FailureReason_DOMAIN_NOT_ALLOWED = ''DOMAIN_NOT_ALLOWED''"
| "FailureReason_value FailureReason_DOMAIN_VALIDATION_DENIED = ''DOMAIN_VALIDATION_DENIED''"
| "FailureReason_value FailureReason_INVALID_PUBLIC_DOMAIN = ''INVALID_PUBLIC_DOMAIN''"
| "FailureReason_value FailureReason_NO_AVAILABLE_CONTACTS = ''NO_AVAILABLE_CONTACTS''"
| "FailureReason_value FailureReason_OTHER = ''OTHER''"
| "FailureReason_value FailureReason_PCA_ACCESS_DENIED = ''PCA_ACCESS_DENIED''"
| "FailureReason_value FailureReason_PCA_INVALID_ARGS = ''PCA_INVALID_ARGS''"
| "FailureReason_value FailureReason_PCA_INVALID_ARN = ''PCA_INVALID_ARN''"
| "FailureReason_value FailureReason_PCA_INVALID_DURATION = ''PCA_INVALID_DURATION''"
| "FailureReason_value FailureReason_PCA_INVALID_STATE = ''PCA_INVALID_STATE''"
| "FailureReason_value FailureReason_PCA_LIMIT_EXCEEDED = ''PCA_LIMIT_EXCEEDED''"
| "FailureReason_value FailureReason_PCA_NAME_CONSTRAINTS_VALIDATION = ''PCA_NAME_CONSTRAINTS_VALIDATION''"
| "FailureReason_value FailureReason_PCA_REQUEST_FAILED = ''PCA_REQUEST_FAILED''"
| "FailureReason_value FailureReason_PCA_RESOURCE_NOT_FOUND = ''PCA_RESOURCE_NOT_FOUND''"
| "FailureReason_value FailureReason_SLR_NOT_FOUND = ''SLR_NOT_FOUND''"

datatype KeyAlgorithm = KeyAlgorithm_EC_prime256v1 | KeyAlgorithm_EC_secp384r1 |
    KeyAlgorithm_EC_secp521r1 | KeyAlgorithm_RSA_1024 | KeyAlgorithm_RSA_2048 |
    KeyAlgorithm_RSA_3072 | KeyAlgorithm_RSA_4096

primrec KeyAlgorithm_value :: "KeyAlgorithm \<Rightarrow> string" where
  "KeyAlgorithm_value KeyAlgorithm_EC_prime256v1 = ''EC_prime256v1''"
| "KeyAlgorithm_value KeyAlgorithm_EC_secp384r1 = ''EC_secp384r1''"
| "KeyAlgorithm_value KeyAlgorithm_EC_secp521r1 = ''EC_secp521r1''"
| "KeyAlgorithm_value KeyAlgorithm_RSA_1024 = ''RSA_1024''"
| "KeyAlgorithm_value KeyAlgorithm_RSA_2048 = ''RSA_2048''"
| "KeyAlgorithm_value KeyAlgorithm_RSA_3072 = ''RSA_3072''"
| "KeyAlgorithm_value KeyAlgorithm_RSA_4096 = ''RSA_4096''"

datatype KeyUsageName = KeyUsageName_ANY | KeyUsageName_CERTIFICATE_SIGNING |
    KeyUsageName_CRL_SIGNING | KeyUsageName_CUSTOM | KeyUsageName_DATA_ENCIPHERMENT |
    KeyUsageName_DECIPHER_ONLY | KeyUsageName_DIGITAL_SIGNATURE | KeyUsageName_ENCIPHER_ONLY |
    KeyUsageName_KEY_AGREEMENT | KeyUsageName_KEY_ENCIPHERMENT | KeyUsageName_NON_REPUDIATION

primrec KeyUsageName_value :: "KeyUsageName \<Rightarrow> string" where
  "KeyUsageName_value KeyUsageName_ANY = ''ANY''"
| "KeyUsageName_value KeyUsageName_CERTIFICATE_SIGNING = ''CERTIFICATE_SIGNING''"
| "KeyUsageName_value KeyUsageName_CRL_SIGNING = ''CRL_SIGNING''"
| "KeyUsageName_value KeyUsageName_CUSTOM = ''CUSTOM''"
| "KeyUsageName_value KeyUsageName_DATA_ENCIPHERMENT = ''DATA_ENCIPHERMENT''"
| "KeyUsageName_value KeyUsageName_DECIPHER_ONLY = ''DECIPHER_ONLY''"
| "KeyUsageName_value KeyUsageName_DIGITAL_SIGNATURE = ''DIGITAL_SIGNATURE''"
| "KeyUsageName_value KeyUsageName_ENCIPHER_ONLY = ''ENCIPHER_ONLY''"
| "KeyUsageName_value KeyUsageName_KEY_AGREEMENT = ''KEY_AGREEMENT''"
| "KeyUsageName_value KeyUsageName_KEY_ENCIPHERMENT = ''KEY_ENCIPHERMENT''"
| "KeyUsageName_value KeyUsageName_NON_REPUDIATION = ''NON_REPUDIATION''"

datatype PrevalidationType = PrevalidationType_DNS_PREVALIDATION

primrec PrevalidationType_value :: "PrevalidationType \<Rightarrow> string" where
  "PrevalidationType_value PrevalidationType_DNS_PREVALIDATION = ''DNS_PREVALIDATION''"

datatype PublicKeyAlgorithm = PublicKeyAlgorithm_EC_prime256v1 | PublicKeyAlgorithm_EC_secp384r1
    | PublicKeyAlgorithm_RSA_2048

primrec PublicKeyAlgorithm_value :: "PublicKeyAlgorithm \<Rightarrow> string" where
  "PublicKeyAlgorithm_value PublicKeyAlgorithm_EC_prime256v1 = ''EC_prime256v1''"
| "PublicKeyAlgorithm_value PublicKeyAlgorithm_EC_secp384r1 = ''EC_secp384r1''"
| "PublicKeyAlgorithm_value PublicKeyAlgorithm_RSA_2048 = ''RSA_2048''"

datatype RecordType = RecordType_CNAME

primrec RecordType_value :: "RecordType \<Rightarrow> string" where
  "RecordType_value RecordType_CNAME = ''CNAME''"

datatype RenewalEligibility = RenewalEligibility_ELIGIBLE | RenewalEligibility_INELIGIBLE

primrec RenewalEligibility_value :: "RenewalEligibility \<Rightarrow> string" where
  "RenewalEligibility_value RenewalEligibility_ELIGIBLE = ''ELIGIBLE''"
| "RenewalEligibility_value RenewalEligibility_INELIGIBLE = ''INELIGIBLE''"

datatype RenewalStatus = RenewalStatus_FAILED | RenewalStatus_PENDING_AUTO_RENEWAL |
    RenewalStatus_PENDING_VALIDATION | RenewalStatus_SUCCESS

primrec RenewalStatus_value :: "RenewalStatus \<Rightarrow> string" where
  "RenewalStatus_value RenewalStatus_FAILED = ''FAILED''"
| "RenewalStatus_value RenewalStatus_PENDING_AUTO_RENEWAL = ''PENDING_AUTO_RENEWAL''"
| "RenewalStatus_value RenewalStatus_PENDING_VALIDATION = ''PENDING_VALIDATION''"
| "RenewalStatus_value RenewalStatus_SUCCESS = ''SUCCESS''"

datatype RevocationReason = RevocationReason_AFFILIATION_CHANGED |
    RevocationReason_A_A_COMPROMISE | RevocationReason_CA_COMPROMISE |
    RevocationReason_CERTIFICATE_HOLD | RevocationReason_CESSATION_OF_OPERATION |
    RevocationReason_KEY_COMPROMISE | RevocationReason_PRIVILEGE_WITHDRAWN |
    RevocationReason_REMOVE_FROM_CRL | RevocationReason_SUPERCEDED | RevocationReason_SUPERSEDED
    | RevocationReason_UNSPECIFIED

primrec RevocationReason_value :: "RevocationReason \<Rightarrow> string" where
  "RevocationReason_value RevocationReason_AFFILIATION_CHANGED = ''AFFILIATION_CHANGED''"
| "RevocationReason_value RevocationReason_A_A_COMPROMISE = ''A_A_COMPROMISE''"
| "RevocationReason_value RevocationReason_CA_COMPROMISE = ''CA_COMPROMISE''"
| "RevocationReason_value RevocationReason_CERTIFICATE_HOLD = ''CERTIFICATE_HOLD''"
| "RevocationReason_value RevocationReason_CESSATION_OF_OPERATION = ''CESSATION_OF_OPERATION''"
| "RevocationReason_value RevocationReason_KEY_COMPROMISE = ''KEY_COMPROMISE''"
| "RevocationReason_value RevocationReason_PRIVILEGE_WITHDRAWN = ''PRIVILEGE_WITHDRAWN''"
| "RevocationReason_value RevocationReason_REMOVE_FROM_CRL = ''REMOVE_FROM_CRL''"
| "RevocationReason_value RevocationReason_SUPERCEDED = ''SUPERCEDED''"
| "RevocationReason_value RevocationReason_SUPERSEDED = ''SUPERSEDED''"
| "RevocationReason_value RevocationReason_UNSPECIFIED = ''UNSPECIFIED''"

datatype SearchCertificatesSortBy = SearchCertificatesSortBy_ACME_ACCOUNT_ID |
    SearchCertificatesSortBy_ACME_ENDPOINT_ARN | SearchCertificatesSortBy_CERTIFICATE_ARN |
    SearchCertificatesSortBy_CERTIFICATE_KEY_PAIR_ORIGIN | SearchCertificatesSortBy_COMMON_NAME
    | SearchCertificatesSortBy_CREATED_AT | SearchCertificatesSortBy_EXPORTED |
    SearchCertificatesSortBy_EXPORT_OPTION | SearchCertificatesSortBy_IMPORTED_AT |
    SearchCertificatesSortBy_IN_USE | SearchCertificatesSortBy_ISSUED_AT |
    SearchCertificatesSortBy_KEY_ALGORITHM | SearchCertificatesSortBy_MANAGED_BY |
    SearchCertificatesSortBy_NOT_AFTER | SearchCertificatesSortBy_NOT_BEFORE |
    SearchCertificatesSortBy_RENEWAL_ELIGIBILITY | SearchCertificatesSortBy_RENEWAL_STATUS |
    SearchCertificatesSortBy_REVOKED_AT | SearchCertificatesSortBy_STATUS |
    SearchCertificatesSortBy_TYPE | SearchCertificatesSortBy_VALIDATION_METHOD

primrec SearchCertificatesSortBy_value :: "SearchCertificatesSortBy \<Rightarrow> string" where
  "SearchCertificatesSortBy_value SearchCertificatesSortBy_ACME_ACCOUNT_ID = ''ACME_ACCOUNT_ID''"
| "SearchCertificatesSortBy_value SearchCertificatesSortBy_ACME_ENDPOINT_ARN = ''ACME_ENDPOINT_ARN''"
| "SearchCertificatesSortBy_value SearchCertificatesSortBy_CERTIFICATE_ARN = ''CERTIFICATE_ARN''"
| "SearchCertificatesSortBy_value SearchCertificatesSortBy_CERTIFICATE_KEY_PAIR_ORIGIN = ''CERTIFICATE_KEY_PAIR_ORIGIN''"
| "SearchCertificatesSortBy_value SearchCertificatesSortBy_COMMON_NAME = ''COMMON_NAME''"
| "SearchCertificatesSortBy_value SearchCertificatesSortBy_CREATED_AT = ''CREATED_AT''"
| "SearchCertificatesSortBy_value SearchCertificatesSortBy_EXPORTED = ''EXPORTED''"
| "SearchCertificatesSortBy_value SearchCertificatesSortBy_EXPORT_OPTION = ''EXPORT_OPTION''"
| "SearchCertificatesSortBy_value SearchCertificatesSortBy_IMPORTED_AT = ''IMPORTED_AT''"
| "SearchCertificatesSortBy_value SearchCertificatesSortBy_IN_USE = ''IN_USE''"
| "SearchCertificatesSortBy_value SearchCertificatesSortBy_ISSUED_AT = ''ISSUED_AT''"
| "SearchCertificatesSortBy_value SearchCertificatesSortBy_KEY_ALGORITHM = ''KEY_ALGORITHM''"
| "SearchCertificatesSortBy_value SearchCertificatesSortBy_MANAGED_BY = ''MANAGED_BY''"
| "SearchCertificatesSortBy_value SearchCertificatesSortBy_NOT_AFTER = ''NOT_AFTER''"
| "SearchCertificatesSortBy_value SearchCertificatesSortBy_NOT_BEFORE = ''NOT_BEFORE''"
| "SearchCertificatesSortBy_value SearchCertificatesSortBy_RENEWAL_ELIGIBILITY = ''RENEWAL_ELIGIBILITY''"
| "SearchCertificatesSortBy_value SearchCertificatesSortBy_RENEWAL_STATUS = ''RENEWAL_STATUS''"
| "SearchCertificatesSortBy_value SearchCertificatesSortBy_REVOKED_AT = ''REVOKED_AT''"
| "SearchCertificatesSortBy_value SearchCertificatesSortBy_STATUS = ''STATUS''"
| "SearchCertificatesSortBy_value SearchCertificatesSortBy_TYPE = ''TYPE''"
| "SearchCertificatesSortBy_value SearchCertificatesSortBy_VALIDATION_METHOD = ''VALIDATION_METHOD''"

datatype SearchCertificatesSortOrder = SearchCertificatesSortOrder_ASCENDING |
    SearchCertificatesSortOrder_DESCENDING

primrec SearchCertificatesSortOrder_value :: "SearchCertificatesSortOrder \<Rightarrow> string" where
  "SearchCertificatesSortOrder_value SearchCertificatesSortOrder_ASCENDING = ''ASCENDING''"
| "SearchCertificatesSortOrder_value SearchCertificatesSortOrder_DESCENDING = ''DESCENDING''"

datatype SortBy = SortBy_CREATED_AT

primrec SortBy_value :: "SortBy \<Rightarrow> string" where
  "SortBy_value SortBy_CREATED_AT = ''CREATED_AT''"

datatype SortOrder = SortOrder_ASCENDING | SortOrder_DESCENDING

primrec SortOrder_value :: "SortOrder \<Rightarrow> string" where
  "SortOrder_value SortOrder_ASCENDING = ''ASCENDING''"
| "SortOrder_value SortOrder_DESCENDING = ''DESCENDING''"

datatype TimeType = TimeType_DAYS | TimeType_HOURS | TimeType_MINUTES

primrec TimeType_value :: "TimeType \<Rightarrow> string" where
  "TimeType_value TimeType_DAYS = ''DAYS''"
| "TimeType_value TimeType_HOURS = ''HOURS''"
| "TimeType_value TimeType_MINUTES = ''MINUTES''"

datatype ValidationMethod = ValidationMethod_DNS | ValidationMethod_EMAIL |
    ValidationMethod_HTTP

primrec ValidationMethod_value :: "ValidationMethod \<Rightarrow> string" where
  "ValidationMethod_value ValidationMethod_DNS = ''DNS''"
| "ValidationMethod_value ValidationMethod_EMAIL = ''EMAIL''"
| "ValidationMethod_value ValidationMethod_HTTP = ''HTTP''"

text \<open>The constants of the enumerations the controller's own code compares with.\<close>

lemma KeyAlgorithm_value_inject [simp]: "KeyAlgorithm_value k = KeyAlgorithm_value k' \<longleftrightarrow> k = k'"
  by (cases k; cases k'; simp)

lemma constants_used:
  "CertificateStatus_SDK_value s = ''ISSUED'' \<longleftrightarrow> s = CertificateStatus_SDK_ISSUED"
  "CertificateType_value t = ''IMPORTED'' \<longleftrightarrow> t = CertificateType_IMPORTED"
  "CertificateExport_value e = ''ENABLED'' \<longleftrightarrow> e = CertificateExport_ENABLED"
  subgoal by (cases s) simp_all
  subgoal by (cases t) simp_all
  subgoal by (cases e) simp_all
  done

end
