(* ===== verification/KeyAlgorithms.thy ===== *)
theory KeyAlgorithms
  imports Enums DeltaCompare CertExport
begin

text \<open>
  How the string functions of \<open>hooks.go\<close> treat the key algorithms of \<open>enums.go\<close>, in the spelling of
  the constants (underscores) and in the one ACM answers with (dashes).
\<close>

definition dashed :: "string \<Rightarrow> string" where
  "dashed s = ReplaceAllChar s (CHR ''_'') (CHR ''-'')"

definition RSA_algorithms :: "KeyAlgorithm set" where
  "RSA_algorithms =
     {KeyAlgorithm_RSA_1024, KeyAlgorithm_RSA_2048, KeyAlgorithm_RSA_3072, KeyAlgorithm_RSA_4096}"

lemma normalize_KeyAlgorithm [simp]:
  "normalizeKeyAlgorithm (KeyAlgorithm_value k) = KeyAlgorithm_value k"
  "normalizeKeyAlgorithm (dashed (KeyAlgorithm_value k)) = KeyAlgorithm_value k"
  by (cases k; simp add: normalizeKeyAlgorithm_def ReplaceAllChar_def dashed_def)+

lemma sublist_RSA:
  "sublist ''RSA'' (KeyAlgorithm_value k) \<longleftrightarrow> k \<in> RSA_algorithms"
  "sublist ''RSA'' (dashed (KeyAlgorithm_value k)) \<longleftrightarrow> k \<in> RSA_algorithms"
  unfolding Contains_iff_sublist [symmetric]
  by (cases k; simp add: RSA_algorithms_def dashed_def ReplaceAllChar_def)+

text \<open>
  C38. The comparison tells the key algorithms of the API apart and takes both spellings of one for the
  same: for every two constants it adds a difference exactly when they are different, whichever
  spelling each side has. And the test for RSA in \<open>DecryptPrivateKey\<close> is right for all of them: it
  panics exactly when the decrypted key is not of the family (RSA or elliptic curve) the constant
  names.
\<close>

theorem key_algorithm_constants:
  assumes "spec_KeyAlgorithm (ko_Spec a) = Some x" and "x \<in> {KeyAlgorithm_value j, dashed (KeyAlgorithm_value j)}"
    and "spec_KeyAlgorithm (ko_Spec b) = Some y" and "y \<in> {KeyAlgorithm_value k, dashed (KeyAlgorithm_value k)}"
    and "pem_Decode X p = Some bytes" and "ParsePKCS8PrivateKey X bytes pass = Inr key"
  shows "compareKeyAlgorithm a b delta =
      (if j = k then delta else delta @ [(''Spec.KeyAlgorithm'', VString (Some x), VString (Some y))]) \<and>
    (DecryptPrivateKey X p pass x = None \<longleftrightarrow>
      (case key of RSAKey _ \<Rightarrow> j \<notin> RSA_algorithms | ECDSAKey _ \<Rightarrow> j \<in> RSA_algorithms | OtherKey _ \<Rightarrow> True))"
  using assms
  by (auto simp: compareKeyAlgorithm_def DecryptPrivateKey_def Contains_iff_sublist sublist_RSA
      split: PrivateKey.split sum.split)

theorem key_algorithm_constants_witness:
  "compareKeyAlgorithm sampleExported sampleCert [] = [] \<and>
   DecryptPrivateKey sampleExt ''-RKEY'' ''pw'' ''RSA-2048'' \<noteq> None"
proof -
  have a: "spec_KeyAlgorithm (ko_Spec sampleExported) = Some ''RSA-2048''"
    and b: "spec_KeyAlgorithm (ko_Spec sampleCert) = Some ''RSA_2048''"
    by (simp_all add: sampleExported_def sampleCert_def emptySpec_def)
  have j: "''RSA-2048'' \<in> {KeyAlgorithm_value KeyAlgorithm_RSA_2048, dashed (KeyAlgorithm_value KeyAlgorithm_RSA_2048)}"
    and k: "''RSA_2048'' \<in> {KeyAlgorithm_value KeyAlgorithm_RSA_2048, dashed (KeyAlgorithm_value KeyAlgorithm_RSA_2048)}"
    by (simp_all add: dashed_def ReplaceAllChar_def)
  have pem: "pem_Decode sampleExt ''-RKEY'' = Some ''RKEY''"
    and key: "ParsePKCS8PrivateKey sampleExt ''RKEY'' ''pw'' = Inr (RSAKey ''KEY'')"
    by (simp_all add: sampleExt_def)
  show ?thesis
    using key_algorithm_constants [OF a j b k pem key, of "[]"] by (simp add: RSA_algorithms_def)
qed

end
