(* ===== verification/GoMemory.thy ===== *)
theory GoMemory
  imports ApiTypes
begin

text \<open>
  Go objects in memory, for the functions of \<open>zz_generated.deepcopy.go\<close>, whose point is which
  cells two objects share. Elsewhere an object is a value.

  A memory is a store of cells and the first address never allocated. A string, a bool, a
  pointer and the header of a slice take one cell each, a struct takes its fields one after
  another, an array its elements. A type descriptor tells how to read an object
  (\<open>rd\<close>, a tree) and which cells it reaches (\<open>fp\<close>, its footprint). Structs of other modules
  are opaque: how they are laid out, read and copied is a parameter with laws.

  The combinators are the statements the generated functions are made of. \<open>contract\<close> says what a
  copy function promises; every combinator keeps it, and the locale \<open>copier\<close> draws the
  conclusions for a whole \<open>DeepCopy\<close>.
\<close>

section \<open>Memory\<close>

type_synonym addr = nat

datatype extval =
    XObjectMeta ObjectMeta
  | XListMeta string
  | XReferenceWrapper AWSResourceReferenceWrapper
  | XResourceMetadata ResourceMetadata
  | XCondition Condition
  | XTime time

datatype slot =
    SStr string
  | SBool bool
  | SPtr "addr option"
  | SSlice "(addr \<times> nat) option"
  | SOpaque extval

record mem =
  cell :: "addr \<Rightarrow> slot"
  brk :: addr

datatype extty = ExtObjectMeta | ExtListMeta | ExtReferenceWrapper | ExtResourceMetadata | ExtCondition
  | ExtTime

datatype ty = TStr | TBool | TPtr ty | TSlice ty | TStruct "ty list" | TExt extty

datatype gotree =
    Str string | Bool bool | Null | Ref gotree | Elems "gotree list" | Fields "gotree list" | Opaque extval

record extlib =
  ext_size :: "extty \<Rightarrow> nat"
  ext_zero :: "extty \<Rightarrow> slot list"
  ext_rd :: "extty \<Rightarrow> mem \<Rightarrow> addr \<Rightarrow> extval option"
  ext_fp :: "extty \<Rightarrow> mem \<Rightarrow> addr \<Rightarrow> addr list"
  ext_DeepCopyInto :: "extty \<Rightarrow> addr \<Rightarrow> addr \<Rightarrow> mem \<Rightarrow> mem"
  ext_DeepCopy :: "extty \<Rightarrow> addr \<Rightarrow> mem \<Rightarrow> addr \<times> mem"

fun sz :: "extlib \<Rightarrow> ty \<Rightarrow> nat" and szs :: "extlib \<Rightarrow> ty list \<Rightarrow> nat" where
  "sz L (TStruct ts) = szs L ts"
| "sz L (TExt e) = ext_size L e"
| "sz L _ = 1"
| "szs L [] = 0"
| "szs L (t # ts) = sz L t + szs L ts"

fun zero :: "extlib \<Rightarrow> ty \<Rightarrow> slot list" and zeros :: "extlib \<Rightarrow> ty list \<Rightarrow> slot list" where
  "zero L TStr = [SStr []]"
| "zero L TBool = [SBool False]"
| "zero L (TPtr t) = [SPtr None]"
| "zero L (TSlice t) = [SSlice None]"
| "zero L (TStruct ts) = zeros L ts"
| "zero L (TExt e) = ext_zero L e"
| "zeros L [] = []"
| "zeros L (t # ts) = zero L t @ zeros L ts"

fun rd :: "extlib \<Rightarrow> ty \<Rightarrow> mem \<Rightarrow> addr \<Rightarrow> gotree option"
  and rds :: "extlib \<Rightarrow> ty list \<Rightarrow> mem \<Rightarrow> addr \<Rightarrow> gotree list option" where
  "rd L TStr m a = (case cell m a of SStr s \<Rightarrow> Some (Str s) | _ \<Rightarrow> None)"
| "rd L TBool m a = (case cell m a of SBool b \<Rightarrow> Some (Bool b) | _ \<Rightarrow> None)"
| "rd L (TPtr t) m a =
     (case cell m a of
        SPtr None \<Rightarrow> Some Null
      | SPtr (Some p) \<Rightarrow> map_option Ref (rd L t m p)
      | _ \<Rightarrow> None)"
| "rd L (TSlice t) m a =
     (case cell m a of
        SSlice None \<Rightarrow> Some Null
      | SSlice (Some (p, n)) \<Rightarrow>
          map_option Elems (those (map (\<lambda>k. rd L t m (p + k * sz L t)) [0..<n]))
      | _ \<Rightarrow> None)"
| "rd L (TStruct ts) m a = map_option Fields (rds L ts m a)"
| "rd L (TExt e) m a = map_option Opaque (ext_rd L e m a)"
| "rds L [] m a = Some []"
| "rds L (t # ts) m a =
     (case rd L t m a of
        None \<Rightarrow> None
      | Some v \<Rightarrow> map_option (\<lambda>vs. v # vs) (rds L ts m (a + sz L t)))"

fun fp :: "extlib \<Rightarrow> ty \<Rightarrow> mem \<Rightarrow> addr \<Rightarrow> addr list"
  and fps :: "extlib \<Rightarrow> ty list \<Rightarrow> mem \<Rightarrow> addr \<Rightarrow> addr list" where
  "fp L TStr m a = [a]"
| "fp L TBool m a = [a]"
| "fp L (TPtr t) m a = a # (case cell m a of SPtr (Some p) \<Rightarrow> fp L t m p | _ \<Rightarrow> [])"
| "fp L (TSlice t) m a =
     a # (case cell m a of
            SSlice (Some (p, n)) \<Rightarrow> concat (map (\<lambda>k. fp L t m (p + k * sz L t)) [0..<n])
          | _ \<Rightarrow> [])"
| "fp L (TStruct ts) m a = fps L ts m a"
| "fp L (TExt e) m a = ext_fp L e m a"
| "fps L [] m a = []"
| "fps L (t # ts) m a = fp L t m a @ fps L ts m (a + sz L t)"

section \<open>Statements of the generated code\<close>

definition setCell :: "addr \<Rightarrow> slot \<Rightarrow> mem \<Rightarrow> mem" where
  "setCell a s m = m\<lparr>cell := (cell m)(a := s)\<rparr>"

definition assign :: "nat \<Rightarrow> addr \<Rightarrow> addr \<Rightarrow> mem \<Rightarrow> mem" where
  "assign n i out m =
     m\<lparr>cell := (\<lambda>x. if out \<le> x \<and> x < out + n then cell m (i + (x - out)) else cell m x)\<rparr>"

definition alloc :: "extlib \<Rightarrow> ty \<Rightarrow> nat \<Rightarrow> mem \<Rightarrow> addr \<times> mem" where
  "alloc L t n m =
     (brk m, m\<lparr>cell := (\<lambda>x. if brk m \<le> x \<and> x < brk m + n * sz L t
                            then zero L t ! ((x - brk m) mod sz L t) else cell m x),
               brk := brk m + n * sz L t\<rparr>)"

definition newInto ::
  "extlib \<Rightarrow> ty \<Rightarrow> (addr \<Rightarrow> addr \<Rightarrow> mem \<Rightarrow> mem) \<Rightarrow> addr \<Rightarrow> addr \<Rightarrow> mem \<Rightarrow> mem" where
  "newInto L t into i out m =
     (case cell m i of
        SPtr (Some p) \<Rightarrow>
          let (q, m) = alloc L t 1 m;
              m = setCell out (SPtr (Some q)) m
          in into p q m
      | _ \<Rightarrow> m)"

definition newCopy :: "extlib \<Rightarrow> extty \<Rightarrow> addr \<Rightarrow> addr \<Rightarrow> mem \<Rightarrow> mem" where
  "newCopy L e i out m =
     (case cell m i of
        SPtr (Some p) \<Rightarrow> let (q, m) = ext_DeepCopy L e p m in setCell out (SPtr (Some q)) m
      | _ \<Rightarrow> m)"

definition makeEach ::
  "extlib \<Rightarrow> ty \<Rightarrow> (addr \<Rightarrow> addr \<Rightarrow> mem \<Rightarrow> mem) \<Rightarrow> addr \<Rightarrow> addr \<Rightarrow> mem \<Rightarrow> mem" where
  "makeEach L t elem i out m =
     (case cell m i of
        SSlice (Some (p, n)) \<Rightarrow>
          let (q, m) = alloc L t n m;
              m = setCell out (SSlice (Some (q, n))) m
          in fold (\<lambda>k. elem (p + k * sz L t) (q + k * sz L t)) [0..<n] m
      | _ \<Rightarrow> m)"

fun off :: "extlib \<Rightarrow> (string \<times> ty) list \<Rightarrow> string \<Rightarrow> nat" where
  "off L [] name = 0"
| "off L ((f, t) # fs) name = (if f = name then 0 else sz L t + off L fs name)"

definition structCopy ::
  "extlib \<Rightarrow> (string \<times> ty) list \<Rightarrow> (string \<times> (addr \<Rightarrow> addr \<Rightarrow> mem \<Rightarrow> mem)) list \<Rightarrow>
     addr \<Rightarrow> addr \<Rightarrow> mem \<Rightarrow> mem" where
  "structCopy L fs steps i out m =
     fold (\<lambda>(f, step). step (i + off L fs f) (out + off L fs f)) steps
       (assign (szs L (map snd fs)) i out m)"

definition deepCopy ::
  "extlib \<Rightarrow> ty \<Rightarrow> (addr \<Rightarrow> addr \<Rightarrow> mem \<Rightarrow> mem) \<Rightarrow> addr option \<Rightarrow> mem \<Rightarrow> addr option \<times> mem" where
  "deepCopy L t into i m =
     (case i of
        None \<Rightarrow> (None, m)
      | Some i \<Rightarrow> let (out, m) = alloc L t 1 m in (Some out, into i out m))"

section \<open>The contract of a copy\<close>

definition valid :: "extlib \<Rightarrow> ty \<Rightarrow> mem \<Rightarrow> addr \<Rightarrow> gotree \<Rightarrow> bool" where
  "valid L t m a v \<longleftrightarrow> rd L t m a = Some v \<and> set (fp L t m a) \<subseteq> {..<brk m}"

definition copied :: "extlib \<Rightarrow> ty \<Rightarrow> addr \<Rightarrow> gotree \<Rightarrow> mem \<Rightarrow> mem \<Rightarrow> bool" where
  "copied L t out v m m' \<longleftrightarrow>
     brk m \<le> brk m' \<and>
     (\<forall>x < brk m. x \<notin> {out..<out + sz L t} \<longrightarrow> cell m' x = cell m x) \<and>
     valid L t m' out v \<and>
     set (fp L t m' out) \<subseteq> {out..<out + sz L t} \<union> {brk m..<brk m'} \<and>
     distinct (fp L t m' out)"

definition cells :: "mem \<Rightarrow> addr \<Rightarrow> nat \<Rightarrow> slot list" where
  "cells m a n = map (cell m) [a..<a + n]"

definition contract ::
  "extlib \<Rightarrow> (slot list \<Rightarrow> slot list \<Rightarrow> bool) \<Rightarrow> ty \<Rightarrow> (addr \<Rightarrow> addr \<Rightarrow> mem \<Rightarrow> mem) \<Rightarrow> bool" where
  "contract L P t f \<longleftrightarrow>
     (\<forall>m i out v. valid L t m i v \<longrightarrow> out + sz L t \<le> brk m \<longrightarrow>
        set (fp L t m i) \<inter> {out..<out + sz L t} = {} \<longrightarrow>
        P (cells m i (sz L t)) (cells m out (sz L t)) \<longrightarrow> copied L t out v m (f i out m))"

definition fresh_copy :: "extlib \<Rightarrow> ty \<Rightarrow> gotree \<Rightarrow> mem \<Rightarrow> addr \<Rightarrow> mem \<Rightarrow> bool" where
  "fresh_copy L t v m q m' \<longleftrightarrow>
     brk m \<le> q \<and> brk m \<le> brk m' \<and> (\<forall>x < brk m. cell m' x = cell m x) \<and>
     valid L t m' q v \<and> set (fp L t m' q) \<subseteq> {brk m..<brk m'} \<and> distinct (fp L t m' q)"

definition ext_copy_laws :: "extlib \<Rightarrow> bool" where
  "ext_copy_laws L \<longleftrightarrow>
     (\<forall>e m a. {a..<a + ext_size L e} \<subseteq> set (ext_fp L e m a)) \<and>
     (\<forall>e m m' a. (\<forall>x \<in> set (ext_fp L e m a). cell m' x = cell m x) \<longrightarrow>
        ext_rd L e m' a = ext_rd L e m a \<and> ext_fp L e m' a = ext_fp L e m a) \<and>
     (\<forall>e. contract L (\<lambda>_ _. True) (TExt e) (ext_DeepCopyInto L e)) \<and>
     (\<forall>e m i v. valid L (TExt e) m i v \<longrightarrow>
        fresh_copy L (TExt e) v m (fst (ext_DeepCopy L e i m)) (snd (ext_DeepCopy L e i m))) \<and>
     (\<forall>e. length (ext_zero L e) = ext_size L e)"

section \<open>Reading depends on the footprint\<close>

lemma ext_copy_region: "ext_copy_laws L \<Longrightarrow> {a..<a + ext_size L e} \<subseteq> set (ext_fp L e m a)"
  and ext_copy_cong: "ext_copy_laws L \<Longrightarrow> \<forall>x \<in> set (ext_fp L e m a). cell m' x = cell m x \<Longrightarrow>
    ext_rd L e m' a = ext_rd L e m a \<and> ext_fp L e m' a = ext_fp L e m a"
  and ext_copy_into: "ext_copy_laws L \<Longrightarrow> contract L (\<lambda>_ _. True) (TExt e) (ext_DeepCopyInto L e)"
  and ext_copy_copy: "ext_copy_laws L \<Longrightarrow> valid L (TExt e) m i v \<Longrightarrow>
    fresh_copy L (TExt e) v m (fst (ext_DeepCopy L e i m)) (snd (ext_DeepCopy L e i m))"
  and ext_copy_zero: "ext_copy_laws L \<Longrightarrow> length (ext_zero L e) = ext_size L e"
  unfolding ext_copy_laws_def by blast+

lemma rd_fp_cong:
  assumes "ext_copy_laws L"
  shows "\<forall>x \<in> set (fp L t m a). cell m' x = cell m x \<Longrightarrow> rd L t m' a = rd L t m a \<and> fp L t m' a = fp L t m a"
    and "\<forall>x \<in> set (fps L ts m a). cell m' x = cell m x \<Longrightarrow>
      rds L ts m' a = rds L ts m a \<and> fps L ts m' a = fps L ts m a"
  using assms
proof (induction L t m a and L ts m a rule: fp_fps.induct)
  case (4 L t m a)
  show ?case
  proof (cases "cell m a")
    case (SSlice s)
    show ?thesis
    proof (cases s)
      case (Some pn)
      obtain p n where pn: "pn = (p, n)" by (cases pn)
      have IH: "rd L t m' (p + k * sz L t) = rd L t m (p + k * sz L t) \<and>
          fp L t m' (p + k * sz L t) = fp L t m (p + k * sz L t)" if "k < n" for k
        by (rule "4.IH" [OF SSlice Some pn [symmetric]]) (use "4.prems" SSlice Some pn that in auto)
      have "map (\<lambda>k. rd L t m' (p + k * sz L t)) [0..<n] = map (\<lambda>k. rd L t m (p + k * sz L t)) [0..<n]"
        and "map (\<lambda>k. fp L t m' (p + k * sz L t)) [0..<n] = map (\<lambda>k. fp L t m (p + k * sz L t)) [0..<n]"
        using IH by simp_all
      moreover have "cell m' a = cell m a" using "4.prems" by simp
      ultimately show ?thesis using SSlice Some pn by (simp only: rd.simps fp.simps slot.simps option.simps prod.simps)
    qed (use SSlice 4 in auto)
  qed (use 4 in auto)
next
  case (6 L e m a)
  then show ?case using ext_copy_cong [of L e m a m'] by simp
qed (auto split: slot.splits option.splits)

text \<open>The cells of an object itself are part of its footprint.\<close>

lemma fp_region:
  assumes "ext_copy_laws L"
  shows "{a..<a + sz L t} \<subseteq> set (fp L t m a)" and "{a..<a + szs L ts} \<subseteq> set (fps L ts m a)"
  using assms
proof (induction L t m a and L ts m a rule: fp_fps.induct)
  case (8 L t ts m a)
  have "{a..<a + szs L (t # ts)} = {a..<a + sz L t} \<union> {a + sz L t..<a + sz L t + szs L ts}" by auto
  then show ?case using 8 by fastforce
qed (use ext_copy_region in \<open>simp_all\<close>)

lemma valid_cong:
  assumes "ext_copy_laws L" and "valid L t m a v" and "\<And>x. x \<in> set (fp L t m a) \<Longrightarrow> cell m' x = cell m x"
    and "brk m \<le> brk m'"
  shows "valid L t m' a v \<and> fp L t m' a = fp L t m a"
  using rd_fp_cong(1) [OF assms(1), of t m a m'] assms(2-4) by (auto simp: valid_def)

lemma valid_region:
  assumes "ext_copy_laws L" and "valid L t m a v"
  shows "a + sz L t \<le> brk m \<or> sz L t = 0"
proof (cases "sz L t")
  case (Suc n)
  then have "a + n \<in> {a..<a + sz L t}" by simp
  then have "a + n \<in> set (fp L t m a)" using fp_region(1) [OF assms(1)] by blast
  then have "a + n < brk m" using assms(2) by (auto simp: valid_def)
  with Suc show ?thesis by simp
qed simp

lemma cells_append: "cells m a (k + n) = cells m a k @ cells m (a + k) n"
proof -
  have "[a..<a + (k + n)] = [a..<a + k] @ [a + k..<a + k + n]"
    by (metis add.assoc le_add1 upt_add_eq_append)
  then show ?thesis by (simp add: cells_def)
qed

lemma cells_length [simp]: "length (cells m a n) = n"
  by (simp add: cells_def)

lemma cells_cong: "(\<And>x. x \<in> {a..<a + n} \<Longrightarrow> cell m' x = cell m x) \<Longrightarrow> cells m' a n = cells m a n"
  by (simp add: cells_def)

lemma contractD:
  assumes "contract L P t f" and "valid L t m i v" and "out + sz L t \<le> brk m"
    and "set (fp L t m i) \<inter> {out..<out + sz L t} = {}"
    and "P (cells m i (sz L t)) (cells m out (sz L t))"
  shows "copied L t out v m (f i out m)"
  using assms by (simp add: contract_def)

section \<open>Blocks one after another\<close>

text \<open>The fields of a struct, or the elements of an array, each with its copy function.\<close>

fun runBlocks ::
  "extlib \<Rightarrow> (ty \<times> (addr \<Rightarrow> addr \<Rightarrow> mem \<Rightarrow> mem)) list \<Rightarrow> addr \<Rightarrow> addr \<Rightarrow> mem \<Rightarrow> mem" where
  "runBlocks L [] i out m = m"
| "runBlocks L ((t, g) # bs) i out m = runBlocks L bs (i + sz L t) (out + sz L t) (g i out m)"

fun blocks_ready ::
  "extlib \<Rightarrow> (slot list \<Rightarrow> slot list \<Rightarrow> bool) \<Rightarrow> ty list \<Rightarrow> mem \<Rightarrow> addr \<Rightarrow> addr \<Rightarrow> bool" where
  "blocks_ready L P [] m i out \<longleftrightarrow> True"
| "blocks_ready L P (t # ts) m i out \<longleftrightarrow>
     P (cells m i (sz L t)) (cells m out (sz L t)) \<and>
     blocks_ready L P ts m (i + sz L t) (out + sz L t)"

lemma blocks_ready_cong:
  "cells m' i (szs L ts) = cells m i (szs L ts) \<Longrightarrow> cells m' out (szs L ts) = cells m out (szs L ts) \<Longrightarrow>
   blocks_ready L P ts m' i out = blocks_ready L P ts m i out"
  by (induction ts arbitrary: i out) (auto simp: cells_append)

lemma copied_frame: "copied L t out v m m' \<Longrightarrow> x < brk m \<Longrightarrow> x \<notin> {out..<out + sz L t} \<Longrightarrow> cell m' x = cell m x"
  and copied_brk: "copied L t out v m m' \<Longrightarrow> brk m \<le> brk m'"
  and copied_valid: "copied L t out v m m' \<Longrightarrow> valid L t m' out v"
  and copied_fp: "copied L t out v m m' \<Longrightarrow> x \<in> set (fp L t m' out) \<Longrightarrow>
    x \<in> {out..<out + sz L t} \<or> brk m \<le> x \<and> x < brk m'"
  and copied_distinct: "copied L t out v m m' \<Longrightarrow> distinct (fp L t m' out)"
  by (auto simp: copied_def dest: subsetD)

lemmas copied_facts = copied_frame copied_brk copied_valid copied_fp copied_distinct

lemma copied_Cons:
  assumes laws: "ext_copy_laws L" and hd: "copied L t out v m m1"
    and tl: "copied L (TStruct ts) (out + sz L t) (Fields vs) m1 m2"
    and room: "out + sz L t + szs L ts \<le> brk m"
  shows "copied L (TStruct (t # ts)) out (Fields (v # vs)) m m2"
proof -
  have keep: "cell m2 x = cell m1 x" if "x \<in> set (fp L t m1 out)" for x
    using copied_fp [OF hd that] copied_frame [OF tl, of x] copied_brk [OF hd] room by auto
  have hd2: "valid L t m2 out v \<and> fp L t m2 out = fp L t m1 out"
    by (rule valid_cong [OF laws copied_valid [OF hd] keep copied_brk [OF tl]])
  have "set (fp L t m1 out) \<inter> set (fps L ts m2 (out + sz L t)) = {}"
    using copied_fp [OF hd] copied_fp [OF tl] copied_brk [OF hd] room by (fastforce simp: disjoint_iff)
  moreover have "set (fps L ts m2 (out + sz L t)) \<subseteq> {out..<out + (sz L t + szs L ts)} \<union> {brk m..<brk m2}"
    using copied_fp [OF tl] copied_brk [OF hd] by fastforce
  moreover have "set (fp L t m1 out) \<subseteq> {out..<out + (sz L t + szs L ts)} \<union> {brk m..<brk m2}"
    using copied_fp [OF hd] copied_brk [OF tl] by fastforce
  moreover have "cell m2 x = cell m x" if "x < brk m" "x \<notin> {out..<out + (sz L t + szs L ts)}" for x
    using that copied_frame [OF hd, of x] copied_frame [OF tl, of x] copied_brk [OF hd] by auto
  ultimately show ?thesis
    using hd2 copied_valid [OF tl] copied_distinct [OF hd] copied_distinct [OF tl]
      copied_brk [OF hd] copied_brk [OF tl]
    by (auto simp: copied_def valid_def)
qed

lemma runBlocks_copied:
  assumes laws: "ext_copy_laws L"
  shows "\<forall>(t, g) \<in> set bs. contract L P t g \<Longrightarrow> valid L (TStruct (map fst bs)) m i v \<Longrightarrow>
    out + szs L (map fst bs) \<le> brk m \<Longrightarrow>
    set (fps L (map fst bs) m i) \<inter> {out..<out + szs L (map fst bs)} = {} \<Longrightarrow>
    blocks_ready L P (map fst bs) m i out \<Longrightarrow>
    copied L (TStruct (map fst bs)) out v m (runBlocks L bs i out m)"
proof (induction bs arbitrary: m i out v)
  case Nil
  then show ?case by (simp add: copied_def valid_def)
next
  case (Cons b bs)
  obtain t g where b: "b = (t, g)" by (cases b)
  let ?ts = "map fst bs" and ?m = "g i out m"
  from Cons.prems(2) b obtain v0 vs where v: "v = Fields (v0 # vs)"
    and hd: "valid L t m i v0" and tl: "valid L (TStruct ?ts) m (i + sz L t) (Fields vs)"
    by (auto simp: valid_def split: option.splits)
  have dis: "set (fp L t m i) \<inter> {out..<out + sz L t} = {}"
    and dis': "set (fps L ?ts m (i + sz L t)) \<inter> {out..<out + sz L t + szs L ?ts} = {}"
    using Cons.prems(4) b by (auto simp: disjoint_iff)
  have c: "copied L t out v0 m ?m"
    by (rule contractD [where P = P, OF _ hd _ dis]) (use Cons.prems b in auto)
  have keep: "cell ?m x = cell m x" if "x \<in> set (fps L ?ts m (i + sz L t))" for x
  proof (rule copied_frame [OF c])
    show "x < brk m" using tl that by (auto simp: valid_def)
    show "x \<notin> {out..<out + sz L t}" using dis' that by (auto simp: disjoint_iff)
  qed
  have tl': "valid L (TStruct ?ts) ?m (i + sz L t) (Fields vs)"
    and fps: "fps L ?ts ?m (i + sz L t) = fps L ?ts m (i + sz L t)"
    using valid_cong [OF laws tl, of ?m] keep copied_brk [OF c] by auto
  have "cells ?m (i + sz L t) (szs L ?ts) = cells m (i + sz L t) (szs L ?ts)"
    by (rule cells_cong) (use keep fp_region(2) [OF laws] in blast)
  moreover have "cells ?m (out + sz L t) (szs L ?ts) = cells m (out + sz L t) (szs L ?ts)"
    by (rule cells_cong, rule copied_frame [OF c]) (use Cons.prems(3) b in auto)
  ultimately have "blocks_ready L P ?ts ?m (i + sz L t) (out + sz L t)"
    using Cons.prems(5) b blocks_ready_cong [of ?m "i + sz L t" L ?ts m "out + sz L t" P] by simp
  then have "copied L (TStruct ?ts) (out + sz L t) (Fields vs) ?m
      (runBlocks L bs (i + sz L t) (out + sz L t) ?m)"
  proof (intro Cons.IH tl')
    show "\<forall>(t, g) \<in> set bs. contract L P t g" using Cons.prems(1) by simp
    show "out + sz L t + szs L ?ts \<le> brk ?m" using Cons.prems(3) b copied_brk [OF c] by simp
    show "set (fps L ?ts ?m (i + sz L t)) \<inter> {out + sz L t..<out + sz L t + szs L ?ts} = {}"
      unfolding fps using dis' by (auto simp: disjoint_iff)
  qed
  then show ?case using copied_Cons [OF laws c] Cons.prems(3) b v by simp
qed

section \<open>Every statement keeps the contract\<close>

text \<open>Where the target is a shallow copy of the source, and where it is only not a stale pointer.\<close>

abbreviation (input) "anything \<equiv> (\<lambda>_ _ :: slot list. True)"

definition nil_kept :: "slot list \<Rightarrow> slot list \<Rightarrow> bool" where
  "nil_kept source target \<longleftrightarrow> (source = [SPtr None] \<longrightarrow> target = [SPtr None])"

lemma contract_mono: "contract L P t f \<Longrightarrow> (\<And>x y. Q x y \<Longrightarrow> P x y) \<Longrightarrow> contract L Q t f"
  unfolding contract_def by blast

fun flat :: "ty \<Rightarrow> bool" where
  "flat TStr \<longleftrightarrow> True"
| "flat TBool \<longleftrightarrow> True"
| "flat (TStruct ts) \<longleftrightarrow> list_all flat ts"
| "flat _ \<longleftrightarrow> False"

lemma alloc_sel [simp]:
  "fst (alloc L t n m) = brk m" "brk (snd (alloc L t n m)) = brk m + n * sz L t"
  "x < brk m \<Longrightarrow> cell (snd (alloc L t n m)) x = cell m x"
  by (simp_all add: alloc_def)

lemma setCell_sel [simp]:
  "brk (setCell a s m) = brk m" "cell (setCell a s m) x = (if x = a then s else cell m x)"
  by (simp_all add: setCell_def)

lemma assign_sel [simp]:
  "brk (assign n i out m) = brk m"
  "x \<notin> {out..<out + n} \<Longrightarrow> cell (assign n i out m) x = cell m x"
  "k < n \<Longrightarrow> cell (assign n i out m) (out + k) = cell m (i + k)"
  by (auto simp: assign_def)

text \<open>A fresh object of the pointed-to type, filled by a copy function.\<close>

lemma fresh_copied:
  fixes s :: slot
  assumes laws: "ext_copy_laws L" and f: "contract L anything t f" and v: "valid L t m p v"
    and out: "out < brk m" "out \<notin> set (fp L t m p)"
    and m1: "m1 = setCell out s (snd (alloc L t 1 m))"
  shows "copied L t (brk m) v m1 (f p (brk m) m1)"
proof (rule contractD [where P = anything, OF f])
  have "cell m1 x = cell m x" if "x \<in> set (fp L t m p)" for x
    using that v out by (auto simp: m1 valid_def)
  then have "valid L t m1 p v \<and> fp L t m1 p = fp L t m p"
    by (intro valid_cong [OF laws v]) (simp_all add: m1)
  then show "valid L t m1 p v" and "set (fp L t m1 p) \<inter> {brk m..<brk m + sz L t} = {}"
    using v by (auto simp: valid_def)
qed (simp_all add: m1)

lemma contract_newInto:
  assumes laws: "ext_copy_laws L" and f: "contract L anything t f"
  shows "contract L nil_kept (TPtr t) (newInto L t f)"
  unfolding contract_def
proof (intro allI impI)
  fix m i out v
  assume v: "valid L (TPtr t) m i v" and out: "out + sz L (TPtr t) \<le> brk m"
    and dis: "set (fp L (TPtr t) m i) \<inter> {out..<out + sz L (TPtr t)} = {}"
    and nil: "nil_kept (cells m i (sz L (TPtr t))) (cells m out (sz L (TPtr t)))"
  show "copied L (TPtr t) out v m (newInto L t f i out m)"
  proof (cases "cell m i = SPtr None")
    case True
    with nil have "cell m out = SPtr None" by (simp add: nil_kept_def cells_def)
    with True v out show ?thesis
      by (auto simp: copied_def valid_def newInto_def)
  next
    case False
    with v obtain p w where p: "cell m i = SPtr (Some p)" and w: "valid L t m p w" and v_def: "v = Ref w"
      by (auto simp: valid_def split: slot.splits option.splits)
    let ?m = "setCell out (SPtr (Some (brk m))) (snd (alloc L t 1 m))"
    have "out \<notin> set (fp L t m p)" using dis p by auto
    with out have c: "copied L t (brk m) w ?m (f p (brk m) ?m)"
      by (intro fresh_copied [OF laws f w]) simp_all
    have run: "newInto L t f i out m = f p (brk m) ?m"
      using p by (simp add: newInto_def alloc_def)
    have "cell (f p (brk m) ?m) out = SPtr (Some (brk m))"
      using copied_frame [OF c, of out] out by simp
    moreover have "out \<notin> set (fp L t (f p (brk m) ?m) (brk m))"
      using copied_fp [OF c, of out] out by auto
    ultimately show ?thesis
      using copied_valid [OF c] copied_distinct [OF c] copied_brk [OF c] copied_fp [OF c]
        copied_frame [OF c] out
      by (fastforce simp: run v_def copied_def valid_def)
  qed
qed

lemma contract_newCopy:
  assumes laws: "ext_copy_laws L"
  shows "contract L nil_kept (TPtr (TExt e)) (newCopy L e)"
  unfolding contract_def
proof (intro allI impI)
  fix m i out v
  assume v: "valid L (TPtr (TExt e)) m i v" and out: "out + sz L (TPtr (TExt e)) \<le> brk m"
    and nil: "nil_kept (cells m i (sz L (TPtr (TExt e)))) (cells m out (sz L (TPtr (TExt e))))"
  show "copied L (TPtr (TExt e)) out v m (newCopy L e i out m)"
  proof (cases "cell m i = SPtr None")
    case True
    with nil have "cell m out = SPtr None" by (simp add: nil_kept_def cells_def)
    with True v out show ?thesis
      by (auto simp: copied_def valid_def newCopy_def)
  next
    case False
    with v obtain p w where p: "cell m i = SPtr (Some p)" and w: "valid L (TExt e) m p w"
      and v_def: "v = Ref w"
      by (auto simp: valid_def split: slot.splits option.splits)
    obtain q m' where q: "ext_DeepCopy L e p m = (q, m')" by fastforce
    with ext_copy_copy [OF laws w] have facts: "brk m \<le> q" "brk m \<le> brk m'"
      "\<And>x. x < brk m \<Longrightarrow> cell m' x = cell m x" "valid L (TExt e) m' q w"
      "set (fp L (TExt e) m' q) \<subseteq> {brk m..<brk m'}" "distinct (fp L (TExt e) m' q)"
      by (auto simp: fresh_copy_def)
    let ?m = "setCell out (SPtr (Some q)) m'"
    have "out \<notin> set (fp L (TExt e) m' q)" using facts(5) out by auto
    then have "valid L (TExt e) ?m q w \<and> fp L (TExt e) ?m q = fp L (TExt e) m' q"
      by (intro valid_cong [OF laws facts(4)]) auto
    with facts out show ?thesis
      by (fastforce simp: copied_def valid_def newCopy_def p q v_def)
  qed
qed

lemma length_zero: "ext_copy_laws L \<Longrightarrow> length (zero L t) = sz L t"
  and length_zeros: "ext_copy_laws L \<Longrightarrow> length (zeros L ts) = szs L ts"
  by (induction L t and L ts rule: zero_zeros.induct) (simp_all add: ext_copy_zero)

lemma alloc_zero:
  assumes "ext_copy_laws L" and "k < n"
  shows "cells (snd (alloc L t n m)) (brk m + k * sz L t) (sz L t) = zero L t"
proof (rule nth_equalityI)
  fix j assume "j < length (cells (snd (alloc L t n m)) (brk m + k * sz L t) (sz L t))"
  then have j: "j < sz L t" by simp
  from \<open>k < n\<close> have "Suc k * sz L t \<le> n * sz L t" by (intro mult_le_mono1) simp
  with j have "k * sz L t + j < n * sz L t" by simp
  with j show "cells (snd (alloc L t n m)) (brk m + k * sz L t) (sz L t) ! j = zero L t ! j"
    by (simp add: cells_def alloc_def)
qed (simp add: length_zero [OF assms(1)])

lemma szs_replicate [simp]: "szs L (replicate n t) = n * sz L t"
  by (induction n) simp_all

lemma upt_0_Suc: "[0..<Suc n] = 0 # map Suc [0..<n]"
  by (simp only: map_Suc_upt upt_conv_Cons zero_less_Suc)

lemma elements_rds:
  "those (map (\<lambda>k. rd L t m (p + k * sz L t)) [0..<n]) = rds L (replicate n t) m p"
proof (induction n arbitrary: p)
  case (Suc n)
  have "map ((\<lambda>k. rd L t m (p + k * sz L t)) \<circ> Suc) [0..<n] =
      map (\<lambda>k. rd L t m (p + sz L t + k * sz L t)) [0..<n]"
    by (simp add: add_ac)
  with Suc show ?case
    by (simp only: upt_0_Suc list.map map_map those.simps replicate.simps rds.simps mult_0 add_0_right)
qed simp

lemma elements_fps:
  "concat (map (\<lambda>k. fp L t m (p + k * sz L t)) [0..<n]) = fps L (replicate n t) m p"
proof (induction n arbitrary: p)
  case (Suc n)
  have "map ((\<lambda>k. fp L t m (p + k * sz L t)) \<circ> Suc) [0..<n] =
      map (\<lambda>k. fp L t m (p + sz L t + k * sz L t)) [0..<n]"
    by (simp add: add_ac)
  with Suc show ?case
    by (simp only: upt_0_Suc list.map map_map concat.simps replicate.simps fps.simps mult_0 add_0_right)
qed simp

lemma elements_run:
  "fold (\<lambda>k. g (p + k * sz L t) (q + k * sz L t)) [0..<n] m = runBlocks L (replicate n (t, g)) p q m"
proof (induction n arbitrary: p q m)
  case (Suc n)
  have "(\<lambda>k. g (p + k * sz L t) (q + k * sz L t)) \<circ> Suc =
      (\<lambda>k. g (p + sz L t + k * sz L t) (q + sz L t + k * sz L t))"
    by (rule ext) (simp add: add_ac)
  with Suc [of "p + sz L t" "q + sz L t"] show ?case
    by (simp add: upt_0_Suc fold_map del: upt_Suc)
qed simp

lemma blocks_ready_zero:
  assumes "\<And>k. k < n \<Longrightarrow> cells m (out + k * sz L t) (sz L t) = zero L t" and "\<And>x. P x (zero L t)"
  shows "blocks_ready L P (replicate n t) m i out"
  using assms(1)
proof (induction n arbitrary: i out)
  case (Suc n)
  have "cells m (out + sz L t + k * sz L t) (sz L t) = zero L t" if "k < n" for k
    using Suc.prems [of "Suc k"] that by (simp add: add_ac)
  with Suc.IH [of "out + sz L t"] Suc.prems [of 0] show ?case by (simp add: assms(2))
qed simp

lemma contract_makeEach:
  assumes laws: "ext_copy_laws L" and g: "contract L P t g" and zero: "\<And>x. P x (zero L t)"
  shows "contract L (=) (TSlice t) (makeEach L t g)"
  unfolding contract_def
proof (intro allI impI)
  fix m i out v
  assume v: "valid L (TSlice t) m i v" and out: "out + sz L (TSlice t) \<le> brk m"
    and dis: "set (fp L (TSlice t) m i) \<inter> {out..<out + sz L (TSlice t)} = {}"
    and eq: "cells m i (sz L (TSlice t)) = cells m out (sz L (TSlice t))"
  show "copied L (TSlice t) out v m (makeEach L t g i out m)"
  proof (cases "cell m i = SSlice None")
    case True
    with eq have "cell m out = SSlice None" by (simp add: cells_def)
    with True v out show ?thesis
      by (auto simp: copied_def valid_def makeEach_def)
  next
    case False
    with v obtain p n ws where p: "cell m i = SSlice (Some (p, n))" and v_def: "v = Elems ws"
      and w: "valid L (TStruct (replicate n t)) m p (Fields ws)"
      by (auto simp: valid_def elements_rds elements_fps split: slot.splits option.splits)
    let ?m = "setCell out (SSlice (Some (brk m, n))) (snd (alloc L t n m))"
    let ?bs = "replicate n (t, g)"
    have run: "makeEach L t g i out m = runBlocks L ?bs p (brk m) ?m"
      using p by (simp add: makeEach_def alloc_def elements_run)
    have "out \<notin> set (fps L (replicate n t) m p)"
      using dis p by (auto simp: elements_fps)
    with w out have "cell ?m x = cell m x" if "x \<in> set (fp L (TStruct (replicate n t)) m p)" for x
      using that by (auto simp: valid_def)
    then have w': "valid L (TStruct (replicate n t)) ?m p (Fields ws)"
      and fps': "fps L (replicate n t) ?m p = fps L (replicate n t) m p"
      using valid_cong [OF laws w, of ?m] by auto
    have below: "set (fps L (replicate n t) m p) \<inter> {brk m..<brk m + n * sz L t} = {}"
      using w by (auto simp: valid_def)
    have ready: "blocks_ready L P (replicate n t) ?m p (brk m)"
    proof (rule blocks_ready_zero)
      show "P x (zero L t)" for x by (rule zero)
      fix k assume "k < n"
      have "cells ?m (brk m + k * sz L t) (sz L t) =
          cells (snd (alloc L t n m)) (brk m + k * sz L t) (sz L t)"
        by (rule cells_cong) (use out in auto)
      with alloc_zero [OF laws \<open>k < n\<close>] show "cells ?m (brk m + k * sz L t) (sz L t) = zero L t"
        by simp
    qed
    have c: "copied L (TStruct (replicate n t)) (brk m) (Fields ws) ?m (runBlocks L ?bs p (brk m) ?m)"
      using runBlocks_copied [OF laws, of ?bs P ?m p "Fields ws" "brk m"] g w' ready fps' below
      by simp
    have "cell (runBlocks L ?bs p (brk m) ?m) out = SSlice (Some (brk m, n))"
      using copied_frame [OF c, of out] out by simp
    moreover have "out \<notin> set (fps L (replicate n t) (runBlocks L ?bs p (brk m) ?m) (brk m))"
      using copied_fp [OF c, of out] out by auto
    ultimately show ?thesis
      using copied_valid [OF c] copied_distinct [OF c] copied_brk [OF c] copied_fp [OF c]
        copied_frame [OF c] out
      by (fastforce simp: run v_def copied_def valid_def elements_rds elements_fps)
  qed
qed

lemma nil_kept_eq: "x = y \<Longrightarrow> nil_kept x y" and nil_kept_zero: "nil_kept x (zero L (TPtr t))"
  by (simp_all add: nil_kept_def)

text \<open>An object without pointers is copied by an assignment.\<close>

lemma flat_rd:
  shows "flat t \<Longrightarrow> cells m' b (sz L t) = cells m a (sz L t) \<Longrightarrow>
      rd L t m' b = rd L t m a \<and> fp L t m' b = [b..<b + sz L t]"
    and "list_all flat ts \<Longrightarrow> cells m' b (szs L ts) = cells m a (szs L ts) \<Longrightarrow>
      rds L ts m' b = rds L ts m a \<and> fps L ts m' b = [b..<b + szs L ts]"
proof (induction L t m a and L ts m a arbitrary: b and b rule: fp_fps.induct)
  case (8 L t ts m a)
  have range: "[b..<b + (sz L t + szs L ts)] = [b..<b + sz L t] @ [b + sz L t..<b + sz L t + szs L ts]"
    using upt_add_eq_append [of b "b + sz L t" "szs L ts"] by (simp add: add.assoc)
  from 8 have "cells m' b (sz L t) = cells m a (sz L t)"
    and "cells m' (b + sz L t) (szs L ts) = cells m (a + sz L t) (szs L ts)"
    by (simp_all add: cells_append)
  with 8 have "rd L t m' b = rd L t m a \<and> fp L t m' b = [b..<b + sz L t]"
    and "rds L ts m' (b + sz L t) = rds L ts m (a + sz L t) \<and>
      fps L ts m' (b + sz L t) = [b + sz L t..<b + sz L t + szs L ts]"
    by simp_all
  then show ?case by (simp add: range del: upt_Suc split: option.split)
qed (auto simp: cells_def)

lemma assign_cells: "cells (assign n i out m) out n = cells m i n"
  by (rule nth_equalityI) (simp_all add: cells_def assign_def)

lemma contract_flat:
  assumes "flat t"
  shows "contract L anything t (assign (sz L t))"
  unfolding contract_def
proof (intro allI impI)
  fix m i out v
  assume "valid L t m i v" and "out + sz L t \<le> brk m"
  then show "copied L t out v m (assign (sz L t) i out m)"
    using flat_rd(1) [OF assms assign_cells, of L i out m]
    by (auto simp: copied_def valid_def)
qed

lemma contract_kept: "flat t \<Longrightarrow> contract L (=) t (\<lambda>_ _ m. m)"
proof -
  assume "flat t"
  have "copied L t out v m m"
    if "valid L t m i v" "out + sz L t \<le> brk m" "cells m i (sz L t) = cells m out (sz L t)" for m i out v
    using flat_rd(1) [OF \<open>flat t\<close> that(3) [symmetric]] that(1,2)
    by (auto simp: copied_def valid_def)
  then show ?thesis by (auto simp: contract_def)
qed

lemma szs_append [simp]: "szs L (ts @ us) = szs L ts + szs L us"
  by (induction ts) simp_all

text \<open>
  The steps of a struct's copy function go through its fields in order, and leave out fields
  without pointers.
\<close>

fun covers ::
  "extlib \<Rightarrow> (string \<times> ty) list \<Rightarrow> (string \<times> (addr \<Rightarrow> addr \<Rightarrow> mem \<Rightarrow> mem)) list \<Rightarrow> bool" where
  "covers L [] [] \<longleftrightarrow> True"
| "covers L [] (s # ss) \<longleftrightarrow> False"
| "covers L ((f, t) # fs) [] \<longleftrightarrow> flat t \<and> covers L fs []"
| "covers L ((f, t) # fs) ((f', step) # ss) \<longleftrightarrow>
     (if f = f' then contract L (=) t step \<and> covers L fs ss
      else flat t \<and> covers L fs ((f', step) # ss))"

lemma off_append: "name \<notin> fst ` set gs \<Longrightarrow> off L (gs @ fs) name = szs L (map snd gs) + off L fs name"
  by (induction gs) auto

lemma covers_names: "covers L fs ss \<Longrightarrow> fst ` set ss \<subseteq> fst ` set fs"
  by (induction L fs ss rule: covers.induct) (auto split: if_splits)

lemma covers_blocks:
  assumes "covers L fs ss" and "distinct (map fst (gs @ fs))"
  shows "\<exists>bs. map fst bs = map snd fs \<and> (\<forall>(t, g) \<in> set bs. contract L (=) t g) \<and>
    (\<forall>i out m. fold (\<lambda>(f, step). step (i + off L (gs @ fs) f) (out + off L (gs @ fs) f)) ss m =
       runBlocks L bs (i + szs L (map snd gs)) (out + szs L (map snd gs)) m)"
  using assms
proof (induction L fs ss arbitrary: gs rule: covers.induct)
  case (3 L f t fs)
  then obtain bs where "map fst bs = map snd fs" "\<forall>(t, g) \<in> set bs. contract L (=) t g"
    "\<forall>i out m. runBlocks L bs (i + szs L (map snd (gs @ [(f, t)]))) (out + szs L (map snd (gs @ [(f, t)]))) m = m"
    using "3.IH" [of "gs @ [(f, t)]"] by fastforce
  then show ?case using 3 contract_kept [of t L]
    by (intro exI [of _ "(t, \<lambda>_ _ m. m) # bs"]) (simp add: add.assoc)
next
  case (4 L f t fs f' step ss)
  let ?gs = "gs @ [(f, t)]"
  have dist: "distinct (map fst (?gs @ fs))" using "4.prems"(2) by simp
  have app: "?gs @ fs = gs @ (f, t) # fs" by simp
  show ?case
  proof (cases "f = f'")
    case True
    with "4.prems" have c: "covers L fs ss" "contract L (=) t step" by simp_all
    from "4.IH"(1) [OF True c(1) dist] obtain bs where bs: "map fst bs = map snd fs"
      "\<forall>(t, g) \<in> set bs. contract L (=) t g"
      "\<forall>i out m. fold (\<lambda>(f, step). step (i + off L (?gs @ fs) f) (out + off L (?gs @ fs) f)) ss m =
         runBlocks L bs (i + szs L (map snd ?gs)) (out + szs L (map snd ?gs)) m"
      by blast
    have "off L (gs @ (f, t) # fs) f' = szs L (map snd gs)"
      using True "4.prems"(2) by (subst off_append) auto
    with bs c(2) show ?thesis unfolding app
      by (intro exI [of _ "(t, step) # bs"]) (simp add: add.assoc)
  next
    case False
    with "4.prems" have c: "covers L fs ((f', step) # ss)" "flat t" by simp_all
    from "4.IH"(2) [OF False c(1) dist] obtain bs where bs: "map fst bs = map snd fs"
      "\<forall>(t, g) \<in> set bs. contract L (=) t g"
      "\<forall>i out m. fold (\<lambda>(f, step). step (i + off L (?gs @ fs) f) (out + off L (?gs @ fs) f))
           ((f', step) # ss) m =
         runBlocks L bs (i + szs L (map snd ?gs)) (out + szs L (map snd ?gs)) m"
      by blast
    then show ?thesis unfolding app using contract_kept [OF c(2), of L]
      by (intro exI [of _ "(t, \<lambda>_ _ m. m) # bs"]) (simp add: add.assoc)
  qed
qed simp_all

lemma assign_shallow:
  assumes "set (fp L t m i) \<inter> {out..<out + sz L t} = {}" and "ext_copy_laws L"
  shows "cells (assign (sz L t) i out m) i (sz L t) = cells (assign (sz L t) i out m) out (sz L t)"
proof -
  have "cells (assign (sz L t) i out m) i (sz L t) = cells m i (sz L t)"
    by (rule cells_cong, rule assign_sel(2)) (use assms(1) fp_region(1) [OF assms(2)] in blast)
  then show ?thesis by (simp add: assign_cells)
qed

lemma blocks_ready_shallow:
  "cells m i (szs L ts) = cells m out (szs L ts) \<Longrightarrow> blocks_ready L (=) ts m i out"
  by (induction ts arbitrary: i out) (auto simp: cells_append)

lemma contract_structCopy:
  assumes laws: "ext_copy_laws L" and "covers L fs ss" and "distinct (map fst fs)"
  shows "contract L anything (TStruct (map snd fs)) (structCopy L fs ss)"
  unfolding contract_def
proof (intro allI impI)
  let ?t = "TStruct (map snd fs)"
  fix m i out v
  assume v: "valid L ?t m i v" and out: "out + sz L ?t \<le> brk m"
    and dis: "set (fp L ?t m i) \<inter> {out..<out + sz L ?t} = {}"
  let ?m = "assign (sz L ?t) i out m"
  from covers_blocks [of L fs ss "[]"] assms(2,3) obtain bs where bs: "map fst bs = map snd fs"
    "\<forall>(t, g) \<in> set bs. contract L (=) t g" "structCopy L fs ss i out m = runBlocks L bs i out ?m"
    by (auto simp: structCopy_def)
  have "cell ?m x = cell m x" if "x \<in> set (fp L ?t m i)" for x
    by (rule assign_sel(2)) (use that dis in blast)
  then have v': "valid L ?t ?m i v" "fp L ?t ?m i = fp L ?t m i"
    using valid_cong [OF laws v, of ?m] by simp_all
  have "copied L ?t out v ?m (runBlocks L bs i out ?m)"
    using runBlocks_copied [OF laws bs(2), of ?m i v out] bs(1) v' out dis
      blocks_ready_shallow [of ?m i L "map snd fs" out] assign_shallow [OF dis laws] by simp
  then show "copied L ?t out v m (structCopy L fs ss i out m)"
    unfolding bs(3) copied_def by simp
qed

section \<open>Writing into a field\<close>

lemma rds_append:
  "rds L (ts @ us) m a = (case rds L ts m a of
     None \<Rightarrow> None | Some vs \<Rightarrow> map_option ((@) vs) (rds L us m (a + szs L ts)))"
proof (induction ts arbitrary: a)
  case Nil
  show ?case by (cases "rds L us m a") simp_all
next
  case (Cons t ts)
  show ?case
    by (simp add: Cons.IH add.assoc split: option.split) (auto simp: map_option_case split: option.split)
qed

lemma fps_append: "fps L (ts @ us) m a = fps L ts m a @ fps L us m (a + szs L ts)"
  by (induction ts arbitrary: a) (simp_all add: add.assoc)

lemma rds_length: "rds L ts m a = Some vs \<Longrightarrow> length vs = length ts"
  by (induction ts arbitrary: a vs) (auto split: option.splits)

lemma field_read:
  assumes "valid L (TStruct (ts @ t # us)) m a (Fields (vs @ v # ws))" and "length vs = length ts"
  shows "rds L ts m a = Some vs" and "valid L t m (a + szs L ts) v"
    and "rds L us m (a + szs L ts + sz L t) = Some ws"
proof -
  from assms(1) obtain zs r qs where "rds L ts m a = Some zs" "rd L t m (a + szs L ts) = Some r"
    "rds L us m (a + szs L ts + sz L t) = Some qs" "vs @ v # ws = zs @ r # qs"
    by (auto simp: valid_def rds_append split: option.splits)
  with assms show "rds L ts m a = Some vs" "valid L t m (a + szs L ts) v"
    "rds L us m (a + szs L ts + sz L t) = Some ws"
    by (auto simp: rds_length append_eq_append_conv valid_def fps_append)
qed

text \<open>In an object whose cells are each reached once, a write into one field changes that field only.\<close>

lemma field_update:
  assumes laws: "ext_copy_laws L" and t: "T = TStruct (ts @ t # us)"
    and v: "valid L T m a (Fields (vs @ v # ws))" and len: "length vs = length ts"
    and dist: "distinct (fp L T m a)"
    and agree: "\<And>x. x \<notin> set (fp L t m (a + szs L ts)) \<Longrightarrow> cell m' x = cell m x"
    and brk: "brk m \<le> brk m'" and v': "valid L t m' (a + szs L ts) v'"
  shows "valid L T m' a (Fields (vs @ v' # ws))"
proof -
  let ?c = "a + szs L ts + sz L t"
  have "\<forall>x \<in> set (fps L ts m a). cell m' x = cell m x" "\<forall>x \<in> set (fps L us m ?c). cell m' x = cell m x"
    using agree dist by (auto simp: t fps_append)
  then have new: "rds L ts m' a = Some vs" "fps L ts m' a = fps L ts m a"
    "rds L us m' ?c = Some ws" "fps L us m' ?c = fps L us m ?c"
    using rd_fp_cong(2) [OF laws, of ts m a m'] rd_fp_cong(2) [OF laws, of us m ?c m']
      field_read [OF v [unfolded t] len] by simp_all
  then show ?thesis
    using v v' brk by (auto simp: t valid_def rds_append fps_append)
qed

section \<open>A deep copy\<close>

text \<open>
  What the controller relies on where it calls \<open>DeepCopy\<close>: a new object that reads as the old
  one, made of new cells only, each reached once; so neither object notices what is later
  written into the other.
\<close>

locale copier =
  fixes L :: extlib and t :: ty and into :: "addr \<Rightarrow> addr \<Rightarrow> mem \<Rightarrow> mem"
  assumes copies: "ext_copy_laws L \<Longrightarrow> contract L (\<lambda>_ _. True) t into"
begin

lemma nil_copy: "deepCopy L t into None m = (None, m)"
  by (simp add: deepCopy_def)

lemma fresh:
  assumes laws: "ext_copy_laws L" and v: "valid L t m i v"
  obtains q m' where "deepCopy L t into (Some i) m = (Some q, m')" and "fresh_copy L t v m q m'"
    and "valid L t m' i v"
proof -
  let ?m = "snd (alloc L t 1 m)"
  have run: "deepCopy L t into (Some i) m = (Some (brk m), into i (brk m) ?m)"
    by (simp add: deepCopy_def alloc_def)
  have "cell ?m x = cell m x" if "x \<in> set (fp L t m i)" for x
    using that v by (auto simp: valid_def)
  then have v': "valid L t ?m i v" and fp': "fp L t ?m i = fp L t m i"
    using valid_cong [OF laws v, of ?m] by simp_all
  have c: "copied L t (brk m) v ?m (into i (brk m) ?m)"
  proof (rule contractD [where P = anything, OF copies [OF laws] v'])
    show "set (fp L t ?m i) \<inter> {brk m..<brk m + sz L t} = {}"
      unfolding fp' using v by (auto simp: valid_def)
  qed simp_all
  have keep: "cell (into i (brk m) ?m) x = cell m x" if "x < brk m" for x
    using copied_frame [OF c, of x] that by simp
  have "fresh_copy L t v m (brk m) (into i (brk m) ?m)"
    using keep copied_valid [OF c] copied_distinct [OF c] copied_brk [OF c] copied_fp [OF c]
    by (fastforce simp: fresh_copy_def)
  moreover have "valid L t (into i (brk m) ?m) i v"
    using valid_cong [OF laws v, of "into i (brk m) ?m"] keep v copied_brk [OF c]
    by (auto simp: valid_def)
  ultimately show ?thesis using run that by blast
qed

lemma isolated:
  assumes laws: "ext_copy_laws L" and v: "valid L t m i v"
    and run: "deepCopy L t into (Some i) m = (Some q, m')"
  shows "brk m' \<le> brk m'' \<Longrightarrow> \<forall>x \<in> set (fp L t m i). cell m'' x = cell m' x \<Longrightarrow> valid L t m'' i v"
    and "brk m' \<le> brk m'' \<Longrightarrow> \<forall>x \<in> {brk m..<brk m'}. cell m'' x = cell m' x \<Longrightarrow> valid L t m'' q v"
proof -
  from fresh [OF laws v] run have f: "fresh_copy L t v m q m'" and v': "valid L t m' i v"
    by (metis prod.inject option.inject)+
  have fp': "fp L t m' i = fp L t m i"
    using valid_cong [OF laws v, of m'] f v by (auto simp: fresh_copy_def valid_def)
  show "valid L t m'' i v" if "brk m' \<le> brk m''" "\<forall>x \<in> set (fp L t m i). cell m'' x = cell m' x"
    using valid_cong [OF laws v', of m''] that fp' by simp
  show "valid L t m'' q v" if "brk m' \<le> brk m''" "\<forall>x \<in> {brk m..<brk m'}. cell m'' x = cell m' x"
    using valid_cong [OF laws, of t m' q v m''] that f by (auto simp: fresh_copy_def)
qed

end

end
