(* ===== verification/GoStructs.thy ===== *)
theory GoStructs
  imports GoMemory
begin

text \<open>
  The structs of \<open>apis/v1alpha1/types.go\<close> and \<open>certificate.go\<close> as tables of fields, in the order of
  the code, and the type descriptor of each. The structs of other modules are those of
  \<open>GoMemory\<close>, but for two that are known to hold strings only: the secret reference, which the
  generated code copies by an assignment, and the type metadata.
\<close>

definition TypeMeta_T :: ty where
  "TypeMeta_T = TStruct [TStr, TStr]"

definition SecretKeyReference_T :: ty where
  "SecretKeyReference_T = TStruct [TStr, TStr, TStr]"

definition ACMCertificateMetadata_fields :: "(string \<times> ty) list" where
  "ACMCertificateMetadata_fields =
     [(''AcmeAccountID'', TPtr TStr), (''AcmeEndpointARN'', TPtr TStr),
      (''CertificateKeyPairOrigin'', TPtr TStr), (''CreatedAt'', TPtr (TExt ExtTime)),
      (''ExportOption'', TPtr TStr), (''Exported'', TPtr TBool),
      (''ImportedAt'', TPtr (TExt ExtTime)), (''InUse'', TPtr TBool),
      (''IssuedAt'', TPtr (TExt ExtTime)), (''ManagedBy'', TPtr TStr),
      (''RenewalEligibility'', TPtr TStr), (''RenewalStatus'', TPtr TStr),
      (''RevokedAt'', TPtr (TExt ExtTime)), (''Status'', TPtr TStr), (''Type'', TPtr TStr),
      (''ValidationMethod'', TPtr TStr)]"

definition ACMCertificateMetadata_T :: ty where
  "ACMCertificateMetadata_T = TStruct (map snd ACMCertificateMetadata_fields)"

definition ACMCertificateMetadataFilter_fields :: "(string \<times> ty) list" where
  "ACMCertificateMetadataFilter_fields =
     [(''AcmeAccountID'', TPtr TStr), (''AcmeEndpointARN'', TPtr TStr),
      (''CertificateKeyPairOrigin'', TPtr TStr), (''ExportOption'', TPtr TStr),
      (''Exported'', TPtr TBool), (''InUse'', TPtr TBool), (''ManagedBy'', TPtr TStr),
      (''RenewalStatus'', TPtr TStr), (''Status'', TPtr TStr), (''Type'', TPtr TStr),
      (''ValidationMethod'', TPtr TStr)]"

definition ACMCertificateMetadataFilter_T :: ty where
  "ACMCertificateMetadataFilter_T = TStruct (map snd ACMCertificateMetadataFilter_fields)"

definition AcmeAccount_fields :: "(string \<times> ty) list" where
  "AcmeAccount_fields =
     [(''AccountURL'', TPtr TStr), (''PublicKeyThumbprint'', TPtr TStr)]"

definition AcmeAccount_T :: ty where
  "AcmeAccount_T = TStruct (map snd AcmeAccount_fields)"

definition AcmeAccountSummary_fields :: "(string \<times> ty) list" where
  "AcmeAccountSummary_fields =
     [(''AccountURL'', TPtr TStr), (''PublicKeyThumbprint'', TPtr TStr)]"

definition AcmeAccountSummary_T :: ty where
  "AcmeAccountSummary_T = TStruct (map snd AcmeAccountSummary_fields)"

definition Tag_fields :: "(string \<times> ty) list" where
  "Tag_fields =
     [(''Key'', TPtr TStr), (''Value'', TPtr TStr)]"

definition Tag_T :: ty where
  "Tag_T = TStruct (map snd Tag_fields)"

definition AcmeEndpoint_fields :: "(string \<times> ty) list" where
  "AcmeEndpoint_fields =
     [(''CertificateTags'', TSlice (TPtr Tag_T)), (''EndpointURL'', TPtr TStr),
      (''FailureReason'', TPtr TStr)]"

definition AcmeEndpoint_T :: ty where
  "AcmeEndpoint_T = TStruct (map snd AcmeEndpoint_fields)"

definition AcmeEndpointSummary_fields :: "(string \<times> ty) list" where
  "AcmeEndpointSummary_fields =
     [(''CertificateTags'', TSlice (TPtr Tag_T)), (''EndpointURL'', TPtr TStr),
      (''FailureReason'', TPtr TStr)]"

definition AcmeEndpointSummary_T :: ty where
  "AcmeEndpointSummary_T = TStruct (map snd AcmeEndpointSummary_fields)"

definition HTTPRedirect_fields :: "(string \<times> ty) list" where
  "HTTPRedirect_fields =
     [(''RedirectFrom'', TPtr TStr), (''RedirectTo'', TPtr TStr)]"

definition HTTPRedirect_T :: ty where
  "HTTPRedirect_T = TStruct (map snd HTTPRedirect_fields)"

definition ResourceRecord_fields :: "(string \<times> ty) list" where
  "ResourceRecord_fields =
     [(''Name'', TPtr TStr), (''Type'', TPtr TStr), (''Value'', TPtr TStr)]"

definition ResourceRecord_T :: ty where
  "ResourceRecord_T = TStruct (map snd ResourceRecord_fields)"

definition DomainValidation_fields :: "(string \<times> ty) list" where
  "DomainValidation_fields =
     [(''DomainName'', TPtr TStr), (''HTTPRedirect'', TPtr HTTPRedirect_T),
      (''ResourceRecord'', TPtr ResourceRecord_T), (''ValidationDomain'', TPtr TStr),
      (''ValidationEmails'', TSlice (TPtr TStr)), (''ValidationMethod'', TPtr TStr),
      (''ValidationStatus'', TPtr TStr)]"

definition DomainValidation_T :: ty where
  "DomainValidation_T = TStruct (map snd DomainValidation_fields)"

definition ExtendedKeyUsage_fields :: "(string \<times> ty) list" where
  "ExtendedKeyUsage_fields =
     [(''Name'', TPtr TStr), (''OID'', TPtr TStr)]"

definition ExtendedKeyUsage_T :: ty where
  "ExtendedKeyUsage_T = TStruct (map snd ExtendedKeyUsage_fields)"

definition KeyUsage_fields :: "(string \<times> ty) list" where
  "KeyUsage_fields =
     [(''Name'', TPtr TStr)]"

definition KeyUsage_T :: ty where
  "KeyUsage_T = TStruct (map snd KeyUsage_fields)"

definition CertificateOptions_fields :: "(string \<times> ty) list" where
  "CertificateOptions_fields =
     [(''CertificateTransparencyLoggingPreference'', TPtr TStr), (''Export'', TPtr TStr)]"

definition CertificateOptions_T :: ty where
  "CertificateOptions_T = TStruct (map snd CertificateOptions_fields)"

definition RenewalSummary_fields :: "(string \<times> ty) list" where
  "RenewalSummary_fields =
     [(''DomainValidationOptions'', TSlice (TPtr DomainValidation_T)),
      (''RenewalStatus'', TPtr TStr), (''RenewalStatusReason'', TPtr TStr),
      (''UpdatedAt'', TPtr (TExt ExtTime))]"

definition RenewalSummary_T :: ty where
  "RenewalSummary_T = TStruct (map snd RenewalSummary_fields)"

definition CertificateDetail_fields :: "(string \<times> ty) list" where
  "CertificateDetail_fields =
     [(''AcmeAccountID'', TPtr TStr), (''AcmeEndpointARN'', TPtr TStr),
      (''CertificateARN'', TPtr TStr), (''CertificateAuthorityARN'', TPtr TStr),
      (''CertificateKeyPairOrigin'', TPtr TStr), (''CreatedAt'', TPtr (TExt ExtTime)),
      (''DomainName'', TPtr TStr), (''DomainValidationOptions'', TSlice (TPtr DomainValidation_T)),
      (''ExtendedKeyUsages'', TSlice (TPtr ExtendedKeyUsage_T)), (''FailureReason'', TPtr TStr),
      (''ImportedAt'', TPtr (TExt ExtTime)), (''InUseBy'', TSlice (TPtr TStr)),
      (''IssuedAt'', TPtr (TExt ExtTime)), (''Issuer'', TPtr TStr), (''KeyAlgorithm'', TPtr TStr),
      (''KeyUsages'', TSlice (TPtr KeyUsage_T)), (''ManagedBy'', TPtr TStr),
      (''NotAfter'', TPtr (TExt ExtTime)), (''NotBefore'', TPtr (TExt ExtTime)),
      (''Options'', TPtr CertificateOptions_T), (''RenewalEligibility'', TPtr TStr),
      (''RenewalSummary'', TPtr RenewalSummary_T), (''RevocationReason'', TPtr TStr),
      (''RevokedAt'', TPtr (TExt ExtTime)), (''Serial'', TPtr TStr),
      (''SignatureAlgorithm'', TPtr TStr), (''Status'', TPtr TStr), (''Subject'', TPtr TStr),
      (''SubjectAlternativeNames'', TSlice (TPtr TStr)), (''Type'', TPtr TStr)]"

definition CertificateDetail_T :: ty where
  "CertificateDetail_T = TStruct (map snd CertificateDetail_fields)"

definition CertificateFilter_fields :: "(string \<times> ty) list" where
  "CertificateFilter_fields =
     [(''CertificateARN'', TPtr TStr)]"

definition CertificateFilter_T :: ty where
  "CertificateFilter_T = TStruct (map snd CertificateFilter_fields)"

definition CertificateSearchResult_fields :: "(string \<times> ty) list" where
  "CertificateSearchResult_fields =
     [(''CertificateARN'', TPtr TStr)]"

definition CertificateSearchResult_T :: ty where
  "CertificateSearchResult_T = TStruct (map snd CertificateSearchResult_fields)"

definition CertificateSummary_fields :: "(string \<times> ty) list" where
  "CertificateSummary_fields =
     [(''CertificateARN'', TPtr TStr), (''CertificateKeyPairOrigin'', TPtr TStr),
      (''CreatedAt'', TPtr (TExt ExtTime)), (''DomainName'', TPtr TStr),
      (''ExportOption'', TPtr TStr), (''Exported'', TPtr TBool),
      (''ExtendedKeyUsages'', TSlice (TPtr TStr)),
      (''HasAdditionalSubjectAlternativeNames'', TPtr TBool),
      (''ImportedAt'', TPtr (TExt ExtTime)), (''InUse'', TPtr TBool),
      (''IssuedAt'', TPtr (TExt ExtTime)), (''KeyAlgorithm'', TPtr TStr),
      (''KeyUsages'', TSlice (TPtr TStr)), (''ManagedBy'', TPtr TStr),
      (''NotAfter'', TPtr (TExt ExtTime)), (''NotBefore'', TPtr (TExt ExtTime)),
      (''RenewalEligibility'', TPtr TStr), (''RevokedAt'', TPtr (TExt ExtTime)),
      (''Status'', TPtr TStr), (''SubjectAlternativeNameSummaries'', TSlice (TPtr TStr)),
      (''Type'', TPtr TStr)]"

definition CertificateSummary_T :: ty where
  "CertificateSummary_T = TStruct (map snd CertificateSummary_fields)"

definition CustomAttribute_fields :: "(string \<times> ty) list" where
  "CustomAttribute_fields =
     [(''ObjectIdentifier'', TPtr TStr), (''Value'', TPtr TStr)]"

definition CustomAttribute_T :: ty where
  "CustomAttribute_T = TStruct (map snd CustomAttribute_fields)"

definition DNSPrevalidationDetails_fields :: "(string \<times> ty) list" where
  "DNSPrevalidationDetails_fields =
     [(''ResourceRecord'', TPtr ResourceRecord_T)]"

definition DNSPrevalidationDetails_T :: ty where
  "DNSPrevalidationDetails_T = TStruct (map snd DNSPrevalidationDetails_fields)"

definition DistinguishedName_fields :: "(string \<times> ty) list" where
  "DistinguishedName_fields =
     [(''CommonName'', TPtr TStr), (''Country'', TPtr TStr),
      (''DistinguishedNameQualifier'', TPtr TStr), (''GenerationQualifier'', TPtr TStr),
      (''GivenName'', TPtr TStr), (''Initials'', TPtr TStr), (''Locality'', TPtr TStr),
      (''Organization'', TPtr TStr), (''OrganizationalUnit'', TPtr TStr),
      (''Pseudonym'', TPtr TStr), (''SerialNumber'', TPtr TStr), (''State'', TPtr TStr),
      (''Surname'', TPtr TStr), (''Title'', TPtr TStr)]"

definition DistinguishedName_T :: ty where
  "DistinguishedName_T = TStruct (map snd DistinguishedName_fields)"

definition DomainValidationOption_fields :: "(string \<times> ty) list" where
  "DomainValidationOption_fields =
     [(''DomainName'', TPtr TStr), (''ValidationDomain'', TPtr TStr)]"

definition DomainValidationOption_T :: ty where
  "DomainValidationOption_T = TStruct (map snd DomainValidationOption_fields)"

definition FailureDetails_fields :: "(string \<times> ty) list" where
  "FailureDetails_fields =
     [(''Message'', TPtr TStr)]"

definition FailureDetails_T :: ty where
  "FailureDetails_T = TStruct (map snd FailureDetails_fields)"

definition Filters_fields :: "(string \<times> ty) list" where
  "Filters_fields =
     [(''ExportOption'', TPtr TStr), (''ExtendedKeyUsage'', TSlice (TPtr TStr)),
      (''KeyTypes'', TSlice (TPtr TStr)), (''KeyUsage'', TSlice (TPtr TStr)),
      (''ManagedBy'', TPtr TStr)]"

definition Filters_T :: ty where
  "Filters_T = TStruct (map snd Filters_fields)"

definition GeneralName_fields :: "(string \<times> ty) list" where
  "GeneralName_fields =
     [(''DNSName'', TPtr TStr), (''IPAddress'', TPtr TStr), (''RegisteredID'', TPtr TStr),
      (''RFC822Name'', TPtr TStr), (''UniformResourceIdentifier'', TPtr TStr)]"

definition GeneralName_T :: ty where
  "GeneralName_T = TStruct (map snd GeneralName_fields)"

definition OtherName_fields :: "(string \<times> ty) list" where
  "OtherName_fields =
     [(''ObjectIdentifier'', TPtr TStr), (''Value'', TPtr TStr)]"

definition OtherName_T :: ty where
  "OtherName_T = TStruct (map snd OtherName_fields)"

definition TimestampRange_fields :: "(string \<times> ty) list" where
  "TimestampRange_fields =
     [(''End'', TPtr (TExt ExtTime)), (''Start'', TPtr (TExt ExtTime))]"

definition TimestampRange_T :: ty where
  "TimestampRange_T = TStruct (map snd TimestampRange_fields)"

definition X509AttributeFilter_fields :: "(string \<times> ty) list" where
  "X509AttributeFilter_fields =
     [(''ExtendedKeyUsage'', TPtr TStr), (''KeyAlgorithm'', TPtr TStr), (''KeyUsage'', TPtr TStr)]"

definition X509AttributeFilter_T :: ty where
  "X509AttributeFilter_T = TStruct (map snd X509AttributeFilter_fields)"

definition X509Attributes_fields :: "(string \<times> ty) list" where
  "X509Attributes_fields =
     [(''ExtendedKeyUsages'', TSlice (TPtr TStr)), (''KeyAlgorithm'', TPtr TStr),
      (''KeyUsages'', TSlice (TPtr TStr)), (''NotAfter'', TPtr (TExt ExtTime)),
      (''NotBefore'', TPtr (TExt ExtTime))]"

definition X509Attributes_T :: ty where
  "X509Attributes_T = TStruct (map snd X509Attributes_fields)"

definition CertificateSpec_fields :: "(string \<times> ty) list" where
  "CertificateSpec_fields =
     [(''Certificate'', TPtr SecretKeyReference_T), (''CertificateARN'', TPtr TStr),
      (''CertificateAuthorityARN'', TPtr TStr),
      (''CertificateAuthorityRef'', TPtr (TExt ExtReferenceWrapper)),
      (''CertificateChain'', TPtr SecretKeyReference_T), (''DomainName'', TPtr TStr),
      (''DomainValidationOptions'', TSlice (TPtr DomainValidationOption_T)),
      (''ExportTo'', TPtr SecretKeyReference_T), (''KeyAlgorithm'', TPtr TStr),
      (''ManagedBy'', TPtr TStr), (''Options'', TPtr CertificateOptions_T),
      (''PrivateKey'', TPtr SecretKeyReference_T),
      (''SubjectAlternativeNames'', TSlice (TPtr TStr)), (''Tags'', TSlice (TPtr Tag_T))]"

definition CertificateSpec_T :: ty where
  "CertificateSpec_T = TStruct (map snd CertificateSpec_fields)"

definition CertificateStatus_fields :: "(string \<times> ty) list" where
  "CertificateStatus_fields =
     [(''ACKResourceMetadata'', TPtr (TExt ExtResourceMetadata)),
      (''Conditions'', TSlice (TPtr (TExt ExtCondition))), (''CreatedAt'', TPtr (TExt ExtTime)),
      (''DomainValidations'', TSlice (TPtr DomainValidation_T)),
      (''ExtendedKeyUsages'', TSlice (TPtr ExtendedKeyUsage_T)), (''FailureReason'', TPtr TStr),
      (''ImportedAt'', TPtr (TExt ExtTime)), (''InUseBy'', TSlice (TPtr TStr)),
      (''IssuedAt'', TPtr (TExt ExtTime)), (''Issuer'', TPtr TStr),
      (''KeyUsages'', TSlice (TPtr KeyUsage_T)), (''NotAfter'', TPtr (TExt ExtTime)),
      (''NotBefore'', TPtr (TExt ExtTime)), (''RenewalEligibility'', TPtr TStr),
      (''RenewalSummary'', TPtr RenewalSummary_T), (''RevocationReason'', TPtr TStr),
      (''RevokedAt'', TPtr (TExt ExtTime)), (''Serial'', TPtr TStr),
      (''SignatureAlgorithm'', TPtr TStr), (''Status'', TPtr TStr), (''Subject'', TPtr TStr),
      (''Type'', TPtr TStr)]"

definition CertificateStatus_T :: ty where
  "CertificateStatus_T = TStruct (map snd CertificateStatus_fields)"

definition Certificate_fields :: "(string \<times> ty) list" where
  "Certificate_fields =
     [(''TypeMeta'', TypeMeta_T), (''ObjectMeta'', TExt ExtObjectMeta),
      (''Spec'', CertificateSpec_T), (''Status'', CertificateStatus_T)]"

definition Certificate_T :: ty where
  "Certificate_T = TStruct (map snd Certificate_fields)"

definition CertificateList_fields :: "(string \<times> ty) list" where
  "CertificateList_fields =
     [(''TypeMeta'', TypeMeta_T), (''ListMeta'', TExt ExtListMeta),
      (''Items'', TSlice Certificate_T)]"

definition CertificateList_T :: ty where
  "CertificateList_T = TStruct (map snd CertificateList_fields)"

end
