(* ===== verification/DeepCopy.thy ===== *)
theory DeepCopy
  imports GoStructs
begin

text \<open>
  \<open>apis/v1alpha1/zz_generated.deepcopy.go\<close>: \<open>DeepCopyInto\<close> and \<open>DeepCopy\<close> of every struct, statement
  by statement. Each is shown to be a deep copy; what that means is the locale \<open>copier\<close>.
\<close>

text \<open>\<open>*out = new(string); **out = **in\<close>, under the test that \<open>in\<close> points to something.\<close>

definition copyString :: "extlib \<Rightarrow> addr \<Rightarrow> addr \<Rightarrow> mem \<Rightarrow> mem" where
  "copyString L = newInto L TStr (assign (sz L TStr))"

definition copyBool :: "extlib \<Rightarrow> addr \<Rightarrow> addr \<Rightarrow> mem \<Rightarrow> mem" where
  "copyBool L = newInto L TBool (assign (sz L TBool))"

section \<open>The generated functions\<close>

definition ACMCertificateMetadata_DeepCopyInto :: "extlib \<Rightarrow> addr \<Rightarrow> addr \<Rightarrow> mem \<Rightarrow> mem" where
  "ACMCertificateMetadata_DeepCopyInto L = structCopy L ACMCertificateMetadata_fields
     [(''AcmeAccountID'', copyString L), (''AcmeEndpointARN'', copyString L),
      (''CertificateKeyPairOrigin'', copyString L), (''CreatedAt'', newCopy L ExtTime),
      (''ExportOption'', copyString L), (''Exported'', copyBool L),
      (''ImportedAt'', newCopy L ExtTime), (''InUse'', copyBool L),
      (''IssuedAt'', newCopy L ExtTime), (''ManagedBy'', copyString L),
      (''RenewalEligibility'', copyString L), (''RenewalStatus'', copyString L),
      (''RevokedAt'', newCopy L ExtTime), (''Status'', copyString L), (''Type'', copyString L),
      (''ValidationMethod'', copyString L)]"

definition ACMCertificateMetadata_DeepCopy :: "extlib \<Rightarrow> addr option \<Rightarrow> mem \<Rightarrow> addr option \<times> mem" where
  "ACMCertificateMetadata_DeepCopy L = deepCopy L ACMCertificateMetadata_T (ACMCertificateMetadata_DeepCopyInto L)"

definition ACMCertificateMetadataFilter_DeepCopyInto :: "extlib \<Rightarrow> addr \<Rightarrow> addr \<Rightarrow> mem \<Rightarrow> mem" where
  "ACMCertificateMetadataFilter_DeepCopyInto L = structCopy L ACMCertificateMetadataFilter_fields
     [(''AcmeAccountID'', copyString L), (''AcmeEndpointARN'', copyString L),
      (''CertificateKeyPairOrigin'', copyString L), (''ExportOption'', copyString L),
      (''Exported'', copyBool L), (''InUse'', copyBool L), (''ManagedBy'', copyString L),
      (''RenewalStatus'', copyString L), (''Status'', copyString L), (''Type'', copyString L),
      (''ValidationMethod'', copyString L)]"

definition ACMCertificateMetadataFilter_DeepCopy :: "extlib \<Rightarrow> addr option \<Rightarrow> mem \<Rightarrow> addr option \<times> mem" where
  "ACMCertificateMetadataFilter_DeepCopy L = deepCopy L ACMCertificateMetadataFilter_T (ACMCertificateMetadataFilter_DeepCopyInto L)"

definition AcmeAccount_DeepCopyInto :: "extlib \<Rightarrow> addr \<Rightarrow> addr \<Rightarrow> mem \<Rightarrow> mem" where
  "AcmeAccount_DeepCopyInto L = structCopy L AcmeAccount_fields
     [(''AccountURL'', copyString L), (''PublicKeyThumbprint'', copyString L)]"

definition AcmeAccount_DeepCopy :: "extlib \<Rightarrow> addr option \<Rightarrow> mem \<Rightarrow> addr option \<times> mem" where
  "AcmeAccount_DeepCopy L = deepCopy L AcmeAccount_T (AcmeAccount_DeepCopyInto L)"

definition AcmeAccountSummary_DeepCopyInto :: "extlib \<Rightarrow> addr \<Rightarrow> addr \<Rightarrow> mem \<Rightarrow> mem" where
  "AcmeAccountSummary_DeepCopyInto L = structCopy L AcmeAccountSummary_fields
     [(''AccountURL'', copyString L), (''PublicKeyThumbprint'', copyString L)]"

definition AcmeAccountSummary_DeepCopy :: "extlib \<Rightarrow> addr option \<Rightarrow> mem \<Rightarrow> addr option \<times> mem" where
  "AcmeAccountSummary_DeepCopy L = deepCopy L AcmeAccountSummary_T (AcmeAccountSummary_DeepCopyInto L)"

definition Tag_DeepCopyInto :: "extlib \<Rightarrow> addr \<Rightarrow> addr \<Rightarrow> mem \<Rightarrow> mem" where
  "Tag_DeepCopyInto L = structCopy L Tag_fields
     [(''Key'', copyString L), (''Value'', copyString L)]"

definition Tag_DeepCopy :: "extlib \<Rightarrow> addr option \<Rightarrow> mem \<Rightarrow> addr option \<times> mem" where
  "Tag_DeepCopy L = deepCopy L Tag_T (Tag_DeepCopyInto L)"

definition AcmeEndpoint_DeepCopyInto :: "extlib \<Rightarrow> addr \<Rightarrow> addr \<Rightarrow> mem \<Rightarrow> mem" where
  "AcmeEndpoint_DeepCopyInto L = structCopy L AcmeEndpoint_fields
     [(''CertificateTags'', makeEach L (TPtr Tag_T) (newInto L Tag_T (Tag_DeepCopyInto L))),
      (''EndpointURL'', copyString L), (''FailureReason'', copyString L)]"

definition AcmeEndpoint_DeepCopy :: "extlib \<Rightarrow> addr option \<Rightarrow> mem \<Rightarrow> addr option \<times> mem" where
  "AcmeEndpoint_DeepCopy L = deepCopy L AcmeEndpoint_T (AcmeEndpoint_DeepCopyInto L)"

definition AcmeEndpointSummary_DeepCopyInto :: "extlib \<Rightarrow> addr \<Rightarrow> addr \<Rightarrow> mem \<Rightarrow> mem" where
  "AcmeEndpointSummary_DeepCopyInto L = structCopy L AcmeEndpointSummary_fields
     [(''CertificateTags'', makeEach L (TPtr Tag_T) (newInto L Tag_T (Tag_DeepCopyInto L))),
      (''EndpointURL'', copyString L), (''FailureReason'', copyString L)]"

definition AcmeEndpointSummary_DeepCopy :: "extlib \<Rightarrow> addr option \<Rightarrow> mem \<Rightarrow> addr option \<times> mem" where
  "AcmeEndpointSummary_DeepCopy L = deepCopy L AcmeEndpointSummary_T (AcmeEndpointSummary_DeepCopyInto L)"

definition HTTPRedirect_DeepCopyInto :: "extlib \<Rightarrow> addr \<Rightarrow> addr \<Rightarrow> mem \<Rightarrow> mem" where
  "HTTPRedirect_DeepCopyInto L = structCopy L HTTPRedirect_fields
     [(''RedirectFrom'', copyString L), (''RedirectTo'', copyString L)]"

definition HTTPRedirect_DeepCopy :: "extlib \<Rightarrow> addr option \<Rightarrow> mem \<Rightarrow> addr option \<times> mem" where
  "HTTPRedirect_DeepCopy L = deepCopy L HTTPRedirect_T (HTTPRedirect_DeepCopyInto L)"

definition ResourceRecord_DeepCopyInto :: "extlib \<Rightarrow> addr \<Rightarrow> addr \<Rightarrow> mem \<Rightarrow> mem" where
  "ResourceRecord_DeepCopyInto L = structCopy L ResourceRecord_fields
     [(''Name'', copyString L), (''Type'', copyString L), (''Value'', copyString L)]"

definition ResourceRecord_DeepCopy :: "extlib \<Rightarrow> addr option \<Rightarrow> mem \<Rightarrow> addr option \<times> mem" where
  "ResourceRecord_DeepCopy L = deepCopy L ResourceRecord_T (ResourceRecord_DeepCopyInto L)"

definition DomainValidation_DeepCopyInto :: "extlib \<Rightarrow> addr \<Rightarrow> addr \<Rightarrow> mem \<Rightarrow> mem" where
  "DomainValidation_DeepCopyInto L = structCopy L DomainValidation_fields
     [(''DomainName'', copyString L),
      (''HTTPRedirect'', newInto L HTTPRedirect_T (HTTPRedirect_DeepCopyInto L)),
      (''ResourceRecord'', newInto L ResourceRecord_T (ResourceRecord_DeepCopyInto L)),
      (''ValidationDomain'', copyString L),
      (''ValidationEmails'', makeEach L (TPtr TStr) (copyString L)),
      (''ValidationMethod'', copyString L), (''ValidationStatus'', copyString L)]"

definition DomainValidation_DeepCopy :: "extlib \<Rightarrow> addr option \<Rightarrow> mem \<Rightarrow> addr option \<times> mem" where
  "DomainValidation_DeepCopy L = deepCopy L DomainValidation_T (DomainValidation_DeepCopyInto L)"

definition ExtendedKeyUsage_DeepCopyInto :: "extlib \<Rightarrow> addr \<Rightarrow> addr \<Rightarrow> mem \<Rightarrow> mem" where
  "ExtendedKeyUsage_DeepCopyInto L = structCopy L ExtendedKeyUsage_fields
     [(''Name'', copyString L), (''OID'', copyString L)]"

definition ExtendedKeyUsage_DeepCopy :: "extlib \<Rightarrow> addr option \<Rightarrow> mem \<Rightarrow> addr option \<times> mem" where
  "ExtendedKeyUsage_DeepCopy L = deepCopy L ExtendedKeyUsage_T (ExtendedKeyUsage_DeepCopyInto L)"

definition KeyUsage_DeepCopyInto :: "extlib \<Rightarrow> addr \<Rightarrow> addr \<Rightarrow> mem \<Rightarrow> mem" where
  "KeyUsage_DeepCopyInto L = structCopy L KeyUsage_fields
     [(''Name'', copyString L)]"

definition KeyUsage_DeepCopy :: "extlib \<Rightarrow> addr option \<Rightarrow> mem \<Rightarrow> addr option \<times> mem" where
  "KeyUsage_DeepCopy L = deepCopy L KeyUsage_T (KeyUsage_DeepCopyInto L)"

definition CertificateOptions_DeepCopyInto :: "extlib \<Rightarrow> addr \<Rightarrow> addr \<Rightarrow> mem \<Rightarrow> mem" where
  "CertificateOptions_DeepCopyInto L = structCopy L CertificateOptions_fields
     [(''CertificateTransparencyLoggingPreference'', copyString L), (''Export'', copyString L)]"

definition CertificateOptions_DeepCopy :: "extlib \<Rightarrow> addr option \<Rightarrow> mem \<Rightarrow> addr option \<times> mem" where
  "CertificateOptions_DeepCopy L = deepCopy L CertificateOptions_T (CertificateOptions_DeepCopyInto L)"

definition RenewalSummary_DeepCopyInto :: "extlib \<Rightarrow> addr \<Rightarrow> addr \<Rightarrow> mem \<Rightarrow> mem" where
  "RenewalSummary_DeepCopyInto L = structCopy L RenewalSummary_fields
     [
      (''DomainValidationOptions'', makeEach L (TPtr DomainValidation_T) (newInto L DomainValidation_T (DomainValidation_DeepCopyInto L))),
      (''RenewalStatus'', copyString L), (''RenewalStatusReason'', copyString L),
      (''UpdatedAt'', newCopy L ExtTime)]"

definition RenewalSummary_DeepCopy :: "extlib \<Rightarrow> addr option \<Rightarrow> mem \<Rightarrow> addr option \<times> mem" where
  "RenewalSummary_DeepCopy L = deepCopy L RenewalSummary_T (RenewalSummary_DeepCopyInto L)"

definition CertificateDetail_DeepCopyInto :: "extlib \<Rightarrow> addr \<Rightarrow> addr \<Rightarrow> mem \<Rightarrow> mem" where
  "CertificateDetail_DeepCopyInto L = structCopy L CertificateDetail_fields
     [(''AcmeAccountID'', copyString L), (''AcmeEndpointARN'', copyString L),
      (''CertificateARN'', copyString L), (''CertificateAuthorityARN'', copyString L),
      (''CertificateKeyPairOrigin'', copyString L), (''CreatedAt'', newCopy L ExtTime),
      (''DomainName'', copyString L),
      (''DomainValidationOptions'', makeEach L (TPtr DomainValidation_T) (newInto L DomainValidation_T (DomainValidation_DeepCopyInto L))),
      (''ExtendedKeyUsages'', makeEach L (TPtr ExtendedKeyUsage_T) (newInto L ExtendedKeyUsage_T (ExtendedKeyUsage_DeepCopyInto L))),
      (''FailureReason'', copyString L), (''ImportedAt'', newCopy L ExtTime),
      (''InUseBy'', makeEach L (TPtr TStr) (copyString L)), (''IssuedAt'', newCopy L ExtTime),
      (''Issuer'', copyString L), (''KeyAlgorithm'', copyString L),
      (''KeyUsages'', makeEach L (TPtr KeyUsage_T) (newInto L KeyUsage_T (KeyUsage_DeepCopyInto L))),
      (''ManagedBy'', copyString L), (''NotAfter'', newCopy L ExtTime),
      (''NotBefore'', newCopy L ExtTime),
      (''Options'', newInto L CertificateOptions_T (CertificateOptions_DeepCopyInto L)),
      (''RenewalEligibility'', copyString L),
      (''RenewalSummary'', newInto L RenewalSummary_T (RenewalSummary_DeepCopyInto L)),
      (''RevocationReason'', copyString L), (''RevokedAt'', newCopy L ExtTime),
      (''Serial'', copyString L), (''SignatureAlgorithm'', copyString L),
      (''Status'', copyString L), (''Subject'', copyString L),
      (''SubjectAlternativeNames'', makeEach L (TPtr TStr) (copyString L)),
      (''Type'', copyString L)]"

definition CertificateDetail_DeepCopy :: "extlib \<Rightarrow> addr option \<Rightarrow> mem \<Rightarrow> addr option \<times> mem" where
  "CertificateDetail_DeepCopy L = deepCopy L CertificateDetail_T (CertificateDetail_DeepCopyInto L)"

definition CertificateFilter_DeepCopyInto :: "extlib \<Rightarrow> addr \<Rightarrow> addr \<Rightarrow> mem \<Rightarrow> mem" where
  "CertificateFilter_DeepCopyInto L = structCopy L CertificateFilter_fields
     [(''CertificateARN'', copyString L)]"

definition CertificateFilter_DeepCopy :: "extlib \<Rightarrow> addr option \<Rightarrow> mem \<Rightarrow> addr option \<times> mem" where
  "CertificateFilter_DeepCopy L = deepCopy L CertificateFilter_T (CertificateFilter_DeepCopyInto L)"

definition CertificateSearchResult_DeepCopyInto :: "extlib \<Rightarrow> addr \<Rightarrow> addr \<Rightarrow> mem \<Rightarrow> mem" where
  "CertificateSearchResult_DeepCopyInto L = structCopy L CertificateSearchResult_fields
     [(''CertificateARN'', copyString L)]"

definition CertificateSearchResult_DeepCopy :: "extlib \<Rightarrow> addr option \<Rightarrow> mem \<Rightarrow> addr option \<times> mem" where
  "CertificateSearchResult_DeepCopy L = deepCopy L CertificateSearchResult_T (CertificateSearchResult_DeepCopyInto L)"

definition CertificateSummary_DeepCopyInto :: "extlib \<Rightarrow> addr \<Rightarrow> addr \<Rightarrow> mem \<Rightarrow> mem" where
  "CertificateSummary_DeepCopyInto L = structCopy L CertificateSummary_fields
     [(''CertificateARN'', copyString L), (''CertificateKeyPairOrigin'', copyString L),
      (''CreatedAt'', newCopy L ExtTime), (''DomainName'', copyString L),
      (''ExportOption'', copyString L), (''Exported'', copyBool L),
      (''ExtendedKeyUsages'', makeEach L (TPtr TStr) (copyString L)),
      (''HasAdditionalSubjectAlternativeNames'', copyBool L), (''ImportedAt'', newCopy L ExtTime),
      (''InUse'', copyBool L), (''IssuedAt'', newCopy L ExtTime), (''KeyAlgorithm'', copyString L),
      (''KeyUsages'', makeEach L (TPtr TStr) (copyString L)), (''ManagedBy'', copyString L),
      (''NotAfter'', newCopy L ExtTime), (''NotBefore'', newCopy L ExtTime),
      (''RenewalEligibility'', copyString L), (''RevokedAt'', newCopy L ExtTime),
      (''Status'', copyString L),
      (''SubjectAlternativeNameSummaries'', makeEach L (TPtr TStr) (copyString L)),
      (''Type'', copyString L)]"

definition CertificateSummary_DeepCopy :: "extlib \<Rightarrow> addr option \<Rightarrow> mem \<Rightarrow> addr option \<times> mem" where
  "CertificateSummary_DeepCopy L = deepCopy L CertificateSummary_T (CertificateSummary_DeepCopyInto L)"

definition CustomAttribute_DeepCopyInto :: "extlib \<Rightarrow> addr \<Rightarrow> addr \<Rightarrow> mem \<Rightarrow> mem" where
  "CustomAttribute_DeepCopyInto L = structCopy L CustomAttribute_fields
     [(''ObjectIdentifier'', copyString L), (''Value'', copyString L)]"

definition CustomAttribute_DeepCopy :: "extlib \<Rightarrow> addr option \<Rightarrow> mem \<Rightarrow> addr option \<times> mem" where
  "CustomAttribute_DeepCopy L = deepCopy L CustomAttribute_T (CustomAttribute_DeepCopyInto L)"

definition DNSPrevalidationDetails_DeepCopyInto :: "extlib \<Rightarrow> addr \<Rightarrow> addr \<Rightarrow> mem \<Rightarrow> mem" where
  "DNSPrevalidationDetails_DeepCopyInto L = structCopy L DNSPrevalidationDetails_fields
     [(''ResourceRecord'', newInto L ResourceRecord_T (ResourceRecord_DeepCopyInto L))]"

definition DNSPrevalidationDetails_DeepCopy :: "extlib \<Rightarrow> addr option \<Rightarrow> mem \<Rightarrow> addr option \<times> mem" where
  "DNSPrevalidationDetails_DeepCopy L = deepCopy L DNSPrevalidationDetails_T (DNSPrevalidationDetails_DeepCopyInto L)"

definition DistinguishedName_DeepCopyInto :: "extlib \<Rightarrow> addr \<Rightarrow> addr \<Rightarrow> mem \<Rightarrow> mem" where
  "DistinguishedName_DeepCopyInto L = structCopy L DistinguishedName_fields
     [(''CommonName'', copyString L), (''Country'', copyString L),
      (''DistinguishedNameQualifier'', copyString L), (''GenerationQualifier'', copyString L),
      (''GivenName'', copyString L), (''Initials'', copyString L), (''Locality'', copyString L),
      (''Organization'', copyString L), (''OrganizationalUnit'', copyString L),
      (''Pseudonym'', copyString L), (''SerialNumber'', copyString L), (''State'', copyString L),
      (''Surname'', copyString L), (''Title'', copyString L)]"

definition DistinguishedName_DeepCopy :: "extlib \<Rightarrow> addr option \<Rightarrow> mem \<Rightarrow> addr option \<times> mem" where
  "DistinguishedName_DeepCopy L = deepCopy L DistinguishedName_T (DistinguishedName_DeepCopyInto L)"

definition DomainValidationOption_DeepCopyInto :: "extlib \<Rightarrow> addr \<Rightarrow> addr \<Rightarrow> mem \<Rightarrow> mem" where
  "DomainValidationOption_DeepCopyInto L = structCopy L DomainValidationOption_fields
     [(''DomainName'', copyString L), (''ValidationDomain'', copyString L)]"

definition DomainValidationOption_DeepCopy :: "extlib \<Rightarrow> addr option \<Rightarrow> mem \<Rightarrow> addr option \<times> mem" where
  "DomainValidationOption_DeepCopy L = deepCopy L DomainValidationOption_T (DomainValidationOption_DeepCopyInto L)"

definition FailureDetails_DeepCopyInto :: "extlib \<Rightarrow> addr \<Rightarrow> addr \<Rightarrow> mem \<Rightarrow> mem" where
  "FailureDetails_DeepCopyInto L = structCopy L FailureDetails_fields
     [(''Message'', copyString L)]"

definition FailureDetails_DeepCopy :: "extlib \<Rightarrow> addr option \<Rightarrow> mem \<Rightarrow> addr option \<times> mem" where
  "FailureDetails_DeepCopy L = deepCopy L FailureDetails_T (FailureDetails_DeepCopyInto L)"

definition Filters_DeepCopyInto :: "extlib \<Rightarrow> addr \<Rightarrow> addr \<Rightarrow> mem \<Rightarrow> mem" where
  "Filters_DeepCopyInto L = structCopy L Filters_fields
     [(''ExportOption'', copyString L),
      (''ExtendedKeyUsage'', makeEach L (TPtr TStr) (copyString L)),
      (''KeyTypes'', makeEach L (TPtr TStr) (copyString L)),
      (''KeyUsage'', makeEach L (TPtr TStr) (copyString L)), (''ManagedBy'', copyString L)]"

definition Filters_DeepCopy :: "extlib \<Rightarrow> addr option \<Rightarrow> mem \<Rightarrow> addr option \<times> mem" where
  "Filters_DeepCopy L = deepCopy L Filters_T (Filters_DeepCopyInto L)"

definition GeneralName_DeepCopyInto :: "extlib \<Rightarrow> addr \<Rightarrow> addr \<Rightarrow> mem \<Rightarrow> mem" where
  "GeneralName_DeepCopyInto L = structCopy L GeneralName_fields
     [(''DNSName'', copyString L), (''IPAddress'', copyString L), (''RegisteredID'', copyString L),
      (''RFC822Name'', copyString L), (''UniformResourceIdentifier'', copyString L)]"

definition GeneralName_DeepCopy :: "extlib \<Rightarrow> addr option \<Rightarrow> mem \<Rightarrow> addr option \<times> mem" where
  "GeneralName_DeepCopy L = deepCopy L GeneralName_T (GeneralName_DeepCopyInto L)"

definition OtherName_DeepCopyInto :: "extlib \<Rightarrow> addr \<Rightarrow> addr \<Rightarrow> mem \<Rightarrow> mem" where
  "OtherName_DeepCopyInto L = structCopy L OtherName_fields
     [(''ObjectIdentifier'', copyString L), (''Value'', copyString L)]"

definition OtherName_DeepCopy :: "extlib \<Rightarrow> addr option \<Rightarrow> mem \<Rightarrow> addr option \<times> mem" where
  "OtherName_DeepCopy L = deepCopy L OtherName_T (OtherName_DeepCopyInto L)"

definition TimestampRange_DeepCopyInto :: "extlib \<Rightarrow> addr \<Rightarrow> addr \<Rightarrow> mem \<Rightarrow> mem" where
  "TimestampRange_DeepCopyInto L = structCopy L TimestampRange_fields
     [(''End'', newCopy L ExtTime), (''Start'', newCopy L ExtTime)]"

definition TimestampRange_DeepCopy :: "extlib \<Rightarrow> addr option \<Rightarrow> mem \<Rightarrow> addr option \<times> mem" where
  "TimestampRange_DeepCopy L = deepCopy L TimestampRange_T (TimestampRange_DeepCopyInto L)"

definition X509AttributeFilter_DeepCopyInto :: "extlib \<Rightarrow> addr \<Rightarrow> addr \<Rightarrow> mem \<Rightarrow> mem" where
  "X509AttributeFilter_DeepCopyInto L = structCopy L X509AttributeFilter_fields
     [(''ExtendedKeyUsage'', copyString L), (''KeyAlgorithm'', copyString L),
      (''KeyUsage'', copyString L)]"

definition X509AttributeFilter_DeepCopy :: "extlib \<Rightarrow> addr option \<Rightarrow> mem \<Rightarrow> addr option \<times> mem" where
  "X509AttributeFilter_DeepCopy L = deepCopy L X509AttributeFilter_T (X509AttributeFilter_DeepCopyInto L)"

definition X509Attributes_DeepCopyInto :: "extlib \<Rightarrow> addr \<Rightarrow> addr \<Rightarrow> mem \<Rightarrow> mem" where
  "X509Attributes_DeepCopyInto L = structCopy L X509Attributes_fields
     [(''ExtendedKeyUsages'', makeEach L (TPtr TStr) (copyString L)),
      (''KeyAlgorithm'', copyString L), (''KeyUsages'', makeEach L (TPtr TStr) (copyString L)),
      (''NotAfter'', newCopy L ExtTime), (''NotBefore'', newCopy L ExtTime)]"

definition X509Attributes_DeepCopy :: "extlib \<Rightarrow> addr option \<Rightarrow> mem \<Rightarrow> addr option \<times> mem" where
  "X509Attributes_DeepCopy L = deepCopy L X509Attributes_T (X509Attributes_DeepCopyInto L)"

definition CertificateSpec_DeepCopyInto :: "extlib \<Rightarrow> addr \<Rightarrow> addr \<Rightarrow> mem \<Rightarrow> mem" where
  "CertificateSpec_DeepCopyInto L = structCopy L CertificateSpec_fields
     [(''Certificate'', newInto L SecretKeyReference_T (assign (sz L SecretKeyReference_T))),
      (''CertificateARN'', copyString L), (''CertificateAuthorityARN'', copyString L),
      (''CertificateAuthorityRef'', newInto L (TExt ExtReferenceWrapper) (ext_DeepCopyInto L ExtReferenceWrapper)),
      (''CertificateChain'', newInto L SecretKeyReference_T (assign (sz L SecretKeyReference_T))),
      (''DomainName'', copyString L),
      (''DomainValidationOptions'', makeEach L (TPtr DomainValidationOption_T) (newInto L DomainValidationOption_T (DomainValidationOption_DeepCopyInto L))),
      (''ExportTo'', newInto L SecretKeyReference_T (assign (sz L SecretKeyReference_T))),
      (''KeyAlgorithm'', copyString L), (''ManagedBy'', copyString L),
      (''Options'', newInto L CertificateOptions_T (CertificateOptions_DeepCopyInto L)),
      (''PrivateKey'', newInto L SecretKeyReference_T (assign (sz L SecretKeyReference_T))),
      (''SubjectAlternativeNames'', makeEach L (TPtr TStr) (copyString L)),
      (''Tags'', makeEach L (TPtr Tag_T) (newInto L Tag_T (Tag_DeepCopyInto L)))]"

definition CertificateSpec_DeepCopy :: "extlib \<Rightarrow> addr option \<Rightarrow> mem \<Rightarrow> addr option \<times> mem" where
  "CertificateSpec_DeepCopy L = deepCopy L CertificateSpec_T (CertificateSpec_DeepCopyInto L)"

definition CertificateStatus_DeepCopyInto :: "extlib \<Rightarrow> addr \<Rightarrow> addr \<Rightarrow> mem \<Rightarrow> mem" where
  "CertificateStatus_DeepCopyInto L = structCopy L CertificateStatus_fields
     [
      (''ACKResourceMetadata'', newInto L (TExt ExtResourceMetadata) (ext_DeepCopyInto L ExtResourceMetadata)),
      (''Conditions'', makeEach L (TPtr (TExt ExtCondition)) (newInto L (TExt ExtCondition) (ext_DeepCopyInto L ExtCondition))),
      (''CreatedAt'', newCopy L ExtTime),
      (''DomainValidations'', makeEach L (TPtr DomainValidation_T) (newInto L DomainValidation_T (DomainValidation_DeepCopyInto L))),
      (''ExtendedKeyUsages'', makeEach L (TPtr ExtendedKeyUsage_T) (newInto L ExtendedKeyUsage_T (ExtendedKeyUsage_DeepCopyInto L))),
      (''FailureReason'', copyString L), (''ImportedAt'', newCopy L ExtTime),
      (''InUseBy'', makeEach L (TPtr TStr) (copyString L)), (''IssuedAt'', newCopy L ExtTime),
      (''Issuer'', copyString L),
      (''KeyUsages'', makeEach L (TPtr KeyUsage_T) (newInto L KeyUsage_T (KeyUsage_DeepCopyInto L))),
      (''NotAfter'', newCopy L ExtTime), (''NotBefore'', newCopy L ExtTime),
      (''RenewalEligibility'', copyString L),
      (''RenewalSummary'', newInto L RenewalSummary_T (RenewalSummary_DeepCopyInto L)),
      (''RevocationReason'', copyString L), (''RevokedAt'', newCopy L ExtTime),
      (''Serial'', copyString L), (''SignatureAlgorithm'', copyString L),
      (''Status'', copyString L), (''Subject'', copyString L), (''Type'', copyString L)]"

definition CertificateStatus_DeepCopy :: "extlib \<Rightarrow> addr option \<Rightarrow> mem \<Rightarrow> addr option \<times> mem" where
  "CertificateStatus_DeepCopy L = deepCopy L CertificateStatus_T (CertificateStatus_DeepCopyInto L)"

definition Certificate_DeepCopyInto :: "extlib \<Rightarrow> addr \<Rightarrow> addr \<Rightarrow> mem \<Rightarrow> mem" where
  "Certificate_DeepCopyInto L = structCopy L Certificate_fields
     [(''TypeMeta'', assign (sz L TypeMeta_T)), (''ObjectMeta'', ext_DeepCopyInto L ExtObjectMeta),
      (''Spec'', CertificateSpec_DeepCopyInto L), (''Status'', CertificateStatus_DeepCopyInto L)]"

definition Certificate_DeepCopy :: "extlib \<Rightarrow> addr option \<Rightarrow> mem \<Rightarrow> addr option \<times> mem" where
  "Certificate_DeepCopy L = deepCopy L Certificate_T (Certificate_DeepCopyInto L)"

definition CertificateList_DeepCopyInto :: "extlib \<Rightarrow> addr \<Rightarrow> addr \<Rightarrow> mem \<Rightarrow> mem" where
  "CertificateList_DeepCopyInto L = structCopy L CertificateList_fields
     [(''TypeMeta'', assign (sz L TypeMeta_T)), (''ListMeta'', ext_DeepCopyInto L ExtListMeta),
      (''Items'', makeEach L Certificate_T (Certificate_DeepCopyInto L))]"

definition CertificateList_DeepCopy :: "extlib \<Rightarrow> addr option \<Rightarrow> mem \<Rightarrow> addr option \<times> mem" where
  "CertificateList_DeepCopy L = deepCopy L CertificateList_T (CertificateList_DeepCopyInto L)"

definition Certificate_DeepCopyObject :: "extlib \<Rightarrow> addr option \<Rightarrow> mem \<Rightarrow> addr option \<times> mem" where
  "Certificate_DeepCopyObject L i m =
     (case Certificate_DeepCopy L i m of
        (Some c, m) \<Rightarrow> (Some c, m)
      | (None, m) \<Rightarrow> (None, m))"

definition CertificateList_DeepCopyObject :: "extlib \<Rightarrow> addr option \<Rightarrow> mem \<Rightarrow> addr option \<times> mem" where
  "CertificateList_DeepCopyObject L i m =
     (case CertificateList_DeepCopy L i m of
        (Some c, m) \<Rightarrow> (Some c, m)
      | (None, m) \<Rightarrow> (None, m))"

section \<open>Every generated function is a deep copy\<close>

named_theorems copy_rules "contracts of copy functions"

lemma contract_string [copy_rules]: "contract L (\<lambda>_ _. True) TStr (assign (sz L TStr))"
  and contract_bool [copy_rules]: "contract L (\<lambda>_ _. True) TBool (assign (sz L TBool))"
  by (rule contract_flat, simp)+

lemma flat_structs [simp]: "flat TypeMeta_T" "flat SecretKeyReference_T"
  by (simp_all add: TypeMeta_T_def SecretKeyReference_T_def)

lemma field_assign: "flat t \<Longrightarrow> contract L (=) t (assign (sz L t))"
  by (rule contract_mono [OF contract_flat]) simp_all

lemma field_into: "contract L (\<lambda>_ _. True) t f \<Longrightarrow> contract L (=) t f"
  by (erule contract_mono) simp

lemma field_new:
  "ext_copy_laws L \<Longrightarrow> contract L (\<lambda>_ _. True) t f \<Longrightarrow> contract L (=) (TPtr t) (newInto L t f)"
  by (rule contract_mono [OF contract_newInto]) (simp_all add: nil_kept_eq)

lemma field_newCopy: "ext_copy_laws L \<Longrightarrow> contract L (=) (TPtr (TExt e)) (newCopy L e)"
  by (rule contract_mono [OF contract_newCopy]) (simp_all add: nil_kept_eq)

lemma field_makeEach:
  "ext_copy_laws L \<Longrightarrow> contract L (\<lambda>_ _. True) t f \<Longrightarrow>
   contract L (=) (TSlice (TPtr t)) (makeEach L (TPtr t) (newInto L t f))"
  by (rule contract_makeEach [OF _ contract_newInto]) (simp_all only: nil_kept_zero)

lemma field_makeEach_values:
  "ext_copy_laws L \<Longrightarrow> contract L (\<lambda>_ _. True) t f \<Longrightarrow> contract L (=) (TSlice t) (makeEach L t f)"
  by (rule contract_makeEach) simp_all

lemma field_string:
  "ext_copy_laws L \<Longrightarrow> contract L (=) (TPtr TStr) (copyString L)"
  "ext_copy_laws L \<Longrightarrow> contract L (=) (TPtr TBool) (copyBool L)"
  "ext_copy_laws L \<Longrightarrow> contract L (=) (TSlice (TPtr TStr)) (makeEach L (TPtr TStr) (copyString L))"
  by (simp_all only: copyString_def copyBool_def field_new field_makeEach copy_rules)

lemma field_secret:
  "ext_copy_laws L \<Longrightarrow> contract L (=) (TPtr SecretKeyReference_T)
     (newInto L SecretKeyReference_T (assign (sz L SecretKeyReference_T)))"
  by (simp only: field_new contract_flat flat_structs)

lemmas field_rules = field_string field_secret field_newCopy field_new field_makeEach
  field_makeEach_values [where t = Certificate_T]
  field_assign [where t = TypeMeta_T] ext_copy_into
  field_into [where t = "TExt e" for e] field_into [where t = CertificateSpec_T]
  field_into [where t = CertificateStatus_T]

lemma struct_contract:
  assumes "ext_copy_laws L" and "covers L fs ss" and "distinct (map fst fs)"
    and "t = TStruct (map snd fs)" and "f = structCopy L fs ss"
  shows "contract L (\<lambda>_ _. True) t f"
  using contract_structCopy [OF assms(1-3)] assms(4,5) by simp

lemma ACMCertificateMetadata_copies [copy_rules]:
  "ext_copy_laws L \<Longrightarrow> contract L (\<lambda>_ _. True) ACMCertificateMetadata_T (ACMCertificateMetadata_DeepCopyInto L)"
  by (rule struct_contract [OF _ _ _ ACMCertificateMetadata_T_def ACMCertificateMetadata_DeepCopyInto_def])
    (simp_all add: ACMCertificateMetadata_fields_def field_rules copy_rules)

lemma ACMCertificateMetadataFilter_copies [copy_rules]:
  "ext_copy_laws L \<Longrightarrow> contract L (\<lambda>_ _. True) ACMCertificateMetadataFilter_T (ACMCertificateMetadataFilter_DeepCopyInto L)"
  by (rule struct_contract [OF _ _ _ ACMCertificateMetadataFilter_T_def ACMCertificateMetadataFilter_DeepCopyInto_def])
    (simp_all add: ACMCertificateMetadataFilter_fields_def field_rules copy_rules)

lemma AcmeAccount_copies [copy_rules]:
  "ext_copy_laws L \<Longrightarrow> contract L (\<lambda>_ _. True) AcmeAccount_T (AcmeAccount_DeepCopyInto L)"
  by (rule struct_contract [OF _ _ _ AcmeAccount_T_def AcmeAccount_DeepCopyInto_def])
    (simp_all add: AcmeAccount_fields_def field_rules copy_rules)

lemma AcmeAccountSummary_copies [copy_rules]:
  "ext_copy_laws L \<Longrightarrow> contract L (\<lambda>_ _. True) AcmeAccountSummary_T (AcmeAccountSummary_DeepCopyInto L)"
  by (rule struct_contract [OF _ _ _ AcmeAccountSummary_T_def AcmeAccountSummary_DeepCopyInto_def])
    (simp_all add: AcmeAccountSummary_fields_def field_rules copy_rules)

lemma Tag_copies [copy_rules]:
  "ext_copy_laws L \<Longrightarrow> contract L (\<lambda>_ _. True) Tag_T (Tag_DeepCopyInto L)"
  by (rule struct_contract [OF _ _ _ Tag_T_def Tag_DeepCopyInto_def])
    (simp_all add: Tag_fields_def field_rules copy_rules)

lemma AcmeEndpoint_copies [copy_rules]:
  "ext_copy_laws L \<Longrightarrow> contract L (\<lambda>_ _. True) AcmeEndpoint_T (AcmeEndpoint_DeepCopyInto L)"
  by (rule struct_contract [OF _ _ _ AcmeEndpoint_T_def AcmeEndpoint_DeepCopyInto_def])
    (simp_all add: AcmeEndpoint_fields_def field_rules copy_rules)

lemma AcmeEndpointSummary_copies [copy_rules]:
  "ext_copy_laws L \<Longrightarrow> contract L (\<lambda>_ _. True) AcmeEndpointSummary_T (AcmeEndpointSummary_DeepCopyInto L)"
  by (rule struct_contract [OF _ _ _ AcmeEndpointSummary_T_def AcmeEndpointSummary_DeepCopyInto_def])
    (simp_all add: AcmeEndpointSummary_fields_def field_rules copy_rules)

lemma HTTPRedirect_copies [copy_rules]:
  "ext_copy_laws L \<Longrightarrow> contract L (\<lambda>_ _. True) HTTPRedirect_T (HTTPRedirect_DeepCopyInto L)"
  by (rule struct_contract [OF _ _ _ HTTPRedirect_T_def HTTPRedirect_DeepCopyInto_def])
    (simp_all add: HTTPRedirect_fields_def field_rules copy_rules)

lemma ResourceRecord_copies [copy_rules]:
  "ext_copy_laws L \<Longrightarrow> contract L (\<lambda>_ _. True) ResourceRecord_T (ResourceRecord_DeepCopyInto L)"
  by (rule struct_contract [OF _ _ _ ResourceRecord_T_def ResourceRecord_DeepCopyInto_def])
    (simp_all add: ResourceRecord_fields_def field_rules copy_rules)

lemma DomainValidation_copies [copy_rules]:
  "ext_copy_laws L \<Longrightarrow> contract L (\<lambda>_ _. True) DomainValidation_T (DomainValidation_DeepCopyInto L)"
  by (rule struct_contract [OF _ _ _ DomainValidation_T_def DomainValidation_DeepCopyInto_def])
    (simp_all add: DomainValidation_fields_def field_rules copy_rules)

lemma ExtendedKeyUsage_copies [copy_rules]:
  "ext_copy_laws L \<Longrightarrow> contract L (\<lambda>_ _. True) ExtendedKeyUsage_T (ExtendedKeyUsage_DeepCopyInto L)"
  by (rule struct_contract [OF _ _ _ ExtendedKeyUsage_T_def ExtendedKeyUsage_DeepCopyInto_def])
    (simp_all add: ExtendedKeyUsage_fields_def field_rules copy_rules)

lemma KeyUsage_copies [copy_rules]:
  "ext_copy_laws L \<Longrightarrow> contract L (\<lambda>_ _. True) KeyUsage_T (KeyUsage_DeepCopyInto L)"
  by (rule struct_contract [OF _ _ _ KeyUsage_T_def KeyUsage_DeepCopyInto_def])
    (simp_all add: KeyUsage_fields_def field_rules copy_rules)

lemma CertificateOptions_copies [copy_rules]:
  "ext_copy_laws L \<Longrightarrow> contract L (\<lambda>_ _. True) CertificateOptions_T (CertificateOptions_DeepCopyInto L)"
  by (rule struct_contract [OF _ _ _ CertificateOptions_T_def CertificateOptions_DeepCopyInto_def])
    (simp_all add: CertificateOptions_fields_def field_rules copy_rules)

lemma RenewalSummary_copies [copy_rules]:
  "ext_copy_laws L \<Longrightarrow> contract L (\<lambda>_ _. True) RenewalSummary_T (RenewalSummary_DeepCopyInto L)"
  by (rule struct_contract [OF _ _ _ RenewalSummary_T_def RenewalSummary_DeepCopyInto_def])
    (simp_all add: RenewalSummary_fields_def field_rules copy_rules)

lemma CertificateDetail_copies [copy_rules]:
  "ext_copy_laws L \<Longrightarrow> contract L (\<lambda>_ _. True) CertificateDetail_T (CertificateDetail_DeepCopyInto L)"
  by (rule struct_contract [OF _ _ _ CertificateDetail_T_def CertificateDetail_DeepCopyInto_def])
    (simp_all add: CertificateDetail_fields_def field_rules copy_rules)

lemma CertificateFilter_copies [copy_rules]:
  "ext_copy_laws L \<Longrightarrow> contract L (\<lambda>_ _. True) CertificateFilter_T (CertificateFilter_DeepCopyInto L)"
  by (rule struct_contract [OF _ _ _ CertificateFilter_T_def CertificateFilter_DeepCopyInto_def])
    (simp_all add: CertificateFilter_fields_def field_rules copy_rules)

lemma CertificateSearchResult_copies [copy_rules]:
  "ext_copy_laws L \<Longrightarrow> contract L (\<lambda>_ _. True) CertificateSearchResult_T (CertificateSearchResult_DeepCopyInto L)"
  by (rule struct_contract [OF _ _ _ CertificateSearchResult_T_def CertificateSearchResult_DeepCopyInto_def])
    (simp_all add: CertificateSearchResult_fields_def field_rules copy_rules)

lemma CertificateSummary_copies [copy_rules]:
  "ext_copy_laws L \<Longrightarrow> contract L (\<lambda>_ _. True) CertificateSummary_T (CertificateSummary_DeepCopyInto L)"
  by (rule struct_contract [OF _ _ _ CertificateSummary_T_def CertificateSummary_DeepCopyInto_def])
    (simp_all add: CertificateSummary_fields_def field_rules copy_rules)

lemma CustomAttribute_copies [copy_rules]:
  "ext_copy_laws L \<Longrightarrow> contract L (\<lambda>_ _. True) CustomAttribute_T (CustomAttribute_DeepCopyInto L)"
  by (rule struct_contract [OF _ _ _ CustomAttribute_T_def CustomAttribute_DeepCopyInto_def])
    (simp_all add: CustomAttribute_fields_def field_rules copy_rules)

lemma DNSPrevalidationDetails_copies [copy_rules]:
  "ext_copy_laws L \<Longrightarrow> contract L (\<lambda>_ _. True) DNSPrevalidationDetails_T (DNSPrevalidationDetails_DeepCopyInto L)"
  by (rule struct_contract [OF _ _ _ DNSPrevalidationDetails_T_def DNSPrevalidationDetails_DeepCopyInto_def])
    (simp_all add: DNSPrevalidationDetails_fields_def field_rules copy_rules)

lemma DistinguishedName_copies [copy_rules]:
  "ext_copy_laws L \<Longrightarrow> contract L (\<lambda>_ _. True) DistinguishedName_T (DistinguishedName_DeepCopyInto L)"
  by (rule struct_contract [OF _ _ _ DistinguishedName_T_def DistinguishedName_DeepCopyInto_def])
    (simp_all add: DistinguishedName_fields_def field_rules copy_rules)

lemma DomainValidationOption_copies [copy_rules]:
  "ext_copy_laws L \<Longrightarrow> contract L (\<lambda>_ _. True) DomainValidationOption_T (DomainValidationOption_DeepCopyInto L)"
  by (rule struct_contract [OF _ _ _ DomainValidationOption_T_def DomainValidationOption_DeepCopyInto_def])
    (simp_all add: DomainValidationOption_fields_def field_rules copy_rules)

lemma FailureDetails_copies [copy_rules]:
  "ext_copy_laws L \<Longrightarrow> contract L (\<lambda>_ _. True) FailureDetails_T (FailureDetails_DeepCopyInto L)"
  by (rule struct_contract [OF _ _ _ FailureDetails_T_def FailureDetails_DeepCopyInto_def])
    (simp_all add: FailureDetails_fields_def field_rules copy_rules)

lemma Filters_copies [copy_rules]:
  "ext_copy_laws L \<Longrightarrow> contract L (\<lambda>_ _. True) Filters_T (Filters_DeepCopyInto L)"
  by (rule struct_contract [OF _ _ _ Filters_T_def Filters_DeepCopyInto_def])
    (simp_all add: Filters_fields_def field_rules copy_rules)

lemma GeneralName_copies [copy_rules]:
  "ext_copy_laws L \<Longrightarrow> contract L (\<lambda>_ _. True) GeneralName_T (GeneralName_DeepCopyInto L)"
  by (rule struct_contract [OF _ _ _ GeneralName_T_def GeneralName_DeepCopyInto_def])
    (simp_all add: GeneralName_fields_def field_rules copy_rules)

lemma OtherName_copies [copy_rules]:
  "ext_copy_laws L \<Longrightarrow> contract L (\<lambda>_ _. True) OtherName_T (OtherName_DeepCopyInto L)"
  by (rule struct_contract [OF _ _ _ OtherName_T_def OtherName_DeepCopyInto_def])
    (simp_all add: OtherName_fields_def field_rules copy_rules)

lemma TimestampRange_copies [copy_rules]:
  "ext_copy_laws L \<Longrightarrow> contract L (\<lambda>_ _. True) TimestampRange_T (TimestampRange_DeepCopyInto L)"
  by (rule struct_contract [OF _ _ _ TimestampRange_T_def TimestampRange_DeepCopyInto_def])
    (simp_all add: TimestampRange_fields_def field_rules copy_rules)

lemma X509AttributeFilter_copies [copy_rules]:
  "ext_copy_laws L \<Longrightarrow> contract L (\<lambda>_ _. True) X509AttributeFilter_T (X509AttributeFilter_DeepCopyInto L)"
  by (rule struct_contract [OF _ _ _ X509AttributeFilter_T_def X509AttributeFilter_DeepCopyInto_def])
    (simp_all add: X509AttributeFilter_fields_def field_rules copy_rules)

lemma X509Attributes_copies [copy_rules]:
  "ext_copy_laws L \<Longrightarrow> contract L (\<lambda>_ _. True) X509Attributes_T (X509Attributes_DeepCopyInto L)"
  by (rule struct_contract [OF _ _ _ X509Attributes_T_def X509Attributes_DeepCopyInto_def])
    (simp_all add: X509Attributes_fields_def field_rules copy_rules)

lemma CertificateSpec_copies [copy_rules]:
  "ext_copy_laws L \<Longrightarrow> contract L (\<lambda>_ _. True) CertificateSpec_T (CertificateSpec_DeepCopyInto L)"
  by (rule struct_contract [OF _ _ _ CertificateSpec_T_def CertificateSpec_DeepCopyInto_def])
    (simp_all add: CertificateSpec_fields_def field_rules copy_rules)

lemma CertificateStatus_copies [copy_rules]:
  "ext_copy_laws L \<Longrightarrow> contract L (\<lambda>_ _. True) CertificateStatus_T (CertificateStatus_DeepCopyInto L)"
  by (rule struct_contract [OF _ _ _ CertificateStatus_T_def CertificateStatus_DeepCopyInto_def])
    (simp_all add: CertificateStatus_fields_def field_rules copy_rules)

lemma Certificate_copies [copy_rules]:
  "ext_copy_laws L \<Longrightarrow> contract L (\<lambda>_ _. True) Certificate_T (Certificate_DeepCopyInto L)"
  by (rule struct_contract [OF _ _ _ Certificate_T_def Certificate_DeepCopyInto_def])
    (simp_all add: Certificate_fields_def field_rules copy_rules)

lemma CertificateList_copies [copy_rules]:
  "ext_copy_laws L \<Longrightarrow> contract L (\<lambda>_ _. True) CertificateList_T (CertificateList_DeepCopyInto L)"
  by (rule struct_contract [OF _ _ _ CertificateList_T_def CertificateList_DeepCopyInto_def])
    (simp_all add: CertificateList_fields_def field_rules copy_rules)


end
