(* ===== verification/CopyModel.thy ===== *)
theory CopyModel
  imports DeepCopy
begin

text \<open>
  The link between objects in memory and the values of the other theories: \<open>holds\<close> says that
  the object at an address is the Certificate with a given value. A memory object stands for
  one value only, and \<open>DeepCopy\<close> makes an independent object with the same value. This is why
  the other theories can take a deep copy for the value itself.
\<close>

section \<open>Values as trees\<close>

definition tPtr :: "('a \<Rightarrow> gotree) \<Rightarrow> 'a option \<Rightarrow> gotree" where
  "tPtr f x = (case x of None \<Rightarrow> Null | Some y \<Rightarrow> Ref (f y))"

definition tSlice :: "('a \<Rightarrow> gotree) \<Rightarrow> 'a option slice \<Rightarrow> gotree" where
  "tSlice f xs = (case xs of None \<Rightarrow> Null | Some ys \<Rightarrow> Elems (map (tPtr f) ys))"

abbreviation tStr :: "string option \<Rightarrow> gotree" where "tStr \<equiv> tPtr Str"
abbreviation tTime :: "time option \<Rightarrow> gotree" where "tTime \<equiv> tPtr (\<lambda>t. Opaque (XTime t))"

definition secretTree :: "SecretKeyReference \<Rightarrow> gotree" where
  "secretTree r = Fields [Str (skr_Name r), Str (skr_Namespace r), Str (skr_Key r)]"

definition optionsTree :: "CertificateOptions \<Rightarrow> gotree" where
  "optionsTree r = Fields [tStr (opts_CertificateTransparencyLoggingPreference r), tStr (opts_Export r)]"

definition redirectTree :: "HTTPRedirect \<Rightarrow> gotree" where
  "redirectTree r = Fields [tStr (hr_RedirectFrom r), tStr (hr_RedirectTo r)]"

definition recordTree :: "ResourceRecord \<Rightarrow> gotree" where
  "recordTree r = Fields [tStr (rr_Name r), tStr (rr_Type r), tStr (rr_Value r)]"

definition validationTree :: "DomainValidation \<Rightarrow> gotree" where
  "validationTree r = Fields [tStr (dv_DomainName r), tPtr redirectTree (dv_HTTPRedirect r),
     tPtr recordTree (dv_ResourceRecord r), tStr (dv_ValidationDomain r),
     tSlice Str (dv_ValidationEmails r), tStr (dv_ValidationMethod r), tStr (dv_ValidationStatus r)]"

definition validationOptionTree :: "DomainValidationOption \<Rightarrow> gotree" where
  "validationOptionTree r = Fields [tStr (dvo_DomainName r), tStr (dvo_ValidationDomain r)]"

definition extendedUsageTree :: "ExtendedKeyUsage \<Rightarrow> gotree" where
  "extendedUsageTree r = Fields [tStr (eku_Name r), tStr (eku_OID r)]"

definition usageTree :: "KeyUsage \<Rightarrow> gotree" where
  "usageTree r = Fields [tStr (ku_Name r)]"

definition renewalTree :: "RenewalSummary \<Rightarrow> gotree" where
  "renewalTree r = Fields [tSlice validationTree (rs_DomainValidationOptions r),
     tStr (rs_RenewalStatus r), tStr (rs_RenewalStatusReason r), tTime (rs_UpdatedAt r)]"

definition tagTree :: "Tag \<Rightarrow> gotree" where
  "tagTree r = Fields [tStr (tag_Key r), tStr (tag_Value r)]"

definition specTree :: "CertificateSpec \<Rightarrow> gotree" where
  "specTree r = Fields [tPtr secretTree (spec_Certificate r), tStr (spec_CertificateARN r),
     tStr (spec_CertificateAuthorityARN r),
     tPtr (\<lambda>w. Opaque (XReferenceWrapper w)) (spec_CertificateAuthorityRef r),
     tPtr secretTree (spec_CertificateChain r), tStr (spec_DomainName r),
     tSlice validationOptionTree (spec_DomainValidationOptions r),
     tPtr secretTree (spec_ExportTo r), tStr (spec_KeyAlgorithm r), tStr (spec_ManagedBy r),
     tPtr optionsTree (spec_Options r), tPtr secretTree (spec_PrivateKey r),
     tSlice Str (spec_SubjectAlternativeNames r), tSlice tagTree (spec_Tags r)]"

definition statusTree :: "CertificateStatus \<Rightarrow> gotree" where
  "statusTree r = Fields [tPtr (\<lambda>m. Opaque (XResourceMetadata m)) (st_ACKResourceMetadata r),
     tSlice (\<lambda>c. Opaque (XCondition c)) (st_Conditions r), tTime (st_CreatedAt r),
     tSlice validationTree (st_DomainValidations r),
     tSlice extendedUsageTree (st_ExtendedKeyUsages r), tStr (st_FailureReason r),
     tTime (st_ImportedAt r), tSlice Str (st_InUseBy r), tTime (st_IssuedAt r),
     tStr (st_Issuer r), tSlice usageTree (st_KeyUsages r), tTime (st_NotAfter r),
     tTime (st_NotBefore r), tStr (st_RenewalEligibility r), tPtr renewalTree (st_RenewalSummary r),
     tStr (st_RevocationReason r), tTime (st_RevokedAt r), tStr (st_Serial r),
     tStr (st_SignatureAlgorithm r), tStr (st_Status r), tStr (st_Subject r), tStr (st_Type r)]"

definition certTree :: "string \<times> string \<Rightarrow> Certificate \<Rightarrow> gotree" where
  "certTree meta ko = Fields [Fields [Str (fst meta), Str (snd meta)],
     Opaque (XObjectMeta (ko_ObjectMeta ko)), specTree (ko_Spec ko), statusTree (ko_Status ko)]"

definition holds :: "extlib \<Rightarrow> mem \<Rightarrow> addr \<Rightarrow> Certificate \<Rightarrow> bool" where
  "holds L m i ko \<longleftrightarrow> (\<exists>meta. valid L Certificate_T m i (certTree meta ko))"

lemma tPtr_eq: "(\<And>a b. f a = f b \<longleftrightarrow> a = b) \<Longrightarrow> tPtr f x = tPtr f y \<longleftrightarrow> x = y"
  by (auto simp: tPtr_def split: option.splits)

lemma tSlice_eq:
  assumes "\<And>a b. f a = f b \<longleftrightarrow> a = b"
  shows "tSlice f x = tSlice f y \<longleftrightarrow> x = y"
proof -
  have "map (tPtr f) xs = map (tPtr f) ys \<longleftrightarrow> xs = ys" for xs ys
    by (rule inj_map_eq_map, rule injI) (simp add: tPtr_eq [OF assms])
  then show ?thesis by (auto simp: tSlice_def split: option.splits)
qed

lemma tree_eqs [simp]:
  "tStr a = tStr b \<longleftrightarrow> a = b" "tSlice Str c = tSlice Str d \<longleftrightarrow> c = d" "tTime e = tTime f \<longleftrightarrow> e = f"
  by (simp_all add: tPtr_eq tSlice_eq)

lemma secretTree_eq [simp]: "secretTree a = secretTree b \<longleftrightarrow> a = b"
  and optionsTree_eq [simp]: "optionsTree c = optionsTree d \<longleftrightarrow> c = d"
  and redirectTree_eq [simp]: "redirectTree e = redirectTree f \<longleftrightarrow> e = f"
  and recordTree_eq [simp]: "recordTree g = recordTree h \<longleftrightarrow> g = h"
  and validationOptionTree_eq [simp]: "validationOptionTree i = validationOptionTree j \<longleftrightarrow> i = j"
  and extendedUsageTree_eq [simp]: "extendedUsageTree k = extendedUsageTree l \<longleftrightarrow> k = l"
  and usageTree_eq [simp]: "usageTree n = usageTree p \<longleftrightarrow> n = p"
  and tagTree_eq [simp]: "tagTree q = tagTree r \<longleftrightarrow> q = r"
  by (auto simp: secretTree_def optionsTree_def redirectTree_def recordTree_def validationOptionTree_def
      extendedUsageTree_def usageTree_def tagTree_def)

lemma validationTree_eq [simp]: "validationTree a = validationTree b \<longleftrightarrow> a = b"
  by (auto simp: validationTree_def tPtr_eq)

lemma renewalTree_eq [simp]: "renewalTree a = renewalTree b \<longleftrightarrow> a = b"
  by (auto simp: renewalTree_def tSlice_eq)

lemma specTree_eq [simp]: "specTree a = specTree b \<longleftrightarrow> a = b"
proof
  show "specTree a = specTree b \<Longrightarrow> a = b"
    by (rule CertificateSpec.equality) (simp_all add: specTree_def tPtr_eq tSlice_eq)
qed simp

lemma statusTree_eq [simp]: "statusTree a = statusTree b \<longleftrightarrow> a = b"
proof
  show "statusTree a = statusTree b \<Longrightarrow> a = b"
    by (rule CertificateStatus.equality) (simp_all add: statusTree_def tPtr_eq tSlice_eq)
qed simp

lemma certTree_eq: "certTree x a = certTree y b \<longleftrightarrow> x = y \<and> a = b"
  by (cases a, cases b) (auto simp: certTree_def prod_eq_iff)

lemma holds_unique: "holds L m i a \<Longrightarrow> holds L m i b \<Longrightarrow> a = b"
  by (auto simp: holds_def valid_def certTree_eq)

end
