(* ===== verification/CopyTypes.thy ===== *)
theory CopyTypes
  imports CopyModel
begin

text \<open>
  The structs of \<open>types.go\<close> and \<open>certificate.go\<close> as descriptors and as records have the same
  values: what is read at a well-formed Certificate in memory is the tree of exactly one record.
\<close>

section \<open>Well-typed trees\<close>

fun extType :: "extval \<Rightarrow> extty" where
  "extType (XObjectMeta _) = ExtObjectMeta"
| "extType (XListMeta _) = ExtListMeta"
| "extType (XReferenceWrapper _) = ExtReferenceWrapper"
| "extType (XResourceMetadata _) = ExtResourceMetadata"
| "extType (XCondition _) = ExtCondition"
| "extType (XTime _) = ExtTime"

definition ext_typed :: "extlib \<Rightarrow> bool" where
  "ext_typed L \<longleftrightarrow> (\<forall>e m a v. ext_rd L e m a = Some v \<longrightarrow> extType v = e)"

fun wt :: "ty \<Rightarrow> gotree \<Rightarrow> bool" and wts :: "ty list \<Rightarrow> gotree list \<Rightarrow> bool" where
  "wt TStr v \<longleftrightarrow> (\<exists>s. v = Str s)"
| "wt TBool v \<longleftrightarrow> (\<exists>b. v = Bool b)"
| "wt (TPtr t) v \<longleftrightarrow> v = Null \<or> (\<exists>w. v = Ref w \<and> wt t w)"
| "wt (TSlice t) v \<longleftrightarrow> v = Null \<or> (\<exists>ws. v = Elems ws \<and> (\<forall>w \<in> set ws. wt t w))"
| "wt (TStruct ts) v \<longleftrightarrow> (\<exists>ws. v = Fields ws \<and> wts ts ws)"
| "wt (TExt e) v \<longleftrightarrow> (\<exists>x. v = Opaque x \<and> extType x = e)"
| "wts [] ws \<longleftrightarrow> ws = []"
| "wts (t # ts) ws \<longleftrightarrow> (\<exists>v vs. ws = v # vs \<and> wt t v \<and> wts ts vs)"

lemma those_set: "those xs = Some ys \<Longrightarrow> \<forall>y \<in> set ys. Some y \<in> set xs"
  by (induction xs arbitrary: ys) (auto split: option.splits)

lemma rd_wt:
  assumes "ext_typed L"
  shows "rd L t m a = Some v \<Longrightarrow> wt t v" and "rds L ts m a = Some vs \<Longrightarrow> wts ts vs"
  using assms
proof (induction L t m a and L ts m a arbitrary: v and vs rule: rd_rds.induct)
  case (4 L t m a)
  then show ?case by (fastforce split: slot.splits option.splits dest: those_set)
qed (auto simp: ext_typed_def split: slot.splits option.splits)

definition represents :: "ty \<Rightarrow> ('a \<Rightarrow> gotree) \<Rightarrow> bool" where
  "represents t f \<longleftrightarrow> (\<forall>v. wt t v \<longleftrightarrow> (\<exists>a. v = f a))"

lemma represents_Str: "represents TStr Str"
  and represents_Time: "represents (TExt ExtTime) (\<lambda>t. Opaque (XTime t))"
  by (auto simp: represents_def elim: extType.elims)

lemma represents_ext:
  "represents (TExt ExtObjectMeta) (\<lambda>t. Opaque (XObjectMeta t))"
  "represents (TExt ExtReferenceWrapper) (\<lambda>t. Opaque (XReferenceWrapper t))"
  "represents (TExt ExtResourceMetadata) (\<lambda>t. Opaque (XResourceMetadata t))"
  "represents (TExt ExtCondition) (\<lambda>t. Opaque (XCondition t))"
  by (auto simp: represents_def elim: extType.elims)

lemma represents_Ptr: "represents t f \<Longrightarrow> represents (TPtr t) (tPtr f)"
  unfolding represents_def tPtr_def
  by (auto split: option.splits)

lemma represents_Slice:
  assumes "represents t f"
  shows "represents (TSlice (TPtr t)) (tSlice f)"
proof -
  have "(\<forall>w \<in> set ws. wt (TPtr t) w) \<longleftrightarrow> (\<exists>ys. ws = map (tPtr f) ys)" for ws
    using represents_Ptr [OF assms]
    by (induction ws) (auto simp: represents_def Cons_eq_map_conv)
  then show ?thesis
    unfolding represents_def tSlice_def
    by (auto split: option.splits)
qed


section \<open>The records\<close>

named_theorems wt_field

lemma wt_represents: "represents t f \<Longrightarrow> wt t v \<longleftrightarrow> (\<exists>a. v = f a)"
  by (simp add: represents_def)

lemmas ptr_wt = represents_Ptr [THEN wt_represents]
lemmas slice_wt = represents_Slice [THEN wt_represents]

lemmas wt_base [wt_field] = represents_ext [THEN wt_represents] represents_ext [THEN ptr_wt]
  represents_ext [THEN slice_wt] represents_Str [THEN ptr_wt] represents_Str [THEN slice_wt]
  represents_Time [THEN ptr_wt]

text \<open>A struct is a list of fields each of which is known.\<close>

lemma wt_TypeMeta [wt_field]: "wt TypeMeta_T v \<longleftrightarrow> (\<exists>a b. v = Fields [Str a, Str b])"
  by (auto simp: TypeMeta_T_def)

lemma represents_struct:
  "(\<And>v. wts ts v \<longleftrightarrow> (\<exists>a. f a = Fields v)) \<Longrightarrow> (\<And>a. \<exists>v. f a = Fields v) \<Longrightarrow> represents (TStruct ts) f"
  unfolding represents_def by simp metis

lemma represents_leaves:
  shows "represents SecretKeyReference_T secretTree"
    and "represents CertificateOptions_T optionsTree"
    and "represents HTTPRedirect_T redirectTree"
    and "represents ResourceRecord_T recordTree"
    and "represents DomainValidationOption_T validationOptionTree"
    and "represents ExtendedKeyUsage_T extendedUsageTree"
    and "represents KeyUsage_T usageTree"
    and "represents Tag_T tagTree"
  unfolding SecretKeyReference_T_def CertificateOptions_T_def HTTPRedirect_T_def ResourceRecord_T_def
    DomainValidationOption_T_def ExtendedKeyUsage_T_def KeyUsage_T_def Tag_T_def
  by (rule represents_struct;
      auto simp: CertificateOptions_fields_def HTTPRedirect_fields_def ResourceRecord_fields_def
        DomainValidationOption_fields_def ExtendedKeyUsage_fields_def KeyUsage_fields_def Tag_fields_def
        secretTree_def optionsTree_def redirectTree_def recordTree_def validationOptionTree_def
        extendedUsageTree_def usageTree_def tagTree_def wt_field
        SecretKeyReference.splits CertificateOptions.splits HTTPRedirect.splits ResourceRecord.splits
        DomainValidationOption.splits ExtendedKeyUsage.splits KeyUsage.splits Tag.splits
        simp del: wt.simps(2-6))+

lemmas wt_leaves [wt_field] = represents_leaves [THEN ptr_wt] represents_leaves [THEN slice_wt]

lemma represents_validation: "represents DomainValidation_T validationTree"
  unfolding DomainValidation_T_def
  by (rule represents_struct) (auto simp: DomainValidation_fields_def validationTree_def wt_field
     DomainValidation.splits simp del: wt.simps)

lemmas wt_validations [wt_field] = represents_validation [THEN slice_wt]

lemma represents_renewal: "represents RenewalSummary_T renewalTree"
  unfolding RenewalSummary_T_def
  by (rule represents_struct) (auto simp: RenewalSummary_fields_def renewalTree_def wt_field
     RenewalSummary.splits simp del: wt.simps)

lemmas wt_renewal [wt_field] = represents_renewal [THEN ptr_wt]

lemma represents_spec: "represents CertificateSpec_T specTree"
  unfolding CertificateSpec_T_def
  by (rule represents_struct) (auto simp: CertificateSpec_fields_def specTree_def wt_field
     CertificateSpec.splits simp del: wt.simps)

lemma represents_status: "represents CertificateStatus_T statusTree"
  unfolding CertificateStatus_T_def
  by (rule represents_struct) (auto simp: CertificateStatus_fields_def statusTree_def wt_field
     CertificateStatus.splits simp del: wt.simps)

lemma wt_Certificate: "wt Certificate_T v \<longleftrightarrow> (\<exists>meta ko. v = certTree meta ko)"
  unfolding Certificate_T_def
  by (auto simp: Certificate_fields_def certTree_def wt_field represents_spec [THEN wt_represents]
      represents_status [THEN wt_represents] Certificate.splits simp del: wt.simps(1-4) wt.simps(6))

text \<open>So an object of the custom resource in memory stands for exactly one record.\<close>

lemma holds_exists:
  assumes "ext_typed L" and "valid L Certificate_T m i v"
  shows "\<exists>!ko. holds L m i ko"
  using rd_wt(1) [OF assms(1), of Certificate_T m i v] assms(2) holds_unique [of L m i]
  unfolding wt_Certificate by (auto simp: holds_def valid_def)

end
