(* ===== verification/CopyRefine.thy ===== *)
theory CopyRefine
  imports CopyTypes References
begin

text \<open>
  What the deep copies mean for the controller, and \<open>ClearResolvedReferences\<close> of \<open>references.go\<close> in
  memory: it is refined by the definition on values, and leaves the object it is given alone.
\<close>

section \<open>A library the laws hold for\<close>

text \<open>Every foreign struct takes one cell, which holds its value.\<close>

definition sampleZero :: "extty \<Rightarrow> extval" where
  "sampleZero e = (case e of
     ExtObjectMeta \<Rightarrow> XObjectMeta emptyObjectMeta
   | ExtListMeta \<Rightarrow> XListMeta []
   | ExtReferenceWrapper \<Rightarrow> XReferenceWrapper \<lparr>ref_From = None\<rparr>
   | ExtResourceMetadata \<Rightarrow> XResourceMetadata emptyResourceMetadata
   | ExtCondition \<Rightarrow> XCondition \<lparr>cond_Type = ConditionTypeOther [], cond_Status = ConditionUnset,
       cond_Reason = None, cond_Message = None\<rparr>
   | ExtTime \<Rightarrow> XTime 0)"

definition sampleLib :: extlib where
  "sampleLib = \<lparr>
     ext_size = (\<lambda>_. 1),
     ext_zero = (\<lambda>e. [SOpaque (sampleZero e)]),
     ext_rd = (\<lambda>e m a. case cell m a of
        SOpaque v \<Rightarrow> if extType v = e then Some v else None | _ \<Rightarrow> None),
     ext_fp = (\<lambda>_ _ a. [a]),
     ext_DeepCopyInto = (\<lambda>_. assign 1),
     ext_DeepCopy = (\<lambda>_ i m. (brk m, assign 1 i (brk m) (m\<lparr>brk := Suc (brk m)\<rparr>)))\<rparr>"

lemma sampleLib_laws: "ext_copy_laws sampleLib"
  by (auto simp: ext_copy_laws_def sampleLib_def contract_def copied_def valid_def fresh_copy_def
      assign_def)

lemma sampleLib_typed: "ext_typed sampleLib"
  by (simp add: ext_typed_def sampleLib_def split: slot.split)

text \<open>A Certificate at address 0 with a reference to a certificate authority and its ARN.\<close>

definition sampleMem :: mem where
  "sampleMem =
     (let (ko, m) = alloc sampleLib Certificate_T 1 \<lparr>cell = (\<lambda>_. SPtr None), brk = 0\<rparr>;
          (ref, m) = alloc sampleLib (TExt ExtReferenceWrapper) 1 m;
          (arn, m) = alloc sampleLib TStr 1 m;
          spec = ko + off sampleLib Certificate_fields ''Spec'';
          m = setCell arn (SStr ''arn:ca'') m;
          m = setCell (spec + off sampleLib CertificateSpec_fields ''CertificateAuthorityRef'')
                (SPtr (Some ref)) m
      in setCell (spec + off sampleLib CertificateSpec_fields ''CertificateAuthorityARN'')
           (SPtr (Some arn)) m)"

definition sampleKo :: Certificate where
  "sampleKo = onSpec (\<lambda>sp. sp\<lparr>spec_CertificateAuthorityARN := Some ''arn:ca'',
     spec_CertificateAuthorityRef := Some \<lparr>ref_From = None\<rparr>\<rparr>) emptyCertificate"

section \<open>Deep copies of the custom resource\<close>

interpretation certificate_copy: copier L Certificate_T "Certificate_DeepCopyInto L" for L
  by unfold_locales (rule Certificate_copies)

interpretation list_copy: copier L CertificateList_T "CertificateList_DeepCopyInto L" for L
  by unfold_locales (rule CertificateList_copies)

lemma DeepCopy_holds:
  assumes "ext_copy_laws L" and "holds L m i ko"
  obtains q m' where "Certificate_DeepCopy L (Some i) m = (Some q, m')" and "holds L m' q ko"
    and "holds L m' i ko" and "set (fp L Certificate_T m' q) \<subseteq> {brk m..<brk m'}"
    and "distinct (fp L Certificate_T m' q)" and "\<And>x. x < brk m \<Longrightarrow> cell m' x = cell m x"
    and "brk m \<le> brk m'"
proof -
  from assms(2) obtain meta where "valid L Certificate_T m i (certTree meta ko)"
    by (auto simp: holds_def)
  from certificate_copy.fresh [OF assms(1) this] that show ?thesis
    unfolding Certificate_DeepCopy_def fresh_copy_def holds_def by metis
qed

definition ClearResolvedReferences_mem :: "extlib \<Rightarrow> addr \<Rightarrow> mem \<Rightarrow> addr option \<times> mem" where
  "ClearResolvedReferences_mem L res m =
     (case Certificate_DeepCopy L (Some res) m of
        (None, m) \<Rightarrow> (None, m)
      | (Some ko, m) \<Rightarrow>
          let spec = ko + off L Certificate_fields ''Spec'' in
          if cell m (spec + off L CertificateSpec_fields ''CertificateAuthorityRef'') \<noteq> SPtr None
          then (Some ko, setCell (spec + off L CertificateSpec_fields ''CertificateAuthorityARN'')
                  (SPtr None) m)
          else (Some ko, m))"

lemma certificate_split: "Certificate_T = TStruct ([TypeMeta_T, TExt ExtObjectMeta] @ CertificateSpec_T # [CertificateStatus_T])"
  by (simp add: Certificate_T_def Certificate_fields_def)

lemma certTree_split: "certTree meta ko = Fields ([Fields [Str (fst meta), Str (snd meta)],
    Opaque (XObjectMeta (ko_ObjectMeta ko))] @ specTree (ko_Spec ko) # [statusTree (ko_Status ko)])"
  by (simp add: certTree_def)

lemma holds_spec:
  assumes "valid L Certificate_T m i (certTree meta ko)"
  shows "valid L CertificateSpec_T m (i + off L Certificate_fields ''Spec'') (specTree (ko_Spec ko))"
  using field_read(2) [OF assms [unfolded certificate_split certTree_split]]
  by (simp add: Certificate_fields_def)

lemma spec_split:
  "CertificateSpec_T = TStruct (take n (map snd CertificateSpec_fields) @
     drop n (map snd CertificateSpec_fields))"
  by (simp add: CertificateSpec_T_def)

lemma spec_reference:
  assumes "valid L CertificateSpec_T m s (specTree sp)"
  shows "cell m (s + off L CertificateSpec_fields ''CertificateAuthorityRef'') = SPtr None \<longleftrightarrow>
    spec_CertificateAuthorityRef sp = None"
proof -
  have "valid L (TPtr (TExt ExtReferenceWrapper)) m (s + off L CertificateSpec_fields ''CertificateAuthorityRef'')
      (tPtr (\<lambda>w. Opaque (XReferenceWrapper w)) (spec_CertificateAuthorityRef sp))"
    using field_read(2) [of L "take 3 (map snd CertificateSpec_fields)" "TPtr (TExt ExtReferenceWrapper)"
        "drop 4 (map snd CertificateSpec_fields)" m s
        "[tPtr secretTree (spec_Certificate sp), tStr (spec_CertificateARN sp),
          tStr (spec_CertificateAuthorityARN sp)]"
        "tPtr (\<lambda>w. Opaque (XReferenceWrapper w)) (spec_CertificateAuthorityRef sp)"] assms
    by (simp add: CertificateSpec_T_def CertificateSpec_fields_def specTree_def)
  then show ?thesis
    by (auto simp: valid_def tPtr_def split: option.splits slot.splits)
qed

lemma spec_clear_ARN:
  assumes laws: "ext_copy_laws L" and v: "valid L CertificateSpec_T m s (specTree sp)"
    and dist: "distinct (fp L CertificateSpec_T m s)"
  defines "x \<equiv> s + off L CertificateSpec_fields ''CertificateAuthorityARN''"
  shows "valid L CertificateSpec_T (setCell x (SPtr None) m) s
      (specTree (sp\<lparr>spec_CertificateAuthorityARN := None\<rparr>)) \<and> x \<in> set (fp L CertificateSpec_T m s)"
proof -
  let ?ts = "take 2 (map snd CertificateSpec_fields)" and ?us = "drop 3 (map snd CertificateSpec_fields)"
  let ?m = "setCell x (SPtr None) m"
  have t: "CertificateSpec_T = TStruct (?ts @ TPtr TStr # ?us)"
    by (simp add: CertificateSpec_T_def CertificateSpec_fields_def)
  have x: "x = s + szs L ?ts" by (simp add: x_def CertificateSpec_fields_def)
  have mem: "x \<in> set (fp L CertificateSpec_T m s)"
    by (simp add: t fps_append x)
  obtain vs v ws where tree: "specTree sp = Fields (vs @ v # ws)" "length vs = length ?ts"
    "specTree (sp\<lparr>spec_CertificateAuthorityARN := None\<rparr>) = Fields (vs @ Null # ws)"
    by (rule that [of "[tPtr secretTree (spec_Certificate sp), tStr (spec_CertificateARN sp)]"])
      (simp_all add: specTree_def tPtr_def CertificateSpec_fields_def)
  have "valid L CertificateSpec_T ?m s (Fields (vs @ Null # ws))"
  proof (rule field_update [OF laws t _ tree(2) dist])
    show "valid L CertificateSpec_T m s (Fields (vs @ v # ws))" using v tree(1) by simp
    have "x < brk m" using mem v by (auto simp: valid_def)
    then show "valid L (TPtr TStr) ?m (s + szs L ?ts) Null" unfolding x [symmetric] by (simp add: valid_def)
    show "cell ?m y = cell m y" if "y \<notin> set (fp L (TPtr TStr) m (s + szs L ?ts))" for y
      using that by (auto simp: x setCell_def)
  qed (simp_all add: setCell_def)
  with tree(3) mem show ?thesis by simp
qed

lemma certificate_clear_ARN:
  assumes laws: "ext_copy_laws L" and h: "holds L m q ko" and dist: "distinct (fp L Certificate_T m q)"
  defines "x \<equiv> q + off L Certificate_fields ''Spec'' + off L CertificateSpec_fields ''CertificateAuthorityARN''"
  shows "holds L (setCell x (SPtr None) m) q (onSpec (\<lambda>sp. sp\<lparr>spec_CertificateAuthorityARN := None\<rparr>) ko)
    \<and> x \<in> set (fp L Certificate_T m q)"
proof -
  let ?s = "q + off L Certificate_fields ''Spec''" and ?m = "setCell x (SPtr None) m"
  let ?ts = "[TypeMeta_T, TExt ExtObjectMeta]"
  from h obtain meta where v: "valid L Certificate_T m q (certTree meta ko)" by (auto simp: holds_def)
  have s: "?s = q + szs L ?ts" by (simp add: Certificate_fields_def)
  have fp: "fp L Certificate_T m q =
      fps L ?ts m q @ fp L CertificateSpec_T m ?s @ fp L CertificateStatus_T m (?s + sz L CertificateSpec_T)"
    unfolding certificate_split s by (simp add: fps_append add.assoc)
  have sp: "valid L CertificateSpec_T ?m ?s
      (specTree (ko_Spec ko\<lparr>spec_CertificateAuthorityARN := None\<rparr>)) \<and> x \<in> set (fp L CertificateSpec_T m ?s)"
    unfolding x_def by (rule spec_clear_ARN [OF laws holds_spec [OF v]]) (use dist fp in simp)
  have "valid L Certificate_T ?m q (Fields ([Fields [Str (fst meta), Str (snd meta)],
      Opaque (XObjectMeta (ko_ObjectMeta ko))] @ specTree (ko_Spec ko\<lparr>spec_CertificateAuthorityARN := None\<rparr>) #
      [statusTree (ko_Status ko)]))"
  proof (rule field_update [OF laws certificate_split v [unfolded certTree_split] _ dist])
    show "valid L CertificateSpec_T ?m (q + szs L ?ts)
        (specTree (ko_Spec ko\<lparr>spec_CertificateAuthorityARN := None\<rparr>))"
      using sp unfolding s by simp
    show "cell ?m y = cell m y" if "y \<notin> set (fp L CertificateSpec_T m (q + szs L ?ts))" for y
      using that sp unfolding s by (auto simp: setCell_def)
  qed (simp_all add: setCell_def)
  then have "holds L ?m q (onSpec (\<lambda>sp. sp\<lparr>spec_CertificateAuthorityARN := None\<rparr>) ko)"
    by (auto simp: holds_def certTree_def onSpec_def)
  with sp fp show ?thesis by simp
qed

lemma holds_cong:
  assumes "ext_copy_laws L" and "holds L m i ko" and "\<And>x. x < brk m \<Longrightarrow> cell m' x = cell m x"
    and "brk m \<le> brk m'"
  shows "holds L m' i ko"
  using assms valid_cong [OF assms(1), of Certificate_T m i _ m']
  by (auto simp: holds_def valid_def) (metis (no_types, lifting) lessThan_iff subset_iff)

lemma DeepCopyObject_eq:
  "Certificate_DeepCopyObject L = Certificate_DeepCopy L"
  "CertificateList_DeepCopyObject L = CertificateList_DeepCopy L"
  by (auto simp: fun_eq_iff Certificate_DeepCopyObject_def CertificateList_DeepCopyObject_def
      split: prod.splits option.splits)

section \<open>Properties\<close>

text \<open>The functions of \<open>zz_generated.deepcopy.go\<close>: type, \<open>DeepCopyInto\<close> and \<open>DeepCopy\<close>.\<close>

definition generatedCopies ::
  "extlib \<Rightarrow> (ty \<times> (addr \<Rightarrow> addr \<Rightarrow> mem \<Rightarrow> mem) \<times> (addr option \<Rightarrow> mem \<Rightarrow> addr option \<times> mem)) list" where
  "generatedCopies L =
     [(ACMCertificateMetadata_T, ACMCertificateMetadata_DeepCopyInto L, ACMCertificateMetadata_DeepCopy L),
      (ACMCertificateMetadataFilter_T, ACMCertificateMetadataFilter_DeepCopyInto L, ACMCertificateMetadataFilter_DeepCopy L),
      (AcmeAccount_T, AcmeAccount_DeepCopyInto L, AcmeAccount_DeepCopy L),
      (AcmeAccountSummary_T, AcmeAccountSummary_DeepCopyInto L, AcmeAccountSummary_DeepCopy L),
      (Tag_T, Tag_DeepCopyInto L, Tag_DeepCopy L),
      (AcmeEndpoint_T, AcmeEndpoint_DeepCopyInto L, AcmeEndpoint_DeepCopy L),
      (AcmeEndpointSummary_T, AcmeEndpointSummary_DeepCopyInto L, AcmeEndpointSummary_DeepCopy L),
      (HTTPRedirect_T, HTTPRedirect_DeepCopyInto L, HTTPRedirect_DeepCopy L),
      (ResourceRecord_T, ResourceRecord_DeepCopyInto L, ResourceRecord_DeepCopy L),
      (DomainValidation_T, DomainValidation_DeepCopyInto L, DomainValidation_DeepCopy L),
      (ExtendedKeyUsage_T, ExtendedKeyUsage_DeepCopyInto L, ExtendedKeyUsage_DeepCopy L),
      (KeyUsage_T, KeyUsage_DeepCopyInto L, KeyUsage_DeepCopy L),
      (CertificateOptions_T, CertificateOptions_DeepCopyInto L, CertificateOptions_DeepCopy L),
      (RenewalSummary_T, RenewalSummary_DeepCopyInto L, RenewalSummary_DeepCopy L),
      (CertificateDetail_T, CertificateDetail_DeepCopyInto L, CertificateDetail_DeepCopy L),
      (CertificateFilter_T, CertificateFilter_DeepCopyInto L, CertificateFilter_DeepCopy L),
      (CertificateSearchResult_T, CertificateSearchResult_DeepCopyInto L, CertificateSearchResult_DeepCopy L),
      (CertificateSummary_T, CertificateSummary_DeepCopyInto L, CertificateSummary_DeepCopy L),
      (CustomAttribute_T, CustomAttribute_DeepCopyInto L, CustomAttribute_DeepCopy L),
      (DNSPrevalidationDetails_T, DNSPrevalidationDetails_DeepCopyInto L, DNSPrevalidationDetails_DeepCopy L),
      (DistinguishedName_T, DistinguishedName_DeepCopyInto L, DistinguishedName_DeepCopy L),
      (DomainValidationOption_T, DomainValidationOption_DeepCopyInto L, DomainValidationOption_DeepCopy L),
      (FailureDetails_T, FailureDetails_DeepCopyInto L, FailureDetails_DeepCopy L),
      (Filters_T, Filters_DeepCopyInto L, Filters_DeepCopy L),
      (GeneralName_T, GeneralName_DeepCopyInto L, GeneralName_DeepCopy L),
      (OtherName_T, OtherName_DeepCopyInto L, OtherName_DeepCopy L),
      (TimestampRange_T, TimestampRange_DeepCopyInto L, TimestampRange_DeepCopy L),
      (X509AttributeFilter_T, X509AttributeFilter_DeepCopyInto L, X509AttributeFilter_DeepCopy L),
      (X509Attributes_T, X509Attributes_DeepCopyInto L, X509Attributes_DeepCopy L),
      (CertificateSpec_T, CertificateSpec_DeepCopyInto L, CertificateSpec_DeepCopy L),
      (CertificateStatus_T, CertificateStatus_DeepCopyInto L, CertificateStatus_DeepCopy L),
      (Certificate_T, Certificate_DeepCopyInto L, Certificate_DeepCopy L),
      (CertificateList_T, CertificateList_DeepCopyInto L, CertificateList_DeepCopy L),
      (Certificate_T, Certificate_DeepCopyInto L, Certificate_DeepCopyObject L),
      (CertificateList_T, CertificateList_DeepCopyInto L, CertificateList_DeepCopyObject L)]"

lemma generated_contracts:
  "ext_copy_laws L \<Longrightarrow> (t, into, copy) \<in> set (generatedCopies L) \<Longrightarrow> contract L (\<lambda>_ _. True) t into"
  by (auto simp: generatedCopies_def copy_rules)

lemma generated_deepCopy: "(t, into, copy) \<in> set (generatedCopies L) \<Longrightarrow> copy = deepCopy L t into"
  unfolding generatedCopies_def set_simps insert_iff prod.inject
  by (elim disjE conjE emptyE; simp only: DeepCopyObject_eq ACMCertificateMetadata_DeepCopy_def ACMCertificateMetadataFilter_DeepCopy_def
      AcmeAccount_DeepCopy_def AcmeAccountSummary_DeepCopy_def Tag_DeepCopy_def
      AcmeEndpoint_DeepCopy_def AcmeEndpointSummary_DeepCopy_def HTTPRedirect_DeepCopy_def
      ResourceRecord_DeepCopy_def DomainValidation_DeepCopy_def ExtendedKeyUsage_DeepCopy_def
      KeyUsage_DeepCopy_def CertificateOptions_DeepCopy_def RenewalSummary_DeepCopy_def
      CertificateDetail_DeepCopy_def CertificateFilter_DeepCopy_def
      CertificateSearchResult_DeepCopy_def CertificateSummary_DeepCopy_def
      CustomAttribute_DeepCopy_def DNSPrevalidationDetails_DeepCopy_def
      DistinguishedName_DeepCopy_def DomainValidationOption_DeepCopy_def
      FailureDetails_DeepCopy_def Filters_DeepCopy_def GeneralName_DeepCopy_def
      OtherName_DeepCopy_def TimestampRange_DeepCopy_def X509AttributeFilter_DeepCopy_def
      X509Attributes_DeepCopy_def CertificateSpec_DeepCopy_def CertificateStatus_DeepCopy_def
      Certificate_DeepCopy_def CertificateList_DeepCopy_def)

text \<open>
  C16. Every function of \<open>zz_generated.deepcopy.go\<close> is a deep copy: \<open>DeepCopy\<close> of an object (of any
  of the 33 structs; \<open>DeepCopyObject\<close> alike) reaches new cells only, each once, reads as the object did, and leaves every
  cell there was as it is; \<open>DeepCopy\<close> of nil is nil; \<open>DeepCopyInto\<close> makes the same of a target
  that exists.
\<close>

theorem generated_deep_copies:
  assumes "ext_copy_laws L" and "(t, into, copy) \<in> set (generatedCopies L)"
  shows "copy None m = (None, m) \<and>
    (\<forall>i v. valid L t m i v \<longrightarrow> (\<exists>q m'. copy (Some i) m = (Some q, m') \<and> fresh_copy L t v m q m')) \<and>
    (\<forall>i v out. valid L t m i v \<longrightarrow> out + sz L t \<le> brk m \<longrightarrow>
       set (fp L t m i) \<inter> {out..<out + sz L t} = {} \<longrightarrow> copied L t out v m (into i out m))"
  using copier.fresh [OF copier.intro, of L t into] copier.nil_copy [OF copier.intro, of L t into]
    generated_contracts [OF assms] generated_deepCopy [OF assms(2)] assms(1)
    contractD [where P = "\<lambda>_ _. True", OF generated_contracts [OF assms]]
  by metis

lemmas sample_descriptors = Certificate_T_def Certificate_fields_def CertificateSpec_T_def
  CertificateSpec_fields_def CertificateStatus_T_def CertificateStatus_fields_def TypeMeta_T_def

lemma sample_ext [simp]: "ext_size sampleLib e = 1" "ext_zero sampleLib e = [SOpaque (sampleZero e)]"
  "ext_rd sampleLib e m a = (case cell m a of
     SOpaque v \<Rightarrow> if extType v = e then Some v else None | _ \<Rightarrow> None)"
  "ext_fp sampleLib e m a = [a]"
  by (simp_all add: sampleLib_def)

lemma sampleMem_valid: "valid sampleLib Certificate_T sampleMem 0 (certTree ([], []) sampleKo)"
  unfolding valid_def
  by (simp add: sample_descriptors sampleMem_def Let_def alloc_def setCell_def sampleZero_def
    certTree_def specTree_def statusTree_def sampleKo_def emptyCertificate_def onSpec_def emptySpec_def
    emptyStatus_def tPtr_def tSlice_def)

lemma sample_holds: "holds sampleLib sampleMem 0 sampleKo"
  using sampleMem_valid by (auto simp: holds_def)

lemma generated_deep_copies_witness:
  "Certificate_DeepCopy sampleLib None sampleMem = (None, sampleMem) \<and>
   (\<exists>q m'. Certificate_DeepCopy sampleLib (Some 0) sampleMem = (Some q, m') \<and>
      fresh_copy sampleLib Certificate_T (certTree ([], []) sampleKo) sampleMem q m')"
  using generated_deep_copies [OF sampleLib_laws, of Certificate_T "Certificate_DeepCopyInto sampleLib"
    "Certificate_DeepCopy sampleLib" sampleMem] sampleMem_valid
  by (simp add: generatedCopies_def)

text \<open>
  The copy is independent: whatever is written later outside the cells of the copy leaves the
  copy's value, and whatever is written later into them, or into new cells, leaves the object's.
\<close>

theorem Certificate_DeepCopy_independent:
  assumes "ext_copy_laws L" and "holds L m i ko"
  shows "\<exists>q m'. Certificate_DeepCopy L (Some i) m = (Some q, m') \<and>
    (\<forall>m''. brk m' \<le> brk m'' \<longrightarrow> (\<forall>x \<in> {brk m..<brk m'}. cell m'' x = cell m' x) \<longrightarrow> holds L m'' q ko) \<and>
    (\<forall>m''. brk m' \<le> brk m'' \<longrightarrow> (\<forall>x < brk m. cell m'' x = cell m' x) \<longrightarrow> holds L m'' i ko)"
proof -
  obtain q m' where copy: "Certificate_DeepCopy L (Some i) m = (Some q, m')"
    "holds L m' q ko" "set (fp L Certificate_T m' q) \<subseteq> {brk m..<brk m'}"
    "\<And>x. x < brk m \<Longrightarrow> cell m' x = cell m x" "brk m \<le> brk m'"
    using DeepCopy_holds [OF assms] by metis
  from copy(2) obtain meta where v: "valid L Certificate_T m' q (certTree meta ko)"
    by (auto simp: holds_def)
  have "holds L m'' q ko" if "brk m' \<le> brk m''" "\<forall>x \<in> {brk m..<brk m'}. cell m'' x = cell m' x" for m''
  proof -
    have "cell m'' x = cell m' x" if "x \<in> set (fp L Certificate_T m' q)" for x
      using that copy(3) \<open>\<forall>x \<in> {brk m..<brk m'}. cell m'' x = cell m' x\<close> by (meson subsetD)
    then show ?thesis unfolding holds_def using valid_cong [OF assms(1) v _ that(1)] by blast
  qed
  moreover have "holds L m'' i ko" if "brk m' \<le> brk m''" "\<forall>x < brk m. cell m'' x = cell m' x" for m''
    by (rule holds_cong [OF assms]) (use that copy(4,5) in simp_all)
  ultimately show ?thesis using copy(1) by blast
qed

lemma Certificate_DeepCopy_independent_witness:
  "\<exists>q m'. Certificate_DeepCopy sampleLib (Some 0) sampleMem = (Some q, m') \<and>
    holds sampleLib m' q sampleKo \<and> holds sampleLib m' 0 sampleKo"
  using Certificate_DeepCopy_independent [OF sampleLib_laws sample_holds] by blast

text \<open>
  C19. \<open>ClearResolvedReferences\<close> in memory refines the definition on values, and works on its copy
  only: no cell there was before is changed, so the object it was given still has its value, the ARN
  included.
\<close>

theorem ClearResolvedReferences_refines:
  assumes "ext_copy_laws L" and "holds L m i ko"
  shows "\<exists>q m'. ClearResolvedReferences_mem L i m = (Some q, m') \<and>
    holds L m' q (ClearResolvedReferences ko) \<and> holds L m' i ko \<and> (\<forall>x < brk m. cell m' x = cell m x)"
proof -
  obtain q m' where copy: "Certificate_DeepCopy L (Some i) m = (Some q, m')"
    "holds L m' q ko" "set (fp L Certificate_T m' q) \<subseteq> {brk m..<brk m'}" "distinct (fp L Certificate_T m' q)"
    "\<And>x. x < brk m \<Longrightarrow> cell m' x = cell m x" "brk m \<le> brk m'"
    using DeepCopy_holds [OF assms] by metis
  let ?x = "q + off L Certificate_fields ''Spec'' + off L CertificateSpec_fields ''CertificateAuthorityARN''"
  let ?m = "setCell ?x (SPtr None) m'"
  note clear = certificate_clear_ARN [OF assms(1) copy(2,4)]
  have frame: "cell ?m x = cell m x" if "x < brk m" for x
    using that clear copy(3) copy(5) [of x] by (auto simp: setCell_def dest: subsetD)
  have kept: "holds L ?m i ko"
    by (rule holds_cong [OF assms]) (use frame copy(6) in \<open>simp_all add: setCell_def\<close>)
  have kept': "holds L m' i ko" by (rule holds_cong [OF assms copy(5,6)])
  obtain meta where v: "valid L Certificate_T m' q (certTree meta ko)"
    using copy(2) by (auto simp: holds_def)
  note reference = spec_reference [OF holds_spec [OF v]]
  show ?thesis
  proof (cases "spec_CertificateAuthorityRef (ko_Spec ko)")
    case None
    then have "ClearResolvedReferences_mem L i m = (Some q, m')" and "ClearResolvedReferences ko = ko"
      using reference copy(1) by (simp_all add: ClearResolvedReferences_mem_def ClearResolvedReferences_def)
    then show ?thesis using kept' copy(2,5) by (metis (no_types))
  next
    case (Some ref)
    then have "ClearResolvedReferences_mem L i m = (Some q, ?m)"
      and "ClearResolvedReferences ko = onSpec (\<lambda>sp. sp\<lparr>spec_CertificateAuthorityARN := None\<rparr>) ko"
      using reference copy(1) by (simp_all add: ClearResolvedReferences_mem_def ClearResolvedReferences_def Let_def)
    then show ?thesis using clear kept frame by (metis (no_types))
  qed
qed

lemma ClearResolvedReferences_refines_witness:
  "\<exists>q m'. ClearResolvedReferences_mem sampleLib 0 sampleMem = (Some q, m') \<and>
    holds sampleLib m' q (onSpec (\<lambda>sp. sp\<lparr>spec_CertificateAuthorityARN := None\<rparr>) sampleKo) \<and>
    holds sampleLib m' 0 sampleKo"
  using ClearResolvedReferences_refines [OF sampleLib_laws sample_holds]
  by (auto simp: ClearResolvedReferences_def sampleKo_def onSpec_def)

text \<open>
  The descriptors of the structs and the records of the model describe the same types: a
  well-formed object of type Certificate in memory has exactly one value (\<open>holds_exists\<close>).
\<close>

lemma sample_value_unique: "\<exists>!ko. holds sampleLib sampleMem 0 ko"
  by (rule holds_exists [OF sampleLib_typed sampleMem_valid])

end
