(* ===== verification/CopyAlias.thy ===== *)
theory CopyAlias
  imports CopyRefine ResourceOps
begin

text \<open>
  \<open>SetStatus\<close> of \<open>resource.go\<close> in memory. It assigns a struct, which copies pointers and not what they
  point to: the value is the one of the definition on values, but from then on the two objects share
  everything their status points to. A copy made with \<open>DeepCopy\<close> shares nothing.
\<close>

definition SetStatus_mem :: "extlib \<Rightarrow> addr \<Rightarrow> addr \<Rightarrow> mem \<Rightarrow> mem" where
  "SetStatus_mem L desired r m =
     assign (sz L CertificateStatus_T) (desired + off L Certificate_fields ''Status'')
       (r + off L Certificate_fields ''Status'') m"

section \<open>Assignment of a struct\<close>

text \<open>The cells an object reaches through its pointers. A plain type has no foreign struct inside.\<close>

fun refs :: "extlib \<Rightarrow> ty \<Rightarrow> mem \<Rightarrow> addr \<Rightarrow> addr list"
  and refss :: "extlib \<Rightarrow> ty list \<Rightarrow> mem \<Rightarrow> addr \<Rightarrow> addr list" where
  "refs L (TPtr t) m a = tl (fp L (TPtr t) m a)"
| "refs L (TSlice t) m a = tl (fp L (TSlice t) m a)"
| "refs L (TStruct ts) m a = refss L ts m a"
| "refs L _ m a = []"
| "refss L [] m a = []"
| "refss L (t # ts) m a = refs L t m a @ refss L ts m (a + sz L t)"

fun plain :: "ty \<Rightarrow> bool" where
  "plain (TStruct ts) \<longleftrightarrow> list_all plain ts"
| "plain (TExt e) \<longleftrightarrow> False"
| "plain _ \<longleftrightarrow> True"

lemma fp_refs:
  shows "plain t \<Longrightarrow> set (fp L t m a) = {a..<a + sz L t} \<union> set (refs L t m a)"
    and "list_all plain ts \<Longrightarrow> set (fps L ts m a) = {a..<a + szs L ts} \<union> set (refss L ts m a)"
proof (induction L t m a and L ts m a rule: fp_fps.induct)
  case (8 L t ts m a)
  have "{a..<a + szs L (t # ts)} = {a..<a + sz L t} \<union> {a + sz L t..<a + sz L t + szs L ts}" by auto
  with 8 show ?case by auto
qed auto

text \<open>What an assignment copies reads as the original, and reaches the same cells.\<close>

lemma shallow:
  assumes "ext_copy_laws L"
  shows "plain t \<Longrightarrow> cells m' b (sz L t) = cells m a (sz L t) \<Longrightarrow>
      \<forall>x \<in> set (fp L t m a). cell m' x = cell m x \<Longrightarrow>
      rd L t m' b = rd L t m a \<and> refs L t m' b = refs L t m a"
    and "list_all plain ts \<Longrightarrow> cells m' b (szs L ts) = cells m a (szs L ts) \<Longrightarrow>
      \<forall>x \<in> set (fps L ts m a). cell m' x = cell m x \<Longrightarrow>
      rds L ts m' b = rds L ts m a \<and> refss L ts m' b = refss L ts m a"
  using assms
proof (induction L t m a and L ts m a arbitrary: b and b rule: fp_fps.induct)
  case (3 L t m a)
  have "rd L (TPtr t) m' a = rd L (TPtr t) m a \<and> fp L (TPtr t) m' a = fp L (TPtr t) m a"
    using "3.prems" by (intro rd_fp_cong(1)) simp_all
  moreover have "cell m' b = cell m' a" using "3.prems" by (simp add: cells_def)
  then have "rd L (TPtr t) m' b = rd L (TPtr t) m' a" "refs L (TPtr t) m' b = refs L (TPtr t) m' a" by simp_all
  ultimately show ?case by simp
next
  case (4 L t m a)
  have "rd L (TSlice t) m' a = rd L (TSlice t) m a \<and> fp L (TSlice t) m' a = fp L (TSlice t) m a"
    using "4.prems" by (intro rd_fp_cong(1)) simp_all
  moreover have "cell m' b = cell m' a" using "4.prems" by (simp add: cells_def)
  then have "rd L (TSlice t) m' b = rd L (TSlice t) m' a" "refs L (TSlice t) m' b = refs L (TSlice t) m' a"
    by simp_all
  ultimately show ?case by simp
next
  case (8 L t ts m a)
  then have "cells m' b (sz L t) = cells m a (sz L t)"
    and "cells m' (b + sz L t) (szs L ts) = cells m (a + sz L t) (szs L ts)"
    by (simp_all add: cells_append)
  with 8 show ?case by (simp split: option.split)
qed (auto simp: cells_def)

lemma status_plain: "plain CertificateStatus_T"
  by (simp add: CertificateStatus_T_def CertificateStatus_fields_def)

lemma status_split: "Certificate_T = TStruct ([TypeMeta_T, TExt ExtObjectMeta, CertificateSpec_T] @ CertificateStatus_T # [])"
  by (simp add: Certificate_T_def Certificate_fields_def)

lemma status_tree: "certTree meta ko = Fields ([Fields [Str (fst meta), Str (snd meta)],
    Opaque (XObjectMeta (ko_ObjectMeta ko)), specTree (ko_Spec ko)] @ statusTree (ko_Status ko) # [])"
  by (simp add: certTree_def)

lemma status_off: "r + off L Certificate_fields ''Status'' = r + szs L [TypeMeta_T, TExt ExtObjectMeta, CertificateSpec_T]"
  by (simp add: Certificate_fields_def)

lemma holds_status:
  assumes "valid L Certificate_T m i (certTree meta ko)"
  shows "valid L CertificateStatus_T m (i + off L Certificate_fields ''Status'') (statusTree (ko_Status ko))"
    and "set (fp L CertificateStatus_T m (i + off L Certificate_fields ''Status'')) \<subseteq> set (fp L Certificate_T m i)"
proof -
  show "valid L CertificateStatus_T m (i + off L Certificate_fields ''Status'') (statusTree (ko_Status ko))"
    unfolding status_off by (rule field_read(2) [OF assms [unfolded status_split status_tree]]) simp
  have "fps L [CertificateStatus_T] m x = fp L CertificateStatus_T m x" for x by simp
  then show "set (fp L CertificateStatus_T m (i + off L Certificate_fields ''Status'')) \<subseteq> set (fp L Certificate_T m i)"
    unfolding status_off status_split fp.simps fps_append by auto
qed

lemma SetStatus_holds:
  assumes laws: "ext_copy_laws L" and r: "holds L m r a" and d: "holds L m d b"
    and dist: "distinct (fp L Certificate_T m r)"
    and apart: "set (fp L Certificate_T m r) \<inter> set (fp L Certificate_T m d) = {}"
  defines "R \<equiv> r + off L Certificate_fields ''Status''" and "D \<equiv> d + off L Certificate_fields ''Status''"
    and "m' \<equiv> SetStatus_mem L d r m"
  shows "holds L m' r (SetStatus b a)" and "holds L m' d b"
    and "refs L CertificateStatus_T m' R = refs L CertificateStatus_T m' D"
  and "cells m' R (sz L CertificateStatus_T) = cells m' D (sz L CertificateStatus_T)"
proof -
  let ?t = CertificateStatus_T
  from r obtain meta where vr: "valid L Certificate_T m r (certTree meta a)" by (auto simp: holds_def)
  from d obtain meta' where vd: "valid L Certificate_T m d (certTree meta' b)" by (auto simp: holds_def)
  note sr = holds_status [OF vr, folded R_def] and sd = holds_status [OF vd, folded D_def]
  have region: "{R..<R + sz L ?t} \<subseteq> set (fp L ?t m R)"
    using fp_region(1) [OF laws] .
  have other: "cell m' x = cell m x" if "x \<notin> {R..<R + sz L ?t}" for x
    using that unfolding m'_def SetStatus_mem_def R_def [symmetric] D_def [symmetric] by simp
  have brk: "brk m' = brk m" by (simp add: m'_def SetStatus_mem_def)
  have keep: "cell m' x = cell m x" if "x \<in> set (fp L Certificate_T m d)" for x
    by (rule other) (use that apart sr(2) region in blast)
  then have keepD: "\<forall>x \<in> set (fp L ?t m D). cell m' x = cell m x" using sd(2) by blast
  show "holds L m' d b"
    unfolding holds_def using valid_cong [OF laws vd keep] brk by (metis order_refl)
  have copied: "cells m' R (sz L ?t) = cells m D (sz L ?t)"
    unfolding m'_def SetStatus_mem_def R_def D_def by (rule assign_cells)
  from shallow(1) [OF laws status_plain this keepD]
  have sh: "rd L ?t m' R = rd L ?t m D" "refs L ?t m' R = refs L ?t m D" by simp_all
  moreover have "fp L ?t m' D = fp L ?t m D"
    using rd_fp_cong(1) [OF laws keepD] by simp
  moreover have desired: "cells m' D (sz L ?t) = cells m D (sz L ?t)"
    by (rule cells_cong) (use keepD fp_region(1) [OF laws] in blast)
  from shallow(1) [OF laws status_plain desired keepD] have "refs L ?t m' D = refs L ?t m D" by simp
  ultimately show "refs L ?t m' R = refs L ?t m' D" by simp
  show "cells m' R (sz L ?t) = cells m' D (sz L ?t)" using copied desired by simp
  have "set (refs L ?t m D) \<subseteq> {..<brk m}"
    using fp_refs(1) [OF status_plain, of L m D] sd(1) unfolding valid_def by blast
  moreover have "{R..<R + sz L ?t} \<subseteq> {..<brk m}"
    using region sr(1) unfolding valid_def by blast
  ultimately have "set (fp L ?t m' R) \<subseteq> {..<brk m'}"
    unfolding fp_refs(1) [OF status_plain] sh(2) brk by blast
  then have new: "valid L ?t m' R (statusTree (ko_Status b))"
    using sh(1) sd(1) by (simp add: valid_def)
  have "valid L Certificate_T m' r (Fields ([Fields [Str (fst meta), Str (snd meta)],
    Opaque (XObjectMeta (ko_ObjectMeta a)), specTree (ko_Spec a)] @ statusTree (ko_Status b) # []))"
  proof (rule field_update [OF laws status_split vr [unfolded status_tree] _ dist])
    show "valid L ?t m' (r + szs L [TypeMeta_T, TExt ExtObjectMeta, CertificateSpec_T]) (statusTree (ko_Status b))"
      using new unfolding R_def status_off .
    show "cell m' x = cell m x" if "x \<notin> set (fp L ?t m (r + szs L [TypeMeta_T, TExt ExtObjectMeta, CertificateSpec_T]))" for x
      by (rule other) (use that region in \<open>unfold R_def status_off, blast\<close>)
  qed (simp_all add: brk)
  then show "holds L m' r (SetStatus b a)"
    by (auto simp: holds_def certTree_def SetStatus_def)
qed

text \<open>
  C36. \<open>SetStatus\<close> in memory refines the definition on values and leaves the desired object's value as it is,
  provided the two objects share nothing before, nor the first one within itself. Afterwards they do: every cell one reaches through
  its status the other reaches too. As long as neither status struct itself is assigned to, whatever is
  written, also through a pointer in the one's status, the two statuses read the same.
\<close>

theorem SetStatus_refines:
  assumes "ext_copy_laws L" and "holds L m r a" and "holds L m d b" and "distinct (fp L Certificate_T m r)"
    and "set (fp L Certificate_T m r) \<inter> set (fp L Certificate_T m d) = {}"
    and "m' = SetStatus_mem L d r m" and "R = r + off L Certificate_fields ''Status''"
    and "D = d + off L Certificate_fields ''Status''"
  shows "holds L m' r (SetStatus b a) \<and> holds L m' d b \<and>
    refs L CertificateStatus_T m' R = refs L CertificateStatus_T m' D \<and>
    (\<forall>m''. cells m'' R (sz L CertificateStatus_T) = cells m' R (sz L CertificateStatus_T) \<and>
       cells m'' D (sz L CertificateStatus_T) = cells m' D (sz L CertificateStatus_T) \<longrightarrow>
       rd L CertificateStatus_T m'' R = rd L CertificateStatus_T m'' D)"
proof -
  note shared = SetStatus_holds [OF assms(1-5), folded assms(6-8)]
  have "rd L CertificateStatus_T m'' R = rd L CertificateStatus_T m'' D"
    if "cells m'' R (sz L CertificateStatus_T) = cells m' R (sz L CertificateStatus_T)"
      "cells m'' D (sz L CertificateStatus_T) = cells m' D (sz L CertificateStatus_T)" for m''
    using shallow(1) [OF assms(1) status_plain, of m'' R m'' D] that shared(4) by simp
  with shared(1-3) show ?thesis by blast
qed

text \<open>The sample object, and a second one whose status is ISSUED.\<close>

definition pairMem :: mem where
  "pairMem =
     (let (d, m) = alloc sampleLib Certificate_T 1 sampleMem;
          (st, m) = alloc sampleLib TStr 1 m;
          m = setCell st (SStr ''ISSUED'') m
      in setCell (d + off sampleLib Certificate_fields ''Status'' +
           off sampleLib CertificateStatus_fields ''Status'') (SPtr (Some st)) m)"

definition issuedKo :: Certificate where
  "issuedKo = onStatus (\<lambda>st. st\<lparr>st_Status := Some ''ISSUED''\<rparr>) emptyCertificate"

lemma pairMem_valid:
  "valid sampleLib Certificate_T pairMem 0 (certTree ([], []) sampleKo)"
  "valid sampleLib Certificate_T pairMem (brk sampleMem) (certTree ([], []) issuedKo)"
  "distinct (fp sampleLib Certificate_T pairMem 0)"
  "set (fp sampleLib Certificate_T pairMem 0) \<inter> set (fp sampleLib Certificate_T pairMem (brk sampleMem)) = {}"
  unfolding valid_def
  by (simp_all add: sample_descriptors pairMem_def sampleMem_def Let_def alloc_def setCell_def sampleZero_def
    tPtr_def tSlice_def certTree_def specTree_def statusTree_def sampleKo_def issuedKo_def emptyCertificate_def onSpec_def
    onStatus_def emptySpec_def emptyStatus_def emptyObjectMeta_def)

definition pairStatus :: "addr \<Rightarrow> addr" where
  "pairStatus i = i + off sampleLib Certificate_fields ''Status''"

text \<open>After the assignment one cell is shared; a new string written there is the status of both.\<close>

lemma pair_shared:
  defines "m \<equiv> SetStatus_mem sampleLib (brk sampleMem) 0 pairMem"
    and "x \<equiv> brk pairMem - 1"
  shows "refs sampleLib CertificateStatus_T m (pairStatus (brk sampleMem)) = [x]"
    and "rd sampleLib CertificateStatus_T (setCell x (SStr ''REVOKED'') m) (pairStatus 0) =
      Some (statusTree (emptyStatus\<lparr>st_Status := Some ''REVOKED''\<rparr>))"
  unfolding m_def x_def SetStatus_mem_def pairStatus_def
  by (simp_all add: sample_descriptors pairMem_def sampleMem_def Let_def alloc_def setCell_def assign_def
    sampleZero_def tPtr_def tSlice_def statusTree_def emptyStatus_def)

theorem SetStatus_refines_witness:
  "\<exists>d m' x. sampleKo \<noteq> issuedKo \<and> holds sampleLib pairMem 0 sampleKo \<and> holds sampleLib pairMem d issuedKo \<and>
    m' = SetStatus_mem sampleLib d 0 pairMem \<and>
    holds sampleLib m' 0 (onStatus (\<lambda>st. st\<lparr>st_Status := Some ''ISSUED''\<rparr>) sampleKo) \<and>
    holds sampleLib m' d issuedKo \<and>
    refs sampleLib CertificateStatus_T m' (pairStatus 0) = [x] \<and>
    refs sampleLib CertificateStatus_T m' (pairStatus d) = [x] \<and>
    rd sampleLib CertificateStatus_T (setCell x (SStr ''REVOKED'') m') (pairStatus 0) =
      Some (statusTree (emptyStatus\<lparr>st_Status := Some ''REVOKED''\<rparr>))"
proof -
  have holds: "holds sampleLib pairMem 0 sampleKo" "holds sampleLib pairMem (brk sampleMem) issuedKo"
    using pairMem_valid(1,2) by (auto simp: holds_def)
  have "SetStatus issuedKo sampleKo = onStatus (\<lambda>st. st\<lparr>st_Status := Some ''ISSUED''\<rparr>) sampleKo"
    by (simp add: SetStatus_def issuedKo_def sampleKo_def onStatus_def onSpec_def emptyCertificate_def)
  moreover have "sampleKo \<noteq> issuedKo"
    by (simp add: issuedKo_def sampleKo_def onStatus_def onSpec_def emptyCertificate_def emptySpec_def)
  ultimately show ?thesis
    using SetStatus_refines [OF sampleLib_laws holds pairMem_valid(3,4) refl refl refl]
      pair_shared holds unfolding pairStatus_def by metis
qed

end
