(* ===== verification/Startup.thy ===== *)
theory Startup
  imports ManagerFactory
begin

text \<open>
  The start of the controller: the registry (\<open>pkg/resource/registry.go\<close>), the group
  (\<open>groupversion_info.go\<close>), the version (\<open>version.go\<close>) and \<open>cmd/controller/main.go\<close>.

  \<open>main\<close> is a sequence of calls into libraries, each of which may fail. A run changes a state
  (\<open>world\<close>, of the libraries, and the list of what has been logged and called) and either goes on
  or exits with a code. The libraries are the parameters \<open>startLib\<close> and \<open>registryLib\<close>. What is
  shown: what has been done whenever \<open>main\<close> ends, and with which code it ends.
\<close>

section \<open>Group, registry, version\<close>

record GroupVersionKind =
  gvk_Group :: string
  gvk_Version :: string
  gvk_Kind :: string

definition GroupVersion :: "string \<times> string" where
  "GroupVersion = (''acm.services.k8s.aws'', ''v1alpha1'')"

definition GroupKind :: "string \<times> string" where
  "GroupKind = (''acm.services.k8s.aws'', ''Certificate'')"

definition GroupVersionKind_of :: GroupVersionKind where
  "GroupVersionKind_of =
     \<lparr>gvk_Group = fst GroupVersion, gvk_Version = snd GroupVersion, gvk_Kind = snd GroupKind\<rparr>"

text \<open>The descriptor of a factory has no state; only its group, version and kind are asked for.\<close>

definition ResourceDescriptor_gvk :: "factory \<Rightarrow> GroupVersionKind" where
  "ResourceDescriptor_gvk f = GroupVersionKind_of"

record 'r registryLib =
  NewRegistry :: 'r
  RegisterResourceManagerFactory :: "factory \<Rightarrow> 'r \<Rightarrow> 'r"
  GetResourceManagerFactories :: "'r \<Rightarrow> factory list"

text \<open>\<open>RegisterManagerFactory\<close> as the \<open>init\<close> of \<open>manager_factory.go\<close> calls it, on the new registry.\<close>

definition RegisterManagerFactory :: "'r registryLib \<Rightarrow> factory \<Rightarrow> 'r \<Rightarrow> 'r" where
  "RegisterManagerFactory R f reg = RegisterResourceManagerFactory R f reg"

definition init_factory :: "'r registryLib \<Rightarrow> 'r" where
  "init_factory R = RegisterManagerFactory R newResourceManagerFactory (NewRegistry R)"

definition GetManagerFactories :: "'r registryLib \<Rightarrow> 'r \<Rightarrow> factory list" where
  "GetManagerFactories R reg = GetResourceManagerFactories R reg"

definition IsAdoptable :: "factory \<Rightarrow> bool" where
  "IsAdoptable f = True"

definition RequeueOnSuccessSeconds :: "factory \<Rightarrow> int" where
  "RequeueOnSuccessSeconds f = 60"

text \<open>A registry gives back what was registered; nothing else registers a factory.\<close>

definition registry_laws :: "'r registryLib \<Rightarrow> bool" where
  "registry_laws R \<longleftrightarrow> GetResourceManagerFactories R (NewRegistry R) = [] \<and>
     (\<forall>f reg. GetResourceManagerFactories R (RegisterResourceManagerFactory R f reg) =
        GetResourceManagerFactories R reg @ [f])"

record VersionInfo =
  GitCommit :: string
  GitVersion :: string
  BuildDate :: string

section \<open>The libraries main calls\<close>

record startConfig =
  WebhookServerAddr :: string
  WatchNamespace :: string
  MetricsAddr :: string
  HealthzAddr :: string
  EnableLeaderElection :: bool
  LeaderElectionNamespace :: string
  EnableWebhookServer :: bool

text \<open>The options of the manager; a label selector is kept as the string it was parsed from.\<close>

record managerOptions =
  mo_DefaultNamespaces :: "(string \<times> unit) list"
  mo_DefaultLabelSelector :: string
  mo_Port :: int
  mo_Host :: string
  mo_BindAddress :: string
  mo_LeaderElection :: bool
  mo_LeaderElectionID :: string
  mo_LeaderElectionNamespace :: string
  mo_HealthProbeBindAddress :: string
  mo_LivenessEndpointName :: string
  mo_ReadinessEndpointName :: string

text \<open>What a run has done: the calls that must succeed, with the error they gave, and the log entries.\<close>

datatype startEvent =
    EvError goerror string string
  | EvInfo string
  | EvWebhookSetup string
  | EvValidate "GroupVersionKind list" "goerror option"
  | EvParse string "goerror option"
  | EvNewManager managerOptions "goerror option"
  | EvBindManager string string VersionInfo nat "goerror option"
  | EvHealthz string "goerror option"
  | EvReadyz string "goerror option"
  | EvStart "goerror option"

record 'w host =
  world :: 'w
  events :: "startEvent list"

record 'w startLib =
  AddToScheme_clientgo :: "'w \<Rightarrow> goerror option \<times> 'w"
  AddToScheme_svctypes :: "'w \<Rightarrow> goerror option \<times> 'w"
  AddToScheme_ackv1alpha1 :: "'w \<Rightarrow> goerror option \<times> 'w"
  AddToScheme_acmpca :: "'w \<Rightarrow> goerror option \<times> 'w"
  ParseFlags :: "'w \<Rightarrow> (nat + startConfig) \<times> 'w"
  SetupLogger :: "startConfig \<Rightarrow> 'w \<Rightarrow> 'w"
  Validate :: "startConfig \<Rightarrow> GroupVersionKind list \<Rightarrow> 'w \<Rightarrow> goerror option \<times> 'w"
  GetHostPort :: "string \<Rightarrow> goerror + string \<times> int"
  GetWatchNamespaces :: "startConfig \<Rightarrow> goerror + string list"
  ParseWatchSelectors :: "startConfig \<Rightarrow> goerror + string"
  GetConfigOrDie :: "'w \<Rightarrow> nat option \<times> 'w"
  NewManager :: "managerOptions \<Rightarrow> 'w \<Rightarrow> goerror option \<times> 'w"
  GetWebhooks :: "'w \<Rightarrow> string list"
  SetupWebhook :: "string \<Rightarrow> 'w \<Rightarrow> goerror option \<times> 'w"
  BindControllerManager :: "factory list \<Rightarrow> startConfig \<Rightarrow> 'w \<Rightarrow> goerror option \<times> 'w"
  AddHealthzCheck :: "string \<Rightarrow> 'w \<Rightarrow> goerror option \<times> 'w"
  AddReadyzCheck :: "string \<Rightarrow> 'w \<Rightarrow> goerror option \<times> 'w"
  StartManager :: "'w \<Rightarrow> goerror option \<times> 'w"

section \<open>Calls that may exit\<close>

datatype 'a going = Goes 'a | Exits nat

type_synonym ('w, 'a) run = "'w host \<Rightarrow> 'a going \<times> 'w host"

definition goOn :: "'a \<Rightarrow> ('w, 'a) run" where
  "goOn x h = (Goes x, h)"

definition andThen :: "('w, 'a) run \<Rightarrow> ('a \<Rightarrow> ('w, 'b) run) \<Rightarrow> ('w, 'b) run" where
  "andThen m f h = (case m h of (Goes x, h') \<Rightarrow> f x h' | (Exits c, h') \<Rightarrow> (Exits c, h'))"

definition report :: "startEvent \<Rightarrow> ('w, unit) run" where
  "report e h = (Goes (), h\<lparr>events := events h @ [e]\<rparr>)"

definition os_Exit :: "nat \<Rightarrow> ('w, 'a) run" where
  "os_Exit c h = (Exits c, h)"

definition library :: "('w \<Rightarrow> 'a \<times> 'w) \<Rightarrow> ('w, 'a) run" where
  "library f h = (case f (world h) of (x, w) \<Rightarrow> (Goes x, h\<lparr>world := w\<rparr>))"

definition liftW :: "('w \<Rightarrow> 'w) \<Rightarrow> ('w, unit) run" where
  "liftW f = library (\<lambda>w. ((), f w))"

section \<open>cmd/controller/main.go\<close>

definition awsServiceAPIGroup :: string where
  "awsServiceAPIGroup = ''acm.services.k8s.aws''"

definition awsServiceAlias :: string where
  "awsServiceAlias = ''acm''"

text \<open>
  A library call and \<open>if err != nil { setupLog.Error(err, msg, "aws.service", service); os.Exit(1) }\<close>
  after it, for a call that gives an error only and for one that gives a value too.
\<close>

definition exitOn :: "string \<Rightarrow> goerror option \<Rightarrow> ('w, unit) run" where
  "exitOn msg err =
     (case err of
        None \<Rightarrow> goOn ()
      | Some e \<Rightarrow> andThen (report (EvError e msg awsServiceAlias)) (\<lambda>_. os_Exit 1))"

definition valueOr :: "string \<Rightarrow> string \<Rightarrow> goerror + 'a \<Rightarrow> ('w, 'a) run" where
  "valueOr msg service r =
     (case r of
        Inr x \<Rightarrow> goOn x
      | Inl e \<Rightarrow> andThen (report (EvError e msg service)) (\<lambda>_. os_Exit 1))"

definition called :: "(goerror option \<Rightarrow> startEvent) \<Rightarrow> ('w \<Rightarrow> goerror option \<times> 'w) \<Rightarrow> ('w, goerror option) run" where
  "called event f = andThen (library f) (\<lambda>err. andThen (report (event err)) (\<lambda>_. goOn err))"

definition parsed :: "string \<Rightarrow> goerror + 'a \<Rightarrow> ('w, goerror + 'a) run" where
  "parsed what r = andThen (report (EvParse what (error_of r))) (\<lambda>_. goOn r)"

text \<open>The registrations in the scheme; their errors are dropped (\<open>_ = AddToScheme(scheme)\<close>).\<close>

definition init_scheme :: "'w startLib \<Rightarrow> ('w, unit) run" where
  "init_scheme L =
     andThen (library (AddToScheme_clientgo L)) (\<lambda>_.
     andThen (library (AddToScheme_svctypes L)) (\<lambda>_.
     andThen (library (AddToScheme_ackv1alpha1 L)) (\<lambda>_.
     andThen (library (AddToScheme_acmpca L)) (\<lambda>_.
     goOn ()))))"

fun namespaceLoop :: "string list \<Rightarrow> (string \<times> unit) list \<Rightarrow> (string \<times> unit) list" where
  "namespaceLoop [] watchNamespaces = watchNamespaces"
| "namespaceLoop (namespace # namespaces) watchNamespaces =
     namespaceLoop namespaces (mput namespace () watchNamespaces)"

definition optionsOf :: "startConfig \<Rightarrow> string \<Rightarrow> int \<Rightarrow> (string \<times> unit) list \<Rightarrow> string \<Rightarrow> managerOptions" where
  "optionsOf ackCfg hostName port watchNamespaces watchSelectors =
     \<lparr>mo_DefaultNamespaces = watchNamespaces, mo_DefaultLabelSelector = watchSelectors,
      mo_Port = port, mo_Host = hostName, mo_BindAddress = MetricsAddr ackCfg,
      mo_LeaderElection = EnableLeaderElection ackCfg,
      mo_LeaderElectionID = ''ack-'' @ awsServiceAPIGroup,
      mo_LeaderElectionNamespace = LeaderElectionNamespace ackCfg,
      mo_HealthProbeBindAddress = HealthzAddr ackCfg, mo_LivenessEndpointName = ''/healthz'',
      mo_ReadinessEndpointName = ''/readyz''\<rparr>"

fun webhookLoop :: "'w startLib \<Rightarrow> string list \<Rightarrow> ('w, unit) run" where
  "webhookLoop L [] = goOn ()"
| "webhookLoop L (uid # webhooks) =
     andThen (report (EvWebhookSetup uid)) (\<lambda>_.
     andThen (library (SetupWebhook L uid)) (\<lambda>err.
     andThen (case err of
                None \<Rightarrow> goOn ()
              | Some e \<Rightarrow> report (EvError e (''unable to register webhook '' @ uid) awsServiceAlias)) (\<lambda>_.
     webhookLoop L webhooks)))"

definition configure ::
  "'w startLib \<Rightarrow> 'r registryLib \<Rightarrow> startConfig \<Rightarrow> ('w, managerOptions) run" where
  "configure L R ackCfg =
     (let managerFactories = GetManagerFactories R (init_factory R);
          resourceGVKs = map ResourceDescriptor_gvk managerFactories in
      andThen (called (EvValidate resourceGVKs) (Validate L ackCfg resourceGVKs)) (\<lambda>err.
      andThen (exitOn ''Unable to create controller manager'' err) (\<lambda>_.
      andThen (parsed ''WebhookServerAddr'' (GetHostPort L (WebhookServerAddr ackCfg))) (\<lambda>r.
      andThen (valueOr ''Unable to parse webhook server address.'' awsServiceAlias r) (\<lambda>(hostName, port).
      andThen (parsed ''WatchNamespace'' (GetWatchNamespaces L ackCfg)) (\<lambda>r.
      andThen (valueOr ''Unable to parse watch namespaces.'' (WatchNamespace ackCfg) r) (\<lambda>namespaces.
      let watchNamespaces = namespaceLoop namespaces [] in
      andThen (parsed ''WatchSelectors'' (ParseWatchSelectors L ackCfg)) (\<lambda>r.
      andThen (valueOr ''Unable to parse watch selectors.'' awsServiceAlias r) (\<lambda>watchSelectors.
      goOn (optionsOf ackCfg hostName port watchNamespaces watchSelectors))))))))))"

definition main ::
  "'w startLib \<Rightarrow> 'r registryLib \<Rightarrow> VersionInfo \<Rightarrow> ('w, unit) run" where
  "main L R version =
     andThen (library (ParseFlags L)) (\<lambda>parsed.
     andThen (case parsed of Inl code \<Rightarrow> os_Exit code | Inr ackCfg \<Rightarrow> goOn ackCfg) (\<lambda>ackCfg.
     andThen (liftW (SetupLogger L ackCfg)) (\<lambda>_.
     andThen (configure L R ackCfg) (\<lambda>options.
     andThen (library (GetConfigOrDie L)) (\<lambda>died.
     andThen (case died of Some code \<Rightarrow> os_Exit code | None \<Rightarrow> goOn ()) (\<lambda>_.
     andThen (called (EvNewManager options) (NewManager L options)) (\<lambda>err.
     andThen (exitOn ''unable to create controller manager'' err) (\<lambda>_.
     andThen (report (EvInfo ''initializing service controller'')) (\<lambda>_.
     andThen (if EnableWebhookServer ackCfg
              then andThen (library (\<lambda>w. (GetWebhooks L w, w))) (webhookLoop L) else goOn ()) (\<lambda>_.
     let factories = GetManagerFactories R (init_factory R) in
     andThen (called (EvBindManager awsServiceAlias awsServiceAPIGroup version (length factories))
                (BindControllerManager L factories ackCfg)) (\<lambda>err.
     andThen (exitOn ''unable bind to controller manager to service controller'' err) (\<lambda>_.
     andThen (called (EvHealthz ''health'') (AddHealthzCheck L ''health'')) (\<lambda>err.
     andThen (exitOn ''unable to set up health check'' err) (\<lambda>_.
     andThen (called (EvReadyz ''check'') (AddReadyzCheck L ''check'')) (\<lambda>err.
     andThen (exitOn ''unable to set up ready check'' err) (\<lambda>_.
     andThen (report (EvInfo ''starting manager'')) (\<lambda>_.
     andThen (called EvStart (StartManager L)) (\<lambda>err.
     exitOn ''unable to start controller manager'' err))))))))))))))))))"

text \<open>The process: the initialisers of the packages run before \<open>main\<close>.\<close>

definition program :: "'w startLib \<Rightarrow> 'r registryLib \<Rightarrow> VersionInfo \<Rightarrow> ('w, unit) run" where
  "program L R version = andThen (init_scheme L) (\<lambda>_. main L R version)"

section \<open>What a run has done when it ends\<close>

text \<open>Of the events, those of the calls that must succeed, and the errors that end a run.\<close>

definition core :: "startEvent \<Rightarrow> bool" where
  "core e \<longleftrightarrow> (case e of
     EvInfo _ \<Rightarrow> False
   | EvWebhookSetup _ \<Rightarrow> False
   | EvError _ msg _ \<Rightarrow> \<not> prefix ''unable to register webhook '' msg
   | _ \<Rightarrow> True)"

definition done_in :: "'w host \<Rightarrow> startEvent list" where
  "done_in h = filter core (events h)"

lemma core_simps [simp]:
  "core (EvInfo m)  = False" "core (EvWebhookSetup m) = False" "core (EvValidate g r)" "core (EvParse p r)"
  "core (EvNewManager x r)" "core (EvBindManager p q v n r)" "core (EvHealthz p r)" "core (EvReadyz p r)"
  "core (EvStart r)" "core (EvError e msg svc) \<longleftrightarrow> \<not> prefix ''unable to register webhook '' msg"
  by (simp_all add: core_def)

text \<open>
  From a state in which \<open>ds\<close> is done, \<open>m\<close> ends as \<open>Q\<close> says if it goes on, as \<open>E\<close> says if it exits.
\<close>

definition runs :: "startEvent list \<Rightarrow> ('w, 'a) run \<Rightarrow> ('a \<Rightarrow> startEvent list \<Rightarrow> bool) \<Rightarrow>
    (nat \<Rightarrow> startEvent list \<Rightarrow> bool) \<Rightarrow> bool" where
  "runs ds m Q E \<longleftrightarrow> (\<forall>h. done_in h = ds \<longrightarrow>
     (case m h of (Goes x, h') \<Rightarrow> Q x (done_in h') | (Exits c, h') \<Rightarrow> E c (done_in h')))"

lemma runs_case:
  "runs ds m Q E \<Longrightarrow> done_in h = ds \<Longrightarrow>
     (case m h of (Goes x, h') \<Rightarrow> Q x (done_in h') | (Exits c, h') \<Rightarrow> E c (done_in h'))"
  by (simp add: runs_def)

lemma runs_library: "(\<And>w. S (fst (f w)) ds) \<Longrightarrow> runs ds (library f) S E"
  unfolding runs_def library_def done_in_def by (auto split: prod.split) (metis fst_conv)

lemma runs_goOn: "Q x ds \<Longrightarrow> runs ds (goOn x) Q E"
  and runs_exit: "E c ds \<Longrightarrow> runs ds (os_Exit c) R E"
  and runs_report: "T () (ds @ (if core e then [e] else [])) \<Longrightarrow> runs ds (report e) T E"
  by (auto simp: runs_def goOn_def os_Exit_def report_def done_in_def)

lemma runs_andThen: "runs ds m (\<lambda>x ds'. runs ds' (f x) Q E) E \<Longrightarrow> runs ds (andThen m f) Q E"
  unfolding runs_def andThen_def by (fastforce split: prod.splits going.splits)

lemma runs_exitOn:
  assumes "err = None \<Longrightarrow> Q () ds" and "\<And>e. err = Some e \<Longrightarrow> E 1 (ds @ [EvError e msg awsServiceAlias])"
    and "\<not> prefix ''unable to register webhook '' msg"
  shows "runs ds (exitOn msg err) Q E"
  unfolding exitOn_def using assms
  by (auto split: option.split intro!: runs_goOn runs_andThen runs_report runs_exit)

lemma runs_valueOr:
  assumes "\<And>x. r = Inr x \<Longrightarrow> Q x ds" and "\<And>e. r = Inl e \<Longrightarrow> E 1 (ds @ [EvError e msg svc])"
    and "\<not> prefix ''unable to register webhook '' msg"
  shows "runs ds (valueOr msg svc r) Q E"
  unfolding valueOr_def using assms
  by (auto split: sum.split intro!: runs_goOn runs_andThen runs_report runs_exit)

lemma runs_called: "(\<And>w. Q (fst (f w)) (ds @ (if core (event (fst (f w))) then [event (fst (f w))] else []))) \<Longrightarrow>
    runs ds (called event f) Q E"
  unfolding called_def by (intro runs_andThen runs_library runs_report runs_goOn)

lemma runs_parsed: "Q r (ds @ [EvParse what (error_of r)]) \<Longrightarrow> runs ds (parsed what r) Q E"
  unfolding parsed_def by (intro runs_andThen runs_report runs_goOn) simp

lemma runs_webhooks: "Q () ds \<Longrightarrow> runs ds (webhookLoop L uids) Q E"
  by (induction uids) (auto split: option.split
    intro!: runs_goOn runs_andThen runs_report runs_library)

lemma runs_cases:
  "(\<And>c. r = Inl c \<Longrightarrow> runs ds (f c) Q E) \<Longrightarrow> (\<And>x. r = Inr x \<Longrightarrow> runs ds (g x) Q E) \<Longrightarrow>
     runs ds (case r of Inl c \<Rightarrow> f c | Inr x \<Rightarrow> g x) Q E"
  "(d = None \<Longrightarrow> runs ds n R E) \<Longrightarrow> (\<And>c. d = Some c \<Longrightarrow> runs ds (k c) R E) \<Longrightarrow>
     runs ds (case d of None \<Rightarrow> n | Some c \<Rightarrow> k c) R E"
  "(b \<Longrightarrow> runs ds m1 S E) \<Longrightarrow> (\<not> b \<Longrightarrow> runs ds m2 S E) \<Longrightarrow> runs ds (if b then m1 else m2) S E"
  "(\<And>y z. p = (y, z) \<Longrightarrow> runs ds (w y z) T E) \<Longrightarrow> runs ds (case p of (y, z) \<Rightarrow> w y z) T E"
  by (auto split: sum.split option.split prod.split)

lemmas run_rules = runs_goOn runs_exit runs_library runs_report runs_andThen runs_exitOn runs_valueOr
  runs_called runs_parsed runs_webhooks runs_cases

text \<open>
  The calls that must succeed, in order, each with the log message and the service it is logged
  with when it fails.
\<close>

definition plan :: "VersionInfo \<Rightarrow> startConfig \<Rightarrow> managerOptions \<Rightarrow>
    ((goerror option \<Rightarrow> startEvent) \<times> string \<times> string) list" where
  "plan version ackCfg options =
     [(EvValidate [\<lparr>gvk_Group = ''acm.services.k8s.aws'', gvk_Version = ''v1alpha1'', gvk_Kind = ''Certificate''\<rparr>],
         ''Unable to create controller manager'', ''acm''),
      (EvParse ''WebhookServerAddr'', ''Unable to parse webhook server address.'', ''acm''),
      (EvParse ''WatchNamespace'', ''Unable to parse watch namespaces.'', WatchNamespace ackCfg),
      (EvParse ''WatchSelectors'', ''Unable to parse watch selectors.'', ''acm''),
      (EvNewManager options, ''unable to create controller manager'', ''acm''),
      (EvBindManager ''acm'' ''acm.services.k8s.aws'' version 1,
         ''unable bind to controller manager to service controller'', ''acm''),
      (EvHealthz ''health'', ''unable to set up health check'', ''acm''),
      (EvReadyz ''check'', ''unable to set up ready check'', ''acm''),
      (EvStart, ''unable to start controller manager'', ''acm'')]"

definition succeeded :: "((goerror option \<Rightarrow> startEvent) \<times> string \<times> string) list \<Rightarrow> startEvent list" where
  "succeeded calls = map (\<lambda>(event, _). event None) calls"

fun fails_in :: "((goerror option \<Rightarrow> startEvent) \<times> string \<times> string) list \<Rightarrow> startEvent list \<Rightarrow> bool" where
  "fails_in [] ds \<longleftrightarrow> False"
| "fails_in ((event, msg, svc) # calls) ds \<longleftrightarrow>
     (\<exists>e. ds = [event (Some e), EvError e msg svc]) \<or>
     (\<exists>ds'. ds = event None # ds' \<and> fails_in calls ds')"

lemma factories [simp]:
  "registry_laws R \<Longrightarrow> GetManagerFactories R (init_factory R) = [newResourceManagerFactory]"
  by (simp add: registry_laws_def GetManagerFactories_def init_factory_def RegisterManagerFactory_def)

lemma certificate_gvk [simp]: "ResourceDescriptor_gvk f =
    \<lparr>gvk_Group = ''acm.services.k8s.aws'', gvk_Version = ''v1alpha1'', gvk_Kind = ''Certificate''\<rparr>"
  by (simp add: ResourceDescriptor_gvk_def GroupVersionKind_of_def GroupVersion_def GroupKind_def)

text \<open>
  A run that exits has made the first calls of the plan. It exits with code 1 right after the one that
  failed, having logged its error; or a library has ended the process, while it read the flags or
  the Kubernetes configuration.
\<close>

definition stopped :: "VersionInfo \<Rightarrow> nat \<Rightarrow> startEvent list \<Rightarrow> bool" where
  "stopped version c ds \<longleftrightarrow>
     ds = [] \<or> (\<exists>ackCfg options. ds = succeeded (take 4 (plan version ackCfg options))) \<or>
     c = 1 \<and> (\<exists>ackCfg options. fails_in (plan version ackCfg options) ds)"

lemmas start_simps = succeeded_def plan_def stopped_def error_of_def awsServiceAlias_def awsServiceAPIGroup_def

lemma configure_runs:
  assumes "registry_laws R" and "\<And>options. Q options (succeeded (take 4 (plan version ackCfg options)))"
  shows "runs [] (configure L R ackCfg) Q (stopped version)"
  unfolding configure_def Let_def factories [OF assms(1)] list.map
  using assms(2) by (intro run_rules) (auto simp: start_simps)

lemma program_runs:
  assumes "registry_laws R"
  shows "runs [] (program L R version)
    (\<lambda>_ ds. \<exists>ackCfg options. ds = succeeded (plan version ackCfg options)) (stopped version)"
  unfolding program_def init_scheme_def main_def liftW_def Let_def factories [OF assms]
  by (intro run_rules configure_runs [OF assms]) (auto simp: start_simps)

section \<open>Properties\<close>

text \<open>
  C20. Nothing is done out of order, and no failure passes unnoticed. If the process returns from
  \<open>main\<close>, then the configuration for the group, version and kind of Certificate was valid, its address,
  namespaces and selectors could be parsed, the manager was created, the controller bound to it, both
  probes added and the manager started, in this order and each without an error. If it exits, it
  has made the first of these calls without an error and then one that failed, whose error is the
  last thing logged, with its own message, and the code is 1; or a library has ended the process while
  it read the flags or the Kubernetes configuration. So the manager is never started before all the
  rest has succeeded. Failing webhooks do not count: they are logged and passed over.
\<close>

theorem program_order:
  assumes "registry_laws R" and "events h = []"
  shows "case program L R version h of
      (Goes _, h') \<Rightarrow> \<exists>ackCfg options. done_in h' = succeeded (plan version ackCfg options)
    | (Exits c, h') \<Rightarrow> stopped version c (done_in h')"
proof -
  have "done_in h = []" using assms(2) by (simp add: done_in_def)
  from runs_case [OF program_runs [OF assms(1)] this] show ?thesis .
qed

text \<open>Libraries that do not fail: what they return, in every state.\<close>

definition all_succeed :: "'w startLib \<Rightarrow> startConfig \<Rightarrow> string \<times> int \<Rightarrow> string list \<Rightarrow> string \<Rightarrow> bool" where
  "all_succeed L ackCfg address namespaces selectors \<longleftrightarrow>
     (\<forall>w. fst (ParseFlags L w) = Inr ackCfg) \<and> (\<forall>gvks w. fst (Validate L ackCfg gvks w) = None) \<and>
     GetHostPort L (WebhookServerAddr ackCfg) = Inr address \<and>
     GetWatchNamespaces L ackCfg = Inr namespaces \<and> ParseWatchSelectors L ackCfg = Inr selectors \<and>
     (\<forall>w. fst (GetConfigOrDie L w) = None) \<and> (\<forall>options w. fst (NewManager L options w) = None) \<and>
     (\<forall>fs w. fst (BindControllerManager L fs ackCfg w) = None) \<and>
     (\<forall>n w. fst (AddHealthzCheck L n w) = None) \<and> (\<forall>n w. fst (AddReadyzCheck L n w) = None) \<and>
     (\<forall>w. fst (StartManager L w) = None)"

lemma namespaceLoop_keys:
  "fst ` set (namespaceLoop ns acc) = set ns \<union> fst ` set acc \<and>
   (distinct (map fst acc) \<longrightarrow> distinct (map fst (namespaceLoop ns acc)))"
proof (induction ns acc rule: namespaceLoop.induct)
  case (2 n ns acc)
  then show ?case by (auto simp: dom_update distinct_update)
qed simp

lemma program_succeeds:
  assumes "registry_laws R" and "all_succeed L ackCfg (hostName, port) namespaces selectors"
  shows "runs [] (program L R version)
    (\<lambda>_ ds. ds = succeeded (plan version ackCfg (optionsOf ackCfg hostName port (namespaceLoop namespaces []) selectors)))
    (\<lambda>_ _. False)"
  unfolding program_def init_scheme_def main_def configure_def liftW_def Let_def factories [OF assms(1)]
  using assms(2) unfolding all_succeed_def
  by (auto simp: exitOn_def valueOr_def start_simps
      intro!: runs_goOn runs_library runs_report runs_andThen runs_called runs_parsed runs_webhooks runs_cases(3))

text \<open>
  C35. If every library call succeeds, the controller starts, whatever the webhooks do: the process
  returns from \<open>main\<close>, and the manager it has started was created with exactly the options the
  configuration says - the webhook server at the parsed host and port, the metrics and health probe
  addresses, leader election and its namespace from their flags, the selectors as parsed, the fixed
  election name and probe paths - and watches exactly the configured namespaces (all of them when
  none is given, each once).
\<close>

theorem program_starts:
  assumes "registry_laws R" and "all_succeed L ackCfg (hostName, port) namespaces selectors"
    and "events h = []"
  shows "\<exists>h' watched. let options =
      \<lparr>mo_DefaultNamespaces = watched, mo_DefaultLabelSelector = selectors, mo_Port = port,
       mo_Host = hostName, mo_BindAddress = MetricsAddr ackCfg,
       mo_LeaderElection = EnableLeaderElection ackCfg,
       mo_LeaderElectionID = ''ack-acm.services.k8s.aws'',
       mo_LeaderElectionNamespace = LeaderElectionNamespace ackCfg,
       mo_HealthProbeBindAddress = HealthzAddr ackCfg, mo_LivenessEndpointName = ''/healthz'',
       mo_ReadinessEndpointName = ''/readyz''\<rparr> in
    program L R version h = (Goes (), h') \<and> done_in h' = succeeded (plan version ackCfg options) \<and>
    EvNewManager options None \<in> set (events h') \<and> EvStart None \<in> set (events h') \<and>
    fst ` set watched = set namespaces \<and> distinct (map fst watched)"
proof -
  let ?options = "optionsOf ackCfg hostName port (namespaceLoop namespaces []) selectors"
  have "done_in h = []" using assms(3) by (simp add: done_in_def)
  from runs_case [OF program_succeeds [OF assms(1,2)] this]
  have "case program L R version h of
      (Goes _, h') \<Rightarrow> done_in h' = succeeded (plan version ackCfg ?options) | (Exits _, h') \<Rightarrow> False" .
  then obtain h' where run: "program L R version h = (Goes (), h')"
    and d: "done_in h' = succeeded (plan version ackCfg ?options)"
    by (cases "program L R version h"; cases "fst (program L R version h)") simp_all
  have "EvStart None \<in> set (done_in h')" and "EvNewManager ?options None \<in> set (done_in h')"
    unfolding d by (simp_all add: plan_def succeeded_def)
  then have "EvStart None \<in> set (events h')" and "EvNewManager ?options None \<in> set (events h')"
    by (simp_all add: done_in_def)
  moreover have "?options =
      \<lparr>mo_DefaultNamespaces = namespaceLoop namespaces [], mo_DefaultLabelSelector = selectors,
       mo_Port = port, mo_Host = hostName, mo_BindAddress = MetricsAddr ackCfg,
       mo_LeaderElection = EnableLeaderElection ackCfg,
       mo_LeaderElectionID = ''ack-acm.services.k8s.aws'',
       mo_LeaderElectionNamespace = LeaderElectionNamespace ackCfg,
       mo_HealthProbeBindAddress = HealthzAddr ackCfg, mo_LivenessEndpointName = ''/healthz'',
       mo_ReadinessEndpointName = ''/readyz''\<rparr>"
    by (simp add: optionsOf_def awsServiceAPIGroup_def)
  moreover have "fst ` set (namespaceLoop namespaces []) = set namespaces"
    "distinct (map fst (namespaceLoop namespaces []))"
    using namespaceLoop_keys [of namespaces "[]"] by simp_all
  ultimately show ?thesis
    using run d unfolding Let_def by (intro exI [of _ h'] exI [of _ "namespaceLoop namespaces []"]) simp
qed

text \<open>Libraries in which everything succeeds but the one webhook, and a registry that is a list.\<close>

definition sampleConfig :: startConfig where
  "sampleConfig = \<lparr>WebhookServerAddr = ''0.0.0.0:9433'', WatchNamespace = ''web,db,web'',
     MetricsAddr = ''0.0.0.0:8080'', HealthzAddr = ''0.0.0.0:8081'', EnableLeaderElection = True,
     LeaderElectionNamespace = ''ack-system'', EnableWebhookServer = True\<rparr>"

definition sampleStartLib :: "unit startLib" where
  "sampleStartLib = \<lparr>
     AddToScheme_clientgo = (\<lambda>w. (None, w)), AddToScheme_svctypes = (\<lambda>w. (None, w)),
     AddToScheme_ackv1alpha1 = (\<lambda>w. (None, w)), AddToScheme_acmpca = (\<lambda>w. (None, w)),
     ParseFlags = (\<lambda>w. (Inr sampleConfig, w)), SetupLogger = (\<lambda>_ w. w),
     Validate = (\<lambda>_ _ w. (None, w)), GetHostPort = (\<lambda>_. Inr (''0.0.0.0'', 9433)),
     GetWatchNamespaces = (\<lambda>_. Inr [''web'', ''db'', ''web'']), ParseWatchSelectors = (\<lambda>_. Inr []),
     GetConfigOrDie = (\<lambda>w. (None, w)), NewManager = (\<lambda>_ w. (None, w)), GetWebhooks = (\<lambda>_. [''hook'']),
     SetupWebhook = (\<lambda>_ w. (Some (ErrorString ''no certificate''), w)),
     BindControllerManager = (\<lambda>_ _ w. (None, w)), AddHealthzCheck = (\<lambda>_ w. (None, w)),
     AddReadyzCheck = (\<lambda>_ w. (None, w)), StartManager = (\<lambda>w. (None, w))\<rparr>"

definition sampleRegistry :: "factory list registryLib" where
  "sampleRegistry = \<lparr>NewRegistry = [], RegisterResourceManagerFactory = (\<lambda>f fs. fs @ [f]),
     GetResourceManagerFactories = (\<lambda>fs. fs)\<rparr>"

definition sampleVersion :: VersionInfo where
  "sampleVersion = \<lparr>GitCommit = ''c0ffee'', GitVersion = ''v1.3.6'', BuildDate = []\<rparr>"

lemma sample_registry: "registry_laws sampleRegistry"
  by (simp add: registry_laws_def sampleRegistry_def)

lemma sample_succeeds:
  "all_succeed sampleStartLib sampleConfig (''0.0.0.0'', 9433) [''web'', ''db'', ''web''] []"
  by (simp add: all_succeed_def sampleStartLib_def)

theorem program_order_witness:
  "\<exists>h'. program (sampleStartLib\<lparr>ParseWatchSelectors := \<lambda>_. Inl (ErrorString ''bad selector'')\<rparr>)
     sampleRegistry sampleVersion \<lparr>world = (), events = []\<rparr> = (Exits 1, h') \<and>
   stopped sampleVersion 1 (done_in h')"
proof -
  let ?L = "sampleStartLib\<lparr>ParseWatchSelectors := \<lambda>_. Inl (ErrorString ''bad selector'')\<rparr>"
  have "fst (program ?L sampleRegistry sampleVersion \<lparr>world = (), events = []\<rparr>) = Exits 1"
    by (simp add: program_def init_scheme_def main_def configure_def andThen_def library_def liftW_def
        called_def parsed_def exitOn_def valueOr_def report_def goOn_def os_Exit_def sampleStartLib_def)
  then obtain h' where run: "program ?L sampleRegistry sampleVersion \<lparr>world = (), events = []\<rparr> = (Exits 1, h')"
    by (metis prod.collapse)
  have "events \<lparr>world = (), events = []\<rparr> = []" by simp
  from program_order [OF sample_registry this, where L = ?L and version = sampleVersion] run
  show ?thesis by simp
qed

theorem program_starts_witness:
  "\<exists>h' watched. program sampleStartLib sampleRegistry sampleVersion \<lparr>world = (), events = []\<rparr> = (Goes (), h') \<and>
    EvNewManager
      \<lparr>mo_DefaultNamespaces = watched, mo_DefaultLabelSelector = [], mo_Port = 9433,
       mo_Host = ''0.0.0.0'', mo_BindAddress = ''0.0.0.0:8080'', mo_LeaderElection = True,
       mo_LeaderElectionID = ''ack-acm.services.k8s.aws'',
       mo_LeaderElectionNamespace = ''ack-system'', mo_HealthProbeBindAddress = ''0.0.0.0:8081'',
       mo_LivenessEndpointName = ''/healthz'', mo_ReadinessEndpointName = ''/readyz''\<rparr> None
      \<in> set (events h') \<and>
    EvStart None \<in> set (events h') \<and> fst ` set watched = {''web'', ''db''}"
proof -
  have "events \<lparr>world = (), events = []\<rparr> = []" by simp
  from program_starts [OF sample_registry sample_succeeds this, of sampleVersion]
  show ?thesis unfolding Let_def by (auto simp: sampleConfig_def)
qed

end
