(* ===== verification/Spec2Isabelle.thy ===== *)
theory Spec2Isabelle
  imports Manager FactoryRuns TagCycle KeyAlgorithms CopyAlias Startup
begin

text \<open>
  A model of the ACM service controller of AWS Controllers for Kubernetes: the Go code that
  keeps the custom resource \<open>Certificate\<close> (group \<open>acm.services.k8s.aws\<close>) and a certificate of AWS
  Certificate Manager (ACM) in agreement. A generic reconciler (the ACK runtime, not part of this
  repository) calls the resource manager of this code: it reads the certificate
  (\<open>ReadOne\<close>), creates it if it is not found (\<open>Create\<close>), fills in defaults (\<open>LateInitialize\<close>), compares
  (\<open>newResourceDelta\<close>), updates on a difference (\<open>Update\<close>) and deletes (\<open>Delete\<close>). The manager's
  handlers call the \<open>sdk\<close> operations, which call ACM, and report through status conditions.

  \<^bold>\<open>Theories and code.\<close> Paths are under \<open>src/\<close>; \<open>certificate/\<close> is \<open>pkg/resource/certificate/\<close>.

  \<^item> \<open>Prelude\<close>: programs that return or panic in a state (\<open>prog\<close>), slices, Go maps (locale
    \<open>keyed_store\<close>), strings.
  \<^item> \<open>ApiTypes\<close>: the structs of \<open>apis/v1alpha1/certificate.go\<close> and \<open>types.go\<close> the resource is made of.
  \<^item> \<open>Externals\<close>: errors, the shapes of the SDK, the client, the reconciler, the manager's record, the
    trace of effects, and the record \<open>Ext\<close> of the library functions the code calls.
    \<open>ExternalLaws\<close>: the documented behaviour of those functions that theorems rest on.
    \<open>SampleWorld\<close>: one ACM and one cluster in memory, on which the witnesses run.
  \<^item> \<open>TagMaps\<close>: \<open>certificate/tags.go\<close>, and \<open>EnsureTags\<close>, \<open>FilterSystemTags\<close>, \<open>mirrorAWSTags\<close> of \<open>manager.go\<close>.
  \<^item> \<open>TagSync\<close>: \<open>pkg/tags/sync.go\<close>.
  \<^item> \<open>Conditions\<close>: \<open>setStatusDefaults\<close>, \<open>terminalAWSError\<close>, \<open>updateConditions\<close> of \<open>sdk.go\<close>; \<open>onError\<close> and
    \<open>onSuccess\<close> of \<open>manager.go\<close>.
  \<^item> \<open>DeltaCompare\<close>: \<open>certificate/delta.go\<close> and the comparisons of \<open>hooks.go\<close>.
  \<^item> \<open>SdkFind\<close>, \<open>SdkCreate\<close>, \<open>SdkUpdate\<close>: the operations of \<open>certificate/sdk.go\<close> with their payloads, and
    for creation the import functions of \<open>hooks.go\<close>; \<open>SdkUpdate\<close> also has \<open>sdkDelete\<close>.
  \<^item> \<open>CertExport\<close>: \<open>generateRandomString\<close>, \<open>exportCertificate\<close>, \<open>DecryptPrivateKey\<close> of \<open>hooks.go\<close>.
  \<^item> \<open>References\<close>: \<open>certificate/references.go\<close>.
  \<^item> \<open>ResourceOps\<close>: \<open>certificate/resource.go\<close>, \<open>identifiers.go\<close>, \<open>descriptor.go\<close>.
  \<^item> \<open>Manager\<close>: the handlers of \<open>certificate/manager.go\<close>; their common contract is the locale
    \<open>crud_handler\<close>.
  \<^item> \<open>ManagerFactory\<close>: \<open>certificate/manager_factory.go\<close> as a step relation of concurrent calls;
    \<open>FactoryRuns\<close>: that its runs end.
  \<^item> \<open>TagCycle\<close>: a round of the reconciler's tag handlers, across \<open>TagMaps\<close>, \<open>TagSync\<close> and \<open>DeltaCompare\<close>.
  \<^item> \<open>GoMemory\<close>: objects in memory and the statements copy functions are made of; \<open>GoStructs\<close>: the structs of
    \<open>types.go\<close> and \<open>certificate.go\<close> as tables of fields; \<open>DeepCopy\<close>: \<open>apis/v1alpha1/zz_generated.deepcopy.go\<close>.
    \<open>CopyModel\<close>, \<open>CopyTypes\<close>: which value an object in memory holds; \<open>CopyRefine\<close>: what the copies mean for
    the controller, and \<open>ClearResolvedReferences\<close> in memory; \<open>CopyAlias\<close>: \<open>SetStatus\<close> in memory.
  \<^item> \<open>Enums\<close>: \<open>apis/v1alpha1/enums.go\<close>; \<open>KeyAlgorithms\<close>: the key algorithms in \<open>hooks.go\<close>.
  \<^item> \<open>Startup\<close>: \<open>cmd/controller/main.go\<close>, \<open>pkg/resource/registry.go\<close>, \<open>groupversion_info.go\<close>, \<open>pkg/version\<close>.

  \<^bold>\<open>State and operations.\<close> A resource is its object, a record \<open>Certificate\<close>; a pointer that may be
  nil is an option, a slice is an option of a list (nil and empty differ), and a Go map is an
  association list without double keys. A function that changes its argument returns the new
  value. An operation that calls the outside is a function on \<open>sys\<close>: an opaque world \<open>env\<close> and the
  \<open>trace\<close> of the calls made so far with their arguments. It either \<open>Returns\<close> a result or \<open>Panics\<close>, and
  in both cases the state it left is known, so a property can speak of the calls of a run
  that failed. A result pair of an object and an error is kept as such. The order in which Go
  iterates over a map is the parameter \<open>range_tags\<close> (\<open>range_ptrs\<close>) of \<open>Ext\<close>: any permutation of the
  entries.

  \<^bold>\<open>Memory.\<close> Values do not show what objects share. For the copy functions there is a second model: a
  store of cells, type descriptors that tell how an object is laid out, its value (\<open>rd\<close>) and the cells
  it reaches (\<open>fp\<close>). \<open>holds\<close> says that the object at an address has a given record as its value, which
  is unique; a deep copy holds the same value in new cells, so the other theories may take
  \<open>ko.DeepCopy()\<close> for the value \<open>ko\<close>.

  \<^bold>\<open>Loops.\<close> Every loop of the code is structural, so there is no fuel, and every function is
  total. The deferred log calls have no effect here, but the pointer a log call dereferences
  (\<open>SyncTags\<close>) is in the model.

  \<^bold>\<open>What is shown.\<close>
  \<^item> Tags: a tag list stands for a map (\<open>tag_view\<close>); the handlers act on this map as documented, in the
    locale \<open>tag_hub\<close>, and the conversions keep the order. \<open>SyncTags\<close> refines the assignment of the
    desired map to the tag store of one certificate.
  \<^item> Conditions: \<open>updateConditions\<close>, type by type, and which error the reconciler gets.
  \<^item> Comparison: \<open>newResourceDelta\<close> is exact with respect to \<open>agree\<close> (any strings; \<open>in_sync\<close> is the simpler
    form for objects without empty strings), and the tests of \<open>sdkUpdate\<close> on the delta mean what they
    should.
  \<^item> Observation: \<open>sdkFind\<close> reports a missing certificate only when there is none and passes every other
    error on, its calls are determined by the answers, every field is the one ACM describes
    (\<open>seen_spec\<close>, \<open>seen_status\<close>), and no stale field is kept.
  \<^item> Creation: at most one creating call in a run and exactly one if it succeeds, what it asks for,
    how the Secrets of an import are read, which ARN the object gets, and which specs are refused
    before any call.
  \<^item> Update: what each of its ways changes, and when the difference that caused it is gone; different
    tags are synced before anything else.
  \<^item> Export: what of ACM's answer is written where and in what order, the conversion of the private key,
    the passphrase.
  \<^item> Handlers: they add nothing to their operations but the conditions (\<open>report_of\<close>); late initialisation
    sets fields that are unset and no others; a reference is resolved by the one object it names, and
    clearing undoes it.
  \<^item> Factory: under every interleaving a call gets a manager for its own account, region and role, and
    every call ends after at most six steps of its own.
  \<^item> Tag round: default tags, mirrored AWS tags and the sync settle after one round, and no tag AWS has
    set is lost.
  \<^item> Memory: each of the 33 generated copies is a deep copy (locale \<open>copier\<close>), the struct tables and the
    records describe the same values, \<open>ClearResolvedReferences\<close> leaves the object it is given alone, and
    \<open>SetStatus\<close> leaves two objects that share what their status points to.
  \<^item> Start: what has been done, in what order, when the process ends, and with which exit code.
  \<^item> This theory: a certificate that was requested and is described as requested has no difference
    from its spec when it is read back, across creation, observation and comparison.

  \<^bold>\<open>Assumptions.\<close> The theorems that depend on a library function name the law they use
  (\<open>compare_laws\<close>, \<open>nil_laws\<close>, \<open>delta_laws\<close>, \<open>err_laws\<close>, ...); \<open>sampleExt\<close> is a computable instance of all
  of them, and each law set is shown to hold for it. The SDK client and the Kubernetes client are
  arbitrary functions on the world, so a theorem without a law about them holds for every
  behaviour of ACM and of the cluster, failures included.

  \<^bold>\<open>Not modelled.\<close> The inside of the libraries (the ACK runtime with its reconciler, controller-runtime,
  the AWS SDK, pflag), metrics other than the fact that a call was recorded, log output outside
  \<open>main\<close>, and contexts with their cancellation. The accessors that only hand out an object. Sharing
  between objects outside the copy functions, \<open>ClearResolvedReferences\<close> and \<open>SetStatus\<close>: the other
  operations work on values. The writer preference of Go's read-write lock, which only removes interleavings. A manager's
  awsAccountID, region and partition are strings.
\<close>

section \<open>A certificate that was requested\<close>

text \<open>
  The detail describes the request: ACM gives back what was asked for, the key algorithm in
  its own spelling (dashes for underscores).
\<close>

definition describes :: "SdkCertificateDetail \<Rightarrow> RequestCertificateInput \<Rightarrow> bool" where
  "describes d i \<longleftrightarrow>
     cd_DomainName d = rci_DomainName i \<and>
     cd_CertificateAuthorityArn d = rci_CertificateAuthorityArn i \<and>
     normalizeKeyAlgorithm (cd_KeyAlgorithm d) = normalizeKeyAlgorithm (rci_KeyAlgorithm i) \<and>
     cd_Options d = rci_Options i"

lemma normalize_Nil: "normalizeKeyAlgorithm s = [] \<longleftrightarrow> s = []"
  by (simp add: normalizeKeyAlgorithm_def ReplaceAllChar_def)

lemma same_key_read_back:
  assumes "normalizeKeyAlgorithm s = normalizeKeyAlgorithm (toEnum k)"
  shows "\<not> both_differ (map_option normalizeKeyAlgorithm k)
    (map_option normalizeKeyAlgorithm (enum_field s))"
proof (cases k)
  case (Some v)
  with assms have "s = [] \<longleftrightarrow> v = []"
    by (metis normalize_Nil option.simps(5) toEnum_def)
  with assms Some show ?thesis
    by (auto simp: both_differ_def enum_field_def toEnum_def)
qed (simp add: both_differ_def)

lemma observation_spec:
  assumes "aws_laws X"
  shows "ko_Spec (observation X rm d tags ko) = (ko_Spec ko)\<lparr>
    spec_Tags := tags,
    spec_CertificateAuthorityARN := cd_CertificateAuthorityArn d,
    spec_DomainName := cd_DomainName d,
    spec_DomainValidationOptions :=
      map_option (map (\<lambda>v. Some \<lparr>dvo_DomainName = sdkdv_DomainName v,
        dvo_ValidationDomain = sdkdv_ValidationDomain v\<rparr>)) (cd_DomainValidationOptions d),
    spec_KeyAlgorithm := enum_field (cd_KeyAlgorithm d),
    spec_ManagedBy := enum_field (cd_ManagedBy d),
    spec_Options := fromOptions X (cd_Options d),
    spec_SubjectAlternativeNames := map_option (map Some) (cd_SubjectAlternativeNames d)\<rparr>"
  by (simp add: observation_def setDescribedStatus_def setDescribedSpec_def setDomainValidations_def
      fromEnum_eq [OF assms] aws_StringSlice_eq [OF assms] split: option.split)

text \<open>What a plain request describes agrees with the object it was made from.\<close>

lemma observed_request_in_sync:
  assumes "aws_laws X" and "compare_laws X" and "comparable r" and "spec_ExportTo (ko_Spec r) = None"
    and "requestInput X r = Some i" and "describes d i" and "ko_Spec ko = ko_Spec r"
  shows "in_sync X r (observation X rm d (resourceTagsFromSDKTags (rci_Tags i)) ko) \<and>
    comparable (observation X rm d (resourceTagsFromSDKTags (rci_Tags i)) ko)"
proof -
  let ?seen = "observation X rm d (resourceTagsFromSDKTags (rci_Tags i)) ko"
  have plain: "\<not> wants_export r" using assms(4) by (simp add: wants_export_def)
  note req = requestInput_fields [OF assms(5)]
  have opts: "fromOptions X (toOptions (spec_Options (ko_Spec r))) = spec_Options (ko_Spec r)"
    by (rule options_read_back [OF assms(1)]) (use assms(3) in \<open>simp add: comparable_def nonempty_def\<close>)
  have tags: "tag_view (resourceTagsFromSDKTags (rci_Tags i)) = tag_view (specTags r) \<and>
      no_nil_tag (resourceTagsFromSDKTags (rci_Tags i))"
  proof (cases "spec_Tags (ko_Spec r)")
    case None
    then have "rci_Tags i = None"
      using assms(5) plain by (auto simp: requestInput_def forceExport_def newCreateRequestPayload_def
          Let_def wants_export_def bind_eq_Some_conv)
    with None show ?thesis
      by (simp add: resourceTagsFromSDKTags_def tag_view_def specTags_def no_nil_tag_def)
  next
    case (Some ts)
    obtain sts where "toSdkTags ts = Some sts"
      using assms(5) Some by (auto simp: requestInput_def newCreateRequestPayload_def Let_def
          bind_eq_Some_conv)
    with Some req(8) have "resourceTagsFromSDKTags (rci_Tags i) = spec_Tags (ko_Spec r)"
      by (simp add: tags_read_back)
    with assms(3) show ?thesis by (simp add: specTags_def comparable_def)
  qed
  note spec = observation_spec [OF assms(1), of rm d "resourceTagsFromSDKTags (rci_Tags i)" ko]
  have options: "spec_Options (ko_Spec ?seen) = spec_Options (ko_Spec r)"
    using assms(6) opts req(7) [OF plain] by (simp add: spec describes_def)
  have "same_key r ?seen"
    using same_key_read_back assms(6) req(4) by (simp add: same_key_def spec describes_def)
  moreover have "same_identity r ?seen"
    using assms(6,7) req(2,3) by (simp add: same_identity_def spec describes_def)
  moreover have "same_options X r ?seen"
    using compare_lawsD(4) [OF assms(2), of "spec_Options (ko_Spec r)" "spec_Options (ko_Spec r)"]
    by (auto simp: same_options_def options split: option.split)
  moreover have "specTags ?seen = resourceTagsFromSDKTags (rci_Tags i)"
    by (simp add: specTags_def spec)
  ultimately show ?thesis
    using tags assms(3,4,6,7) req(2,3)
    by (simp add: in_sync_def awaits_export_def renewed_def same_tags_def comparable_def options)
      (simp add: spec describes_def)
qed

lemma sdkCreate_request_result:
  assumes "sdkCreate X rm r s = Returns (Some ko, None) t" and "EvRequest i \<in> set (calls_since s t)"
  shows "requestInput X r = Some i \<and> ko_Spec ko = ko_Spec r"
proof (cases "spec_Certificate (ko_Spec r) = None")
  case True
  then show ?thesis
  proof (cases rule: sdkCreate_request_cases [where X = X and rm = rm and s = s])
    case (called j)
    with assms(1) have run: "request_run rm r j s = Returns (Some ko, None) t" by simp
    with request_run_trace [of rm r j s] assms(2) have "i = j"
      by (simp add: calls_since_def)
    moreover have "ko_Spec ko = ko_Spec r"
      using run by (auto simp: request_run_def Let_def split: prod.splits sum.splits)
    ultimately show ?thesis using called(1) by simp
  qed (use assms(1) in simp_all)
next
  case False
  then show ?thesis
  proof (cases rule: sdkCreate_import_cases [where X = X and rm = rm and s = s])
    case (called j u)
    with assms import_run_trace [of rm r j u] show ?thesis by (auto simp: calls_since_def)
  qed (use assms(1) in simp_all)
qed

text \<open>
  C3. Creating settles: if a certificate without an export is requested from a spec, and ACM
  later describes what was requested (with any spelling of the key algorithm, and with the
  tags of the request), then the object read back has no difference from the desired one.
\<close>

theorem requested_then_in_sync:
  assumes "aws_laws X" and "compare_laws X" and "comparable r" and "spec_ExportTo (ko_Spec r) = None"
    and "sdkCreate X rm r s = Returns (Some ko, None) t" and "EvRequest i \<in> set (calls_since s t)"
    and "certARN ko = Some arn" and "describes d i"
    and "describe_answer rm arn u = Inr \<lparr>dco_Certificate = Some d\<rparr>"
    and "list_answer rm arn (after_describe rm arn u) = Inr (rci_Tags i)"
  shows "\<exists>seen v. sdkFind X rm ko u = Returns (Some seen, None) v \<and>
    newResourceDelta X (Some r) (Some seen) = Some []"
proof -
  let ?seen = "observation X rm d (resourceTagsFromSDKTags (rci_Tags i)) ko"
  note created = sdkCreate_request_result [OF assms(5,6)]
  have "sdkFind X rm ko u = Returns (Some ?seen, None) (after_list rm arn (after_describe rm arn u))"
    by (simp add: sdkFind_run [OF assms(7)] assms(9,10) Let_def)
  moreover have "newResourceDelta X (Some r) (Some ?seen) = Some []"
    using newResourceDelta_exact [OF assms(2,3), of ?seen]
      observed_request_in_sync [OF assms(1-4) _ assms(8), of ko rm] created by auto
  ultimately show ?thesis by blast
qed

text \<open>ACM after the request of \<open>sampleCert\<close>: the certificate with its tag.\<close>

definition sampleRequestedDetail :: SdkCertificateDetail where
  "sampleRequestedDetail = sampleDetail\<lparr>cd_Options := None\<rparr>"

definition sampleRequestedSys :: "sample_world sys" where
  "sampleRequestedSys = sampleSys (sampleWorld\<lparr>sw_cert := Some sampleRequestedDetail,
     sw_listed := [\<lparr>sdktag_Key = Some ''env'', sdktag_Value = Some ''dev''\<rparr>]\<rparr>)"

lemma sampleRequested_answers:
  "describe_answer sampleManager arn sampleRequestedSys =
     Inr \<lparr>dco_Certificate = Some sampleRequestedDetail\<rparr>"
  "list_answer sampleManager arn (after_describe sampleManager arn sampleRequestedSys) =
     Inr (Some [\<lparr>sdktag_Key = Some ''env'', sdktag_Value = Some ''dev''\<rparr>])"
  by (simp_all add: describe_answer_def list_answer_def after_describe_def sampleManager_def
      sampleClient_def sampleRequestedSys_def sampleSys_def sampleWorld_def)

theorem requested_then_in_sync_witness:
  "\<exists>ko t seen v. sdkCreate sampleExt sampleManager sampleCert (sampleSys sampleWorld) = Returns (Some ko, None) t \<and>
     sdkFind sampleExt sampleManager ko sampleRequestedSys = Returns (Some seen, None) v \<and>
     newResourceDelta sampleExt (Some sampleCert) (Some seen) = Some []"
proof -
  let ?s = "sampleSys sampleWorld"
  let ?i = "\<lparr>rci_CertificateAuthorityArn = None, rci_DomainName = Some ''example.com'',
    rci_DomainValidationOptions = None, rci_KeyAlgorithm = ''RSA_2048'', rci_ManagedBy = [],
    rci_Options = None, rci_SubjectAlternativeNames = None,
    rci_Tags = Some [\<lparr>sdktag_Key = Some ''env'', sdktag_Value = Some ''dev''\<rparr>],
    rci_ValidationMethod = ''DNS''\<rparr> :: RequestCertificateInput"
  let ?ko = "setStatusDefaults sampleManager (setARN (Some ''arn:requested'') sampleCert)"
  have input: "requestInput sampleExt sampleCert = Some ?i"
    by (simp add: requestInput_def newCreateRequestPayload_def forceExport_def toSdkTags_def
        toEnum_def toOptions_def sampleCert_def emptyCertificate_def emptySpec_def mkTag_def Let_def)
  obtain t where run: "sdkCreate sampleExt sampleManager sampleCert ?s = Returns (Some ?ko, None) t"
    and calls: "EvRequest ?i \<in> set (calls_since ?s t)"
  proof
    have "sdkCreate sampleExt sampleManager sampleCert ?s = request_run sampleManager sampleCert ?i ?s"
      using input by (simp add: sdkCreate_request_eq import_fields_set_def
          validatePublicValidationOptions_def sampleCert_def emptyCertificate_def emptySpec_def)
    then show "sdkCreate sampleExt sampleManager sampleCert ?s = Returns (Some ?ko, None)
        (final_state (request_run sampleManager sampleCert ?i ?s))"
      by (simp add: request_run_def sampleManager_def sampleClient_def Let_def)
    show "EvRequest ?i \<in> set (calls_since ?s (final_state (request_run sampleManager sampleCert ?i ?s)))"
      by (simp add: calls_since_def request_run_trace)
  qed
  have desc: "describes sampleRequestedDetail ?i"
    by (simp add: describes_def sampleRequestedDetail_def sampleDetail_def normalizeKeyAlgorithm_def
        ReplaceAllChar_def)
  have plain: "spec_ExportTo (ko_Spec sampleCert) = None"
    by (simp add: sampleCert_def emptySpec_def)
  have arn: "certARN ?ko = Some ''arn:requested''" by simp
  have "list_answer sampleManager ''arn:requested'' (after_describe sampleManager ''arn:requested''
      sampleRequestedSys) = Inr (rci_Tags ?i)"
    by (simp add: sampleRequested_answers)
  from requested_then_in_sync [OF sample_aws sample_compare sampleCerts_comparable(1) plain run calls
      arn desc sampleRequested_answers(1) this] run
  show ?thesis by blast
qed

end
